(* ===== verification/Prelude.thy ===== *)
theory Prelude
  imports Complex_Main
begin

text \<open>
  Shared vocabulary of the development: the Python primitives the provider layer
  (\<open>src/src/providers\<close>) is written with, as executable HOL functions.
  \<^item> Strings are \<open>string\<close> (\<open>char list\<close>); a \<open>char\<close> is read as a Unicode code point
    below 256 (Latin-1), which is where \<open>str.lower\<close>, \<open>str.strip\<close> and the
    regular-expression class \<open>\s\<close> are modelled exactly.
  \<^item> A Python \<open>dict\<close> is an association list without duplicate keys, in insertion
    order: \<open>d[k] = v\<close> overwrites in place or appends, as CPython's dict does.
  \<^item> The \<open>named_theorems\<close> collections \<open>py_simps\<close> and \<open>dict_simps\<close> gather the
    characteristic equations the component theories evaluate and reason with.
\<close>

named_theorems py_simps "evaluation rules of the Python string primitives"
named_theorems dict_simps "characteristic equations of the Python dict model"

section \<open>Strings\<close>

definition py_isspace :: "char \<Rightarrow> bool" where
  "py_isspace c \<longleftrightarrow> of_char c \<in> {9, 10, 11, 12, 13, 28, 29, 30, 31, 32, 133, 160 :: nat}"

definition py_lower_char :: "char \<Rightarrow> char" where
  "py_lower_char c =
     (let n = (of_char c :: nat)
      in if (65 \<le> n \<and> n \<le> 90) \<or> (192 \<le> n \<and> n \<le> 222 \<and> n \<noteq> 215)
         then char_of (n + 32) else c)"

definition py_lower :: "string \<Rightarrow> string" where
  "py_lower s = map py_lower_char s"

text \<open>\<open>str.upper()\<close>: the sharp s (223) becomes \<open>SS\<close>; the upper cases of the micro
  sign (181) and of y with diaeresis (255) lie outside Latin-1 and are left unchanged.\<close>

definition py_upper_char :: "char \<Rightarrow> string" where
  "py_upper_char c =
     (let n = (of_char c :: nat)
      in if (97 \<le> n \<and> n \<le> 122) \<or> (224 \<le> n \<and> n \<le> 254 \<and> n \<noteq> 247) then [char_of (n - 32)]
         else if n = 223 then ''SS'' else [c])"

definition py_upper :: "string \<Rightarrow> string" where
  "py_upper s = concat (map py_upper_char s)"

definition py_lstrip :: "string \<Rightarrow> string" where
  "py_lstrip s = dropWhile py_isspace s"

definition py_strip :: "string \<Rightarrow> string" where
  "py_strip s = rev (dropWhile py_isspace (rev (dropWhile py_isspace s)))"

definition starts_with :: "string \<Rightarrow> string \<Rightarrow> bool" where
  "starts_with s p \<longleftrightarrow> take (length p) s = p"

text \<open>\<open>s.replace(old, new)\<close>: every non-overlapping occurrence, left to right; the
  empty pattern inserts \<open>new\<close> around every character, as CPython does.\<close>

fun py_replace :: "string \<Rightarrow> string \<Rightarrow> string \<Rightarrow> string" where
  "py_replace old new [] = (if old = [] then new else [])"
| "py_replace old new (c # cs) =
     (if old = [] then new @ c # py_replace old new cs
      else if starts_with (c # cs) old
      then new @ py_replace old new (drop (length old - 1) cs)
      else c # py_replace old new cs)"

text \<open>\<open>sub in s\<close> for strings.\<close>

fun py_contains :: "string \<Rightarrow> string \<Rightarrow> bool" where
  "py_contains [] sub = (sub = [])"
| "py_contains (c # cs) sub = (starts_with (c # cs) sub \<or> py_contains cs sub)"

section \<open>Dictionaries\<close>

type_synonym ('k, 'v) pydict = "('k \<times> 'v) list"

definition dict_get :: "('k, 'v) pydict \<Rightarrow> 'k \<Rightarrow> 'v option" where
  "dict_get d k = map_of d k"

definition dict_keys :: "('k, 'v) pydict \<Rightarrow> 'k list" where
  "dict_keys d = map fst d"

fun dict_set :: "'k \<Rightarrow> 'v \<Rightarrow> ('k, 'v) pydict \<Rightarrow> ('k, 'v) pydict" where
  "dict_set k v [] = [(k, v)]"
| "dict_set k v ((k', v') # d) =
     (if k = k' then (k, v) # d else (k', v') # dict_set k v d)"

text \<open>\<open>{**a, **b}\<close>: the entries of \<open>b\<close> stored into a copy of \<open>a\<close>, in order.\<close>

definition dict_merge :: "('k, 'v) pydict \<Rightarrow> ('k, 'v) pydict \<Rightarrow> ('k, 'v) pydict" where
  "dict_merge a b = fold (\<lambda>(k, v) d. dict_set k v d) b a"

text \<open>\<open>del d[k]\<close> for a key the dict holds (\<open>KeyError\<close> otherwise is the caller's
  guard) and \<open>d.pop(k, None)\<close>.\<close>

definition dict_del :: "'k \<Rightarrow> ('k, 'v) pydict \<Rightarrow> ('k, 'v) pydict" where
  "dict_del k d = filter (\<lambda>(k', _). k' \<noteq> k) d"

text \<open>The model's well-formedness invariant of a dict: no key twice.\<close>

definition wf_dict :: "('k, 'v) pydict \<Rightarrow> bool" where
  "wf_dict d \<longleftrightarrow> distinct (dict_keys d)"

section \<open>Lemmas\<close>

declare py_lower_def [py_simps] py_lower_char_def [py_simps] char_of_eq_iff [py_simps]
  py_strip_def [py_simps] py_lstrip_def [py_simps] py_isspace_def [py_simps]
  starts_with_def [py_simps] py_upper_def [py_simps] py_upper_char_def [py_simps]
  String.char_of_def [py_simps] bit_0 [py_simps]

text \<open>Replacing a one-character pattern is a per-character map.\<close>

lemma py_replace_char:
  "py_replace [c] r s = concat (map (\<lambda>x. if x = c then r else [x]) s)"
  by (induction s) (auto simp: starts_with_def)

lemma dict_get_set [simp, dict_simps]:
  "dict_get (dict_set k v d) k' = (if k' = k then Some v else dict_get d k')"
  by (induction d) (auto simp: dict_get_def)

lemma dict_keys_set [dict_simps]:
  "dict_keys (dict_set k v d) =
     (if k \<in> set (dict_keys d) then dict_keys d else dict_keys d @ [k])"
  by (induction d) (force simp: dict_keys_def)+

lemma set_dict_keys_set [simp]: "set (dict_keys (dict_set k v d)) = insert k (set (dict_keys d))"
  by (auto simp: dict_keys_set)

lemma wf_dict_set [simp]: "wf_dict d \<Longrightarrow> wf_dict (dict_set k v d)"
  by (simp add: wf_dict_def dict_keys_set)

lemma dict_get_None_iff [dict_simps]: "dict_get d k = None \<longleftrightarrow> k \<notin> set (dict_keys d)"
  by (simp add: dict_get_def dict_keys_def map_of_eq_None_iff)

lemma map_of_rev_distinct: "distinct (map fst xs) \<Longrightarrow> map_of (rev xs) = map_of xs"
proof (induction xs)
  case Nil
  then show ?case by simp
next
  case (Cons x xs)
  then have "fst x \<notin> dom (map_of xs)" by (auto simp: dom_map_of_conv_image_fst)
  with Cons show ?case by (cases x) (auto simp: map_add_def fun_eq_iff split: option.splits)
qed

text \<open>A loop that stores \<open>f v\<close> under every key satisfying \<open>P\<close>: the last binding of
  a key wins, keys not satisfying \<open>P\<close> keep their old value.\<close>

lemma dict_get_fold_set:
  "dict_get (fold (\<lambda>(k, v) d. if P k then dict_set k (f v) d else d) xs c) k =
     (if P k then (case map_of (rev xs) k of Some v \<Rightarrow> Some (f v) | None \<Rightarrow> dict_get c k)
      else dict_get c k)"
  by (induction xs arbitrary: c) (auto simp: map_add_def split: option.splits)

lemma wf_dict_fold_set:
  "wf_dict c \<Longrightarrow> wf_dict (fold (\<lambda>(k, v) d. if P k then dict_set k (f v) d else d) xs c)"
  by (induction xs arbitrary: c) auto

lemma dict_get_merge [dict_simps]:
  "dict_get (dict_merge a b) k = (case map_of (rev b) k of Some v \<Rightarrow> Some v | None \<Rightarrow> dict_get a k)"
  using dict_get_fold_set [where P = "\<lambda>_. True" and f = id and xs = b and c = a]
  by (simp add: dict_merge_def option.case_eq_if)

lemma wf_dict_merge [simp]: "wf_dict a \<Longrightarrow> wf_dict (dict_merge a b)"
  using wf_dict_fold_set [where P = "\<lambda>_. True" and f = id and xs = b and c = a]
  by (simp add: dict_merge_def)

lemma dict_get_merge_wf:
  "wf_dict b \<Longrightarrow> dict_get (dict_merge a b) k =
     (case dict_get b k of Some v \<Rightarrow> Some v | None \<Rightarrow> dict_get a k)"
  unfolding dict_get_merge by (simp add: map_of_rev_distinct dict_get_def wf_dict_def dict_keys_def)

text \<open>Dict merges as folds of \<open>dict_set\<close>, and what a lookup of a merge returns.\<close>

lemma dict_get_Nil [simp]: "dict_get [] k = None"
  by (simp add: dict_get_def)

lemma dict_get_merge_Nil [simp]: "dict_get (dict_merge [] xs) k = map_of (rev xs) k"
  by (simp add: dict_get_merge split: option.splits)

lemma dict_merge_Nil [simp]: "dict_merge d [] = d"
  by (simp add: dict_merge_def)

lemma dict_merge_append: "dict_merge d (xs @ ys) = dict_merge (dict_merge d xs) ys"
  by (simp add: dict_merge_def)

lemma dict_merge_Cons: "dict_merge d ((k, v) # xs) = dict_merge (dict_set k v d) xs"
  by (simp add: dict_merge_def)

lemma dict_set_not_Nil [simp]: "dict_set k v d \<noteq> []"
  by (induction d) (auto split: if_splits)

lemma set_dict_keys_merge: "set (dict_keys (dict_merge d xs)) = set (dict_keys d) \<union> fst ` set xs"
proof (induction xs arbitrary: d)
  case (Cons x xs)
  obtain k v where x: "x = (k, v)" by fastforce
  show ?case using Cons.IH by (simp add: x dict_merge_Cons)
qed simp

lemma dict_get_del [simp, dict_simps]: "dict_get (dict_del k d) k' = (if k' = k then None else dict_get d k')"
  by (induction d) (auto simp: dict_get_def dict_del_def)

lemma set_dict_keys_del [simp]: "set (dict_keys (dict_del k d)) = set (dict_keys d) - {k}"
  by (auto simp: dict_keys_def dict_del_def)

lemma wf_dict_del [simp]: "wf_dict d \<Longrightarrow> wf_dict (dict_del k d)"
  by (simp add: wf_dict_def dict_keys_def dict_del_def distinct_map_filter)

lemma dict_del_absent [simp]: "k \<notin> set (dict_keys d) \<Longrightarrow> dict_del k d = d"
  by (induction d) (auto simp: dict_del_def dict_keys_def)

lemma length_dict_del: "wf_dict d \<Longrightarrow> k \<in> set (dict_keys d) \<Longrightarrow> length (dict_del k d) = length d - 1"
proof (induction d)
  case (Cons p d)
  show ?case
  proof (cases "fst p = k")
    case False
    with Cons have "k \<in> set (dict_keys d)" "wf_dict d" by (auto simp: wf_dict_def dict_keys_def)
    with Cons.IH False show ?thesis by (cases d) (auto simp: dict_del_def dict_keys_def)
  next
    case True
    with Cons.prems have "k \<notin> set (dict_keys d)" by (cases p) (auto simp: wf_dict_def dict_keys_def)
    with True show ?thesis using dict_del_absent [of k d] by (cases p) (simp add: dict_del_def)
  qed
qed (simp add: dict_keys_def)

lemma length_dict_del_le: "length (dict_del k d) \<le> length d"
  by (simp add: dict_del_def)

lemma length_dict_set: "wf_dict d \<Longrightarrow> length (dict_set k v d) = (if k \<in> set (dict_keys d) then length d else Suc (length d))"
  by (induction d) (force simp: wf_dict_def dict_keys_def)+

lemma set_dict_set: "set (dict_set k v d) \<subseteq> insert (k, v) (set d)"
  by (induction d) (auto split: if_splits)

lemma values_dict_set: "snd ` set (dict_set k v d) \<subseteq> insert v (snd ` set d)"
  using set_dict_set [of k v d] by force

lemma map_of_rev_unique:
  assumes "(k, v) \<in> set xs" "\<forall>(k', v') \<in> set xs. k' = k \<longrightarrow> v' = v"
  shows "map_of (rev xs) k = Some v"
proof -
  obtain v' where v': "map_of (rev xs) k = Some v'"
    using weak_map_of_SomeI [of k v "rev xs"] assms(1) by auto
  then have "(k, v') \<in> set xs" using map_of_SomeD by fastforce
  then show ?thesis using v' assms(2) by auto
qed

lemma map_of_rev_None: "k \<notin> fst ` set xs \<Longrightarrow> map_of (rev xs) k = None"
  by (simp add: map_of_eq_None_iff)

lemma map_of_rev_filter_distinct:
  "distinct (map fst xs) \<Longrightarrow>
   map_of (rev (filter (\<lambda>(k, v). P v) xs)) k = (case map_of xs k of Some v \<Rightarrow> if P v then Some v else None | None \<Rightarrow> None)"
proof (induction xs)
  case (Cons x xs)
  obtain a b where x: "x = (a, b)" by fastforce
  have "a \<notin> fst ` set xs" using Cons.prems x by simp
  then have "map_of xs a = None" by (simp add: map_of_eq_None_iff)
  moreover have "map_of (rev (filter (\<lambda>(k, v). P v) xs)) a = None"
    using \<open>a \<notin> fst ` set xs\<close> by (force simp: map_of_eq_None_iff)
  ultimately show ?case using Cons x by (auto simp: map_add_def split: option.splits)
qed simp

end
