(* ===== verification/Errors.thy ===== *)
theory Errors
  imports Prelude
begin

text \<open>
  The error taxonomy of \<open>src/src/validation/error_handler.py\<close> and the exceptions of
  the libraries the adapters call (aiohttp, asyncio, json, tenacity), with Python's
  class hierarchy (\<open>exc_mro\<close>, read by \<open>isinstance\<close> and \<open>except\<close> clauses) and
  Python's keyword-argument check for the taxonomy's constructors (\<open>new_exc\<close>):
  a \<open>raise C(kw=...)\<close> whose keyword \<open>C.__init__\<close> does not take raises
  \<open>TypeError\<close> instead of \<open>C\<close>. Also the retry machinery: the predicate
  \<open>is_retryable_exception\<close> and the unused decorator \<open>retry\<close> of
  \<open>src/src/utils/retry.py\<close>, the tenacity loop the adapters are decorated with, and
  the default \<open>test_connection\<close> of \<open>src/src/providers/base.py\<close> that folds every
  exception into a status record.
\<close>

section \<open>Exceptions and classes\<close>

text \<open>One constructor per exception class an adapter can raise or catch. The status
  code of \<open>APIResponseError\<close> is kept because callers branch on it.\<close>

datatype exc =
    ConfigurationError
  | APIConnectionError
  | APIResponseError "int option"
  | APICallError
  | ValidationError
  | APIResponseFormatError
  | APITimeoutError
  | APIError
  | TypeError
  | ClientConnectorError
  | ClientResponseError int
  | ClientError
  | AsyncioTimeoutError
  | JSONDecodeError
  | UnicodeDecodeError
  | RetryError
  | GlyphAPIError
  | GlyphConfigError
  | GlyphAPIResponseError
  | OtherError

datatype py_class =
    CConfigurationError | CAPIConnectionError | CAPIResponseError | CAPICallError
  | CValidationError | CAPIResponseFormatError | CAPITimeoutError | CAPIError
  | CBaseText2AlpacaError | CException | CTypeError | CValueError | CJSONDecodeError
  | CUnicodeDecodeError | CClientError | CClientConnectorError | CClientResponseError
  | COSError | CConnectionError | CTimeoutError | CRetryError | CGlyphMindError | CGlyphAPIError
  | CGlyphConfigError | CGlyphAPIResponseError

text \<open>The method resolution order of each exception's class: every class it is an
  instance of. Every taxonomy class derives from \<open>BaseText2AlpacaError\<close> directly;
  none derives from \<open>APIError\<close>. \<open>asyncio.TimeoutError\<close> is the builtin
  \<open>TimeoutError\<close> (Python 3.11 and later); aiohttp's \<open>ClientConnectorError\<close> is an
  \<open>OSError\<close> but not a builtin \<open>ConnectionError\<close>. \<open>GlyphAPIError\<close> is the
  \<open>APIError\<close> of the second hierarchy, \<open>src/src/utils/error_handler.py\<close>
  (\<open>GlyphMindError\<close>), which \<open>utils/retry.py\<close> imports: a class unrelated to the
  taxonomy's \<open>APIError\<close>; \<open>GlyphConfigError\<close> and \<open>GlyphAPIResponseError\<close> are its
  \<open>ConfigError\<close> and \<open>APIResponseError\<close>, which the Groq, Together and Perplexity
  adapters import.\<close>

fun exc_mro :: "exc \<Rightarrow> py_class list" where
  "exc_mro ConfigurationError = [CConfigurationError, CBaseText2AlpacaError, CException]"
| "exc_mro APIConnectionError = [CAPIConnectionError, CBaseText2AlpacaError, CException]"
| "exc_mro (APIResponseError _) = [CAPIResponseError, CBaseText2AlpacaError, CException]"
| "exc_mro APICallError = [CAPICallError, CBaseText2AlpacaError, CException]"
| "exc_mro ValidationError = [CValidationError, CBaseText2AlpacaError, CException]"
| "exc_mro APIResponseFormatError = [CAPIResponseFormatError, CBaseText2AlpacaError, CException]"
| "exc_mro APITimeoutError = [CAPITimeoutError, CBaseText2AlpacaError, CException]"
| "exc_mro APIError = [CAPIError, CBaseText2AlpacaError, CException]"
| "exc_mro TypeError = [CTypeError, CException]"
| "exc_mro ClientConnectorError = [CClientConnectorError, CClientError, COSError, CException]"
| "exc_mro (ClientResponseError _) = [CClientResponseError, CClientError, CException]"
| "exc_mro ClientError = [CClientError, CException]"
| "exc_mro AsyncioTimeoutError = [CTimeoutError, COSError, CException]"
| "exc_mro JSONDecodeError = [CJSONDecodeError, CValueError, CException]"
| "exc_mro UnicodeDecodeError = [CUnicodeDecodeError, CValueError, CException]"
| "exc_mro RetryError = [CRetryError, CException]"
| "exc_mro GlyphAPIError = [CGlyphAPIError, CGlyphMindError, CException]"
| "exc_mro GlyphConfigError = [CGlyphConfigError, CGlyphMindError, CException]"
| "exc_mro GlyphAPIResponseError = [CGlyphAPIResponseError, CGlyphMindError, CException]"
| "exc_mro OtherError = [CException]"

definition isinstance :: "exc \<Rightarrow> py_class list \<Rightarrow> bool" where
  "isinstance e cs \<longleftrightarrow> filter (\<lambda>c. c \<in> set cs) (exc_mro e) \<noteq> []"

section \<open>Constructors and their keyword arguments\<close>

datatype exc_ctor =
    NewConfigurationError | NewAPIConnectionError | NewAPIResponseError | NewAPICallError
  | NewValidationError | NewAPIResponseFormatError | NewAPITimeoutError | NewAPIError
  | NewGlyphAPIError | NewGlyphConfigError | NewGlyphAPIResponseError

text \<open>The parameters of each \<open>__init__\<close> after \<open>self\<close>, in order
  (\<open>validation/error_handler.py\<close>; the last three from \<open>utils/error_handler.py\<close>).\<close>

fun ctor_params :: "exc_ctor \<Rightarrow> string list" where
  "ctor_params NewConfigurationError = [''message'', ''details'']"
| "ctor_params NewAPIConnectionError = [''provider_name'', ''details'']"
| "ctor_params NewAPIResponseError = [''provider_name'', ''status_code'', ''response_body'', ''details'']"
| "ctor_params NewAPICallError = [''message'', ''provider_name'', ''details'']"
| "ctor_params NewValidationError = [''message'', ''validation_details'']"
| "ctor_params NewAPIResponseFormatError = [''provider_name'', ''details'']"
| "ctor_params NewAPITimeoutError =
     [''message'', ''timeout_value'', ''timeout_seconds'', ''provider'', ''provider_name'', ''details'']"
| "ctor_params NewAPIError = [''message'', ''provider_name'', ''details'']"
| "ctor_params NewGlyphAPIError = [''message'', ''code'', ''detail'', ''provider_name'']"
| "ctor_params NewGlyphConfigError = [''message'', ''code'', ''detail'']"
| "ctor_params NewGlyphAPIResponseError = [''message'', ''status_code'', ''response_body'', ''provider'']"

fun ctor_exc :: "exc_ctor \<Rightarrow> int option \<Rightarrow> exc" where
  "ctor_exc NewConfigurationError _ = ConfigurationError"
| "ctor_exc NewAPIConnectionError _ = APIConnectionError"
| "ctor_exc NewAPIResponseError st = APIResponseError st"
| "ctor_exc NewAPICallError _ = APICallError"
| "ctor_exc NewValidationError _ = ValidationError"
| "ctor_exc NewAPIResponseFormatError _ = APIResponseFormatError"
| "ctor_exc NewAPITimeoutError _ = APITimeoutError"
| "ctor_exc NewAPIError _ = APIError"
| "ctor_exc NewGlyphAPIError _ = GlyphAPIError"
| "ctor_exc NewGlyphConfigError _ = GlyphConfigError"
| "ctor_exc NewGlyphAPIResponseError _ = GlyphAPIResponseError"

text \<open>Python binds \<open>npos\<close> positional arguments to the first parameters and each
  keyword to a parameter of that name not already bound; anything else is a
  \<open>TypeError\<close> raised by the call itself.\<close>

definition call_accepts :: "string list \<Rightarrow> nat \<Rightarrow> string list \<Rightarrow> bool" where
  "call_accepts params npos kws \<longleftrightarrow>
     npos \<le> length params \<and> list_all (\<lambda>k. k \<in> set (drop npos params)) kws"

definition new_exc :: "exc_ctor \<Rightarrow> nat \<Rightarrow> string list \<Rightarrow> int option \<Rightarrow> exc" where
  "new_exc c npos kws st =
     (if call_accepts (ctor_params c) npos kws then ctor_exc c st else TypeError)"

end
