(* ===== verification/Retry.thy ===== *)
theory Retry
  imports Errors
begin

text \<open>
  Retrying a request. \<open>src/src/utils/retry.py\<close> gives the predicate
  \<open>is_retryable_exception\<close> that most adapters pass to tenacity, the status codes
  meant to be retried, and a synchronous decorator \<open>retry\<close> (no adapter uses it).
  The adapters decorate \<open>_make_request\<close> with tenacity's
  \<open>@retry(stop=stop_after_attempt(3), wait=wait_exponential(multiplier=1, min=2,
  max=10), retry=..., reraise=True)\<close>; tenacity is a library, so its loop
  (\<open>tenacity_attempts\<close>) is modelled from its documented behaviour: the \<open>retry\<close>
  argument is called with the \<^emph>\<open>retry call state\<close> after every attempt, and a plain
  function given there receives that state object, not the exception.
  The network is the function from the attempt number to the outcome of that attempt.
\<close>

datatype 'a outcome = Returned 'a | Raised exc

fun outcome_exc :: "'a outcome \<Rightarrow> exc option" where
  "outcome_exc (Returned _) = None"
| "outcome_exc (Raised e) = Some e"

section \<open>The predicate and the decorator of utils/retry.py\<close>

text \<open>A Python object handed to a predicate: an exception, tenacity's
  \<open>RetryCallState\<close> (with its attempt number), or anything else.\<close>

datatype py_obj = PyExc exc | PyRetryCallState nat | PyOther

definition is_retryable_exception :: "py_obj \<Rightarrow> bool" where
  "is_retryable_exception x =
     (case x of PyExc e \<Rightarrow> isinstance e [CConnectionError, CTimeoutError, CGlyphAPIError] | _ \<Rightarrow> False)"

definition RETRY_STATUS_CODES :: "int list" where
  "RETRY_STATUS_CODES = [408, 429, 500, 502, 503, 504]"

text \<open>The decorator's loop from attempt \<open>attempt\<close> with \<open>left\<close> attempts to go; the
  sleeps it performs are returned with the outcome. The final
  \<open>raise APIError(message=..., detail=str(e), code=500)\<close> and the fall-through
  \<open>raise APIError(message=..., code=500)\<close> go through \<open>new_exc\<close>; this
  \<open>APIError\<close> is the one of \<open>utils/error_handler.py\<close>.\<close>

fun retry_from :: "nat \<Rightarrow> nat \<Rightarrow> py_class list \<Rightarrow> rat \<Rightarrow> rat \<Rightarrow> (nat \<Rightarrow> 'a outcome)
    \<Rightarrow> 'a outcome \<times> rat list" where
  "retry_from attempt 0 exns d backoff func =
     (Raised (new_exc NewGlyphAPIError 0 [''message'', ''code''] None), [])"
| "retry_from attempt (Suc left) exns d backoff func =
     (case func attempt of
        Returned v \<Rightarrow> (Returned v, [])
      | Raised e \<Rightarrow>
          if \<not> isinstance e exns then (Raised e, [])
          else if left = 0
          then (Raised (new_exc NewGlyphAPIError 0 [''message'', ''detail'', ''code''] None), [])
          else (let (r, sleeps) = retry_from (Suc attempt) left exns (d * backoff) backoff func
                in (r, d # sleeps)))"

definition retry :: "py_class list \<Rightarrow> nat \<Rightarrow> rat \<Rightarrow> rat \<Rightarrow> (nat \<Rightarrow> 'a outcome)
    \<Rightarrow> 'a outcome \<times> rat list" where
  "retry exceptions max_attempts delay backoff func =
     retry_from 0 max_attempts exceptions delay backoff func"

section \<open>The tenacity loop\<close>

record retry_call_state =
  attempt_number :: nat
  last_exc :: "exc option"

text \<open>\<open>retry_if_exception_type(types)\<close> looks at the outcome; a plain Python function
  passed as \<open>retry=\<close> is called on the state object itself.\<close>

definition retry_if_exception_type :: "py_class list \<Rightarrow> retry_call_state \<Rightarrow> bool" where
  "retry_if_exception_type cs rs =
     (case last_exc rs of Some e \<Rightarrow> isinstance e cs | None \<Rightarrow> False)"

definition retry_callable :: "(py_obj \<Rightarrow> bool) \<Rightarrow> retry_call_state \<Rightarrow> bool" where
  "retry_callable f rs = f (PyRetryCallState (attempt_number rs))"

text \<open>\<open>wait_exponential(multiplier, min, max)\<close>: the sleep before the next attempt,
  \<open>max(max(0, min), min(multiplier * 2 ** (attempt_number - 1), max))\<close>.\<close>

definition wait_exponential :: "nat \<Rightarrow> nat \<Rightarrow> nat \<Rightarrow> nat \<Rightarrow> nat" where
  "wait_exponential multiplier wmin wmax k = max wmin (min (multiplier * 2 ^ (k - 1)) wmax)"

record tenacity_cfg =
  stop_after_attempt :: nat
  wait_fn :: "nat \<Rightarrow> nat"
  retry_fn :: "retry_call_state \<Rightarrow> bool"
  reraise :: bool

text \<open>Attempt \<open>k\<close>: run it; if the strategy does not ask for a retry, its outcome is
  the result; if the stop condition \<open>k \<ge> stop_after_attempt\<close> holds, the last
  exception is re-raised (\<open>reraise=True\<close>) or a \<open>RetryError\<close> is raised; otherwise
  sleep \<open>wait_fn k\<close> and run attempt \<open>k + 1\<close>. The result carries the sleeps and the
  number of the last attempt made.\<close>

function tenacity_attempts :: "tenacity_cfg \<Rightarrow> (nat \<Rightarrow> 'a outcome) \<Rightarrow> nat
    \<Rightarrow> 'a outcome \<times> nat list \<times> nat" where
  "tenacity_attempts cfg f k =
     (let out = f k
      in if \<not> retry_fn cfg \<lparr>attempt_number = k, last_exc = outcome_exc out\<rparr> then (out, [], k)
         else if stop_after_attempt cfg \<le> k
         then ((if reraise cfg \<and> outcome_exc out \<noteq> None then out else Raised RetryError), [], k)
         else (case tenacity_attempts cfg f (Suc k) of
                 (r, ws, n) \<Rightarrow> (r, wait_fn cfg k # ws, n)))"
  by pat_completeness auto
termination
  by (relation "measure (\<lambda>(cfg, f, k). stop_after_attempt cfg - k)") auto

declare tenacity_attempts.simps [simp del]

definition tenacity_call :: "tenacity_cfg \<Rightarrow> (nat \<Rightarrow> 'a outcome) \<Rightarrow> 'a outcome \<times> nat list \<times> nat" where
  "tenacity_call cfg f = tenacity_attempts cfg f 1"

text \<open>The decorator configuration the REST adapters share, with their predicate.\<close>

definition adapter_retry :: "(retry_call_state \<Rightarrow> bool) \<Rightarrow> tenacity_cfg" where
  "adapter_retry p =
     \<lparr>stop_after_attempt = 3, wait_fn = wait_exponential 1 2 10, retry_fn = p, reraise = True\<rparr>"

section \<open>Properties of the retry loops\<close>

lemma tenacity_never_retry:
  assumes "\<not> retry_fn cfg \<lparr>attempt_number = k, last_exc = outcome_exc (f k)\<rparr>"
  shows "tenacity_attempts cfg f k = (f k, [], k)"
  using assms by (simp add: tenacity_attempts.simps [of cfg f k] Let_def)

text \<open>The adapters' decorator with \<open>retry=is_retryable_exception\<close> makes exactly one
  attempt, whatever it gives.\<close>

lemma adapter_call_single:
  "fst (tenacity_call (adapter_retry (retry_callable is_retryable_exception)) f) = f 1"
proof -
  have "tenacity_attempts (adapter_retry (retry_callable is_retryable_exception)) f 1 = (f 1, [], 1)"
    by (rule tenacity_never_retry) (simp add: adapter_retry_def retry_callable_def is_retryable_exception_def)
  then show ?thesis by (simp add: tenacity_call_def)
qed

text \<open>When every attempt fails and the strategy always asks for another, the loop runs
  up to the stop bound, sleeps once between consecutive attempts, and re-raises the
  last failure.\<close>

lemma tenacity_stop_retry:
  assumes "\<And>k. retry_fn cfg \<lparr>attempt_number = k, last_exc = outcome_exc (f k)\<rparr>"
    and "\<And>k. outcome_exc (f k) \<noteq> None" and "reraise cfg"
  shows "tenacity_attempts cfg f k =
           (f (max k (stop_after_attempt cfg)), map (wait_fn cfg) [k..<stop_after_attempt cfg],
            max k (stop_after_attempt cfg))"
  using assms
proof (induction cfg f k rule: tenacity_attempts.induct)
  case (1 cfg f k)
  show ?case
  proof (cases "stop_after_attempt cfg \<le> k")
    case True
    with "1.prems" show ?thesis by (simp add: tenacity_attempts.simps [of cfg f k])
  next
    case False
    then have "[k..<stop_after_attempt cfg] = k # [Suc k..<stop_after_attempt cfg]"
      by (simp add: upt_conv_Cons)
    with False "1.IH" "1.prems" show ?thesis
      by (simp add: tenacity_attempts.simps [of cfg f k] max_def)
  qed
qed

lemma tenacity_attempts_bound:
  "k \<le> snd (snd (tenacity_attempts cfg f k)) \<and>
   snd (snd (tenacity_attempts cfg f k)) \<le> max k (stop_after_attempt cfg)"
proof (induction cfg f k rule: tenacity_attempts.induct)
  case (1 cfg f k)
  then show ?case
    by (auto simp: tenacity_attempts.simps [of cfg f k] Let_def split: prod.splits)
qed

lemma new_exc_GlyphAPIError_detail_code:
  "new_exc NewGlyphAPIError 0 [''message'', ''detail'', ''code''] None = GlyphAPIError"
  by (simp add: new_exc_def call_accepts_def)

lemma retry_from_exhausted:
  assumes "\<And>k. func k = Raised e" and "isinstance e exns" and "0 < n"
  shows "retry_from a n exns d b func = (Raised GlyphAPIError, map (\<lambda>i. d * b ^ i) [0..<n - 1])"
  using assms
proof (induction n arbitrary: a d)
  case 0
  then show ?case by simp
next
  case (Suc n)
  show ?case
  proof (cases n)
    case 0
    with Suc.prems show ?thesis by (simp add: new_exc_GlyphAPIError_detail_code)
  next
    case (Suc k)
    with Suc.IH [of "Suc a" "d * b"] Suc.prems show ?thesis
      by (simp del: upt_Suc add: map_upt_Suc mult.assoc)
  qed
qed

lemma tenacity_attempts_waits:
  "set (fst (snd (tenacity_attempts cfg f k))) \<subseteq> range (wait_fn cfg)"
proof (induction cfg f k rule: tenacity_attempts.induct)
  case (1 cfg f k)
  then show ?case
    by (auto simp: tenacity_attempts.simps [of cfg f k] Let_def split: prod.splits)
qed

lemma adapter_retry_sel [simp]:
  "stop_after_attempt (adapter_retry p) = 3" "wait_fn (adapter_retry p) = wait_exponential 1 2 10"
  "retry_fn (adapter_retry p) = p" "reraise (adapter_retry p)"
  by (simp_all add: adapter_retry_def)


section \<open>Claims\<close>

text \<open>C36 (retry bound). Every adapter whose \<open>_make_request\<close> is decorated with
  \<open>retry=is_retryable_exception\<close> (DeepSeek, Ollama, SiliconFlow, Volcengine, Zhipu,
  Anyscale, Cohere, the template handler, Gemini's model listing) makes exactly one
  attempt, whatever the transport does: tenacity calls the predicate on its retry call
  state, which is never an instance of \<open>ConnectionError\<close>, \<open>TimeoutError\<close> or
  \<open>APIError\<close>, so no retry is ever requested and no sleep happens. The outcome of the
  first attempt is the outcome of the call.\<close>

theorem retryable_predicate_single_attempt:
  "tenacity_call (adapter_retry (retry_callable is_retryable_exception)) f = (f 1, [], 1)"
  unfolding tenacity_call_def
  by (rule tenacity_never_retry) (simp add: retry_callable_def is_retryable_exception_def)

text \<open>(retry bound). The adapters that pass \<open>retry_if_exception_type(...)\<close>
  (Groq, Perplexity, Together) retry as intended: a transport failing on every attempt
  with an exception of a listed class is attempted exactly three times, with sleeps of
  2 s and 2 s between the attempts, and the third failure is re-raised.\<close>

theorem exception_type_retry_three_attempts:
  assumes "\<And>k. f k = Raised e" and "isinstance e cs"
  shows "tenacity_call (adapter_retry (retry_if_exception_type cs)) f = (Raised e, [2, 2], 3)"
proof -
  have "tenacity_attempts (adapter_retry (retry_if_exception_type cs)) f 1 =
          (f (max 1 3), map (wait_exponential 1 2 10) [1..<3], max 1 3)"
    using tenacity_stop_retry [of "adapter_retry (retry_if_exception_type cs)" f 1] assms
    by (simp add: retry_if_exception_type_def)
  with assms(1) show ?thesis
    by (simp add: tenacity_call_def upt_rec wait_exponential_def)
qed

theorem exception_type_retry_three_attempts_witness:
  "tenacity_call (adapter_retry (retry_if_exception_type [CAPIError, CAPIResponseError]))
     (\<lambda>k. Raised (APIResponseError (Some 503)) :: nat outcome) =
   (Raised (APIResponseError (Some 503)), [2, 2], 3)"
  by (rule exception_type_retry_three_attempts [where e = "APIResponseError (Some 503)"])
     (simp_all add: isinstance_def)

text \<open>(bounds). Under the adapters' decorator every sleep between attempts lasts
  between 2 and 10 seconds, whatever the attempt number, and a call makes at least one
  and at most three attempts.\<close>

theorem adapter_retry_wait_and_attempt_bounds:
  "list_all (\<lambda>w. 2 \<le> w \<and> w \<le> 10) (fst (snd (tenacity_call (adapter_retry p) f))) \<and>
   1 \<le> snd (snd (tenacity_call (adapter_retry p) f)) \<and>
   snd (snd (tenacity_call (adapter_retry p) f)) \<le> 3"
proof -
  have "set (fst (snd (tenacity_attempts (adapter_retry p) f 1))) \<subseteq> range (wait_exponential 1 2 10)"
    using tenacity_attempts_waits [of "adapter_retry p" f 1] by simp
  moreover have "\<And>k. 2 \<le> wait_exponential 1 2 10 k \<and> wait_exponential 1 2 10 k \<le> 10"
    by (simp add: wait_exponential_def)
  ultimately have "list_all (\<lambda>w. 2 \<le> w \<and> w \<le> 10) (fst (snd (tenacity_call (adapter_retry p) f)))"
    by (fastforce simp: tenacity_call_def list_all_iff)
  moreover have "1 \<le> snd (snd (tenacity_call (adapter_retry p) f)) \<and>
                 snd (snd (tenacity_call (adapter_retry p) f)) \<le> 3"
    using tenacity_attempts_bound [where cfg = "adapter_retry p" and f = f and k = 1] by (simp add: tenacity_call_def)
  ultimately show ?thesis by blast
qed

text \<open>(error). The synchronous decorator \<open>retry\<close> of \<open>utils/retry.py\<close>, when every
  attempt raises one of the listed exceptions, makes \<open>max_attempts\<close> attempts, sleeping
  \<open>delay * backoff ** i\<close> before attempt \<open>i + 2\<close>, and then raises the \<open>APIError\<close> of
  \<open>utils/error_handler.py\<close>: an exception that is not an instance of the taxonomy's
  \<open>APIError\<close> nor of \<open>BaseText2AlpacaError\<close>, so the adapters' and
  \<open>test_connection\<close>'s \<open>except APIError\<close> clauses do not see it.\<close>

theorem util_retry_exhausted_glyph_error:
  assumes "\<And>k. func k = Raised e" and "isinstance e exns" and "0 < max_attempts"
  shows "retry exns max_attempts delay backoff func =
           (Raised GlyphAPIError, map (\<lambda>i. delay * backoff ^ i) [0..<max_attempts - 1]) \<and>
         \<not> isinstance GlyphAPIError [CAPIError, CBaseText2AlpacaError]"
  using assms by (simp add: retry_def retry_from_exhausted isinstance_def)

theorem util_retry_exhausted_glyph_error_witness:
  "retry [CException] 3 1 2 (\<lambda>k. Raised ClientError :: nat outcome) = (Raised GlyphAPIError, [1, 2])"
proof -
  have "retry [CException] 3 1 2 (\<lambda>k. Raised ClientError :: nat outcome) =
          (Raised GlyphAPIError, map (\<lambda>i. 1 * 2 ^ i) [0..<3 - 1])"
    using util_retry_exhausted_glyph_error [where e = ClientError and exns = "[CException]"
            and max_attempts = 3 and delay = 1 and backoff = 2
            and func = "\<lambda>k. Raised ClientError :: nat outcome"]
    by (simp add: isinstance_def)
  then show ?thesis by (simp add: upt_rec)
qed

end
