(* ===== verification/Config.thy ===== *)
theory Config
  imports Prelude
begin

text \<open>
  Credential and parameter resolution. \<open>get_handler\<close> (\<open>src/src/providers/factory.py\<close>)
  scans \<open>{**dotenv_values(path), **os.environ}\<close> for the keys starting with the
  provider's \<open>env_prefix\<close> and coerces each value: \<open>"true"\<close>/\<open>"false"\<close> in any case to
  a bool, a value containing \<open>.\<close> through \<open>float()\<close>, any other through \<open>int()\<close>,
  keeping the string when the conversion raises \<open>ValueError\<close>. The conversions are
  Python's own, so they are modelled with their grammar: surrounding whitespace, a
  sign, single underscores between digits, an exponent for \<open>float\<close>, the
  \<open>inf\<close>/\<open>nan\<close> words, and CPython's 4300-digit limit for \<open>int\<close> (3.11 and later).
  A float is kept as the exact decimal it denotes; the rounding to a double is not
  modelled.
\<close>

section \<open>Digits\<close>

definition is_digit :: "char \<Rightarrow> bool" where
  "is_digit c \<longleftrightarrow> of_char c \<in> {48..57 :: nat}"

definition digit_value :: "char \<Rightarrow> nat" where
  "digit_value c = of_char c - 48"

text \<open>The longest prefix of the form \<open>digit (_? digit)*\<close> and the rest: a digit part
  of a Python numeral, underscores only between two digits.\<close>

fun udig_tail :: "string \<Rightarrow> string \<times> string" where
  "udig_tail [] = ([], [])"
| "udig_tail (c # cs) =
     (if is_digit c then (case udig_tail cs of (a, r) \<Rightarrow> (c # a, r))
      else if c = CHR ''_''
      then (case cs of
              d # ds \<Rightarrow> if is_digit d then (case udig_tail ds of (a, r) \<Rightarrow> (c # d # a, r))
                        else ([], c # cs)
            | [] \<Rightarrow> ([], c # cs))
      else ([], c # cs))"

definition udig :: "string \<Rightarrow> string \<times> string" where
  "udig s = (case s of c # cs \<Rightarrow> if is_digit c then (case udig_tail cs of (a, r) \<Rightarrow> (c # a, r))
                                   else ([], s)
                     | [] \<Rightarrow> ([], []))"

definition digits_nat :: "string \<Rightarrow> nat" where
  "digits_nat s = foldl (\<lambda>n c. 10 * n + digit_value c) 0 (filter is_digit s)"

section \<open>int() and float() of a string\<close>

definition int_max_str_digits :: nat where
  "int_max_str_digits = 4300"

text \<open>\<open>int(s)\<close>: \<open>None\<close> is the \<open>ValueError\<close>.\<close>

definition py_int :: "string \<Rightarrow> int option" where
  "py_int s =
     (let t = py_strip s;
          (neg, body) = (case t of c # r \<Rightarrow> if c = CHR ''-'' then (True, r)
                                           else if c = CHR ''+'' then (False, r) else (False, t)
                                | [] \<Rightarrow> (False, []))
      in case udig body of
           (ds, rest) \<Rightarrow>
             if ds \<noteq> [] \<and> rest = [] \<and> length (filter is_digit ds) \<le> int_max_str_digits
             then Some (if neg then - int (digits_nat ds) else int (digits_nat ds))
             else None)"

datatype pyfloat = Finite rat | PosInf | NegInf | NaN

definition dec_value :: "nat \<Rightarrow> int \<Rightarrow> rat" where
  "dec_value m e = (if 0 \<le> e then of_nat m * 10 ^ nat e else of_nat m / 10 ^ nat (- e))"

text \<open>The exponent part of a decimal float: empty, or \<open>e\<close>/\<open>E\<close>, a sign and a digit
  part that ends the string.\<close>

definition float_exponent :: "string \<Rightarrow> int option" where
  "float_exponent r =
     (case r of
        [] \<Rightarrow> Some 0
      | c # r' \<Rightarrow>
          if c = CHR ''e'' \<or> c = CHR ''E'' then
            (let (neg, r'') = (case r' of d # ds \<Rightarrow> if d = CHR ''-'' then (True, ds)
                                                    else if d = CHR ''+'' then (False, ds) else (False, r')
                                        | [] \<Rightarrow> (False, []))
             in case udig r'' of
                  (ds, rest) \<Rightarrow> if ds \<noteq> [] \<and> rest = []
                                then Some (if neg then - int (digits_nat ds) else int (digits_nat ds))
                                else None)
          else None)"

text \<open>An unsigned decimal: \<open>digits [. [digits]] | . digits\<close>, then the exponent.\<close>

definition float_decimal :: "string \<Rightarrow> rat option" where
  "float_decimal t =
     (case udig t of
        (ip, r1) \<Rightarrow>
          (case r1 of
             c # r2 \<Rightarrow>
               if c = CHR ''.'' then
                 (case udig r2 of
                    (fp, r3) \<Rightarrow>
                      if ip = [] \<and> fp = [] then None
                      else map_option (\<lambda>e. dec_value (digits_nat (ip @ fp))
                                             (e - int (length (filter is_digit fp))))
                                      (float_exponent r3))
               else if ip = [] then None
               else map_option (dec_value (digits_nat ip)) (float_exponent r1)
           | [] \<Rightarrow> if ip = [] then None else Some (of_nat (digits_nat ip))))"

definition neg_float :: "pyfloat \<Rightarrow> pyfloat" where
  "neg_float x = (case x of Finite q \<Rightarrow> Finite (- q) | PosInf \<Rightarrow> NegInf | NegInf \<Rightarrow> PosInf
                          | NaN \<Rightarrow> NaN)"

text \<open>\<open>float(s)\<close>: \<open>None\<close> is the \<open>ValueError\<close>.\<close>

definition py_float :: "string \<Rightarrow> pyfloat option" where
  "py_float s =
     (let t = py_strip s;
          (neg, body) = (case t of c # r \<Rightarrow> if c = CHR ''-'' then (True, r)
                                           else if c = CHR ''+'' then (False, r) else (False, t)
                                | [] \<Rightarrow> (False, []));
          word = py_lower body;
          v = (if word = ''inf'' \<or> word = ''infinity'' then Some PosInf
               else if word = ''nan'' then Some NaN
               else map_option Finite (float_decimal body))
      in if neg then map_option neg_float v else v)"

section \<open>Coercing a .env value\<close>

text \<open>A resolved configuration value: the Python objects a coerced entry can be. A key
  written without \<open>=\<close> in the \<open>.env\<close> file has the value \<open>None\<close>.\<close>

datatype cvalue = CStr string | CInt int | CFloat pyfloat | CBool bool | CNone

text \<open>\<open>get_handler\<close>, lines 432--444 of \<open>factory.py\<close>.\<close>

definition coerce_env_value :: "string option \<Rightarrow> cvalue" where
  "coerce_env_value v =
     (case v of
        None \<Rightarrow> CNone
      | Some s \<Rightarrow>
          if py_lower s \<in> {''true'', ''false''} then CBool (py_lower s = ''true'')
          else if CHR ''.'' \<in> set s
          then (case py_float s of Some f \<Rightarrow> CFloat f | None \<Rightarrow> CStr s)
          else (case py_int s of Some i \<Rightarrow> CInt i | None \<Rightarrow> CStr s))"

text \<open>The environment the factory reads: the \<open>.env\<close> file's entries in file order
  (\<open>None\<close> for a key without a value) and the process environment.\<close>

record env_state =
  dotenv :: "(string, string option) pydict"
  os_environ :: "(string, string) pydict"

definition all_env_vars :: "env_state \<Rightarrow> (string, string option) pydict" where
  "all_env_vars st = dict_merge (dotenv st) (map (\<lambda>(k, v). (k, Some v)) (os_environ st))"

text \<open>Lines 418--448: every key of the merged environment that starts with the prefix,
  with its coerced value, in the merged dict's order.\<close>

definition prefixed_config :: "string \<Rightarrow> env_state \<Rightarrow> (string, cvalue) pydict" where
  "prefixed_config prefix st =
     fold (\<lambda>(k, v) cfg. if starts_with k prefix then dict_set k (coerce_env_value v) cfg else cfg)
          (all_env_vars st) []"

text \<open>The resolution order the code implements, as an abstract lookup: the process
  environment first, then the \<open>.env\<close> file.\<close>

definition env_lookup :: "env_state \<Rightarrow> string \<Rightarrow> string option option" where
  "env_lookup st k =
     (case dict_get (os_environ st) k of Some v \<Rightarrow> Some (Some v) | None \<Rightarrow> dict_get (dotenv st) k)"

section \<open>Writing the .env file\<close>

text \<open>python-dotenv's \<open>set_key(path, key, value, quote_mode='always')\<close> writes
  \<open>key='value'\<close> with every \<open>'\<close> escaped as \<open>\'\<close>; \<open>dotenv_values\<close> reads a
  single-quoted value back decoding the escapes \<open>\\\<close> and \<open>\'\<close>. The library is not
  part of the repository; these two functions follow its documented behaviour.\<close>

definition dotenv_quote :: "string \<Rightarrow> string" where
  "dotenv_quote v = py_replace [CHR 0x27] [CHR 0x5C, CHR 0x27] v"

fun dotenv_sq_decode :: "string \<Rightarrow> string" where
  "dotenv_sq_decode [] = []"
| "dotenv_sq_decode [c] = [c]"
| "dotenv_sq_decode (c # d # cs) =
     (if c = CHR 0x5C \<and> (d = CHR 0x5C \<or> d = CHR 0x27) then d # dotenv_sq_decode cs
      else c # dotenv_sq_decode (d # cs))"

text \<open>\<open>update_dotenv_vars\<close> (\<open>src/src/utils/config.py\<close>): every pair is written with
  \<open>set_key\<close>, \<open>None\<close> as the empty string; the \<open>.env\<close> entries after the call are what
  the next \<open>dotenv_values\<close> reads. The function returns \<open>True\<close>.\<close>

definition update_dotenv_vars :: "(string, string option) pydict \<Rightarrow> env_state \<Rightarrow> env_state" where
  "update_dotenv_vars vars st =
     st\<lparr>dotenv := fold (\<lambda>(k, v) d. dict_set k (Some (dotenv_sq_decode (dotenv_quote
                    (case v of Some s \<Rightarrow> s | None \<Rightarrow> [])))) d) vars (dotenv st)\<rparr>"

section \<open>Python's str() of the values the settings page saves\<close>

fun nat_digits :: "nat \<Rightarrow> string" where
  "nat_digits n = (if n < 10 then [char_of (48 + n)] else nat_digits (n div 10) @ [char_of (48 + n mod 10)])"

declare nat_digits.simps [simp del]

definition py_str_int :: "int \<Rightarrow> string" where
  "py_str_int i = (if i < 0 then CHR ''-'' # nat_digits (nat (- i)) else nat_digits (nat i))"

text \<open>The JSON values \<open>save_all_settings\<close> (\<open>src/src/api/routes/settings.py\<close>)
  receives, and the string it passes on: \<open>str(v)\<close>, or \<open>''\<close> for \<open>None\<close>. Floats are
  left out (their \<open>repr\<close> is not modelled).\<close>

datatype jvalue = JNull | JBool bool | JInt int | JStr string

fun settings_str :: "jvalue \<Rightarrow> string" where
  "settings_str JNull = []"
| "settings_str (JBool b) = (if b then ''True'' else ''False'')"
| "settings_str (JInt i) = py_str_int i"
| "settings_str (JStr s) = s"

text \<open>\<open>save_all_settings\<close> (lines 72--92 of \<open>settings.py\<close>): the dict comprehension of
  \<open>str(v)\<close> over the non-\<open>None\<close> values, then \<open>''\<close> stored under every key whose value is
  \<open>None\<close>, passed to \<open>update_dotenv_vars\<close> (which returns \<open>True\<close>, so the route answers
  success).\<close>

definition settings_to_save :: "(string, jvalue) pydict \<Rightarrow> (string, string option) pydict" where
  "settings_to_save settings_data =
     fold (\<lambda>(k, v) acc. if v = JNull then dict_set k (Some []) acc else acc) settings_data
       (fold (\<lambda>(k, v) acc. if v \<noteq> JNull then dict_set k (Some (settings_str v)) acc else acc) settings_data [])"

definition save_all_settings :: "(string, jvalue) pydict \<Rightarrow> env_state \<Rightarrow> env_state" where
  "save_all_settings settings_data st = update_dotenv_vars (settings_to_save settings_data) st"

definition wf_env :: "env_state \<Rightarrow> bool" where
  "wf_env st \<longleftrightarrow> wf_dict (dotenv st) \<and> wf_dict (os_environ st)"

definition dotenv_stored :: "string option \<Rightarrow> string" where
  "dotenv_stored v = dotenv_sq_decode (dotenv_quote (case v of Some s \<Rightarrow> s | None \<Rightarrow> []))"

section \<open>Lemmas\<close>

subsection \<open>Printing and parsing numbers\<close>

lemma digit_char [simp]:
  assumes "k < 10"
  shows "is_digit (char_of (48 + k))" and "digit_value (char_of (48 + k)) = k"
  using assms by (simp_all add: is_digit_def digit_value_def)

lemma nat_digits_digits: "list_all is_digit (nat_digits n) \<and> nat_digits n \<noteq> []"
proof (induction n rule: nat_digits.induct)
  case (1 n)
  then show ?case by (auto simp: nat_digits.simps [of n])
qed

lemma udig_tail_digits: "list_all is_digit s \<Longrightarrow> udig_tail s = (s, [])"
  by (induction s) auto

lemma udig_digits: "list_all is_digit s \<Longrightarrow> s \<noteq> [] \<Longrightarrow> udig s = (s, [])"
  by (cases s) (auto simp: udig_def udig_tail_digits)

lemma digits_nat_snoc: "is_digit c \<Longrightarrow> digits_nat (s @ [c]) = 10 * digits_nat s + digit_value c"
  by (simp add: digits_nat_def)

lemma digits_nat_nat_digits: "digits_nat (nat_digits n) = n"
proof (induction n rule: nat_digits.induct)
  case (1 n)
  show ?case
  proof (cases "n < 10")
    case True
    then show ?thesis by (simp add: nat_digits.simps digits_nat_def)
  next
    case False
    then have "digits_nat (nat_digits n) = 10 * (n div 10) + n mod 10"
      using "1.IH" by (simp add: nat_digits.simps [of n] digits_nat_snoc)
    then show ?thesis by simp
  qed
qed

lemma length_nat_digits: "n < 10 ^ k \<Longrightarrow> 0 < k \<Longrightarrow> length (nat_digits n) \<le> k"
proof (induction n arbitrary: k rule: nat_digits.induct)
  case (1 n)
  show ?case
  proof (cases "n < 10")
    case True
    then show ?thesis using "1.prems" by (simp add: nat_digits.simps)
  next
    case False
    have k: "2 \<le> k"
    proof (rule ccontr)
      assume "\<not> 2 \<le> k"
      with "1.prems" have "k = 1" by simp
      with "1.prems" False show False by simp
    qed
    from "1.prems" have "n div 10 < 10 ^ (k - 1)"
      using k by (simp add: less_mult_imp_div_less power_eq_if)
    with "1.IH" False k have "length (nat_digits (n div 10)) \<le> k - 1" by simp
    with False k show ?thesis by (simp add: nat_digits.simps [of n])
  qed
qed
lemma digit_not_space: "is_digit c \<Longrightarrow> \<not> py_isspace c"
  by (auto simp: is_digit_def py_isspace_def)

lemma digit_lower: "is_digit c \<Longrightarrow> py_lower_char c = c"
  by (auto simp: is_digit_def py_lower_char_def Let_def)

lemma py_strip_id:
  assumes "s \<noteq> []" and "\<not> py_isspace (hd s)" and "\<not> py_isspace (last s)"
  shows "py_strip s = s"
proof -
  have "dropWhile py_isspace s = s" using assms by (cases s) auto
  moreover have "dropWhile py_isspace (rev s) = rev s"
    using assms by (cases "rev s") (auto simp: last_rev [symmetric])
  ultimately show ?thesis by (simp add: py_strip_def)
qed

lemma py_int_nat_digits:
  assumes "n < 10 ^ int_max_str_digits"
  shows "py_int (nat_digits n) = Some (int n)" and "py_int (CHR ''-'' # nat_digits n) = Some (- int n)"
proof -
  obtain ds: "list_all is_digit (nat_digits n)" "nat_digits n \<noteq> []"
    using nat_digits_digits by blast
  then have hd: "is_digit (hd (nat_digits n))" and lst: "is_digit (last (nat_digits n))"
    by (auto simp: list_all_iff)
  have len: "length (filter is_digit (nat_digits n)) \<le> int_max_str_digits"
    using length_nat_digits [OF assms] ds by (simp add: int_max_str_digits_def filter_True list_all_iff)
  have notsign: "hd (nat_digits n) \<noteq> CHR ''-'' \<and> hd (nat_digits n) \<noteq> CHR ''+''"
    using hd by (auto simp: is_digit_def)
  have strip1: "py_strip (nat_digits n) = nat_digits n"
    using ds hd lst by (simp add: py_strip_id digit_not_space)
  have "\<not> py_isspace (last (nat_digits n))" by (rule digit_not_space [OF lst])
  moreover have "\<not> py_isspace (CHR ''-'')" by (simp add: py_isspace_def)
  ultimately have strip2: "py_strip (CHR ''-'' # nat_digits n) = CHR ''-'' # nat_digits n"
    using ds by (intro py_strip_id) auto
  show "py_int (nat_digits n) = Some (int n)"
    using ds len notsign strip1 digits_nat_nat_digits [of n]
    by (cases "nat_digits n") (auto simp: py_int_def Let_def udig_digits)
  show "py_int (CHR ''-'' # nat_digits n) = Some (- int n)"
    using ds len by (simp add: py_int_def Let_def strip2 udig_digits digits_nat_nat_digits)
qed
lemma py_lower_digits: "list_all is_digit s \<Longrightarrow> py_lower s = s"
  by (induction s) (auto simp: py_lower_def digit_lower)

lemma digits_not_words:
  "list_all is_digit s \<Longrightarrow> s \<noteq> ''true'' \<and> s \<noteq> ''false'' \<and> CHR ''.'' \<notin> set s"
  by (auto simp: list_all_iff is_digit_def)

lemma coerce_py_str_int:
  assumes "\<bar>i\<bar> < 10 ^ int_max_str_digits"
  shows "coerce_env_value (Some (py_str_int i)) = CInt i"
proof -
  obtain ds: "list_all is_digit (nat_digits (nat \<bar>i\<bar>))"
    using nat_digits_digits by blast
  have small: "nat \<bar>i\<bar> < 10 ^ int_max_str_digits"
    using assms by (simp add: nat_less_iff)
  show ?thesis
  proof (cases "i < 0")
    case True
    have "py_lower (CHR ''-'' # nat_digits (nat (- i))) = CHR ''-'' # nat_digits (nat (- i))"
      using ds True by (simp add: py_lower_def py_lower_char_def py_lower_digits [unfolded py_lower_def])
    then show ?thesis using True ds small py_int_nat_digits(2) [of "nat (- i)"]
      by (simp add: coerce_env_value_def py_str_int_def digits_not_words)
  next
    case False
    then show ?thesis using ds small py_int_nat_digits(1) [of "nat i"]
      by (simp add: coerce_env_value_def py_str_int_def py_lower_digits digits_not_words)
  qed
qed


lemma below_max_str_digits: "\<bar>i::int\<bar> < 10000 \<Longrightarrow> \<bar>i\<bar> < 10 ^ int_max_str_digits"
proof -
  assume "\<bar>i\<bar> < 10000"
  moreover have "(10::int) ^ 4 \<le> 10 ^ int_max_str_digits"
    by (rule power_increasing) (simp_all add: int_max_str_digits_def)
  ultimately show ?thesis by simp
qed

subsection \<open>The merged environment and the .env writer\<close>

lemma dict_get_env_map:
  "dict_get (map (\<lambda>(k, v). (k, Some v)) e) k = map_option Some (dict_get e k)"
  by (simp add: dict_get_def map_of_map)

lemma keys_env_map [simp]: "map (\<lambda>x. fst (case x of (k, v) \<Rightarrow> (k, Some v))) e = map fst e"
  by (induction e) auto

lemma wf_all_env_vars: "wf_env st \<Longrightarrow> wf_dict (all_env_vars st)"
  by (simp add: wf_env_def all_env_vars_def)

lemma all_env_vars_lookup: "wf_env st \<Longrightarrow> dict_get (all_env_vars st) k = env_lookup st k"
  unfolding all_env_vars_def
  by (subst dict_get_merge_wf)
     (auto simp: wf_env_def wf_dict_def dict_keys_def dict_get_env_map env_lookup_def comp_def
           split: option.splits)

lemma py_int_py_str_int:
  assumes "\<bar>i\<bar> < 10 ^ int_max_str_digits"
  shows "py_int (py_str_int i) = Some i"
proof -
  have small: "nat \<bar>i\<bar> < 10 ^ int_max_str_digits"
    using assms by (simp add: nat_less_iff)
  then show ?thesis using py_int_nat_digits [of "nat \<bar>i\<bar>"]
    by (cases "i < 0") (simp_all add: py_str_int_def)
qed

lemma py_str_int_no_backslash: "CHR 0x5C \<notin> set (py_str_int i)"
proof -
  have "\<And>n. list_all is_digit (nat_digits n)" using nat_digits_digits by blast
  then have "\<And>n. CHR 0x5C \<notin> set (nat_digits n)" by (force simp: list_all_iff is_digit_def)
  then show ?thesis by (simp add: py_str_int_def)
qed

lemma dotenv_update_lookup:
  "dict_get (dotenv (update_dotenv_vars vars st)) k =
     (case map_of (rev vars) k of Some v \<Rightarrow> Some (Some (dotenv_stored v)) | None \<Rightarrow> dict_get (dotenv st) k)"
  using dict_get_fold_set [where P = "\<lambda>_. True" and f = "\<lambda>v. Some (dotenv_stored v)"
      and xs = vars and c = "dotenv st"]
  by (simp add: update_dotenv_vars_def dotenv_stored_def)

lemma wf_env_update: "wf_env st \<Longrightarrow> wf_env (update_dotenv_vars vars st)"
  using wf_dict_fold_set [where P = "\<lambda>_. True" and c = "dotenv st" and xs = vars
      and f = "\<lambda>v. Some (dotenv_stored v)"]
  by (simp add: wf_env_def update_dotenv_vars_def dotenv_stored_def)

lemma os_environ_update [simp]: "os_environ (update_dotenv_vars vars st) = os_environ st"
  by (simp add: update_dotenv_vars_def)

lemma dotenv_sq_decode_Cons: "c \<noteq> CHR 0x5C \<Longrightarrow> dotenv_sq_decode (c # s) = c # dotenv_sq_decode s"
  by (cases s) auto

text \<open>A value without backslashes is read back as it was written.\<close>

lemma dotenv_quote_map:
  "dotenv_quote s = concat (map (\<lambda>x. if x = CHR 0x27 then [CHR 0x5C, CHR 0x27] else [x]) s)"
  by (simp add: dotenv_quote_def py_replace_char)

lemma dotenv_roundtrip: "CHR 0x5C \<notin> set s \<Longrightarrow> dotenv_sq_decode (dotenv_quote s) = s"
  by (induction s) (auto simp: dotenv_quote_map dotenv_sq_decode_Cons)

lemma prefixed_config_lookup_wf:
  "wf_env st \<Longrightarrow> dict_get (prefixed_config p st) k =
     (if starts_with k p then map_option coerce_env_value (env_lookup st k) else None)"
  using dict_get_fold_set [where P = "\<lambda>k. starts_with k p" and f = coerce_env_value
      and xs = "all_env_vars st" and c = "[]"] wf_all_env_vars [of st]
  by (simp add: prefixed_config_def map_of_rev_distinct wf_dict_def dict_keys_def
      all_env_vars_lookup [symmetric] dict_get_def split: option.splits)

text \<open>A loop that stores \<open>f v\<close> under every key whose value satisfies \<open>Q\<close>.\<close>

lemma dict_get_fold_set_val:
  "dict_get (fold (\<lambda>(k, v) acc. if Q v then dict_set k (f v) acc else acc) xs c) k =
     (case map_of (rev (filter (\<lambda>(k, v). Q v) xs)) k of Some v \<Rightarrow> Some (f v) | None \<Rightarrow> dict_get c k)"
  by (induction xs arbitrary: c) (auto simp: map_add_def split: option.splits)

lemma wf_dict_fold_set_val:
  "wf_dict c \<Longrightarrow> wf_dict (fold (\<lambda>(k, v) acc. if Q v then dict_set k (f v) acc else acc) xs c)"
  by (induction xs arbitrary: c) auto

lemma settings_to_save_get:
  assumes "wf_dict d" and "dict_get d k = Some v"
  shows "map_of (rev (settings_to_save d)) k = Some (Some (settings_str v))"
proof -
  have dist: "distinct (map fst d)" using assms(1) by (simp add: wf_dict_def dict_keys_def)
  have wf: "wf_dict (settings_to_save d)"
    unfolding settings_to_save_def by (intro wf_dict_fold_set_val) (simp add: wf_dict_def dict_keys_def)
  have "dict_get (settings_to_save d) k = Some (Some (settings_str v))"
    using assms(2) unfolding settings_to_save_def dict_get_fold_set_val
    by (cases "v = JNull") (simp_all add: map_of_rev_filter_distinct [OF dist] dict_get_def)
  then show ?thesis using wf by (simp add: map_of_rev_distinct wf_dict_def dict_keys_def dict_get_def)
qed

section \<open>Claims\<close>

text \<open>C37 (refinement). The configuration \<open>get_handler\<close> builds for a provider holds,
  under every key starting with the provider's prefix and no other, the coerced value
  the abstract resolution order \<open>env_lookup\<close> gives: the process environment first,
  the \<open>.env\<close> file second. The spec promises the opposite order (the file is the
  source of truth and is not overridden by the process environment).\<close>

theorem prefixed_config_lookup:
  assumes "wf_env st"
  shows "dict_get (prefixed_config p st) k =
           (if starts_with k p then map_option coerce_env_value (env_lookup st k) else None)"
  using assms by (rule prefixed_config_lookup_wf)

theorem prefixed_config_lookup_witness:
  "dict_get (prefixed_config ''DEEPSEEK_''
      \<lparr>dotenv = [(''DEEPSEEK_TEMPERATURE'', Some ''0.5'')],
       os_environ = [(''DEEPSEEK_TEMPERATURE'', ''0.9'')]\<rparr>) ''DEEPSEEK_TEMPERATURE'' =
   Some (CFloat (Finite (9 / 10)))"
proof -
  let ?st = "\<lparr>dotenv = [(''DEEPSEEK_TEMPERATURE'', Some ''0.5'')],
              os_environ = [(''DEEPSEEK_TEMPERATURE'', ''0.9'')]\<rparr>"
  have "wf_env ?st" by (simp add: wf_env_def wf_dict_def dict_keys_def)
  from prefixed_config_lookup [OF this, of "''DEEPSEEK_''" "''DEEPSEEK_TEMPERATURE''"]
  show ?thesis
    by (simp add: env_lookup_def dict_get_def coerce_env_value_def py_float_def float_decimal_def
        udig_def float_exponent_def digits_nat_def digit_value_def is_digit_def dec_value_def
        Let_def py_simps)
qed

text \<open>(functional). Configuration is never cached: after the settings page writes a
  value with \<open>update_dotenv_vars\<close>, the next \<open>get_handler\<close> for a provider whose prefix
  the key carries sees the coerced new value, provided the process environment does
  not define the key and the value has no backslash (python-dotenv's quoting keeps
  every other string intact).\<close>

theorem saved_value_reaches_next_handler:
  assumes "wf_env st" and "starts_with k p" and "map_of (rev vars) k = Some (Some s)"
    and "dict_get (os_environ st) k = None" and "CHR 0x5C \<notin> set s"
  shows "dict_get (prefixed_config p (update_dotenv_vars vars st)) k = Some (coerce_env_value (Some s))"
  using assms wf_env_update [OF assms(1)]
  by (simp add: prefixed_config_lookup_wf env_lookup_def dotenv_update_lookup dotenv_stored_def
      dotenv_roundtrip)

theorem saved_value_reaches_next_handler_witness:
  "dict_get (prefixed_config ''OLLAMA_''
     (update_dotenv_vars [(''OLLAMA_DEFAULT_MODEL'', Some ''qwen2'')]
        \<lparr>dotenv = [(''OLLAMA_DEFAULT_MODEL'', Some ''llama3'')], os_environ = []\<rparr>))
     ''OLLAMA_DEFAULT_MODEL'' = Some (coerce_env_value (Some ''qwen2''))"
  by (rule saved_value_reaches_next_handler) (simp_all add: wf_env_def wf_dict_def dict_keys_def
      dict_get_def starts_with_def)

text \<open>(functional). A key the process environment defines shadows the \<open>.env\<close>
  file in \<open>get_handler\<close>: whatever the settings page saves under it, the handler keeps
  seeing the process environment's value.\<close>

theorem process_env_shadows_saved_value:
  assumes "wf_env st" and "starts_with k p" and "dict_get (os_environ st) k = Some w"
  shows "dict_get (prefixed_config p (update_dotenv_vars vars st)) k = Some (coerce_env_value (Some w))"
  using assms wf_env_update [OF assms(1)]
  by (simp add: prefixed_config_lookup_wf env_lookup_def)

theorem process_env_shadows_saved_value_witness:
  "dict_get (prefixed_config ''OLLAMA_''
     (update_dotenv_vars [(''OLLAMA_DEFAULT_MODEL'', Some ''qwen2'')]
        \<lparr>dotenv = [], os_environ = [(''OLLAMA_DEFAULT_MODEL'', ''llama3'')]\<rparr>))
     ''OLLAMA_DEFAULT_MODEL'' = Some (coerce_env_value (Some ''llama3''))"
  by (rule process_env_shadows_saved_value) (simp_all add: wf_env_def wf_dict_def dict_keys_def
      dict_get_def starts_with_def)

text \<open>C38 (roundtrip). An integer (of at most 4300 digits) or a boolean that the settings
  page saves with \<open>save_all_settings\<close> (written to \<open>.env\<close> as \<open>str(v)\<close> by
  \<open>update_dotenv_vars\<close>) is what the next \<open>get_handler\<close> of a provider whose prefix the
  key carries reads back through \<open>dotenv_values\<close> and the coercion of section 4.1: the
  same integer or boolean, provided the process environment does not define the key
  (otherwise it shadows the file, see \<open>process_env_shadows_saved_value\<close>).\<close>

theorem settings_int_bool_roundtrip:
  assumes "wf_env st" and "starts_with k p" and "dict_get (os_environ st) k = None"
    and "wf_dict d" and "dict_get d k = Some v"
    and "(\<exists>i. v = JInt i \<and> \<bar>i\<bar> < 10 ^ int_max_str_digits) \<or> (\<exists>b. v = JBool b)"
  shows "dict_get (prefixed_config p (save_all_settings d st)) k =
         Some (case v of JInt i \<Rightarrow> CInt i | JBool b \<Rightarrow> CBool b | _ \<Rightarrow> CNone)"
proof -
  have nb: "CHR 0x5C \<notin> set (settings_str v)"
    using assms(6) py_str_int_no_backslash by (auto split: if_splits)
  have c: "coerce_env_value (Some (settings_str v)) = (case v of JInt i \<Rightarrow> CInt i | JBool b \<Rightarrow> CBool b | _ \<Rightarrow> CNone)"
  proof (cases v)
    case (JInt i)
    then show ?thesis using assms(6) coerce_py_str_int [of i] by simp
  next
    case (JBool b)
    then show ?thesis by (cases b) (simp_all add: coerce_env_value_def py_simps)
  qed (use assms(6) in simp_all)
  show ?thesis
    using saved_value_reaches_next_handler [OF assms(1,2) settings_to_save_get [OF assms(4,5)] assms(3) nb] c
    by (simp add: save_all_settings_def)
qed

theorem settings_int_bool_roundtrip_witness:
  "dict_get (prefixed_config ''OLLAMA_''
     (save_all_settings [(''OLLAMA_NUM_CTX'', JInt (-2000)), (''OLLAMA_STREAM'', JBool False)]
        \<lparr>dotenv = [(''OLLAMA_NUM_CTX'', Some ''4096'')], os_environ = []\<rparr>))
     ''OLLAMA_NUM_CTX'' = Some (CInt (-2000))"
proof -
  have "\<bar>-2000::int\<bar> < 10 ^ int_max_str_digits" by (rule below_max_str_digits) simp
  then show ?thesis
    using settings_int_bool_roundtrip [of "\<lparr>dotenv = [(''OLLAMA_NUM_CTX'', Some ''4096'')], os_environ = []\<rparr>"
        "''OLLAMA_NUM_CTX''" "''OLLAMA_''" "[(''OLLAMA_NUM_CTX'', JInt (-2000)), (''OLLAMA_STREAM'', JBool False)]"
        "JInt (-2000)"]
    by (simp add: wf_env_def wf_dict_def dict_keys_def dict_get_def starts_with_def)
qed
end
