(* ===== verification/Registry.thy ===== *)
theory Registry
  imports Config
begin

text \<open>
  The provider registry of \<open>src/src/providers/factory.py\<close>. The module keeps three
  dicts (\<open>_handlers\<close>, \<open>_provider_aliases\<close>, \<open>_provider_metadata_map\<close>) and the flag
  \<open>_initialized\<close>; the class \<open>APIHandlerFactory\<close> binds its attributes of the same
  names to the same dict objects when the module is imported. \<open>initialize_handlers\<close>
  clears and refills the dicts in place, but \<open>_initialize_factory\<close> rebinds the module
  globals to new dicts, after which the class attributes (read by
  \<open>standardize_provider_name\<close>) and the globals (read by \<open>get_handler\<close> and
  \<open>get_provider_metadata\<close>) are different objects. So the registry is modelled as an
  explicit store: one list of dict objects per value type, addressed by index, with
  six references into it.

  The outside world the registry reads is a parameter: the parsed metadata file and
  the import machinery (\<open>importlib.import_module\<close> then \<open>getattr\<close> then the
  \<open>issubclass\<close> check), which answers for a module path and a class name.
\<close>

section \<open>Metadata\<close>

text \<open>An alias as found in the JSON list (a string, or another JSON value), and the
  \<open>aliases\<close> field of an entry.\<close>

datatype alias_elem = AStr string | ANonStr

datatype alias_field = AliasMissing | AliasList "alias_elem list" | AliasStr string | AliasOther

record provider_meta =
  standard_name :: "string option"
  display_name :: "string option"
  handler_module_path :: "string option"
  handler_class_name :: "string option"
  aliases :: alias_field
  env_prefix :: "string option"

datatype meta_entry = NotDict | Meta provider_meta

text \<open>What reading \<open>config/providers_meta.json\<close> gives.\<close>

datatype meta_source = FileMissing | FileUnreadable | BadJson | NotAList | EntryList "meta_entry list"

text \<open>A handler class is identified by its module path and class name.\<close>

type_synonym hcls = "string \<times> string"

datatype load_result = ImportFailed | AttributeMissing | NotHandlerSubclass | Loaded

record world =
  meta_file :: meta_source
  load_class :: "string \<Rightarrow> string \<Rightarrow> load_result"
  ctor_raises :: "hcls \<Rightarrow> (string, cvalue) pydict \<Rightarrow> bool"

text \<open>Python truthiness of an optional string field.\<close>

definition truthy :: "string option \<Rightarrow> bool" where
  "truthy v \<longleftrightarrow> (case v of Some s \<Rightarrow> s \<noteq> [] | None \<Rightarrow> False)"

section \<open>Name normalisation\<close>

text \<open>\<open>provider.lower().replace(" ", "").replace("-", "_")\<close>, used by
  \<open>standardize_provider_name\<close> and by \<open>initialize_handlers\<close> for aliases.\<close>

definition normalize_name :: "string \<Rightarrow> string" where
  "normalize_name p = py_replace ''-'' ''_'' (py_replace '' '' [] (py_lower p))"

text \<open>\<open>name.lower().replace("-", "_")\<close>, used by the module-level \<open>get_handler\<close> and by
  \<open>_initialize_factory\<close>: spaces are kept.\<close>

definition normalize_name_keep_spaces :: "string \<Rightarrow> string" where
  "normalize_name_keep_spaces p = py_replace ''-'' ''_'' (py_lower p)"

section \<open>The store\<close>

record factory_state =
  hstore :: "(string, hcls) pydict list"
  astore :: "(string, string) pydict list"
  mstore :: "(string, provider_meta) pydict list"
  g_handlers :: nat
  g_aliases :: nat
  g_meta :: nat
  cls_handlers :: nat
  cls_aliases :: nat
  cls_meta :: nat
  initialized :: bool

text \<open>The state right after \<open>import src.providers.factory\<close>.\<close>

definition factory_init :: factory_state where
  "factory_init =
     \<lparr>hstore = [[]], astore = [[]], mstore = [[]], g_handlers = 0, g_aliases = 0, g_meta = 0,
      cls_handlers = 0, cls_aliases = 0, cls_meta = 0, initialized = False\<rparr>"

definition handlers_of :: "factory_state \<Rightarrow> (string, hcls) pydict" where
  "handlers_of st = hstore st ! g_handlers st"

definition aliases_of :: "factory_state \<Rightarrow> (string, string) pydict" where
  "aliases_of st = astore st ! g_aliases st"

definition meta_of :: "factory_state \<Rightarrow> (string, provider_meta) pydict" where
  "meta_of st = mstore st ! g_meta st"

definition cls_handlers_of :: "factory_state \<Rightarrow> (string, hcls) pydict" where
  "cls_handlers_of st = hstore st ! cls_handlers st"

definition cls_aliases_of :: "factory_state \<Rightarrow> (string, string) pydict" where
  "cls_aliases_of st = astore st ! cls_aliases st"

definition set_handlers :: "(string, hcls) pydict \<Rightarrow> factory_state \<Rightarrow> factory_state" where
  "set_handlers d st = st\<lparr>hstore := (hstore st)[g_handlers st := d]\<rparr>"

definition set_aliases :: "(string, string) pydict \<Rightarrow> factory_state \<Rightarrow> factory_state" where
  "set_aliases d st = st\<lparr>astore := (astore st)[g_aliases st := d]\<rparr>"

definition set_meta :: "(string, provider_meta) pydict \<Rightarrow> factory_state \<Rightarrow> factory_state" where
  "set_meta d st = st\<lparr>mstore := (mstore st)[g_meta st := d]\<rparr>"

text \<open>Every reference points into its store: the type invariant of the model.\<close>

definition refs_ok :: "factory_state \<Rightarrow> bool" where
  "refs_ok st \<longleftrightarrow>
     g_handlers st < length (hstore st) \<and> cls_handlers st < length (hstore st) \<and>
     g_aliases st < length (astore st) \<and> cls_aliases st < length (astore st) \<and>
     g_meta st < length (mstore st) \<and> cls_meta st < length (mstore st)"

section \<open>initialize_handlers\<close>

text \<open>The alias loop of one entry (lines 324--329): the last registration of an alias
  wins; a non-string alias raises \<open>AttributeError\<close> on \<open>.lower()\<close>, which the entry's
  \<open>except Exception\<close> catches, leaving the aliases registered so far.\<close>

fun register_aliases :: "string \<Rightarrow> alias_elem list \<Rightarrow> (string, string) pydict \<Rightarrow> (string, string) pydict" where
  "register_aliases std [] d = d"
| "register_aliases std (AStr a # rest) d = register_aliases std rest (dict_set (normalize_name a) std d)"
| "register_aliases std (ANonStr # rest) d = d"

text \<open>One metadata entry (lines 275--340).\<close>

definition register_entry :: "world \<Rightarrow> meta_entry \<Rightarrow> factory_state \<Rightarrow> factory_state" where
  "register_entry w e st =
     (case e of
        NotDict \<Rightarrow> st
      | Meta m \<Rightarrow>
          if \<not> (truthy (standard_name m) \<and> truthy (handler_module_path m) \<and>
                 truthy (handler_class_name m) \<and> truthy (env_prefix m)) then st
          else
            (let std = the (standard_name m); mp = the (handler_module_path m);
                 cn = the (handler_class_name m);
                 als = (case aliases m of AliasList l \<Rightarrow> l | _ \<Rightarrow> [])
             in if load_class w mp cn \<noteq> Loaded then st
                else (let st1 = set_handlers (dict_set std (mp, cn) (handlers_of st)) st;
                          st2 = set_meta (dict_set std m (meta_of st1)) st1
                      in set_aliases (register_aliases std als (aliases_of st2)) st2)))"

definition initialize_handlers :: "world \<Rightarrow> factory_state \<Rightarrow> factory_state" where
  "initialize_handlers w st =
     (if initialized st then st
      else (let st0 = set_meta [] (set_aliases [] (set_handlers [] st))
            in case meta_file w of
                 EntryList es \<Rightarrow> (fold (register_entry w) es st0)\<lparr>initialized := True\<rparr>
               | _ \<Rightarrow> st0\<lparr>initialized := False\<rparr>))"

section \<open>standardize_provider_name\<close>

datatype factory_error = EmptyName | UnknownProvider | InitFailed

text \<open>Lines 66--110: the class attributes are read; an uninitialised factory is
  initialised first (a state change).\<close>

definition standardize_provider_name :: "world \<Rightarrow> string \<Rightarrow> factory_state
    \<Rightarrow> factory_state \<times> (factory_error + string)" where
  "standardize_provider_name w provider st =
     (if provider = [] then (st, Inl EmptyName)
      else (let normalized = normalize_name provider;
                st' = (if initialized st then st else initialize_handlers w st)
            in case dict_get (cls_aliases_of st') normalized of
                 Some std \<Rightarrow> (st', Inr std)
               | None \<Rightarrow> if dict_get (cls_handlers_of st') normalized \<noteq> None
                         then (st', Inr normalized) else (st', Inl UnknownProvider)))"

section \<open>_initialize_factory\<close>

text \<open>Lines 555--585: the entries with a truthy \<open>standard_name\<close>, keyed by it (a later
  entry replaces an earlier one in place); nothing when the file is missing, unreadable,
  not JSON or not a list.\<close>

definition load_metadata_map :: "meta_source \<Rightarrow> (string, provider_meta) pydict" where
  "load_metadata_map src =
     (case src of
        EntryList es \<Rightarrow>
          fold (\<lambda>e mm. case e of Meta md \<Rightarrow> if truthy (standard_name md)
                                             then dict_set (the (standard_name md)) md mm else mm
                               | NotDict \<Rightarrow> mm) es []
      | _ \<Rightarrow> [])"

text \<open>The alias loop of \<open>_initialize_factory\<close> (lines 622--628): the first
  registration of an alias wins, and an alias equal to the standard name is not
  stored. Iterating a string field iterates its characters; iterating any other
  non-list value, or calling \<open>.lower()\<close> on a non-string alias, raises and ends the loop.\<close>

fun register_aliases_first :: "string \<Rightarrow> alias_elem list \<Rightarrow> (string, string) pydict \<Rightarrow> (string, string) pydict" where
  "register_aliases_first std [] d = d"
| "register_aliases_first std (ANonStr # rest) d = d"
| "register_aliases_first std (AStr a # rest) d =
     (let n = normalize_name_keep_spaces a
      in register_aliases_first std rest
           (case dict_get d n of
              Some s \<Rightarrow> if s \<noteq> std then d else dict_set n std d
            | None \<Rightarrow> if n \<noteq> std then dict_set n std d else d))"

definition alias_elems :: "alias_field \<Rightarrow> alias_elem list option" where
  "alias_elems f = (case f of AliasMissing \<Rightarrow> Some [] | AliasList l \<Rightarrow> Some l
                            | AliasStr s \<Rightarrow> Some (map (\<lambda>c. AStr [c]) s) | AliasOther \<Rightarrow> None)"

definition register_provider_info :: "world \<Rightarrow> provider_meta \<Rightarrow> factory_state \<Rightarrow> factory_state" where
  "register_provider_info w m st =
     (if \<not> (truthy (standard_name m) \<and> truthy (handler_module_path m) \<and> truthy (handler_class_name m))
      then st
      else (let std = the (standard_name m); mp = the (handler_module_path m);
                cn = the (handler_class_name m)
            in if load_class w mp cn \<noteq> Loaded then st
               else (let st1 = set_handlers (dict_set std (mp, cn) (handlers_of st)) st
                     in case alias_elems (aliases m) of
                          None \<Rightarrow> st1
                        | Some als \<Rightarrow> set_aliases (register_aliases_first std als (aliases_of st1)) st1)))"

text \<open>Lines 543--639: a no-op once the global metadata map is non-empty; otherwise
  the three globals are rebound to fresh dicts (the class attributes keep the old
  ones) and every loaded entry is registered.\<close>

definition initialize_factory :: "world \<Rightarrow> factory_state \<Rightarrow> factory_state" where
  "initialize_factory w st =
     (if meta_of st \<noteq> [] then st
      else (let loaded = load_metadata_map (meta_file w)
            in if loaded = [] then st
               else (let st1 = st\<lparr>hstore := hstore st @ [[]], astore := astore st @ [[]],
                                  mstore := mstore st @ [loaded], g_handlers := length (hstore st),
                                  g_aliases := length (astore st), g_meta := length (mstore st)\<rparr>
                     in fold (register_provider_info w) (map snd loaded) st1)))"

section \<open>get_handler and get_provider_metadata\<close>

text \<open>A handler instance: its class and the configuration it was constructed with.\<close>

record handler =
  h_cls :: hcls
  h_config :: "(string, cvalue) pydict"

text \<open>\<open>next(meta for meta in _provider_metadata_map.values() if
  meta.get("standard_name") == standard_name)\<close>.\<close>

definition find_meta :: "(string, provider_meta) pydict \<Rightarrow> string \<Rightarrow> provider_meta option" where
  "find_meta mm std = find (\<lambda>m. standard_name m = Some std) (map snd mm)"

text \<open>The module-level \<open>get_handler\<close> (lines 373--461): a fresh instance built from the
  environment as it is at the call, or \<open>None\<close>.\<close>

definition get_handler :: "world \<Rightarrow> env_state \<Rightarrow> string \<Rightarrow> factory_state
    \<Rightarrow> factory_state \<times> handler option" where
  "get_handler w env name st =
     (let st1 = initialize_factory w st;
          normalized = normalize_name_keep_spaces name;
          std = (case dict_get (aliases_of st1) normalized of Some s \<Rightarrow> s | None \<Rightarrow> normalized)
      in case dict_get (handlers_of st1) std of
           None \<Rightarrow> (st1, None)
         | Some cls \<Rightarrow>
             (case find_meta (meta_of st1) std of
                None \<Rightarrow> (st1, None)
              | Some pm \<Rightarrow>
                  (let config = (if truthy (env_prefix pm) then prefixed_config (the (env_prefix pm)) env else []);
                       config' = dict_set ''provider_name'' (CStr std) config
                   in if ctor_raises w cls config' then (st1, None)
                      else (st1, Some \<lparr>h_cls = cls, h_config = config'\<rparr>))))"

text \<open>\<open>get_provider_metadata\<close> (lines 506--525): the class-attribute lookup of
  \<open>standardize_provider_name\<close>, then the global metadata map.\<close>

definition get_provider_metadata :: "world \<Rightarrow> string \<Rightarrow> factory_state
    \<Rightarrow> factory_state \<times> provider_meta option" where
  "get_provider_metadata w name st =
     (let st1 = (if initialized st then st else initialize_handlers w st)
      in case standardize_provider_name w name st1 of
           (st2, Inl _) \<Rightarrow> (st2, None)
         | (st2, Inr std) \<Rightarrow> (st2, dict_get (meta_of st2) std))"

section \<open>The factory as a state machine\<close>

text \<open>Every alias in an alias dict names a key of the handler dict it is read with.\<close>

definition alias_closed :: "(string, string) pydict \<Rightarrow> (string, hcls) pydict \<Rightarrow> bool" where
  "alias_closed al h \<longleftrightarrow> list_all (\<lambda>(a, s). dict_get h s \<noteq> None) al"

text \<open>The class attributes and the globals are rebound together: the handler references
  coincide exactly when the alias references do.\<close>

definition views_sync :: "factory_state \<Rightarrow> bool" where
  "views_sync st \<longleftrightarrow> (g_handlers st = cls_handlers st) = (g_aliases st = cls_aliases st)"

text \<open>The invariant of the registry: references into the store, rebinding in step, and
  every alias resolving to a registered handler, in the globals' view and in the class
  attributes' view.\<close>

definition factory_inv :: "factory_state \<Rightarrow> bool" where
  "factory_inv st \<longleftrightarrow> refs_ok st \<and> views_sync st \<and>
     alias_closed (aliases_of st) (handlers_of st) \<and> alias_closed (cls_aliases_of st) (cls_handlers_of st)"

text \<open>The class attributes no longer share the globals' dicts (after
  \<open>_initialize_factory\<close> rebinds the globals).\<close>

definition detached :: "factory_state \<Rightarrow> bool" where
  "detached st \<longleftrightarrow> refs_ok st \<and> cls_handlers st \<noteq> g_handlers st \<and> cls_aliases st \<noteq> g_aliases st"

text \<open>What \<open>standardize_provider_name\<close> reads: the class attributes' handler and alias dicts.\<close>

definition cls_view :: "factory_state \<Rightarrow> (string, hcls) pydict \<times> (string, string) pydict" where
  "cls_view st = (cls_handlers_of st, cls_aliases_of st)"

text \<open>The operations the rest of the program calls on the registry: \<open>initialize_handlers\<close>
  (at start-up, \<open>backend_main.py\<close> line 160), \<open>standardize_provider_name\<close>,
  \<open>get_handler\<close> (the routes) and \<open>get_provider_metadata\<close> (the adapters'
  parameter resolution), in any order; a state is reachable from the state after import.\<close>

inductive factory_step :: "world \<Rightarrow> env_state \<Rightarrow> factory_state \<Rightarrow> factory_state \<Rightarrow> bool"
  for w env where
  startup: "factory_step w env st (initialize_handlers w st)"
| standardize: "factory_step w env st (fst (standardize_provider_name w p st))"
| handler: "factory_step w env st (fst (get_handler w env p st))"
| metadata: "factory_step w env st (fst (get_provider_metadata w p st))"

inductive factory_reachable :: "world \<Rightarrow> env_state \<Rightarrow> factory_state \<Rightarrow> bool" for w env where
  import: "factory_reachable w env factory_init"
| step: "factory_reachable w env st \<Longrightarrow> factory_step w env st st' \<Longrightarrow> factory_reachable w env st'"

text \<open>A world with one DeepSeek entry whose class loads, used by the examples.\<close>

definition deepseek_meta :: provider_meta where
  "deepseek_meta = \<lparr>standard_name = Some ''deepseek_ai'', display_name = Some ''DeepSeek'',
     handler_module_path = Some ''src.providers.handlers.deepseek_ai'',
     handler_class_name = Some ''DeepSeekAIHandler'',
     aliases = AliasList [AStr ''DeepSeek'', AStr ''deep-seek''], env_prefix = Some ''DEEPSEEK_''\<rparr>"

definition example_world :: world where
  "example_world = \<lparr>meta_file = EntryList [Meta deepseek_meta], load_class = (\<lambda>_ _. Loaded),
     ctor_raises = (\<lambda>_ _. False)\<rparr>"

definition empty_env :: env_state where
  "empty_env = \<lparr>dotenv = [], os_environ = []\<rparr>"

section \<open>Store lemmas\<close>

lemmas view_defs = handlers_of_def aliases_of_def meta_of_def cls_handlers_of_def cls_aliases_of_def

lemma set_handlers_views [simp]:
  assumes "refs_ok st"
  shows "handlers_of (set_handlers d st) = d" "aliases_of (set_handlers d st) = aliases_of st"
    "meta_of (set_handlers d st) = meta_of st" "cls_aliases_of (set_handlers d st) = cls_aliases_of st"
    "cls_handlers_of (set_handlers d st) = (if cls_handlers st = g_handlers st then d else cls_handlers_of st)"
    "refs_ok (set_handlers d st)" "views_sync (set_handlers d st) = views_sync st"
    "initialized (set_handlers d st) = initialized st"
  using assms by (auto simp: set_handlers_def view_defs refs_ok_def views_sync_def)

lemma set_aliases_views [simp]:
  assumes "refs_ok st"
  shows "aliases_of (set_aliases d st) = d" "handlers_of (set_aliases d st) = handlers_of st"
    "meta_of (set_aliases d st) = meta_of st" "cls_handlers_of (set_aliases d st) = cls_handlers_of st"
    "cls_aliases_of (set_aliases d st) = (if cls_aliases st = g_aliases st then d else cls_aliases_of st)"
    "refs_ok (set_aliases d st)" "views_sync (set_aliases d st) = views_sync st"
    "initialized (set_aliases d st) = initialized st"
  using assms by (auto simp: set_aliases_def view_defs refs_ok_def views_sync_def)

lemma set_meta_views [simp]:
  assumes "refs_ok st"
  shows "meta_of (set_meta d st) = d" "handlers_of (set_meta d st) = handlers_of st"
    "aliases_of (set_meta d st) = aliases_of st" "cls_handlers_of (set_meta d st) = cls_handlers_of st"
    "cls_aliases_of (set_meta d st) = cls_aliases_of st"
    "refs_ok (set_meta d st)" "views_sync (set_meta d st) = views_sync st"
    "initialized (set_meta d st) = initialized st"
  using assms by (auto simp: set_meta_def view_defs refs_ok_def views_sync_def)

lemma set_refs [simp]:
  "g_handlers (set_handlers d st) = g_handlers st" "g_aliases (set_handlers d st) = g_aliases st"
  "cls_handlers (set_handlers d st) = cls_handlers st" "cls_aliases (set_handlers d st) = cls_aliases st"
  "g_handlers (set_aliases a st) = g_handlers st" "g_aliases (set_aliases a st) = g_aliases st"
  "cls_handlers (set_aliases a st) = cls_handlers st" "cls_aliases (set_aliases a st) = cls_aliases st"
  "g_handlers (set_meta m st) = g_handlers st" "g_aliases (set_meta m st) = g_aliases st"
  "cls_handlers (set_meta m st) = cls_handlers st" "cls_aliases (set_meta m st) = cls_aliases st"
  by (simp_all add: set_handlers_def set_aliases_def set_meta_def)

lemma alias_closed_set_handler [simp]:
  "alias_closed al h \<Longrightarrow> alias_closed al (dict_set k v h)"
  by (auto simp: alias_closed_def list_all_iff)

lemma alias_closed_empty [simp]: "alias_closed [] h"
  by (simp add: alias_closed_def)

lemma alias_closed_set_alias:
  "alias_closed al h \<Longrightarrow> dict_get h s \<noteq> None \<Longrightarrow> alias_closed (dict_set a s al) h"
proof (induction al)
  case Nil
  then show ?case by (simp add: alias_closed_def)
next
  case (Cons x al)
  then show ?case by (cases x) (auto simp: alias_closed_def)
qed

lemma alias_closed_register:
  "alias_closed al h \<Longrightarrow> dict_get h s \<noteq> None \<Longrightarrow> alias_closed (register_aliases s als al) h"
  by (induction s als al rule: register_aliases.induct) (auto simp: alias_closed_set_alias)

lemma alias_closed_register_first:
  "alias_closed al h \<Longrightarrow> dict_get h s \<noteq> None \<Longrightarrow> alias_closed (register_aliases_first s als al) h"
  by (induction s als al rule: register_aliases_first.induct)
     (auto simp: alias_closed_set_alias Let_def split: option.splits)

lemma views_cases:
  assumes "refs_ok st" "views_sync st"
  obtains "cls_handlers st = g_handlers st" "cls_aliases st = g_aliases st"
      "cls_handlers_of st = handlers_of st" "cls_aliases_of st = aliases_of st"
  | "cls_handlers st \<noteq> g_handlers st" "cls_aliases st \<noteq> g_aliases st"
  using assms by (auto simp: views_sync_def view_defs)

section \<open>The invariant\<close>

lemma register_entry_inv:
  assumes "factory_inv st" shows "factory_inv (register_entry w e st)"
proof -
  { fix m std mp cn als
    let ?st1 = "set_handlers (dict_set std (mp, cn) (handlers_of st)) st"
    let ?st2 = "set_meta (dict_set std m (meta_of ?st1)) ?st1"
    have r: "refs_ok st" "views_sync st" using assms by (auto simp: factory_inv_def)
    have "factory_inv (set_aliases (register_aliases std als (aliases_of ?st2)) ?st2)"
      using r by (cases rule: views_cases)
        (use assms in \<open>auto simp: factory_inv_def alias_closed_register\<close>)
  }
  then show ?thesis using assms by (simp add: register_entry_def Let_def split: meta_entry.splits)
qed

lemma fold_register_entry_inv:
  "factory_inv st \<Longrightarrow> factory_inv (fold (register_entry w) es st)"
  by (induction es arbitrary: st) (simp_all add: register_entry_inv)

lemma factory_inv_initialized [simp]:
  "factory_inv (st\<lparr>initialized := b\<rparr>) = factory_inv st"
  by (simp add: factory_inv_def refs_ok_def views_sync_def view_defs)

lemma initialize_handlers_inv:
  assumes "factory_inv st" shows "factory_inv (initialize_handlers w st)"
proof -
  have r: "refs_ok st" "views_sync st" using assms by (auto simp: factory_inv_def)
  have "factory_inv (set_meta [] (set_aliases [] (set_handlers [] st)))"
    using r by (cases rule: views_cases) (use assms in \<open>auto simp: factory_inv_def\<close>)
  then show ?thesis using assms
    by (auto simp: initialize_handlers_def Let_def fold_register_entry_inv split: meta_source.splits)
qed

lemma register_provider_info_inv:
  assumes "factory_inv st" shows "factory_inv (register_provider_info w m st)"
proof -
  { fix std mp cn als
    let ?st1 = "set_handlers (dict_set std (mp, cn) (handlers_of st)) st"
    have r: "refs_ok st" "views_sync st" using assms by (auto simp: factory_inv_def)
    have "factory_inv ?st1" using r by (cases rule: views_cases) (use assms in \<open>auto simp: factory_inv_def\<close>)
    moreover have "factory_inv (set_aliases (register_aliases_first std als (aliases_of ?st1)) ?st1)"
      using r by (cases rule: views_cases)
        (use assms in \<open>auto simp: factory_inv_def alias_closed_register_first\<close>)
    ultimately have "factory_inv ?st1 \<and> factory_inv (set_aliases (register_aliases_first std als (aliases_of ?st1)) ?st1)" ..
  }
  then show ?thesis using assms
    by (simp add: register_provider_info_def Let_def split: option.splits)
qed

lemma fold_register_provider_info_inv:
  "factory_inv st \<Longrightarrow> factory_inv (fold (register_provider_info w) ms st)"
  by (induction ms arbitrary: st) (simp_all add: register_provider_info_inv)

lemma initialize_factory_inv:
  assumes "factory_inv st" shows "factory_inv (initialize_factory w st)"
proof -
  let ?st1 = "st\<lparr>hstore := hstore st @ [[]], astore := astore st @ [[]],
                 mstore := mstore st @ [load_metadata_map (meta_file w)], g_handlers := length (hstore st),
                 g_aliases := length (astore st), g_meta := length (mstore st)\<rparr>"
  have "factory_inv ?st1" using assms
    by (auto simp: factory_inv_def refs_ok_def views_sync_def view_defs nth_append)
  then show ?thesis using assms
    by (simp add: initialize_factory_def Let_def fold_register_provider_info_inv)
qed

lemma standardize_inv:
  "factory_inv st \<Longrightarrow> factory_inv (fst (standardize_provider_name w p st))"
  by (auto simp: standardize_provider_name_def Let_def initialize_handlers_inv split: option.splits)

lemma get_handler_inv:
  "factory_inv st \<Longrightarrow> factory_inv (fst (get_handler w env p st))"
  by (auto simp: get_handler_def Let_def initialize_factory_inv split: option.splits)

lemma get_provider_metadata_inv:
  assumes "factory_inv st" shows "factory_inv (fst (get_provider_metadata w p st))"
proof -
  let ?st1 = "if initialized st then st else initialize_handlers w st"
  have "factory_inv (fst (standardize_provider_name w p ?st1))"
    using assms by (simp add: initialize_handlers_inv standardize_inv)
  then show ?thesis
    by (cases "standardize_provider_name w p ?st1")
       (auto simp: get_provider_metadata_def Let_def split: sum.splits)
qed

lemma factory_init_inv: "factory_inv factory_init"
  by (simp add: factory_inv_def factory_init_def refs_ok_def views_sync_def view_defs)

inductive_cases factory_stepE: "factory_step w env st st'"

lemma factory_step_inv:
  "factory_step w env st st' \<Longrightarrow> factory_inv st \<Longrightarrow> factory_inv st'"
  by (erule factory_stepE)
     (simp_all add: initialize_handlers_inv standardize_inv get_handler_inv get_provider_metadata_inv)

text \<open>C3 (invariant). Every state the registry reaches, through any sequence of start-up,
  name standardisation, \<open>get_handler\<close> and metadata lookups, keeps its references
  valid, rebinds the class attributes and the globals together, and maps every alias
  (in both views) to a registered handler.\<close>

theorem reachable_factory_inv:
  "factory_reachable w env st \<Longrightarrow> factory_inv st"
  by (induction rule: factory_reachable.induct) (simp_all add: factory_init_inv factory_step_inv)

theorem reachable_factory_inv_witness:
  "factory_inv (fst (get_handler example_world empty_env ''deepseek'' factory_init))"
  by (rule reachable_factory_inv [OF factory_reachable.step [OF factory_reachable.import factory_step.handler]])

lemma standardize_state:
  "fst (standardize_provider_name w p st) = (if p = [] \<or> initialized st then st else initialize_handlers w st)"
  by (simp add: standardize_provider_name_def Let_def split: option.splits)

lemma alias_closed_get:
  "alias_closed al h \<Longrightarrow> dict_get al a = Some s \<Longrightarrow> dict_get h s \<noteq> None"
  by (induction al) (auto simp: alias_closed_def dict_get_def split: if_splits)

lemma standardize_Inr:
  assumes "snd (standardize_provider_name w p st) = Inr s"
  shows "dict_get (cls_aliases_of (fst (standardize_provider_name w p st))) (normalize_name p) = Some s \<or>
         dict_get (cls_handlers_of (fst (standardize_provider_name w p st))) s \<noteq> None"
proof (cases "initialized st")
  case True
  then show ?thesis using assms
    by (auto simp: standardize_provider_name_def Let_def split: option.splits if_splits)
next
  case False
  then show ?thesis using assms
    by (auto simp: standardize_provider_name_def Let_def split: option.splits if_splits)
qed

text \<open>C4 (safety). \<open>standardize_provider_name\<close> never returns a guessed value: in every
  reachable state, a name it returns has a registered handler class in the dicts it read.\<close>

theorem standardize_registered:
  assumes "factory_reachable w env st"
    and "snd (standardize_provider_name w p st) = Inr s"
  shows "dict_get (cls_handlers_of (fst (standardize_provider_name w p st))) s \<noteq> None"
proof -
  have "factory_inv (fst (standardize_provider_name w p st))"
    using reachable_factory_inv [OF assms(1)] by (rule standardize_inv)
  then have "alias_closed (cls_aliases_of (fst (standardize_provider_name w p st)))
                          (cls_handlers_of (fst (standardize_provider_name w p st)))"
    by (simp add: factory_inv_def)
  then show ?thesis using standardize_Inr [OF assms(2)] alias_closed_get by blast
qed

theorem standardize_registered_witness:
  "snd (standardize_provider_name example_world ''DeepSeek'' (initialize_handlers example_world factory_init))
     = Inr ''deepseek_ai'' \<and>
   dict_get (cls_handlers_of (fst (standardize_provider_name example_world ''DeepSeek''
     (initialize_handlers example_world factory_init)))) ''deepseek_ai'' \<noteq> None"
proof -
  have r: "factory_reachable example_world empty_env (initialize_handlers example_world factory_init)"
    by (rule factory_reachable.step [OF factory_reachable.import factory_step.startup])
  have s: "snd (standardize_provider_name example_world ''DeepSeek'' (initialize_handlers example_world factory_init))
     = Inr ''deepseek_ai''" by code_simp
  show ?thesis using standardize_registered [OF r s] s by simp
qed

section \<open>The class attributes after _initialize_factory\<close>

lemma detached_setters [simp]:
  "detached st \<Longrightarrow> detached (set_handlers d st) \<and> cls_view (set_handlers d st) = cls_view st"
  "detached st \<Longrightarrow> detached (set_aliases a st) \<and> cls_view (set_aliases a st) = cls_view st"
  "detached st \<Longrightarrow> detached (set_meta m st) \<and> cls_view (set_meta m st) = cls_view st"
  by (auto simp: detached_def cls_view_def)

lemma detached_initialized [simp]:
  "detached (st\<lparr>initialized := b\<rparr>) = detached st" "cls_view (st\<lparr>initialized := b\<rparr>) = cls_view st"
  by (simp_all add: detached_def refs_ok_def cls_view_def view_defs)

lemma detached_register_entry:
  "detached st \<Longrightarrow> detached (register_entry w e st) \<and> cls_view (register_entry w e st) = cls_view st"
  by (simp add: register_entry_def Let_def split: meta_entry.splits)

lemma detached_fold_register_entry:
  "detached st \<Longrightarrow> detached (fold (register_entry w) es st) \<and> cls_view (fold (register_entry w) es st) = cls_view st"
  by (induction es arbitrary: st) (simp_all, metis detached_register_entry)

lemma detached_initialize_handlers:
  assumes "detached st"
  shows "detached (initialize_handlers w st) \<and> cls_view (initialize_handlers w st) = cls_view st"
proof -
  let ?st0 = "set_meta [] (set_aliases [] (set_handlers [] st))"
  have "detached ?st0 \<and> cls_view ?st0 = cls_view st" using assms by simp
  then have "\<And>es. detached (fold (register_entry w) es ?st0) \<and>
                    cls_view (fold (register_entry w) es ?st0) = cls_view st"
    using detached_fold_register_entry by metis
  then show ?thesis using assms
    by (auto simp: initialize_handlers_def Let_def split: meta_source.splits)
qed

lemma detached_register_provider_info:
  "detached st \<Longrightarrow> detached (register_provider_info w m st) \<and> cls_view (register_provider_info w m st) = cls_view st"
  by (simp add: register_provider_info_def Let_def split: option.splits)

lemma detached_fold_register_provider_info:
  "detached st \<Longrightarrow> detached (fold (register_provider_info w) ms st) \<and> cls_view (fold (register_provider_info w) ms st) = cls_view st"
  by (induction ms arbitrary: st) (simp_all, metis detached_register_provider_info)

lemma detached_initialize_factory:
  assumes "detached st" shows "detached (initialize_factory w st) \<and> cls_view (initialize_factory w st) = cls_view st"
proof -
  let ?st1 = "st\<lparr>hstore := hstore st @ [[]], astore := astore st @ [[]],
                 mstore := mstore st @ [load_metadata_map (meta_file w)], g_handlers := length (hstore st),
                 g_aliases := length (astore st), g_meta := length (mstore st)\<rparr>"
  have "detached ?st1 \<and> cls_view ?st1 = cls_view st" using assms
    by (auto simp: detached_def refs_ok_def cls_view_def view_defs nth_append)
  then show ?thesis using assms
    by (auto simp: initialize_factory_def Let_def dest: detached_fold_register_provider_info)
qed

lemma detached_step:
  assumes "factory_step w env st st'" "detached st"
  shows "detached st' \<and> cls_view st' = cls_view st"
  using assms
proof (cases rule: factory_step.cases)
  case (metadata p)
  let ?st1 = "if initialized st then st else initialize_handlers w st"
  have d: "detached ?st1 \<and> cls_view ?st1 = cls_view st"
    using assms(2) detached_initialize_handlers by auto
  then have "detached (fst (standardize_provider_name w p ?st1)) \<and>
             cls_view (fst (standardize_provider_name w p ?st1)) = cls_view st"
    by (auto simp: standardize_state dest: detached_initialize_handlers)
  then show ?thesis using metadata
    by (cases "standardize_provider_name w p ?st1") (auto simp: get_provider_metadata_def split: sum.splits)
qed (auto simp: standardize_state get_handler_def Let_def split: option.splits
          dest: detached_initialize_handlers detached_initialize_factory)

lemma standardize_empty_view:
  assumes "detached st" "cls_view st = ([], [])" "p \<noteq> []"
  shows "snd (standardize_provider_name w p st) = Inl UnknownProvider"
proof -
  let ?st' = "if initialized st then st else initialize_handlers w st"
  have "cls_view ?st' = ([], [])" using assms detached_initialize_handlers by auto
  then show ?thesis using assms(3)
    by (simp add: standardize_provider_name_def cls_view_def Let_def dict_get_def)
qed

lemma get_handler_first_detaches:
  assumes "load_metadata_map (meta_file w) \<noteq> []"
  shows "detached (fst (get_handler w env n factory_init)) \<and>
         cls_view (fst (get_handler w env n factory_init)) = ([], [])"
proof -
  have "detached (initialize_factory w factory_init) \<and> cls_view (initialize_factory w factory_init) = ([], [])"
  proof -
    let ?st1 = "factory_init\<lparr>hstore := hstore factory_init @ [[]], astore := astore factory_init @ [[]],
                 mstore := mstore factory_init @ [load_metadata_map (meta_file w)],
                 g_handlers := length (hstore factory_init),
                 g_aliases := length (astore factory_init), g_meta := length (mstore factory_init)\<rparr>"
    have "detached ?st1 \<and> cls_view ?st1 = ([], [])"
      by (simp add: detached_def refs_ok_def cls_view_def view_defs factory_init_def)
    then show ?thesis using assms detached_fold_register_provider_info
      by (simp add: initialize_factory_def meta_of_def factory_init_def Let_def)
  qed
  then show ?thesis by (simp add: get_handler_def Let_def split: option.splits)
qed

lemma early_get_handler_stale:
  assumes "load_metadata_map (meta_file w) \<noteq> []"
    and "(factory_step w env)\<^sup>*\<^sup>* (fst (get_handler w env n factory_init)) st"
  shows "detached st \<and> cls_view st = ([], [])"
  using assms(2)
proof (induction rule: rtranclp_induct)
  case base
  then show ?case using get_handler_first_detaches [OF assms(1)] by simp
next
  case (step y z)
  then show ?case using detached_step by metis
qed

lemma metadata_empty_view:
  assumes "detached st" "cls_view st = ([], [])" "p \<noteq> []"
  shows "snd (get_provider_metadata w p st) = None"
proof -
  let ?st1 = "if initialized st then st else initialize_handlers w st"
  have "detached ?st1 \<and> cls_view ?st1 = ([], [])" using assms detached_initialize_handlers by auto
  then have "snd (standardize_provider_name w p ?st1) = Inl UnknownProvider"
    using standardize_empty_view assms(3) by blast
  then show ?thesis
    by (cases "standardize_provider_name w p ?st1") (simp add: get_provider_metadata_def)
qed

text \<open>C5 (safety; a bug). If a route calls the module-level \<open>get_handler\<close> before
  \<open>initialize_handlers\<close> has run (and the metadata file lists an entry),
  \<open>_initialize_factory\<close> rebinds the globals, and from then on, whatever is called,
  \<open>standardize_provider_name\<close> rejects every non-empty name and
  \<open>get_provider_metadata\<close> finds nothing, because the class attributes still name the
  old, empty dicts.\<close>

theorem handler_before_startup_breaks_standardize:
  assumes "load_metadata_map (meta_file w) \<noteq> []"
    and "(factory_step w env)\<^sup>*\<^sup>* (fst (get_handler w env n factory_init)) st"
    and "p \<noteq> []"
  shows "snd (standardize_provider_name w p st) = Inl UnknownProvider \<and>
         snd (get_provider_metadata w p st) = None"
  using early_get_handler_stale [OF assms(1,2)] standardize_empty_view metadata_empty_view assms(3)
  by blast

theorem handler_before_startup_breaks_standardize_witness:
  "snd (get_handler example_world empty_env ''deepseek_ai'' factory_init) \<noteq> None \<and>
   snd (standardize_provider_name example_world ''DeepSeek''
          (fst (get_handler example_world empty_env ''deepseek_ai'' factory_init))) = Inl UnknownProvider"
proof -
  have l: "load_metadata_map (meta_file example_world) \<noteq> []" by code_simp
  have "snd (standardize_provider_name example_world ''DeepSeek''
          (fst (get_handler example_world empty_env ''deepseek_ai'' factory_init))) = Inl UnknownProvider"
    using handler_before_startup_breaks_standardize [OF l rtranclp.rtrancl_refl, where p = "''DeepSeek''"]
    by simp
  moreover have "snd (get_handler example_world empty_env ''deepseek_ai'' factory_init) \<noteq> None" by code_simp
  ultimately show ?thesis by simp
qed

end
