(* ===== verification/Registry_Resolution.thy ===== *)
theory Registry_Resolution
  imports Registry
begin

text \<open>
  What the registry promises after start-up, stated over the metadata entries without
  the store: \<open>resolve\<close> is the abstract alias resolution (the last registration of an
  alias wins, then the standard names), and \<open>known_names\<close> every name the metadata
  file could make the registry answer to. The lemmas show that
  \<open>standardize_provider_name\<close> after \<open>initialize_handlers\<close> implements \<open>resolve\<close>,
  that it is total and deterministic where the metadata has no alias collisions, that
  \<open>get_handler\<close> keeps no state between calls that depends on the environment, that a
  name the file does not mention never yields a handler, and that nothing changes the
  registry after a successful start-up. Two concrete runs show where the code departs
  from the normalisation the spec describes.
\<close>

section \<open>The abstract resolution\<close>

text \<open>The aliases \<open>initialize_handlers\<close> registers from a JSON list: those before the
  first non-string element.\<close>

fun alias_prefix :: "alias_elem list \<Rightarrow> string list" where
  "alias_prefix [] = []"
| "alias_prefix (AStr a # rest) = a # alias_prefix rest"
| "alias_prefix (ANonStr # rest) = []"

text \<open>What one entry registers, if anything: its standard name, its class and its aliases
  (the guards of lines 275--322).\<close>

definition entry_registers :: "world \<Rightarrow> meta_entry \<Rightarrow> (string \<times> hcls \<times> string list) option" where
  "entry_registers w e =
     (case e of
        NotDict \<Rightarrow> None
      | Meta m \<Rightarrow>
          if \<not> (truthy (standard_name m) \<and> truthy (handler_module_path m) \<and>
                 truthy (handler_class_name m) \<and> truthy (env_prefix m)) then None
          else if load_class w (the (handler_module_path m)) (the (handler_class_name m)) \<noteq> Loaded then None
          else Some (the (standard_name m), (the (handler_module_path m), the (handler_class_name m)),
                     alias_prefix (case aliases m of AliasList l \<Rightarrow> l | _ \<Rightarrow> [])))"

definition registry_names :: "world \<Rightarrow> meta_entry list \<Rightarrow> (string \<times> hcls) list" where
  "registry_names w es = concat (map (\<lambda>e. case entry_registers w e of None \<Rightarrow> [] | Some (s, c, _) \<Rightarrow> [(s, c)]) es)"

definition registry_aliases :: "world \<Rightarrow> meta_entry list \<Rightarrow> (string \<times> string) list" where
  "registry_aliases w es = concat (map (\<lambda>e. case entry_registers w e of None \<Rightarrow> []
        | Some (s, _, als) \<Rightarrow> map (\<lambda>a. (normalize_name a, s)) als) es)"

text \<open>Alias resolution as the spec describes it, over the entries: the last registration of an
  alias wins; a name that is no alias resolves to itself if it is a registered standard name.\<close>

definition resolve :: "world \<Rightarrow> meta_entry list \<Rightarrow> string \<Rightarrow> factory_error + string" where
  "resolve w es p =
     (if p = [] then Inl EmptyName
      else (let n = normalize_name p
            in case map_of (rev (registry_aliases w es)) n of
                 Some s \<Rightarrow> Inr s
               | None \<Rightarrow> if map_of (rev (registry_names w es)) n \<noteq> None then Inr n else Inl UnknownProvider))"

text \<open>Every name the metadata file mentions: standard names, and every alias under both
  normalisations.\<close>

definition file_entries :: "world \<Rightarrow> provider_meta list" where
  "file_entries w = (case meta_file w of
     EntryList es \<Rightarrow> concat (map (\<lambda>e. case e of Meta m \<Rightarrow> [m] | NotDict \<Rightarrow> []) es) | _ \<Rightarrow> [])"

definition alias_strings :: "alias_elem list \<Rightarrow> string list" where
  "alias_strings l = concat (map (\<lambda>x. case x of AStr a \<Rightarrow> [a] | ANonStr \<Rightarrow> []) l)"

definition known_names :: "world \<Rightarrow> string list" where
  "known_names w = concat (map (\<lambda>m. (case standard_name m of Some s \<Rightarrow> [s] | None \<Rightarrow> []) @
     concat (map (\<lambda>a. [normalize_name a, normalize_name_keep_spaces a])
       (alias_strings (case alias_elems (aliases m) of Some l \<Rightarrow> l | None \<Rightarrow> [])))) (file_entries w))"

text \<open>The globals' dicts hold only names the file mentions.\<close>

definition names_known :: "world \<Rightarrow> factory_state \<Rightarrow> bool" where
  "names_known w st \<longleftrightarrow> refs_ok st \<and> set (dict_keys (handlers_of st)) \<subseteq> set (known_names w) \<and>
     set (dict_keys (aliases_of st)) \<subseteq> set (known_names w)"

section \<open>Start-up refines the abstract resolution\<close>

lemma register_aliases_merge:
  "register_aliases std als d = dict_merge d (map (\<lambda>a. (normalize_name a, std)) (alias_prefix als))"
  by (induction std als d rule: register_aliases.induct) (simp_all add: dict_merge_Cons)

lemma refs_setters [simp]:
  "g_handlers (register_entry w e st) = g_handlers st \<and> g_aliases (register_entry w e st) = g_aliases st \<and>
   cls_handlers (register_entry w e st) = cls_handlers st \<and> cls_aliases (register_entry w e st) = cls_aliases st"
  by (simp add: register_entry_def Let_def split: meta_entry.splits)

lemma register_entry_views:
  assumes "refs_ok st"
  shows "refs_ok (register_entry w e st) \<and>
    handlers_of (register_entry w e st) =
      dict_merge (handlers_of st) (case entry_registers w e of None \<Rightarrow> [] | Some (s, c, _) \<Rightarrow> [(s, c)]) \<and>
    aliases_of (register_entry w e st) =
      dict_merge (aliases_of st) (case entry_registers w e of None \<Rightarrow> []
        | Some (s, _, als) \<Rightarrow> map (\<lambda>a. (normalize_name a, s)) als)"
  using assms
  by (simp add: register_entry_def entry_registers_def Let_def register_aliases_merge dict_merge_Cons
      split: meta_entry.splits alias_field.splits)

lemma fold_register_entry_views:
  assumes "refs_ok st"
  shows "refs_ok (fold (register_entry w) es st) \<and>
    handlers_of (fold (register_entry w) es st) = dict_merge (handlers_of st) (registry_names w es) \<and>
    aliases_of (fold (register_entry w) es st) = dict_merge (aliases_of st) (registry_aliases w es) \<and>
    g_handlers (fold (register_entry w) es st) = g_handlers st \<and> g_aliases (fold (register_entry w) es st) = g_aliases st \<and>
    cls_handlers (fold (register_entry w) es st) = cls_handlers st \<and> cls_aliases (fold (register_entry w) es st) = cls_aliases st"
  using assms
proof (induction es arbitrary: st)
  case Nil
  then show ?case by (simp add: registry_names_def registry_aliases_def)
next
  case (Cons e es)
  then show ?case using register_entry_views [OF Cons.prems, of w e]
    by (simp add: registry_names_def registry_aliases_def dict_merge_append)
qed

lemma startup_views:
  assumes "meta_file w = EntryList es"
  shows "cls_handlers_of (initialize_handlers w factory_init) = dict_merge [] (registry_names w es) \<and>
         cls_aliases_of (initialize_handlers w factory_init) = dict_merge [] (registry_aliases w es)"
proof -
  let ?st0 = "set_meta [] (set_aliases [] (set_handlers [] factory_init))"
  have r: "refs_ok ?st0" and h: "handlers_of ?st0 = []" and a: "aliases_of ?st0 = []"
    by (simp_all add: factory_init_def refs_ok_def set_handlers_def set_aliases_def set_meta_def view_defs)
  have e: "cls_handlers ?st0 = g_handlers ?st0" "cls_aliases ?st0 = g_aliases ?st0"
    by (simp_all add: factory_init_def set_handlers_def set_aliases_def set_meta_def)
  have i: "\<not> initialized factory_init" by (simp add: factory_init_def)
  define st1 where "st1 = fold (register_entry w) es ?st0"
  have "handlers_of st1 = dict_merge [] (registry_names w es) \<and> aliases_of st1 = dict_merge [] (registry_aliases w es) \<and>
        cls_handlers st1 = g_handlers st1 \<and> cls_aliases st1 = g_aliases st1"
    using fold_register_entry_views [OF r, of w es] h a e unfolding st1_def by simp
  moreover have "initialize_handlers w factory_init = st1\<lparr>initialized := True\<rparr>"
    using assms i by (simp add: initialize_handlers_def st1_def)
  ultimately show ?thesis by (simp add: view_defs)
qed

lemma startup_standardize:
  assumes "meta_file w = EntryList es"
  shows "snd (standardize_provider_name w p (initialize_handlers w factory_init)) = resolve w es p"
proof -
  have "initialized (initialize_handlers w factory_init)"
    using assms by (simp add: initialize_handlers_def factory_init_def)
  then show ?thesis using startup_views [OF assms]
    by (auto simp add: standardize_provider_name_def resolve_def Let_def split: option.splits)
qed

text \<open>C1 (refinement). After start-up (\<open>initialize_handlers\<close> on the freshly imported
  module), \<open>standardize_provider_name\<close> computes the abstract resolution
  \<open>resolve\<close> of the metadata entries, for every input.\<close>

theorem startup_standardize_refines:
  assumes "meta_file w = EntryList es"
  shows "snd (standardize_provider_name w p (initialize_handlers w factory_init)) = resolve w es p"
  using assms by (rule startup_standardize)

theorem startup_standardize_refines_witness:
  "snd (standardize_provider_name example_world ''Deep-Seek'' (initialize_handlers example_world factory_init))
     = resolve example_world [Meta deepseek_meta] ''Deep-Seek'' \<and>
   resolve example_world [Meta deepseek_meta] ''Deep-Seek'' = Inr ''deepseek_ai''"
proof -
  have m: "meta_file example_world = EntryList [Meta deepseek_meta]" by (simp add: example_world_def)
  have "resolve example_world [Meta deepseek_meta] ''Deep-Seek'' = Inr ''deepseek_ai''" by code_simp
  then show ?thesis using startup_standardize_refines [OF m] by simp
qed

text \<open>C2 (functional). Alias resolution is deterministic and total after start-up, where the
  metadata allows it: an alias \<open>A\<close> of a standard name \<open>S\<close> that no other entry claims
  resolves to \<open>S\<close>, \<open>S\<close> itself resolves to \<open>S\<close> when it is in normal form and no entry
  uses it as an alias of another provider, and every name that normalises to no alias
  and no standard name is rejected.\<close>

theorem alias_resolution_total:
  assumes "meta_file w = EntryList es"
    and "(normalize_name A, S) \<in> set (registry_aliases w es)"
    and "\<forall>(k, s) \<in> set (registry_aliases w es). k = normalize_name A \<longrightarrow> s = S"
    and "S \<in> fst ` set (registry_names w es)" "normalize_name S = S"
    and "\<forall>(k, s) \<in> set (registry_aliases w es). k = S \<longrightarrow> s = S"
    and "A \<noteq> []" "S \<noteq> []"
  shows "snd (standardize_provider_name w A (initialize_handlers w factory_init)) = Inr S \<and>
         snd (standardize_provider_name w S (initialize_handlers w factory_init)) = Inr S \<and>
         (\<forall>p. p \<noteq> [] \<and> normalize_name p \<notin> fst ` set (registry_aliases w es) \<and>
               normalize_name p \<notin> fst ` set (registry_names w es) \<longrightarrow>
            snd (standardize_provider_name w p (initialize_handlers w factory_init)) = Inl UnknownProvider)"
proof -
  note std = startup_standardize [OF assms(1)]
  have "map_of (rev (registry_aliases w es)) (normalize_name A) = Some S"
    using assms(2,3) by (rule map_of_rev_unique)
  moreover have "map_of (rev (registry_names w es)) S \<noteq> None \<and>
      (map_of (rev (registry_aliases w es)) S = None \<or> map_of (rev (registry_aliases w es)) S = Some S)"
  proof -
    have "S \<in> fst ` set (rev (registry_names w es))" using assms(4) by simp
    then have "map_of (rev (registry_names w es)) S \<noteq> None" by (simp add: map_of_eq_None_iff)
    moreover have "map_of (rev (registry_aliases w es)) S = None \<or> map_of (rev (registry_aliases w es)) S = Some S"
    proof (cases "map_of (rev (registry_aliases w es)) S")
      case (Some s)
      then have "(S, s) \<in> set (registry_aliases w es)" by (metis map_of_SomeD set_rev)
      then show ?thesis using assms(6) Some by auto
    qed simp
    ultimately show ?thesis by blast
  qed
  ultimately have "resolve w es A = Inr S" "resolve w es S = Inr S"
    using assms(5,7,8) by (auto simp: resolve_def)
  moreover have "resolve w es p = Inl UnknownProvider"
    if "p \<noteq> []" "normalize_name p \<notin> fst ` set (registry_aliases w es)"
       "normalize_name p \<notin> fst ` set (registry_names w es)" for p
    using that by (simp add: resolve_def map_of_rev_None)
  ultimately show ?thesis by (simp add: std)
qed

theorem alias_resolution_total_witness:
  "snd (standardize_provider_name example_world ''deep-seek'' (initialize_handlers example_world factory_init))
     = Inr ''deepseek_ai'' \<and>
   snd (standardize_provider_name example_world ''deepseek_ai'' (initialize_handlers example_world factory_init))
     = Inr ''deepseek_ai'' \<and>
   snd (standardize_provider_name example_world ''totally-unknown-vendor''
     (initialize_handlers example_world factory_init)) = Inl UnknownProvider"
proof -
  have h1: "meta_file example_world = EntryList [Meta deepseek_meta]" by (simp add: example_world_def)
  have h2: "(normalize_name ''deep-seek'', ''deepseek_ai'') \<in> set (registry_aliases example_world [Meta deepseek_meta])"
    by code_simp
  have h3: "\<forall>(k, s) \<in> set (registry_aliases example_world [Meta deepseek_meta]).
      k = normalize_name ''deep-seek'' \<longrightarrow> s = ''deepseek_ai''" by code_simp
  have h4: "''deepseek_ai'' \<in> fst ` set (registry_names example_world [Meta deepseek_meta])" by code_simp
  have h5: "normalize_name ''deepseek_ai'' = ''deepseek_ai''" by code_simp
  have h6: "\<forall>(k, s) \<in> set (registry_aliases example_world [Meta deepseek_meta]).
      k = ''deepseek_ai'' \<longrightarrow> s = ''deepseek_ai''" by code_simp
  have u: "''totally-unknown-vendor'' \<noteq> [] \<and>
      normalize_name ''totally-unknown-vendor'' \<notin> fst ` set (registry_aliases example_world [Meta deepseek_meta]) \<and>
      normalize_name ''totally-unknown-vendor'' \<notin> fst ` set (registry_names example_world [Meta deepseek_meta])"
    by code_simp
  show ?thesis using alias_resolution_total [OF h1 h2 h3 h4 h5 h6] u by simp
qed

section \<open>No caching\<close>

lemma meta_of_register_provider_info [simp]:
  "meta_of (register_provider_info w m st) = meta_of st"
  by (simp add: register_provider_info_def Let_def set_handlers_def set_aliases_def meta_of_def
      split: option.splits)

lemma meta_of_fold_register_provider_info [simp]:
  "meta_of (fold (register_provider_info w) ms st) = meta_of st"
  by (induction ms arbitrary: st) simp_all

lemma initialize_factory_idem:
  "initialize_factory w (initialize_factory w st) = initialize_factory w st"
proof (cases "meta_of st = [] \<and> load_metadata_map (meta_file w) \<noteq> []")
  case True
  then have "meta_of (initialize_factory w st) = load_metadata_map (meta_file w)"
    by (simp add: initialize_factory_def Let_def) (simp add: meta_of_def)
  then show ?thesis using True by (simp add: initialize_factory_def [of w "initialize_factory w st"])
next
  case False
  then show ?thesis by (auto simp: initialize_factory_def)
qed

lemma get_handler_state: "fst (get_handler w env n st) = initialize_factory w st"
  by (simp add: get_handler_def Let_def split: option.splits)

text \<open>C6 (functional). \<open>get_handler\<close> caches nothing that depends on the configuration:
  after any earlier call, with any environment and any name, a call returns exactly
  what it would have returned without the earlier call; so a handler built after the
  environment changed is built from the new environment.\<close>

theorem get_handler_no_cache:
  "get_handler w env2 n (fst (get_handler w env1 m st)) = get_handler w env2 n st"
  by (simp add: get_handler_state get_handler_def [of w env2 n] initialize_factory_idem)

section \<open>Unknown providers\<close>

lemma alias_prefix_strings: "set (alias_prefix l) \<subseteq> set (alias_strings l)"
  by (induction l rule: alias_prefix.induct) (auto simp: alias_strings_def)

lemma keys_register_aliases_first:
  "set (dict_keys (register_aliases_first std l d)) \<subseteq> set (dict_keys d) \<union> normalize_name_keep_spaces ` set (alias_strings l)"
  by (induction std l d rule: register_aliases_first.induct)
     (auto simp: alias_strings_def Let_def split: option.splits if_splits)

lemma known_names_std:
  "m \<in> set (file_entries w) \<Longrightarrow> standard_name m = Some s \<Longrightarrow> s \<in> set (known_names w)"
  by (force simp: known_names_def)

lemma known_names_alias:
  "m \<in> set (file_entries w) \<Longrightarrow> alias_elems (aliases m) = Some l \<Longrightarrow> a \<in> set (alias_strings l) \<Longrightarrow>
   normalize_name a \<in> set (known_names w) \<and> normalize_name_keep_spaces a \<in> set (known_names w)"
  by (force simp: known_names_def)

lemma truthy_Some: "truthy v \<Longrightarrow> v = Some (the v)"
  by (cases v) (simp_all add: truthy_def)

lemma register_entry_known:
  assumes "names_known w st" "\<And>m. e = Meta m \<Longrightarrow> m \<in> set (file_entries w)"
  shows "names_known w (register_entry w e st)"
proof (cases e)
  case (Meta m)
  have m: "m \<in> set (file_entries w)" using assms(2) Meta by simp
  have r: "refs_ok st" using assms(1) by (simp add: names_known_def)
  have std: "truthy (standard_name m) \<Longrightarrow> the (standard_name m) \<in> set (known_names w)"
    using known_names_std [OF m] truthy_Some by metis
  have al: "normalize_name ` set (alias_prefix (case aliases m of AliasList l \<Rightarrow> l | _ \<Rightarrow> [])) \<subseteq> set (known_names w)"
    using known_names_alias [OF m] alias_prefix_strings
    by (cases "aliases m") (fastforce simp: alias_elems_def)+
  show ?thesis using assms(1) r std al Meta
    by (auto simp: register_entry_def names_known_def Let_def register_aliases_merge set_dict_keys_merge)
qed (simp add: register_entry_def assms(1))

lemma fold_register_entry_known:
  "names_known w st \<Longrightarrow> meta_file w = EntryList es \<Longrightarrow> set es' \<subseteq> set es \<Longrightarrow>
   names_known w (fold (register_entry w) es' st)"
proof (induction es' arbitrary: st)
  case (Cons e es')
  have "\<And>m. e = Meta m \<Longrightarrow> m \<in> set (file_entries w)"
    using Cons.prems by (force simp: file_entries_def)
  then show ?case using Cons register_entry_known by simp
qed simp

lemma initialize_handlers_known:
  assumes "names_known w st" shows "names_known w (initialize_handlers w st)"
proof -
  let ?st0 = "set_meta [] (set_aliases [] (set_handlers [] st))"
  have "names_known w ?st0" using assms by (simp add: names_known_def dict_keys_def)
  moreover have "names_known w (st'\<lparr>initialized := b\<rparr>) = names_known w st'" for st' b
    by (simp add: names_known_def refs_ok_def view_defs)
  ultimately show ?thesis using assms fold_register_entry_known
    by (auto simp: initialize_handlers_def Let_def split: meta_source.splits)
qed

lemma values_load_fold:
  "snd ` set (fold (\<lambda>e mm. case e of Meta md \<Rightarrow> if truthy (standard_name md)
        then dict_set (the (standard_name md)) md mm else mm | NotDict \<Rightarrow> mm) es mm0)
   \<subseteq> snd ` set mm0 \<union> {m. Meta m \<in> set es}"
proof (induction es arbitrary: mm0)
  case (Cons e es)
  show ?case
  proof (cases e)
    case NotDict
    then show ?thesis using Cons.IH [of mm0] by auto
  next
    case (Meta md)
    show ?thesis
    proof (cases "truthy (standard_name md)")
      case True
      then show ?thesis using Cons.IH [of "dict_set (the (standard_name md)) md mm0"]
        values_dict_set [of "the (standard_name md)" md mm0] by (simp add: Meta) blast
    next
      case False
      then show ?thesis using Cons.IH [of mm0] by (simp add: Meta) blast
    qed
  qed
qed simp

lemma load_metadata_map_values: "set (map snd (load_metadata_map (meta_file w))) \<subseteq> set (file_entries w)"
  using values_load_fold [of _ "[]"]
  by (force simp: load_metadata_map_def file_entries_def split: meta_source.splits)

lemma register_provider_info_known:
  assumes "names_known w st" "m \<in> set (file_entries w)"
  shows "names_known w (register_provider_info w m st)"
proof -
  have r: "refs_ok st" using assms(1) by (simp add: names_known_def)
  have std: "truthy (standard_name m) \<Longrightarrow> the (standard_name m) \<in> set (known_names w)"
    using known_names_std [OF assms(2)] truthy_Some by metis
  have al: "alias_elems (aliases m) = Some l \<Longrightarrow>
      normalize_name_keep_spaces ` set (alias_strings l) \<subseteq> set (known_names w)" for l
    using known_names_alias [OF assms(2)] by blast
  show ?thesis
  proof (cases "truthy (standard_name m) \<and> truthy (handler_module_path m) \<and> truthy (handler_class_name m)
                \<and> load_class w (the (handler_module_path m)) (the (handler_class_name m)) = Loaded")
    case True
    let ?st1 = "set_handlers (dict_set (the (standard_name m)) (the (handler_module_path m), the (handler_class_name m))
                  (handlers_of st)) st"
    have k1: "names_known w ?st1" using assms(1) r std True by (auto simp: names_known_def)
    have "names_known w (set_aliases (register_aliases_first (the (standard_name m)) l (aliases_of ?st1)) ?st1)"
      if "alias_elems (aliases m) = Some l" for l
      using k1 r al [OF that] keys_register_aliases_first [of "the (standard_name m)" l "aliases_of ?st1"]
      by (simp add: names_known_def) blast
    then show ?thesis using True k1 by (simp add: register_provider_info_def Let_def split: option.splits)
  qed (use assms(1) in \<open>auto simp: register_provider_info_def\<close>)
qed

lemma initialize_factory_known:
  assumes "names_known w st" shows "names_known w (initialize_factory w st)"
proof -
  let ?st1 = "st\<lparr>hstore := hstore st @ [[]], astore := astore st @ [[]],
                 mstore := mstore st @ [load_metadata_map (meta_file w)], g_handlers := length (hstore st),
                 g_aliases := length (astore st), g_meta := length (mstore st)\<rparr>"
  have "names_known w ?st1" using assms
    by (simp add: names_known_def refs_ok_def view_defs dict_keys_def)
  moreover have "names_known w (fold (register_provider_info w) ms st')"
    if "names_known w st'" "set ms \<subseteq> set (file_entries w)" for ms st'
    using that by (induction ms arbitrary: st') (simp_all add: register_provider_info_known)
  ultimately show ?thesis using assms load_metadata_map_values
    by (simp add: initialize_factory_def Let_def)
qed

lemma factory_step_known:
  "factory_step w env st st' \<Longrightarrow> names_known w st \<Longrightarrow> names_known w st'"
proof (induction rule: factory_step.induct)
  case (metadata st p)
  let ?st1 = "if initialized st then st else initialize_handlers w st"
  have "names_known w (fst (standardize_provider_name w p ?st1))"
    using metadata initialize_handlers_known by (simp add: standardize_state)
  then show ?case
    by (cases "standardize_provider_name w p ?st1") (auto simp: get_provider_metadata_def split: sum.splits)
qed (simp_all add: standardize_state get_handler_state initialize_handlers_known initialize_factory_known)

lemma reachable_known: "factory_reachable w env st \<Longrightarrow> names_known w st"
proof (induction rule: factory_reachable.induct)
  case import
  then show ?case by (simp add: names_known_def factory_init_def refs_ok_def view_defs dict_keys_def)
qed (rule factory_step_known)

text \<open>C7 (error). \<open>get_handler\<close> on a name the metadata file does not mention (under
  \<open>get_handler\<close>'s normalisation) returns \<open>None\<close> in every reachable state, without
  raising: the spec's scenario \<open>get_handler("totally-unknown-vendor")\<close>.\<close>

theorem get_handler_unknown_none:
  assumes "factory_reachable w env st" "normalize_name_keep_spaces n \<notin> set (known_names w)"
  shows "snd (get_handler w env' n st) = None"
proof -
  have "names_known w (initialize_factory w st)"
    using reachable_known [OF assms(1)] by (rule initialize_factory_known)
  then have "dict_get (aliases_of (initialize_factory w st)) (normalize_name_keep_spaces n) = None \<and>
             dict_get (handlers_of (initialize_factory w st)) (normalize_name_keep_spaces n) = None"
    using assms(2) by (auto simp: names_known_def dict_get_None_iff)
  then show ?thesis by (simp add: get_handler_def Let_def)
qed

theorem get_handler_unknown_none_witness:
  "snd (get_handler example_world empty_env ''totally-unknown-vendor''
          (initialize_handlers example_world factory_init)) = None"
proof -
  have r: "factory_reachable example_world empty_env (initialize_handlers example_world factory_init)"
    by (rule factory_reachable.step [OF factory_reachable.import factory_step.startup])
  have n: "normalize_name_keep_spaces ''totally-unknown-vendor'' \<notin> set (known_names example_world)"
    by code_simp
  show ?thesis by (rule get_handler_unknown_none [OF r n])
qed

section \<open>Stability after start-up\<close>

lemma register_entry_meta:
  "refs_ok st \<Longrightarrow> (meta_of (register_entry w e st) \<noteq> []) = (meta_of st \<noteq> [] \<or> entry_registers w e \<noteq> None)"
  by (simp add: register_entry_def entry_registers_def Let_def split: meta_entry.splits)

lemma fold_register_entry_meta:
  "refs_ok st \<Longrightarrow> (meta_of (fold (register_entry w) es st) \<noteq> []) = (meta_of st \<noteq> [] \<or> registry_names w es \<noteq> [])"
proof (induction es arbitrary: st)
  case Nil
  then show ?case by (simp add: registry_names_def)
next
  case (Cons e es)
  have "refs_ok (register_entry w e st)" using register_entry_views [OF Cons.prems] by blast
  then show ?case using Cons register_entry_meta [OF Cons.prems, of w e]
    by (auto simp: registry_names_def split: option.splits)
qed

lemma stable_step:
  "factory_step w env st st' \<Longrightarrow> initialized st \<Longrightarrow> meta_of st \<noteq> [] \<Longrightarrow> st' = st"
  by (erule factory_stepE)
     (simp_all add: initialize_handlers_def standardize_state get_handler_state initialize_factory_def
      get_provider_metadata_def split: prod.splits sum.splits, (metis fst_conv standardize_state)+)

lemma startup_initialized_meta:
  assumes "meta_file w = EntryList es" "registry_names w es \<noteq> []"
  shows "initialized (initialize_handlers w factory_init) \<and> meta_of (initialize_handlers w factory_init) \<noteq> []"
proof -
  let ?st0 = "set_meta [] (set_aliases [] (set_handlers [] factory_init))"
  have r: "refs_ok ?st0"
    by (simp add: factory_init_def refs_ok_def set_handlers_def set_aliases_def set_meta_def)
  have i: "\<not> initialized factory_init" by (simp add: factory_init_def)
  have "meta_of (fold (register_entry w) es ?st0) \<noteq> []"
    using fold_register_entry_meta [OF r] assms(2) by blast
  then show ?thesis using assms(1) i by (simp add: initialize_handlers_def meta_of_def)
qed

text \<open>(invariant). Populate once, read many: once start-up has registered a provider,
  no sequence of later calls changes the registry state.\<close>

theorem startup_stable:
  assumes "meta_file w = EntryList es" "registry_names w es \<noteq> []"
    and "(factory_step w env)\<^sup>*\<^sup>* (initialize_handlers w factory_init) st"
  shows "st = initialize_handlers w factory_init"
  using assms(3)
proof (induction rule: rtranclp_induct)
  case (step y z)
  then show ?case using stable_step startup_initialized_meta [OF assms(1,2)] by metis
qed simp

theorem startup_stable_witness:
  "fst (get_handler example_world empty_env ''deepseek_ai'' (initialize_handlers example_world factory_init))
     = initialize_handlers example_world factory_init"
proof -
  have m: "meta_file example_world = EntryList [Meta deepseek_meta]" by (simp add: example_world_def)
  have n: "registry_names example_world [Meta deepseek_meta] \<noteq> []" by code_simp
  have s: "(factory_step example_world empty_env)\<^sup>*\<^sup>* (initialize_handlers example_world factory_init)
      (fst (get_handler example_world empty_env ''deepseek_ai'' (initialize_handlers example_world factory_init)))"
    by (rule r_into_rtranclp, rule factory_step.handler)
  show ?thesis by (rule startup_stable [OF m n s])
qed

section \<open>Two normalisations\<close>

text \<open>(functional; divergence). \<open>standardize_provider_name\<close> deletes spaces and
  \<open>get_handler\<close> keeps them (the spec replaces them with underscores): after start-up,
  \<open>"Deep Seek"\<close> standardises to the DeepSeek provider, while \<open>get_handler("Deep Seek")\<close>
  finds no handler.\<close>

theorem space_normalisation_divergence:
  "snd (standardize_provider_name example_world ''Deep Seek'' (initialize_handlers example_world factory_init))
     = Inr ''deepseek_ai'' \<and>
   snd (get_handler example_world empty_env ''Deep Seek'' (initialize_handlers example_world factory_init)) = None"
  by code_simp

text \<open>(functional; divergence). A standard name that is not in normal form is
  registered as given but never resolves: with the entry's standard name
  \<open>"DeepSeekAI"\<close>, the handler dict holds the key, yet
  \<open>standardize_provider_name("DeepSeekAI")\<close> fails and \<open>get_handler("DeepSeekAI")\<close>
  returns \<open>None\<close>, against the spec's \<open>standardize_provider_name(S) == S\<close>.\<close>

theorem unnormalised_standard_name_unresolvable:
  "dict_get (handlers_of (initialize_handlers (example_world\<lparr>meta_file := EntryList
       [Meta (deepseek_meta\<lparr>standard_name := Some ''DeepSeekAI''\<rparr>)]\<rparr>) factory_init)) ''DeepSeekAI'' \<noteq> None \<and>
   snd (standardize_provider_name (example_world\<lparr>meta_file := EntryList
       [Meta (deepseek_meta\<lparr>standard_name := Some ''DeepSeekAI''\<rparr>)]\<rparr>) ''DeepSeekAI''
       (initialize_handlers (example_world\<lparr>meta_file := EntryList
       [Meta (deepseek_meta\<lparr>standard_name := Some ''DeepSeekAI''\<rparr>)]\<rparr>) factory_init)) = Inl UnknownProvider \<and>
   snd (get_handler (example_world\<lparr>meta_file := EntryList
       [Meta (deepseek_meta\<lparr>standard_name := Some ''DeepSeekAI''\<rparr>)]\<rparr>) empty_env ''DeepSeekAI''
       (initialize_handlers (example_world\<lparr>meta_file := EntryList
       [Meta (deepseek_meta\<lparr>standard_name := Some ''DeepSeekAI''\<rparr>)]\<rparr>) factory_init)) = None"
  by code_simp

end
