(* ===== verification/Contract.thy ===== *)
theory Contract
  imports Registry Retry
begin

text \<open>
  The capability contract of \<open>src/src/providers/base.py\<close> (\<open>BaseAPIHandler\<close>): the
  per-call parameter lookup \<open>get_current_param\<close>, which asks the registry for the
  provider's metadata and reads the \<open>.env\<close> file afresh, the default
  \<open>test_connection\<close>, which folds every outcome of one small request into a status
  record, and \<open>check_status\<close>. A handler is the instance \<open>get_handler\<close> builds
  (\<open>Registry.handler\<close>); its \<open>provider_name\<close> is read from its configuration.
\<close>

section \<open>get_current_param\<close>

text \<open>The \<open>param_type\<close> argument: \<open>'int'\<close>, \<open>'float'\<close>, \<open>'bool'\<close>, or anything else
  (no conversion).\<close>

datatype param_type = PTInt | PTFloat | PTBool | PTNone

text \<open>Lines 63--73: \<open>{prefix}{NAME}\<close> first, then \<open>{prefix}DEFAULT_{NAME}\<close>; a key
  without a value (\<open>dotenv_values\<close> gives \<open>None\<close>) counts as absent.\<close>

definition param_lookup :: "(string, string option) pydict \<Rightarrow> string \<Rightarrow> string \<Rightarrow> string option" where
  "param_lookup env prefix name =
     (case dict_get env (prefix @ py_upper name) of
        Some (Some v) \<Rightarrow> Some v
      | _ \<Rightarrow> (case dict_get env (prefix @ ''DEFAULT_'' @ py_upper name) of
               Some (Some v) \<Rightarrow> Some v
             | _ \<Rightarrow> None))"

text \<open>Lines 75--93: the conversion; a failed \<open>int()\<close> or \<open>float()\<close> gives the default,
  a boolean is any of five spellings and never fails.\<close>

definition convert_param :: "param_type \<Rightarrow> cvalue \<Rightarrow> string \<Rightarrow> cvalue" where
  "convert_param t dflt v =
     (case t of
        PTInt \<Rightarrow> (case py_int v of Some i \<Rightarrow> CInt i | None \<Rightarrow> dflt)
      | PTFloat \<Rightarrow> (case py_float v of Some f \<Rightarrow> CFloat f | None \<Rightarrow> dflt)
      | PTBool \<Rightarrow> CBool (py_lower v \<in> set [''true'', ''1'', ''yes'', ''y'', ''on''])
      | PTNone \<Rightarrow> CStr v)"

text \<open>\<open>self.provider_name = config.get("provider_name", "unknown")\<close> (line 16).\<close>

definition provider_name_of :: "handler \<Rightarrow> cvalue" where
  "provider_name_of h = (case dict_get (h_config h) ''provider_name'' of Some v \<Rightarrow> v | None \<Rightarrow> CStr ''unknown'')"

text \<open>Lines 29--98, for a handler whose \<open>self.provider_name\<close> is \<open>pname\<close> (the base
  class sets it from \<open>provider_name_of\<close>, an adapter may set its own default). The
  \<open>.env\<close> file is \<open>None\<close> when \<open>find_dotenv\<close> finds none. For a provider name that
  is not a string, \<open>get_provider_metadata\<close> still runs \<open>initialize_handlers\<close> first
  (factory line 516) and then \<open>standardize_provider_name\<close> raises: \<open>ValueError\<close> for a
  falsy name (caught there, \<open>None\<close>), \<open>AttributeError\<close> on \<open>.lower()\<close> for a truthy
  one (caught by the outer \<open>except Exception\<close>); either way the default, after the
  initialisation.\<close>

definition get_current_param :: "world \<Rightarrow> (string, string option) pydict option \<Rightarrow> cvalue \<Rightarrow> string
    \<Rightarrow> param_type \<Rightarrow> cvalue \<Rightarrow> factory_state \<Rightarrow> factory_state \<times> cvalue" where
  "get_current_param w dotenv_file pname name t dflt st =
     (case pname of
        CStr pn \<Rightarrow>
          (case get_provider_metadata w pn st of
             (st1, None) \<Rightarrow> (st1, dflt)
           | (st1, Some pm) \<Rightarrow>
               if \<not> truthy (env_prefix pm) then (st1, dflt)
               else (case dotenv_file of
                       None \<Rightarrow> (st1, dflt)
                     | Some env \<Rightarrow>
                         (case param_lookup env (the (env_prefix pm)) name of
                            None \<Rightarrow> (st1, dflt)
                          | Some v \<Rightarrow> (st1, convert_param t dflt v))))
      | _ \<Rightarrow> (if initialized st then st else initialize_handlers w st, dflt))"

section \<open>test_connection\<close>

text \<open>Which of \<open>chat\<close>, \<open>generate_text\<close>, \<open>generate\<close> the handler has as coroutine
  functions, and the default model it carries.\<close>

record handler_caps =
  has_chat :: bool
  has_generate_text :: bool
  has_generate :: bool
  default_model :: "string option"

datatype tc_method = MChat | MGenerateText | MGenerate

text \<open>The result \<open>{"status", "message"}\<close>: the message kinds of lines 205--270.\<close>

datatype tc_message =
    MsgNoModel
  | MsgNoMethod
  | MsgSuccess tc_method string
  | MsgTimeout
  | MsgConnection
  | MsgResponse "int option"
  | MsgAPI
  | MsgUnexpected exc

datatype tc_status = TCSuccess | TCError

text \<open>The \<open>except\<close> clauses of lines 251--270, in order.\<close>

definition exc_status_code :: "exc \<Rightarrow> int option" where
  "exc_status_code e = (case e of APIResponseError c \<Rightarrow> c | _ \<Rightarrow> None)"

definition tc_classify :: "exc \<Rightarrow> tc_message" where
  "tc_classify e =
     (if isinstance e [CTimeoutError] then MsgTimeout
      else if isinstance e [CAPIConnectionError] then MsgConnection
      else if isinstance e [CAPIResponseError] then MsgResponse (exc_status_code e)
      else if isinstance e [CAPIError] then MsgAPI
      else MsgUnexpected e)"

text \<open>Lines 194--270. \<open>call m model\<close> is what awaiting the chosen method with the test
  payload gives within the 30 second budget of \<open>asyncio.wait_for\<close>: \<open>None\<close> when the
  budget runs out.\<close>

text \<open>\<open>target_model = model or getattr(self, 'default_model', None)\<close> (line 206).\<close>

definition tc_target :: "handler_caps \<Rightarrow> string option \<Rightarrow> string option" where
  "tc_target caps model =
     (case model of Some m \<Rightarrow> if m \<noteq> [] then Some m else default_model caps | None \<Rightarrow> default_model caps)"

text \<open>Lines 223--239: \<open>chat\<close> first, then \<open>generate_text\<close>, then \<open>generate\<close>.\<close>

definition tc_method_of :: "handler_caps \<Rightarrow> tc_method option" where
  "tc_method_of caps =
     (if has_chat caps then Some MChat
      else if has_generate_text caps then Some MGenerateText
      else if has_generate caps then Some MGenerate else None)"

definition test_connection :: "handler_caps \<Rightarrow> string option \<Rightarrow> (tc_method \<Rightarrow> string \<Rightarrow> unit outcome option)
    \<Rightarrow> tc_status \<times> tc_message" where
  "test_connection caps model call =
     (let target = tc_target caps model
      in if \<not> truthy target then (TCError, MsgNoModel)
         else (case tc_method_of caps of
                 None \<Rightarrow> (TCError, MsgNoMethod)
               | Some m \<Rightarrow>
                   (case call m (the target) of
                      None \<Rightarrow> (TCError, MsgTimeout)
                    | Some (Returned _) \<Rightarrow> (TCSuccess, MsgSuccess m (the target))
                    | Some (Raised e) \<Rightarrow> (TCError, tc_classify e))))"

section \<open>check_status\<close>

text \<open>The status dict of lines 145--187: the keys a run can set.\<close>

record provider_status =
  is_configured :: bool
  status_message :: string
  models_available :: "nat option"
  models_list :: "string list option"
  connection_test :: "string option"
  connection_warning :: bool
  connection_error :: "exc option"

text \<open>\<open>configured\<close> is what \<open>api_manager.is_provider_configured\<close> gives (or raises),
  \<open>models\<close> what \<open>get_available_models\<close> gives (or raises).\<close>

definition check_status :: "(bool \<times> string) outcome \<Rightarrow> string list outcome \<Rightarrow> provider_status" where
  "check_status configured models =
     (let (ok, msg) = (case configured of Returned r \<Rightarrow> r | Raised _ \<Rightarrow> (False, ''error''));
          st = \<lparr>is_configured = ok, status_message = msg, models_available = None, models_list = None,
                connection_test = None, connection_warning = False, connection_error = None\<rparr>
      in if \<not> ok then st
         else (case models of
                 Returned ms \<Rightarrow>
                   if ms \<noteq> [] then st\<lparr>models_available := Some (length ms), models_list := Some (take 5 ms),
                                       connection_test := Some ''success''\<rparr>
                   else st\<lparr>models_available := Some 0, connection_test := Some ''warning'',
                           connection_warning := True\<rparr>
               | Raised e \<Rightarrow> st\<lparr>connection_test := Some ''error'', connection_error := Some e\<rparr>))"

section \<open>Lemmas\<close>

lemma get_current_param_found:
  assumes "snd (get_provider_metadata w pn st) = Some pm" "env_prefix pm = Some P" "P \<noteq> []"
  shows "snd (get_current_param w (Some env) (CStr pn) name t d st) =
           (case param_lookup env P name of None \<Rightarrow> d | Some v \<Rightarrow> convert_param t d v)"
  using assms
  by (cases "get_provider_metadata w pn st")
     (simp add: get_current_param_def truthy_def split: option.splits)

text \<open>C39 (functional; divergence). A boolean parameter never falls back to the default:
  whatever the \<open>.env\<close> file holds under the parameter's key, \<open>get_current_param\<close> with
  type \<open>'bool'\<close> returns a boolean, \<open>True\<close> exactly for the five accepted spellings.
  The spec says a failed coercion falls back to the default.\<close>

theorem bool_param_never_defaults:
  assumes "snd (get_provider_metadata w pn st) = Some pm" "env_prefix pm = Some P" "P \<noteq> []"
    and "param_lookup env P name = Some v"
  shows "snd (get_current_param w (Some env) (CStr pn) name PTBool d st) =
           CBool (py_lower v \<in> set [''true'', ''1'', ''yes'', ''y'', ''on''])"
  using get_current_param_found [OF assms(1-3)] assms(4) by (simp add: convert_param_def)

theorem bool_param_never_defaults_witness:
  "snd (get_current_param example_world (Some [(''DEEPSEEK_STREAM'', Some ''maybe'')])
     (provider_name_of \<lparr>h_cls = (''src.providers.handlers.deepseek_ai'', ''DeepSeekAIHandler''),
      h_config = [(''provider_name'', CStr ''deepseek_ai'')]\<rparr>)
     ''stream'' PTBool (CBool True) (initialize_handlers example_world factory_init)) = CBool False"
proof -
  have m: "snd (get_provider_metadata example_world ''deepseek_ai'' (initialize_handlers example_world factory_init))
      = Some deepseek_meta" by code_simp
  have p: "env_prefix deepseek_meta = Some ''DEEPSEEK_''" by (simp add: deepseek_meta_def)
  have n: "provider_name_of \<lparr>h_cls = (''src.providers.handlers.deepseek_ai'', ''DeepSeekAIHandler''),
      h_config = [(''provider_name'', CStr ''deepseek_ai'')]\<rparr> = CStr ''deepseek_ai''"
    by (simp add: provider_name_of_def dict_get_def)
  have l: "param_lookup [(''DEEPSEEK_STREAM'', Some ''maybe'')] ''DEEPSEEK_'' ''stream'' = Some ''maybe''"
    by code_simp
  have "py_lower ''maybe'' \<notin> set [''true'', ''1'', ''yes'', ''y'', ''on'']" by code_simp
  then show ?thesis using bool_param_never_defaults [OF m p _ l] n by simp
qed

text \<open>C40 (error). The default \<open>test_connection\<close> never raises and reports success
  exactly when a model is known, the handler has a suitable method, and awaiting it
  returns within the budget.\<close>

theorem test_connection_success_iff:
  "fst (test_connection caps model call) = TCSuccess \<longleftrightarrow>
     truthy (tc_target caps model) \<and> tc_method_of caps \<noteq> None \<and>
     (\<exists>u. call (the (tc_method_of caps)) (the (tc_target caps model)) = Some (Returned u))"
  by (auto simp: test_connection_def Let_def split: option.splits outcome.splits)

theorem test_connection_success_iff_witness:
  "fst (test_connection \<lparr>has_chat = True, has_generate_text = True, has_generate = False,
          default_model = Some ''deepseek-chat''\<rparr> None (\<lambda>_ _. Some (Returned ()))) = TCSuccess"
  using test_connection_success_iff [of "\<lparr>has_chat = True, has_generate_text = True, has_generate = False,
          default_model = Some ''deepseek-chat''\<rparr>" None "\<lambda>_ _. Some (Returned ())"]
  by (simp add: tc_target_def tc_method_of_def truthy_def)

text \<open>(bounds). \<open>check_status\<close> reports a successful connection test only with a
  non-empty model list of at most five names, and tests nothing for an unconfigured
  provider.\<close>

theorem check_status_bounds:
  "(connection_test (check_status c m) = Some ''success'' \<longrightarrow>
      (\<exists>ms. models_list (check_status c m) = Some ms \<and> ms \<noteq> [] \<and> length ms \<le> 5)) \<and>
   (\<not> is_configured (check_status c m) \<longrightarrow> connection_test (check_status c m) = None)"
  by (auto simp: check_status_def Let_def split: outcome.splits prod.splits)

theorem check_status_bounds_witness:
  "\<exists>ms. models_list (check_status (Returned (True, ''ok'')) (Returned [''a'', ''b'', ''c'', ''d'', ''e'', ''f'']))
     = Some ms \<and> ms \<noteq> [] \<and> length ms \<le> 5"
proof -
  have "connection_test (check_status (Returned (True, ''ok'')) (Returned [''a'', ''b'', ''c'', ''d'', ''e'', ''f'']))
     = Some ''success''" by (simp add: check_status_def)
  then show ?thesis using check_status_bounds by blast
qed

end
