(* ===== verification/Json.thy ===== *)
theory Json
  imports Config Errors
begin

text \<open>
  JSON values as \<open>json.loads\<close> and \<open>json.load\<close> return them, a file or response body
  that may not parse, and the Python operations the program applies to such values
  (\<open>in\<close>, subscription with a string key, iteration), each with the exception Python
  raises for a value of the wrong type. Shared by the adapters (\<open>Http\<close>) and the
  result cache (\<open>Cache\<close>).
\<close>

section \<open>JSON values and responses\<close>

datatype json =
    JsNull
  | JsBool bool
  | JsInt int
  | JsFloat pyfloat
  | JsStr string
  | JsArr "json list"
  | JsObj "(string, json) pydict"

text \<open>A response body: JSON, or text \<open>json.loads\<close> rejects.\<close>

datatype body = JsonBody json | RawBody string

text \<open>\<open>key in x\<close> for a value \<open>json.loads\<close> returned: dict keys, list elements,
  substrings; \<open>TypeError\<close> for numbers, booleans and \<open>None\<close>.\<close>

definition json_in :: "string \<Rightarrow> json \<Rightarrow> exc + bool" where
  "json_in k x = (case x of JsObj d \<Rightarrow> Inr (k \<in> set (dict_keys d)) | JsArr xs \<Rightarrow> Inr (JsStr k \<in> set xs)
                           | JsStr s \<Rightarrow> Inr (py_contains s k) | _ \<Rightarrow> Inl TypeError)"

text \<open>\<open>x[key]\<close> with a string key: \<open>KeyError\<close> (here \<open>OtherError\<close>) for a missing key,
  \<open>TypeError\<close> for lists, strings and scalars.\<close>

definition json_index :: "json \<Rightarrow> string \<Rightarrow> exc + json" where
  "json_index x k = (case x of JsObj d \<Rightarrow> (case dict_get d k of Some v \<Rightarrow> Inr v | None \<Rightarrow> Inl OtherError)
                              | _ \<Rightarrow> Inl TypeError)"

text \<open>\<open>for x in v\<close>: list elements, dict keys, the characters of a string;
  \<open>TypeError\<close> for scalars.\<close>

definition json_iter :: "json \<Rightarrow> exc + json list" where
  "json_iter v = (case v of JsArr xs \<Rightarrow> Inr xs | JsObj d \<Rightarrow> Inr (map (\<lambda>(k, _). JsStr k) d)
                            | JsStr s \<Rightarrow> Inr (map (\<lambda>c. JsStr [c]) s) | _ \<Rightarrow> Inl TypeError)"

text \<open>Python truthiness of a JSON value (\<open>if x:\<close>, \<open>any(...)\<close>).\<close>

definition json_truthy :: "json \<Rightarrow> bool" where
  "json_truthy v = (case v of JsNull \<Rightarrow> False | JsBool b \<Rightarrow> b | JsInt i \<Rightarrow> i \<noteq> 0 | JsFloat f \<Rightarrow> f \<noteq> Finite 0
                             | JsStr s \<Rightarrow> s \<noteq> [] | JsArr xs \<Rightarrow> xs \<noteq> [] | JsObj d \<Rightarrow> d \<noteq> [])"

text \<open>\<open>float(i)\<close> for an \<open>int\<close>: \<open>OverflowError\<close> (\<open>None\<close>) from the magnitude at which
  the nearest double would be infinite.\<close>

definition float_of_int :: "int \<Rightarrow> pyfloat option" where
  "float_of_int i = (if 2 ^ 1024 - 2 ^ 970 \<le> \<bar>i\<bar> then None else Some (Finite (of_int i)))"

text \<open>\<open>int(x)\<close> of a float: truncation towards zero.\<close>

definition py_int_trunc :: "rat \<Rightarrow> int" where
  "py_int_trunc r = (if 0 \<le> r then \<lfloor>r\<rfloor> else \<lceil>r\<rceil>)"

end
