(* ===== verification/Http.thy ===== *)
theory Http
  imports Contract Json
begin

text \<open>
  What the adapters of \<open>src/src/providers/handlers/\<close> share: the result of one
  aiohttp request, Python truthiness and
  conversion of configuration values, and the parameter merge of the REST adapters.
  \<open>json.loads\<close> and the network are inputs of the model: a response body is a JSON
  value or text that does not parse, and the stream of an SSE response is the list of
  its raw lines.
\<close>

section \<open>Requests and responses\<close>

text \<open>The exceptions aiohttp raises for a request: \<open>ClientConnectorError\<close>,
  \<open>asyncio.TimeoutError\<close>, or another \<open>ClientError\<close>.\<close>

datatype net_err = ConnectorErr | TimeoutErr | OtherClientErr

text \<open>What awaiting one request and reading its body gives.\<close>

datatype http_result = HResp int body | HFail net_err

text \<open>A raw line of a streamed body: bytes that decode as UTF-8, or bytes that do not.\<close>

datatype raw_line = Line string | BadUtf8

text \<open>A streamed response: its status, the lines \<open>response.content\<close> yields, and the
  exception, if any, that ends the iteration early; or a failed request.\<close>

datatype stream_http = SResp int "raw_line list" "net_err option" | SFail net_err

text \<open>A request as the adapter issues it: the method, the configured endpoint value and
  the path appended to it by the f-string, and the JSON payload (headers are not kept:
  only whether building them raises matters).\<close>

record request =
  req_method :: string
  req_endpoint :: cvalue
  req_path :: string
  req_payload :: "(string, json) pydict"

text \<open>The exception object each network failure is.\<close>

definition net_exc :: "net_err \<Rightarrow> exc" where
  "net_exc n = (case n of ConnectorErr \<Rightarrow> ClientConnectorError | TimeoutErr \<Rightarrow> AsyncioTimeoutError
                         | OtherClientErr \<Rightarrow> ClientError)"

section \<open>Python values from the configuration\<close>

text \<open>Truthiness of a configuration value (\<open>if not x\<close>): \<open>None\<close>, empty strings, zero
  and \<open>False\<close> are false.\<close>

definition cv_truthy :: "cvalue \<Rightarrow> bool" where
  "cv_truthy v = (case v of CStr s \<Rightarrow> s \<noteq> [] | CInt i \<Rightarrow> i \<noteq> 0 | CFloat f \<Rightarrow> f \<noteq> Finite 0
                           | CBool b \<Rightarrow> b | CNone \<Rightarrow> False)"

text \<open>\<open>json.dumps\<close> of a configuration value put in a payload.\<close>

definition cv_json :: "cvalue \<Rightarrow> json" where
  "cv_json v = (case v of CStr s \<Rightarrow> JsStr s | CInt i \<Rightarrow> JsInt i | CFloat f \<Rightarrow> JsFloat f
                         | CBool b \<Rightarrow> JsBool b | CNone \<Rightarrow> JsNull)"

text \<open>\<open>config.get(key, default)\<close>.\<close>

definition cfg_get :: "(string, cvalue) pydict \<Rightarrow> string \<Rightarrow> cvalue \<Rightarrow> cvalue" where
  "cfg_get c k d = (case dict_get c k of Some v \<Rightarrow> v | None \<Rightarrow> d)"

text \<open>\<open>model or self.default_model\<close>: the argument if it is a non-empty string, else the
  configured default (absent is \<open>None\<close>).\<close>

definition target_model :: "string option \<Rightarrow> cvalue \<Rightarrow> cvalue" where
  "target_model model dm = (case model of Some m \<Rightarrow> if m \<noteq> [] then CStr m else dm | None \<Rightarrow> dm)"

text \<open>The payload filter of the REST adapters: every key of \<open>final_api_params\<close> (the
  resolved parameters updated with the call's keyword arguments) that is a valid
  parameter and not \<open>None\<close> is copied into the payload, in order.\<close>

definition add_params :: "string list \<Rightarrow> (string, cvalue) pydict \<Rightarrow> (string, json) pydict \<Rightarrow> (string, json) pydict" where
  "add_params valid params payload =
     fold (\<lambda>(k, v) p. if k \<in> set valid \<and> v \<noteq> CNone then dict_set k (cv_json v) p else p) params payload"

section \<open>Python operations on JSON values and strings\<close>

text \<open>\<open>s.endswith(p)\<close> and \<open>s.rstrip(c)\<close> for one character.\<close>

definition ends_with :: "string \<Rightarrow> string \<Rightarrow> bool" where
  "ends_with s p \<longleftrightarrow> length p \<le> length s \<and> drop (length s - length p) s = p"

definition rstrip_char :: "char \<Rightarrow> string \<Rightarrow> string" where
  "rstrip_char c s = rev (dropWhile (\<lambda>x. x = c) (rev s))"

text \<open>\<open>{"role": m.get("role", ""), "content": m.get("content", "")}\<close> for a message dict.\<close>

definition msg_dict :: "(string, json) pydict \<Rightarrow> json" where
  "msg_dict m = JsObj [(''role'', case dict_get m ''role'' of Some v \<Rightarrow> v | None \<Rightarrow> JsStr []),
                       (''content'', case dict_get m ''content'' of Some v \<Rightarrow> v | None \<Rightarrow> JsStr [])]"

text \<open>\<open>(model or self.default_model or "").strip()\<close> (\<open>ollama_local.py\<close> lines 319, 424, 665, and the other adapters): a default
  model that is truthy but not a string fails on \<open>.strip\<close>.\<close>

definition strip_target :: "string option \<Rightarrow> cvalue \<Rightarrow> exc + string" where
  "strip_target model dm =
     (case model of
        Some m \<Rightarrow> if m \<noteq> [] then Inr (py_strip m) else (if cv_truthy dm then (case dm of CStr s \<Rightarrow> Inr (py_strip s) | _ \<Rightarrow> Inl OtherError) else Inr [])
      | None \<Rightarrow> if cv_truthy dm then (case dm of CStr s \<Rightarrow> Inr (py_strip s) | _ \<Rightarrow> Inl OtherError) else Inr [])"

text \<open>The normalisation (\<open>ollama_local.py\<close> lines 438--457, and the other adapters) of the messages before filtering: a dict keeps its
  role and content, anything else becomes an empty message.\<close>

definition format_message :: "json \<Rightarrow> json" where
  "format_message m = (case m of JsObj d \<Rightarrow> msg_dict d | _ \<Rightarrow> JsObj [(''role'', JsStr []), (''content'', JsStr [])])"

text \<open>The comprehension \<open>[str(m['id']) for m in data.get('data', []) if 'id' in m]\<close>
  (\<open>deepseek_ai.py\<close> line 82, \<open>silicon_flow.py\<close> line 75); \<open>str()\<close> is left applied to the id values.\<close>

fun model_ids :: "json list \<Rightarrow> exc + json list" where
  "model_ids [] = Inr []"
| "model_ids (m # ms) =
     (case json_in ''id'' m of
        Inl e \<Rightarrow> Inl e
      | Inr False \<Rightarrow> model_ids ms
      | Inr True \<Rightarrow> (case json_index m ''id'' of
                      Inl e \<Rightarrow> Inl e
                    | Inr v \<Rightarrow> (case model_ids ms of Inl e \<Rightarrow> Inl e | Inr vs \<Rightarrow> Inr (v # vs))))"

text \<open>One iteration of the loop over \<open>choices\<close> (\<open>deepseek_ai.py\<close> lines 197--199, \<open>volc_engine.py\<close> lines 212--214): the content the
  choice contributes; \<open>content += x\<close> with a non-string \<open>x\<close> raises \<open>TypeError\<close>.\<close>

definition choice_content :: "json \<Rightarrow> exc + string" where
  "choice_content ch =
     (case json_in ''message'' ch of
        Inl e \<Rightarrow> Inl e
      | Inr False \<Rightarrow> Inr []
      | Inr True \<Rightarrow>
          (case json_index ch ''message'' of
             Inl e \<Rightarrow> Inl e
           | Inr m \<Rightarrow>
               (case json_in ''content'' m of
                  Inl e \<Rightarrow> Inl e
                | Inr False \<Rightarrow> Inr []
                | Inr True \<Rightarrow>
                    (case json_index m ''content'' of
                       Inl e \<Rightarrow> Inl e
                     | Inr (JsStr s) \<Rightarrow> Inr s
                     | Inr _ \<Rightarrow> Inl TypeError))))"

fun concat_contents :: "json list \<Rightarrow> exc + string" where
  "concat_contents [] = Inr []"
| "concat_contents (c # cs) =
     (case choice_content c of
        Inl e \<Rightarrow> Inl e
      | Inr s \<Rightarrow> (case concat_contents cs of Inl e \<Rightarrow> Inl e | Inr t \<Rightarrow> Inr (s @ t)))"

text \<open>The response check the REST adapters share (\<open>deepseek_ai.py\<close> lines 194--209,
  \<open>volc_engine.py\<close> 206--229, \<open>anyscale_endpoints.py\<close> 186--201,
  \<open>cohere_compatible.py\<close> 222--237): a non-empty \<open>choices\<close> list whose contents
  concatenate to a non-empty string gives that string stripped; any other shape raises
  the adapter's format error \<open>fmt\<close>.\<close>

definition parse_choices :: "exc \<Rightarrow> json \<Rightarrow> exc + string" where
  "parse_choices fmt r =
     (case json_in ''choices'' r of
        Inl e \<Rightarrow> Inl e
      | Inr False \<Rightarrow> Inl fmt
      | Inr True \<Rightarrow>
          (case json_index r ''choices'' of
             Inl e \<Rightarrow> Inl e
           | Inr (JsArr cs) \<Rightarrow>
               if cs = [] then Inl fmt
               else (case concat_contents cs of
                       Inl e \<Rightarrow> Inl e
                     | Inr c \<Rightarrow> if c \<noteq> [] then Inr (py_strip c) else Inl fmt)
           | Inr _ \<Rightarrow> Inl fmt))"

text \<open>The three per-call lookups of \<open>get_current_param\<close> the REST adapters make before a
  request (\<open>temperature\<close>, \<open>max_tokens\<close>, \<open>top_p\<close>, each defaulting to the handler's
  own value), then the keyword arguments on top; the registry state is threaded.\<close>

definition live_params :: "world \<Rightarrow> (string, string option) pydict option \<Rightarrow> cvalue \<Rightarrow> cvalue \<Rightarrow> cvalue
    \<Rightarrow> cvalue \<Rightarrow> (string, cvalue) pydict \<Rightarrow> factory_state \<Rightarrow> factory_state \<times> (string, cvalue) pydict" where
  "live_params w envf pn t mt tp kwargs st =
     (let (st1, temp) = get_current_param w envf pn ''temperature'' PTFloat t st;
          (st2, m) = get_current_param w envf pn ''max_tokens'' PTInt mt st1;
          (st3, p) = get_current_param w envf pn ''top_p'' PTFloat tp st2
      in (st3, dict_merge [(''temperature'', temp), (''max_tokens'', m), (''top_p'', p)] kwargs))"

text \<open>The items an SSE \<open>stream_chat\<close> of the REST adapters yields: a decoded payload,
  the completion marker \<open>{"status": "done"}\<close>, or an \<open>{"error": ...}\<close> item (its
  message is not kept).\<close>

datatype chunk = Chunk json | DoneChunk | ErrorChunk

text \<open>The payloads of an SSE body that decode, in order, given how an adapter reads
  the payload of a line (\<open>payload\<close>) and \<open>json.loads\<close> (\<open>loads\<close>): what a stream
  that skips every corrupt line yields.\<close>

fun sse_decoded :: "(string \<Rightarrow> string option) \<Rightarrow> (string \<Rightarrow> json option) \<Rightarrow> raw_line list \<Rightarrow> json list" where
  "sse_decoded payload loads [] = []"
| "sse_decoded payload loads (BadUtf8 # rest) = sse_decoded payload loads rest"
| "sse_decoded payload loads (Line l # rest) =
     (case payload l of
        Some d \<Rightarrow> (case loads d of Some j \<Rightarrow> j # sse_decoded payload loads rest | None \<Rightarrow> sse_decoded payload loads rest)
      | None \<Rightarrow> sse_decoded payload loads rest)"

section \<open>Lemmas\<close>

lemma dict_get_add_params:
  "dict_get (add_params valid params payload) k =
     (if k \<in> set valid then
        (case map_of (rev (filter (\<lambda>(k, v). v \<noteq> CNone) params)) k of
           Some v \<Rightarrow> Some (cv_json v) | None \<Rightarrow> dict_get payload k)
      else dict_get payload k)"
proof (induction params arbitrary: payload)
  case (Cons x params)
  obtain k' v' where x: "x = (k', v')" by fastforce
  show ?case using Cons.IH by (auto simp: x add_params_def map_add_def split: option.splits)
qed (simp add: add_params_def)

text \<open>The constructor calls the adapters make, evaluated by Python's keyword check.\<close>

lemma new_exc_simps [simp]:
  "new_exc NewConfigurationError 1 [] None = ConfigurationError"
  "new_exc NewConfigurationError (Suc 0) [] None = ConfigurationError"
  "new_exc NewAPIResponseError 0 [''provider_name'', ''status_code'', ''response_body'', ''details''] c = APIResponseError c"
  "new_exc NewAPIResponseFormatError 0 [''message'', ''response_body'', ''provider''] None = TypeError"
  "new_exc NewAPIConnectionError 0 [''message'', ''detail'', ''provider''] None = TypeError"
  "new_exc NewAPITimeoutError 0 [''message'', ''timeout_value'', ''provider''] None = APITimeoutError"
  "new_exc NewAPIError 0 [''message'', ''detail'', ''provider''] None = TypeError"
  "new_exc NewAPIError 1 [''detail'', ''provider''] None = TypeError"
  "new_exc NewAPIError (Suc 0) [''detail'', ''provider''] None = TypeError"
  "new_exc NewAPIError 0 [''provider_name'', ''message'', ''details''] None = APIError"
  "new_exc NewAPIConnectionError 0 [''message'', ''provider_name'', ''details''] None = TypeError"
  "new_exc NewAPITimeoutError 0 [''message'', ''provider_name'', ''timeout_seconds''] None = APITimeoutError"
  "new_exc NewAPIError 0 [''message'', ''provider_name'', ''details''] None = APIError"
  by (simp_all add: new_exc_def call_accepts_def)

lemma choice_content_exc: "choice_content c = Inl e \<Longrightarrow> e \<in> {TypeError, OtherError}"
  by (auto simp: choice_content_def json_in_def json_index_def
      split: json.splits sum.splits bool.splits option.splits)

lemma concat_contents_exc: "concat_contents cs = Inl e \<Longrightarrow> e \<in> {TypeError, OtherError}"
  by (induction cs) (auto dest: choice_content_exc split: sum.splits)

lemma parse_choices_exc: "parse_choices fmt r = Inl e \<Longrightarrow> e \<in> {fmt, TypeError, OtherError}"
  by (auto simp: parse_choices_def json_in_def json_index_def dest: concat_contents_exc
      split: json.splits sum.splits bool.splits option.splits if_splits)

end
