(* ===== verification/DeepSeek.thy ===== *)
theory DeepSeek
  imports Http
begin

text \<open>
  The DeepSeek adapter, \<open>src/src/providers/handlers/deepseek_ai.py\<close>
  (\<open>DeepseekAIHandler\<close>): construction from the flattened configuration, the request
  helper \<open>_make_request\<close> under its tenacity decorator, \<open>generate_text\<close> with its three
  per-call parameter lookups (threading the registry state), the SSE generator
  \<open>stream_chat\<close>, and \<open>get_available_models\<close>. Every \<open>raise C(kw=...)\<close> goes through
  \<open>new_exc\<close>, so a keyword the constructor does not take raises \<open>TypeError\<close>, as Python
  does. The network is a parameter: \<open>net k\<close> answers attempt \<open>k\<close>; a streamed body is
  its list of raw lines, and \<open>loads\<close> is \<open>json.loads\<close> on one line.
\<close>

section \<open>The handler\<close>

record deepseek =
  ds_provider_name :: cvalue
  ds_api_key :: cvalue
  ds_endpoint :: cvalue
  ds_default_model :: cvalue
  ds_temperature :: cvalue
  ds_top_p :: cvalue
  ds_max_tokens :: cvalue
  ds_request_timeout :: cvalue

text \<open>\<open>__init__\<close> (lines 18--39). A truthy endpoint that is not a string fails on
  \<open>.endswith\<close> with \<open>AttributeError\<close> (here \<open>OtherError\<close>).\<close>

definition deepseek_init :: "(string, cvalue) pydict \<Rightarrow> exc + deepseek" where
  "deepseek_init c =
     (let ep = cfg_get c ''DEEPSEEK_ENDPOINT'' (CStr ''https://api.deepseek.com/v1'');
          ds = \<lparr>ds_provider_name = cfg_get c ''provider_name'' (CStr ''deepseek_ai''),
                ds_api_key = cfg_get c ''DEEPSEEK_API_KEY'' CNone,
                ds_endpoint = ep,
                ds_default_model = cfg_get c ''DEEPSEEK_DEFAULT_MODEL'' CNone,
                ds_temperature = cfg_get c ''DEEPSEEK_TEMPERATURE'' (CFloat (Finite (7 / 10))),
                ds_top_p = cfg_get c ''DEEPSEEK_TOP_P'' (CFloat (Finite 1)),
                ds_max_tokens = cfg_get c ''DEEPSEEK_MAX_TOKENS'' (CInt 2000),
                ds_request_timeout = cfg_get c ''DEEPSEEK_REQUEST_TIMEOUT'' (CInt 30)\<rparr>
      in case ep of
           CStr e \<Rightarrow> Inr (if e \<noteq> [] \<and> ends_with e ''/'' then ds\<lparr>ds_endpoint := CStr (rstrip_char CHR ''/'' e)\<rparr> else ds)
         | v \<Rightarrow> if cv_truthy v then Inl OtherError else Inr ds)"

definition deepseek_required_config_fields :: "string list" where
  "deepseek_required_config_fields = [''DEEPSEEK_API_KEY'', ''DEEPSEEK_ENDPOINT'']"

text \<open>\<open>_get_headers\<close> (lines 102--109): only whether it raises.\<close>

definition deepseek_get_headers :: "deepseek \<Rightarrow> exc + unit" where
  "deepseek_get_headers ds =
     (if cv_truthy (ds_api_key ds) then Inr () else Inl (new_exc NewConfigurationError 1 [] None))"

section \<open>_make_request\<close>

definition deepseek_request_path :: "string \<Rightarrow> string" where
  "deepseek_request_path p = (if starts_with p ''/'' then p else CHR ''/'' # p)"

text \<open>One attempt of \<open>_make_request\<close> (lines 120--154), given the network's answer to
  the request.\<close>

definition deepseek_make_request_once :: "deepseek \<Rightarrow> string \<Rightarrow> (string, json) pydict \<Rightarrow> string
    \<Rightarrow> (request \<Rightarrow> http_result) \<Rightarrow> json outcome" where
  "deepseek_make_request_once ds path payload method net =
     (case deepseek_get_headers ds of
        Inl e \<Rightarrow> Raised e
      | Inr _ \<Rightarrow>
          (case net \<lparr>req_method = method, req_endpoint = ds_endpoint ds, req_path = deepseek_request_path path,
                     req_payload = (if method = ''POST'' then payload else [])\<rparr> of
             HResp code b \<Rightarrow>
               if code \<noteq> 200
               then Raised (new_exc NewAPIResponseError 0
                              [''provider_name'', ''status_code'', ''response_body'', ''details''] (Some code))
               else (case b of
                       JsonBody j \<Rightarrow> Returned j
                     | RawBody _ \<Rightarrow> Raised (new_exc NewAPIResponseFormatError 0
                                              [''message'', ''response_body'', ''provider''] None))
           | HFail ConnectorErr \<Rightarrow> Raised (new_exc NewAPIConnectionError 0 [''message'', ''detail'', ''provider''] None)
           | HFail TimeoutErr \<Rightarrow> Raised (new_exc NewAPITimeoutError 0 [''message'', ''timeout_value'', ''provider''] None)
           | HFail OtherClientErr \<Rightarrow> Raised (new_exc NewAPIError 0 [''message'', ''detail'', ''provider''] None)))"

text \<open>The decorated method (lines 111--119): tenacity with
  \<open>retry=is_retryable_exception\<close>; \<open>net k\<close> answers attempt \<open>k\<close>.\<close>

definition deepseek_make_request :: "deepseek \<Rightarrow> string \<Rightarrow> (string, json) pydict \<Rightarrow> string
    \<Rightarrow> (nat \<Rightarrow> request \<Rightarrow> http_result) \<Rightarrow> json outcome" where
  "deepseek_make_request ds path payload method net =
     fst (tenacity_call (adapter_retry (retry_callable is_retryable_exception))
            (\<lambda>k. deepseek_make_request_once ds path payload method (net k)))"

section \<open>generate_text\<close>

definition deepseek_valid_params :: "string list" where
  "deepseek_valid_params = [''temperature'', ''top_p'', ''max_tokens'', ''frequency_penalty'', ''presence_penalty'', ''stop'']"

text \<open>Lines 166--175: the three per-call lookups, then the keyword arguments on top.
  Returns the registry state after the lookups.\<close>

definition deepseek_params :: "world \<Rightarrow> (string, string option) pydict option \<Rightarrow> deepseek
    \<Rightarrow> (string, cvalue) pydict \<Rightarrow> factory_state \<Rightarrow> factory_state \<times> (string, cvalue) pydict" where
  "deepseek_params w envf ds kwargs st =
     live_params w envf (ds_provider_name ds) (ds_temperature ds) (ds_max_tokens ds) (ds_top_p ds) kwargs st"

text \<open>Lines 177--185: the payload of a non-streaming call.\<close>

definition deepseek_text_payload :: "cvalue \<Rightarrow> string \<Rightarrow> (string, cvalue) pydict \<Rightarrow> (string, json) pydict" where
  "deepseek_text_payload tm prompt final =
     add_params deepseek_valid_params final
       [(''model'', cv_json tm), (''messages'', JsArr [JsObj [(''role'', JsStr ''user''), (''content'', JsStr prompt)]]),
        (''stream'', JsBool False)]"

text \<open>Lines 194--209: the content of a successful response, or the exception raised
  while reading it.\<close>

definition deepseek_parse_result :: "json \<Rightarrow> exc + string" where
  "deepseek_parse_result r =
     parse_choices (new_exc NewAPIResponseFormatError 0 [''message'', ''response_body'', ''provider''] None) r"

text \<open>The \<open>except\<close> clauses of \<open>generate_text\<close> (lines 211--219), applied to what
  the \<open>try\<close> raised. The taxonomy's \<open>APIError\<close> passes; \<open>APIError(f"...", detail=...,
  provider=...)\<close> for a \<open>RetryError\<close> itself raises \<open>TypeError\<close>; anything else becomes
  \<open>APIError\<close>.\<close>

definition deepseek_wrap :: "exc \<Rightarrow> exc" where
  "deepseek_wrap e =
     (if isinstance e [CAPIError] then e
      else if isinstance e [CRetryError] then new_exc NewAPIError 1 [''detail'', ''provider''] None
      else new_exc NewAPIError 0 [''provider_name'', ''message'', ''details''] None)"

text \<open>\<open>generate_text\<close> (lines 159--219); \<open>generate\<close> (line 156) calls it.\<close>

definition deepseek_generate_text :: "world \<Rightarrow> (string, string option) pydict option \<Rightarrow> deepseek
    \<Rightarrow> string \<Rightarrow> string option \<Rightarrow> (string, cvalue) pydict \<Rightarrow> (nat \<Rightarrow> request \<Rightarrow> http_result)
    \<Rightarrow> factory_state \<Rightarrow> factory_state \<times> string outcome" where
  "deepseek_generate_text w envf ds prompt model kwargs net st =
     (let tm = target_model model (ds_default_model ds)
      in if \<not> cv_truthy tm then (st, Raised (new_exc NewConfigurationError 1 [] None))
         else (let (st3, final) = deepseek_params w envf ds kwargs st
               in (st3, case deepseek_make_request ds ''/chat/completions'' (deepseek_text_payload tm prompt final) ''POST'' net of
                          Raised e \<Rightarrow> Raised (deepseek_wrap e)
                        | Returned r \<Rightarrow>
                            (case deepseek_parse_result r of
                               Inl e \<Rightarrow> Raised (deepseek_wrap e)
                             | Inr c \<Rightarrow> Returned c))))"

section \<open>stream_chat\<close>

text \<open>The line loop of \<open>stream_chat\<close> (lines 297--310): blank lines, \<open>data: [DONE]\<close>
  and lines without the \<open>data:\<close> prefix are skipped, a payload \<open>json.loads\<close> rejects is
  skipped, every other payload is yielded. Bytes that are not UTF-8 raise
  \<open>UnicodeDecodeError\<close> out of the loop. The result is what was yielded and the
  exception that ended the loop, if any.\<close>

fun deepseek_stream_lines :: "(string \<Rightarrow> json option) \<Rightarrow> raw_line list \<Rightarrow> json list \<times> exc option" where
  "deepseek_stream_lines loads [] = ([], None)"
| "deepseek_stream_lines loads (BadUtf8 # rest) = ([], Some UnicodeDecodeError)"
| "deepseek_stream_lines loads (Line l # rest) =
     (let t = py_strip l
      in if l = [] \<or> t = [] \<or> t = ''data: [DONE]'' \<or> \<not> starts_with t ''data:''
         then deepseek_stream_lines loads rest
         else (case loads (py_strip (drop 5 t)) of
                 None \<Rightarrow> deepseek_stream_lines loads rest
               | Some j \<Rightarrow> (let (ys, e) = deepseek_stream_lines loads rest in (j # ys, e))))"

text \<open>The \<open>except\<close> clauses of \<open>stream_chat\<close> (lines 311--331): \<open>APIConnectionError\<close>
  with a \<open>message\<close> keyword it does not take (so \<open>TypeError\<close>), \<open>APITimeoutError\<close>, and
  \<open>APIError\<close> for everything else, the status error of a non-200 response included.\<close>

definition deepseek_stream_exc :: "exc \<Rightarrow> exc" where
  "deepseek_stream_exc e =
     (if isinstance e [CClientConnectorError]
      then new_exc NewAPIConnectionError 0 [''message'', ''provider_name'', ''details''] None
      else if isinstance e [CTimeoutError]
      then new_exc NewAPITimeoutError 0 [''message'', ''provider_name'', ''timeout_seconds''] None
      else new_exc NewAPIError 0 [''message'', ''provider_name'', ''details''] None)"

text \<open>Lines 244--273: the payload of a streaming call.\<close>

definition deepseek_stream_payload :: "cvalue \<Rightarrow> (string, json) pydict list \<Rightarrow> (string, cvalue) pydict
    \<Rightarrow> (string, json) pydict" where
  "deepseek_stream_payload tm messages final =
     add_params deepseek_valid_params final
       [(''model'', cv_json tm), (''messages'', JsArr (map msg_dict messages)), (''stream'', JsBool True)]"

text \<open>\<open>stream_chat\<close> (lines 221--333), run to the end by its consumer: the items it
  yields and the exception the consumer sees after them, if any.\<close>

definition deepseek_stream_chat :: "world \<Rightarrow> (string, string option) pydict option \<Rightarrow> deepseek
    \<Rightarrow> (string, json) pydict list \<Rightarrow> string option \<Rightarrow> (string, cvalue) pydict \<Rightarrow> (string \<Rightarrow> json option)
    \<Rightarrow> (request \<Rightarrow> stream_http) \<Rightarrow> factory_state \<Rightarrow> factory_state \<times> (json list \<times> exc option)" where
  "deepseek_stream_chat w envf ds messages model kwargs loads net st =
     (let tm = target_model model (ds_default_model ds)
      in if \<not> cv_truthy tm then (st, ([], Some (new_exc NewConfigurationError 1 [] None)))
         else (let (st3, final) = deepseek_params w envf ds kwargs st
               in (st3, case deepseek_get_headers ds of
                          Inl e \<Rightarrow> ([], Some (deepseek_stream_exc e))
                        | Inr _ \<Rightarrow>
                            (case net \<lparr>req_method = ''POST'', req_endpoint = ds_endpoint ds, req_path = ''/chat/completions'',
                                       req_payload = deepseek_stream_payload tm messages final\<rparr> of
                               SFail n \<Rightarrow> ([], Some (deepseek_stream_exc (net_exc n)))
                             | SResp code lines err \<Rightarrow>
                                 if code \<noteq> 200
                                 then ([], Some (deepseek_stream_exc (new_exc NewAPIResponseError 0
                                         [''provider_name'', ''status_code'', ''response_body'', ''details''] (Some code))))
                                 else (let (ys, e) = deepseek_stream_lines loads lines
                                       in case e of
                                            Some e' \<Rightarrow> (ys, Some (deepseek_stream_exc e'))
                                          | None \<Rightarrow> (ys, map_option (\<lambda>n. deepseek_stream_exc (net_exc n)) err))))))"

section \<open>get_available_models\<close>

text \<open>Lines 52--57, before the \<open>try\<close>: the models URL.\<close>

definition deepseek_models_base :: "string \<Rightarrow> string" where
  "deepseek_models_base e =
     (let b = rstrip_char CHR ''/'' (py_replace ''/v1'' [] e)
      in if ends_with b ''api.deepseek.com'' then b else ''https://api.deepseek.com'')"

text \<open>\<open>get_available_models\<close> (lines 45--100). Inside the \<open>try\<close>, a non-200 status, a
  missing key, a non-dict body and any other error end in \<open>except Exception\<close>, which
  returns \<open>[]\<close>; the handlers for connection errors, timeouts and invalid JSON raise,
  two of them \<open>TypeError\<close> through unknown keywords.\<close>

definition deepseek_get_available_models :: "deepseek \<Rightarrow> (request \<Rightarrow> http_result) \<Rightarrow> json list outcome" where
  "deepseek_get_available_models ds net =
     (case ds_endpoint ds of
        CStr e \<Rightarrow>
          (case deepseek_get_headers ds of
             Inl _ \<Rightarrow> Returned []
           | Inr _ \<Rightarrow>
               (case net \<lparr>req_method = ''GET'', req_endpoint = CStr (deepseek_models_base e),
                          req_path = ''/v1/models'', req_payload = []\<rparr> of
                  HResp code b \<Rightarrow>
                    if code \<noteq> 200 then Returned []
                    else (case b of
                            RawBody _ \<Rightarrow> Raised (new_exc NewAPIResponseFormatError 0
                                                   [''message'', ''response_body'', ''provider''] None)
                          | JsonBody (JsObj d) \<Rightarrow>
                              (case json_iter (case dict_get d ''data'' of Some v \<Rightarrow> v | None \<Rightarrow> JsArr []) of
                                 Inl _ \<Rightarrow> Returned []
                               | Inr ms \<Rightarrow> (case model_ids ms of Inl _ \<Rightarrow> Returned [] | Inr ids \<Rightarrow> Returned ids))
                          | JsonBody _ \<Rightarrow> Returned [])
                | HFail ConnectorErr \<Rightarrow> Raised (new_exc NewAPIConnectionError 0 [''message'', ''detail'', ''provider''] None)
                | HFail TimeoutErr \<Rightarrow> Raised (new_exc NewAPITimeoutError 0 [''message'', ''timeout_value'', ''provider''] None)
                | HFail OtherClientErr \<Rightarrow> Returned []))
      | _ \<Rightarrow> Raised OtherError)"

section \<open>Notions for the properties\<close>

text \<open>The payload the loop of \<open>stream_chat\<close> hands to \<open>json.loads\<close> for a raw line
  (lines 286--297), or \<open>None\<close> when it passes over the line before parsing.\<close>

definition deepseek_payload :: "string \<Rightarrow> string option" where
  "deepseek_payload l =
     (let t = py_strip l
      in if l = [] \<or> t = [] \<or> t = ''data: [DONE]'' \<or> \<not> starts_with t ''data:'' then None
         else Some (py_strip (drop 5 t)))"

text \<open>A raw line the loop of \<open>stream_chat\<close> passes over without yielding.\<close>

definition deepseek_line_skipped :: "(string \<Rightarrow> json option) \<Rightarrow> string \<Rightarrow> bool" where
  "deepseek_line_skipped loads l \<longleftrightarrow>
     (let t = py_strip l in l = [] \<or> t = [] \<or> t = ''data: [DONE]'' \<or> \<not> starts_with t ''data:'' \<or>
                            loads (py_strip (drop 5 t)) = None)"

text \<open>A configured handler, for the examples.\<close>

definition deepseek_example :: deepseek where
  "deepseek_example = \<lparr>ds_provider_name = CStr ''deepseek_ai'', ds_api_key = CStr ''sk-test'',
     ds_endpoint = CStr ''https://api.deepseek.com/v1'', ds_default_model = CStr ''deepseek-chat'',
     ds_temperature = CFloat (Finite (7 / 10)), ds_top_p = CFloat (Finite 1), ds_max_tokens = CInt 2000,
     ds_request_timeout = CInt 30\<rparr>"

section \<open>Lemmas\<close>

lemma deepseek_make_request_single:
  "deepseek_make_request ds path payload method net = deepseek_make_request_once ds path payload method (net 1)"
proof -
  have "tenacity_call (adapter_retry (retry_callable is_retryable_exception))
          (\<lambda>k. deepseek_make_request_once ds path payload method (net k)) =
        (deepseek_make_request_once ds path payload method (net 1), [], 1)"
    unfolding tenacity_call_def
    by (rule tenacity_never_retry) (simp add: retry_callable_def is_retryable_exception_def)
  then show ?thesis by (simp add: deepseek_make_request_def)
qed

lemma deepseek_make_request_once_exc:
  "deepseek_make_request_once ds path payload method net = Raised e \<Longrightarrow>
   e \<in> {ConfigurationError, TypeError, APITimeoutError} \<or> (\<exists>c. e = APIResponseError c)"
  by (auto simp: deepseek_make_request_once_def deepseek_get_headers_def
      split: sum.splits http_result.splits net_err.splits body.splits if_splits)

lemma deepseek_wrap_APIError:
  "e \<in> {ConfigurationError, TypeError, APITimeoutError, OtherError} \<or> (\<exists>c. e = APIResponseError c) \<Longrightarrow>
   deepseek_wrap e = APIError"
  by (auto simp: deepseek_wrap_def isinstance_def)

lemma deepseek_parse_result_exc: "deepseek_parse_result r = Inl e \<Longrightarrow> e \<in> {TypeError, OtherError}"
  using parse_choices_exc by (fastforce simp: deepseek_parse_result_def new_exc_def call_accepts_def)

text \<open>C21 (error). \<open>generate_text\<close> raises only \<open>ConfigurationError\<close> (no model, before any
  request) or the taxonomy's \<open>APIError\<close>: connection failures, timeouts, error statuses
  and malformed bodies all reach the caller as the same generic \<open>APIError\<close>.\<close>

theorem deepseek_generate_text_errors:
  assumes "snd (deepseek_generate_text w envf ds prompt model kwargs net st) = Raised e"
  shows "e = ConfigurationError \<or> e = APIError"
proof -
  have mr: "\<And>p. deepseek_make_request ds ''/chat/completions'' p ''POST'' net = Raised e' \<Longrightarrow> deepseek_wrap e' = APIError" for e'
    by (simp add: deepseek_make_request_single) (metis deepseek_make_request_once_exc deepseek_wrap_APIError insert_iff)
  have pr: "deepseek_parse_result r = Inl e' \<Longrightarrow> deepseek_wrap e' = APIError" for r e'
    using deepseek_parse_result_exc deepseek_wrap_APIError by blast
  show ?thesis using assms mr pr
    by (auto simp: deepseek_generate_text_def Let_def split: prod.splits outcome.splits sum.splits if_splits)
qed

theorem deepseek_generate_text_errors_witness:
  "snd (deepseek_generate_text example_world None deepseek_example ''hi'' None []
          (\<lambda>_ _. HResp 401 (RawBody ''unauthorized'')) (initialize_handlers example_world factory_init))
     = Raised APIError \<and> (APIError = ConfigurationError \<or> APIError = APIError)"
proof -
  have r: "snd (deepseek_generate_text example_world None deepseek_example ''hi'' None []
          (\<lambda>_ _. HResp 401 (RawBody ''unauthorized'')) (initialize_handlers example_world factory_init))
     = Raised APIError" by code_simp
  show ?thesis using r deepseek_generate_text_errors [OF r] by simp
qed

text \<open>(error; a bug). \<open>generate_text\<close> sends at most one request: its result depends
  only on the network's answer to the first attempt, whatever later attempts would
  give, because the tenacity predicate never retries.\<close>

theorem deepseek_generate_text_single_attempt:
  "deepseek_generate_text w envf ds prompt model kwargs net st =
   deepseek_generate_text w envf ds prompt model kwargs (\<lambda>_. net 1) st"
  unfolding deepseek_generate_text_def deepseek_make_request_single ..

lemma deepseek_generate_text_response:
  assumes "cv_truthy (target_model model (ds_default_model ds))" "cv_truthy (ds_api_key ds)"
    and "\<And>r. net 1 r = HResp code b"
  shows "snd (deepseek_generate_text w envf ds prompt model kwargs net st) =
           (if code \<noteq> 200 then Raised (deepseek_wrap (APIResponseError (Some code)))
            else case b of
                   RawBody _ \<Rightarrow> Raised (deepseek_wrap TypeError)
                 | JsonBody r \<Rightarrow> (case deepseek_parse_result r of
                                     Inl e \<Rightarrow> Raised (deepseek_wrap e) | Inr c \<Rightarrow> Returned c))"
  using assms
  by (simp add: deepseek_generate_text_def deepseek_make_request_single deepseek_make_request_once_def
      deepseek_get_headers_def Let_def split: prod.splits body.splits)

text \<open>C22 (error; divergence). A non-200 response reaches the caller of \<open>generate_text\<close>
  as a generic \<open>APIError\<close>, without its status code; the spec requires a typed bad
  response error carrying the status.\<close>

theorem deepseek_status_lost:
  assumes "cv_truthy (target_model model (ds_default_model ds))" "cv_truthy (ds_api_key ds)"
    and "\<And>r. net 1 r = HResp code b" "code \<noteq> 200"
  shows "snd (deepseek_generate_text w envf ds prompt model kwargs net st) = Raised APIError"
  using deepseek_generate_text_response [where net = net, OF assms(1-3)] assms(4)
  by (simp add: deepseek_wrap_APIError)

theorem deepseek_status_lost_witness:
  "snd (deepseek_generate_text example_world None deepseek_example ''hi'' None []
          (\<lambda>_ _. HResp 429 (JsonBody (JsObj [(''error'', JsStr ''rate limited'')]))) factory_init) = Raised APIError"
  by (rule deepseek_status_lost [where code = 429]) (simp_all add: deepseek_example_def target_model_def cv_truthy_def)

text \<open>(functional). A 200 response whose single choice carries non-empty content
  returns that content stripped of surrounding whitespace.\<close>

theorem deepseek_generate_text_success:
  assumes "cv_truthy (target_model model (ds_default_model ds))" "cv_truthy (ds_api_key ds)"
    and "\<And>r. net 1 r = HResp 200 (JsonBody (JsObj [(''choices'', JsArr [JsObj [(''message'', JsObj [(''content'', JsStr c)])]])]))"
    and "c \<noteq> []"
  shows "snd (deepseek_generate_text w envf ds prompt model kwargs net st) = Returned (py_strip c)"
  using deepseek_generate_text_response [where net = net, OF assms(1-3)] assms(4)
  by (simp add: deepseek_parse_result_def parse_choices_def choice_content_def json_in_def json_index_def dict_keys_def dict_get_def)

theorem deepseek_generate_text_success_witness:
  "snd (deepseek_generate_text example_world None deepseek_example ''hi'' (Some ''deepseek-reasoner'') []
          (\<lambda>_ _. HResp 200 (JsonBody (JsObj [(''choices'', JsArr [JsObj [(''message'', JsObj [(''content'', JsStr '' ok '')])]])])))
          factory_init) = Returned ''ok''"
proof -
  have "snd (deepseek_generate_text example_world None deepseek_example ''hi'' (Some ''deepseek-reasoner'') []
          (\<lambda>_ _. HResp 200 (JsonBody (JsObj [(''choices'', JsArr [JsObj [(''message'', JsObj [(''content'', JsStr '' ok '')])]])])))
          factory_init) = Returned (py_strip '' ok '')"
    by (rule deepseek_generate_text_success) (simp_all add: deepseek_example_def target_model_def cv_truthy_def)
  moreover have "py_strip '' ok '' = ''ok''" by code_simp
  ultimately show ?thesis by simp
qed

lemma deepseek_params_final:
  "snd (deepseek_params w envf ds kwargs st) =
     dict_merge [(''temperature'', snd (get_current_param w envf (ds_provider_name ds) ''temperature'' PTFloat (ds_temperature ds) st)),
                 (''max_tokens'', snd (get_current_param w envf (ds_provider_name ds) ''max_tokens'' PTInt (ds_max_tokens ds)
                    (fst (get_current_param w envf (ds_provider_name ds) ''temperature'' PTFloat (ds_temperature ds) st)))),
                 (''top_p'', snd (get_current_param w envf (ds_provider_name ds) ''top_p'' PTFloat (ds_top_p ds)
                    (fst (get_current_param w envf (ds_provider_name ds) ''max_tokens'' PTInt (ds_max_tokens ds)
                      (fst (get_current_param w envf (ds_provider_name ds) ''temperature'' PTFloat (ds_temperature ds) st))))))]
       kwargs"
  by (simp add: deepseek_params_def live_params_def split: prod.splits)

text \<open>(functional). Parameter precedence in the payload: the call's keyword argument
  wins over the per-call lookup of \<open>get_current_param\<close> (the \<open>.env\<close> file, then the
  constructor's configuration); a value \<open>None\<close>, whichever source gives it, leaves the
  parameter out of the payload altogether.\<close>

theorem deepseek_temperature_precedence:
  assumes "wf_dict kwargs"
  shows "dict_get (deepseek_text_payload tm prompt (snd (deepseek_params w envf ds kwargs st))) ''temperature'' =
     (let v = (case dict_get kwargs ''temperature'' of
                 Some v \<Rightarrow> v
               | None \<Rightarrow> snd (get_current_param w envf (ds_provider_name ds) ''temperature'' PTFloat (ds_temperature ds) st))
      in if v = CNone then None else Some (cv_json v))"
proof -
  let ?final = "snd (deepseek_params w envf ds kwargs st)"
  have wf: "wf_dict ?final"
    unfolding deepseek_params_final by (rule wf_dict_merge) (simp add: wf_dict_def dict_keys_def)
  have g: "dict_get ?final ''temperature'' = Some (case dict_get kwargs ''temperature'' of
                 Some v \<Rightarrow> v
               | None \<Rightarrow> snd (get_current_param w envf (ds_provider_name ds) ''temperature'' PTFloat (ds_temperature ds) st))"
    using assms by (simp add: deepseek_params_final dict_get_merge_wf split: option.splits) (simp add: dict_get_def)
  have p: "dict_get (deepseek_text_payload tm prompt ?final) ''temperature'' =
      (case map_of (rev (filter (\<lambda>(k, v). v \<noteq> CNone) ?final)) ''temperature'' of
         Some v \<Rightarrow> Some (cv_json v) | None \<Rightarrow> None)"
    by (simp add: deepseek_text_payload_def dict_get_add_params deepseek_valid_params_def split: option.splits)
       (simp add: dict_get_def)
  have "map_of (rev (filter (\<lambda>(k, v). v \<noteq> CNone) ?final)) ''temperature'' =
      (case dict_get ?final ''temperature'' of Some v \<Rightarrow> if v \<noteq> CNone then Some v else None | None \<Rightarrow> None)"
    using wf map_of_rev_filter_distinct [of ?final "\<lambda>v. v \<noteq> CNone" "''temperature''"]
    by (simp add: wf_dict_def dict_keys_def dict_get_def)
  then show ?thesis using p g by (simp add: Let_def)
qed

theorem deepseek_temperature_precedence_witness:
  "dict_get (deepseek_text_payload (CStr ''deepseek-chat'') ''hi''
     (snd (deepseek_params example_world None deepseek_example [(''temperature'', CFloat (Finite (1 / 5)))] factory_init)))
     ''temperature'' = Some (JsFloat (Finite (1 / 5)))"
  using deepseek_temperature_precedence [of "[(''temperature'', CFloat (Finite (1 / 5)))]"]
  by (simp add: wf_dict_def dict_keys_def dict_get_def cv_json_def)

lemma deepseek_stream_lines_skip:
  "deepseek_line_skipped loads l \<Longrightarrow>
   deepseek_stream_lines loads (xs @ Line l # ys) = deepseek_stream_lines loads (xs @ ys)"
proof (induction xs)
  case Nil
  then show ?case by (auto simp: deepseek_line_skipped_def Let_def split: option.splits)
next
  case (Cons x xs)
  then show ?case by (cases x) (simp_all add: Let_def split: option.splits)
qed

lemma deepseek_stream_lines_Line:
  "deepseek_stream_lines loads (map Line ls) = (sse_decoded deepseek_payload loads (map Line ls), None)"
  by (induction ls) (simp_all add: deepseek_payload_def Let_def split: option.splits)

text \<open>C23 (functional; divergence). On a 200 stream that ends without a transport error,
  \<open>stream_chat\<close> yields exactly the JSON payloads of the provider's \<open>data:\<close> lines, in order,
  and nothing after them: no completion marker \<open>{"status": "done"}\<close>, which the spec
  (section 6) requires as the terminal chunk and which the sibling adapters
  (\<open>silicon_flow.py\<close>, \<open>volc_engine.py\<close>) append; \<open>data: [DONE]\<close> is skipped, not
  turned into the marker.\<close>

theorem deepseek_stream_yields_only_payloads:
  assumes "cv_truthy (target_model model (ds_default_model ds))"
    and "deepseek_get_headers ds = Inr ()"
  shows "snd (deepseek_stream_chat w envf ds messages model kwargs loads (\<lambda>_. SResp 200 (map Line ls) None) st) =
         (sse_decoded deepseek_payload loads (map Line ls), None)"
  using assms by (simp add: deepseek_stream_chat_def deepseek_stream_lines_Line Let_def split: prod.splits)

theorem deepseek_stream_yields_only_payloads_witness:
  "snd (deepseek_stream_chat example_world None deepseek_example [] None []
        (\<lambda>s. if s = ''{}'' then Some (JsObj []) else None)
        (\<lambda>_. SResp 200 (map Line [''data: {}'', ''data: [DONE]'']) None) factory_init) = ([JsObj []], None)"
proof -
  have "cv_truthy (target_model None (ds_default_model deepseek_example))"
    and "deepseek_get_headers deepseek_example = Inr ()"
    by code_simp+
  from deepseek_stream_yields_only_payloads [OF this, of example_world None "[]" "[]"]
  show ?thesis by code_simp
qed

text \<open>(functional). A corrupt or non-data line anywhere in the stream (also
  \<open>data: [DONE]\<close>, which does not end it) is passed over: the stream yields and raises
  exactly what it would without that line.\<close>

theorem deepseek_stream_skips_corrupt_line:
  assumes "deepseek_line_skipped loads l"
  shows "deepseek_stream_chat w envf ds messages model kwargs loads (\<lambda>_. SResp 200 (xs @ Line l # ys) err) st =
         deepseek_stream_chat w envf ds messages model kwargs loads (\<lambda>_. SResp 200 (xs @ ys) err) st"
  by (simp add: deepseek_stream_chat_def deepseek_stream_lines_skip [OF assms] Let_def
      split: prod.splits sum.splits)

theorem deepseek_stream_skips_corrupt_line_witness:
  "deepseek_stream_chat example_world None deepseek_example [] None [] (\<lambda>s. if s = ''{}'' then Some (JsObj []) else None)
     (\<lambda>_. SResp 200 ([Line ''data: {}''] @ Line ''data: {broken'' # [Line ''data: {}'']) None) factory_init =
   deepseek_stream_chat example_world None deepseek_example [] None [] (\<lambda>s. if s = ''{}'' then Some (JsObj []) else None)
     (\<lambda>_. SResp 200 ([Line ''data: {}''] @ [Line ''data: {}'']) None) factory_init"
proof -
  have "deepseek_line_skipped (\<lambda>s. if s = ''{}'' then Some (JsObj []) else None) ''data: {broken''" by code_simp
  then show ?thesis by (rule deepseek_stream_skips_corrupt_line)
qed

text \<open>(error; a bug). When the connection to the provider fails, \<open>stream_chat\<close> yields
  nothing and raises \<open>TypeError\<close>: its handler passes \<open>message=\<close> to
  \<open>APIConnectionError\<close>, which does not take it.\<close>

theorem deepseek_stream_connect_error:
  assumes "cv_truthy (target_model model (ds_default_model ds))" "cv_truthy (ds_api_key ds)"
    and "\<And>r. net r = SFail ConnectorErr"
  shows "snd (deepseek_stream_chat w envf ds messages model kwargs loads net st) = ([], Some TypeError)"
  using assms
  by (simp add: deepseek_stream_chat_def deepseek_get_headers_def deepseek_stream_exc_def net_exc_def
      isinstance_def split: prod.splits)

theorem deepseek_stream_connect_error_witness:
  "snd (deepseek_stream_chat example_world None deepseek_example [] None [] (\<lambda>_. None)
     (\<lambda>_. SFail ConnectorErr) factory_init) = ([], Some TypeError)"
  by (rule deepseek_stream_connect_error) (simp_all add: deepseek_example_def target_model_def cv_truthy_def)

text \<open>(error; divergence). \<open>get_available_models\<close> raises on a connection failure
  (\<open>TypeError\<close>, again through an unknown keyword) and on a timeout
  (\<open>APITimeoutError\<close>); the spec says routine unreachability falls back to a default
  list instead of raising.\<close>

theorem deepseek_models_raise_on_network_failure:
  assumes "ds_endpoint ds = CStr e" "cv_truthy (ds_api_key ds)"
    and "\<And>r. net r = HFail n" "n \<noteq> OtherClientErr"
  shows "deepseek_get_available_models ds net = Raised (if n = ConnectorErr then TypeError else APITimeoutError)"
  using assms
  by (cases n) (simp_all add: deepseek_get_available_models_def deepseek_get_headers_def)

theorem deepseek_models_raise_on_network_failure_witness:
  "deepseek_get_available_models deepseek_example (\<lambda>_. HFail TimeoutErr) = Raised APITimeoutError"
  using deepseek_models_raise_on_network_failure [of deepseek_example "''https://api.deepseek.com/v1''"
      "\<lambda>_. HFail TimeoutErr" TimeoutErr]
  by (simp add: deepseek_example_def cv_truthy_def)

end
