(* ===== verification/Cache.thy ===== *)
theory Cache
  imports Json
begin

text \<open>
  The result cache of \<open>src/src/utils/cache.py\<close>: the class \<open>TextProcessingCache\<close>
  (an in-memory dict of items with an LRU list of keys, backed by one JSON file per key
  in a cache directory), its four module-level instances, and \<open>get_cache_dir\<close>, which
  places the saved analysis results of \<open>save_analysis_result\<close> in the directories of
  those instances. The clock (\<open>time.time()\<close>) is an argument of each operation, and
  \<open>datetime.fromisoformat(..).timestamp()\<close> is the parameter \<open>isots\<close> (\<open>None\<close> is its
  \<open>ValueError\<close>). Floats are exact rationals (rounding is not modelled). The lock only
  serialises the methods, which are modelled as atomic steps. The file system is the
  list of the directory's \<open>*.json\<close> files, in \<open>glob\<close> order, by stem; removing or
  writing a file succeeds.
\<close>

section \<open>State\<close>

text \<open>A cache file: its modification time and its content (JSON, or text \<open>json.load\<close>
  rejects).\<close>

record dfile =
  df_mtime :: rat
  df_body :: body

type_synonym item = "(string, json) pydict"

text \<open>\<open>self._cache\<close>, \<open>self._keys\<close>, \<open>self.maxsize\<close>, \<open>self.ttl\<close> and the content of
  \<open>self.cache_dir\<close>.\<close>

record tpc =
  tpc_cache :: "(string, item) pydict"
  tpc_keys :: "string list"
  tpc_maxsize :: int
  tpc_ttl :: int
  tpc_disk :: "(string, dfile) pydict"

section \<open>Timestamps\<close>

text \<open>\<open>current_time - t > self.ttl\<close> for a float \<open>t\<close>: an infinite \<open>t\<close> gives an
  infinite difference, \<open>NaN\<close> compares false.\<close>

definition pf_expired :: "rat \<Rightarrow> int \<Rightarrow> pyfloat \<Rightarrow> bool" where
  "pf_expired now ttl t = (case t of Finite r \<Rightarrow> of_int ttl < now - r | PosInf \<Rightarrow> False | NegInf \<Rightarrow> True
                                   | NaN \<Rightarrow> False)"

text \<open>The same comparison for a stored JSON value (lines 88 and 314): numbers and booleans
  (a \<open>bool\<close> is an \<open>int\<close>) compare, anything else raises \<open>TypeError\<close>.\<close>

definition ts_expired :: "rat \<Rightarrow> int \<Rightarrow> json \<Rightarrow> exc + bool" where
  "ts_expired now ttl v =
     (case v of
        JsInt i \<Rightarrow> (case float_of_int i of Some t \<Rightarrow> Inr (pf_expired now ttl t) | None \<Rightarrow> Inl OtherError)
      | JsBool b \<Rightarrow> Inr (pf_expired now ttl (Finite (if b then 1 else 0)))
      | JsFloat t \<Rightarrow> Inr (pf_expired now ttl t)
      | _ \<Rightarrow> Inl TypeError)"

text \<open>Lines 192--204 (and 249--260): the timestamp of a loaded item as a float, \<open>None\<close>
  when it is missing, of another type, or a string \<open>fromisoformat\<close> rejects; the
  \<open>OverflowError\<close> of \<open>float()\<close> is raised.\<close>

definition item_timestamp :: "(string \<Rightarrow> rat option) \<Rightarrow> item \<Rightarrow> exc + pyfloat option" where
  "item_timestamp isots it =
     (case dict_get it ''timestamp'' of
        Some (JsInt i) \<Rightarrow> (case float_of_int i of Some t \<Rightarrow> Inr (Some t) | None \<Rightarrow> Inl OtherError)
      | Some (JsBool b) \<Rightarrow> Inr (Some (Finite (if b then 1 else 0)))
      | Some (JsFloat t) \<Rightarrow> Inr (Some t)
      | Some (JsStr s) \<Rightarrow> Inr (map_option Finite (isots (py_replace ''Z'' ''+00:00'' s)))
      | _ \<Rightarrow> Inr None)"

text \<open>Reading one cache file (lines 188--204, 245--260): its item and timestamp;
  \<open>None\<close> when \<open>json.load\<close> fails, when the content is not a dict (\<open>.get\<close> raises
  \<open>AttributeError\<close>), or when the conversion raises: both loaders catch these.\<close>

definition file_item :: "(string \<Rightarrow> rat option) \<Rightarrow> dfile \<Rightarrow> (item \<times> pyfloat option) option" where
  "file_item isots f =
     (case df_body f of
        JsonBody (JsObj it) \<Rightarrow> (case item_timestamp isots it of Inr t \<Rightarrow> Some (it, t) | Inl _ \<Rightarrow> None)
      | _ \<Rightarrow> None)"

section \<open>The methods\<close>

text \<open>\<open>list.remove(x)\<close>: the first occurrence; \<open>ValueError\<close> (\<open>None\<close>) when absent.\<close>

definition list_remove :: "'a \<Rightarrow> 'a list \<Rightarrow> 'a list option" where
  "list_remove x xs = (if x \<in> set xs then Some (remove1 x xs) else None)"

text \<open>\<open>_add_to_memory_cache\<close> (lines 134--147): \<open>ValueError\<close>, \<open>IndexError\<close> and
  \<open>KeyError\<close> are \<open>OtherError\<close>.\<close>

definition add_to_memory_cache :: "string \<Rightarrow> item \<Rightarrow> tpc \<Rightarrow> exc + tpc" where
  "add_to_memory_cache k v st =
     (let pre = (if k \<in> set (dict_keys (tpc_cache st)) then
                   (case list_remove k (tpc_keys st) of
                      None \<Rightarrow> Inl OtherError
                    | Some ks \<Rightarrow> Inr (st\<lparr>tpc_keys := ks\<rparr>))
                 else if tpc_maxsize st \<le> int (length (tpc_cache st)) then
                   (case tpc_keys st of
                      [] \<Rightarrow> Inl OtherError
                    | old # ks \<Rightarrow>
                        if old \<in> set (dict_keys (tpc_cache st))
                        then Inr (st\<lparr>tpc_keys := ks, tpc_cache := dict_del old (tpc_cache st)\<rparr>)
                        else Inl OtherError)
                 else Inr st)
      in case pre of
           Inl e \<Rightarrow> Inl e
         | Inr st' \<Rightarrow> Inr (st'\<lparr>tpc_cache := dict_set k v (tpc_cache st'), tpc_keys := tpc_keys st' @ [k]\<rparr>))"

text \<open>\<open>_remove_item\<close> (lines 149--164).\<close>

definition remove_item :: "string \<Rightarrow> tpc \<Rightarrow> tpc" where
  "remove_item k st =
     st\<lparr>tpc_cache := dict_del k (tpc_cache st), tpc_keys := remove1 k (tpc_keys st),
        tpc_disk := dict_del k (tpc_disk st)\<rparr>"

text \<open>\<open>_save_to_disk_by_key\<close> (lines 170--179): the file is written at time \<open>now\<close>.\<close>

definition save_to_disk_by_key :: "rat \<Rightarrow> string \<Rightarrow> item \<Rightarrow> tpc \<Rightarrow> tpc" where
  "save_to_disk_by_key now k v st =
     st\<lparr>tpc_disk := dict_set k \<lparr>df_mtime = now, df_body = JsonBody (JsObj v)\<rparr> (tpc_disk st)\<rparr>"

text \<open>\<open>_load_from_disk_by_key\<close> (lines 181--227): the directory after the call and the
  item, if any; an expired file is removed.\<close>

definition load_from_disk_by_key :: "(string \<Rightarrow> rat option) \<Rightarrow> rat \<Rightarrow> int \<Rightarrow> string
    \<Rightarrow> (string, dfile) pydict \<Rightarrow> (string, dfile) pydict \<times> item option" where
  "load_from_disk_by_key isots now ttl k disk =
     (case dict_get disk k of
        None \<Rightarrow> (disk, None)
      | Some f \<Rightarrow>
          (case file_item isots f of
             None \<Rightarrow> (disk, None)
           | Some (it, None) \<Rightarrow> (disk, None)
           | Some (it, Some t) \<Rightarrow> if pf_expired now ttl t then (dict_del k disk, None) else (disk, Some it)))"

text \<open>\<open>get\<close> (lines 81--109), for the key \<open>_create_key(*args)\<close>: the state after the
  call and the item returned, or the exception it raises.\<close>

definition tpc_get :: "(string \<Rightarrow> rat option) \<Rightarrow> rat \<Rightarrow> string \<Rightarrow> tpc \<Rightarrow> exc + tpc \<times> item option" where
  "tpc_get isots now k st =
     (case dict_get (tpc_cache st) k of
        Some it \<Rightarrow>
          (let exp = (case dict_get it ''timestamp'' of None \<Rightarrow> Inr False | Some ts \<Rightarrow> ts_expired now (tpc_ttl st) ts)
           in case exp of
                Inl e \<Rightarrow> Inl e
              | Inr True \<Rightarrow> Inr (remove_item k st, None)
              | Inr False \<Rightarrow>
                  (case list_remove k (tpc_keys st) of
                     None \<Rightarrow> Inl OtherError
                   | Some ks \<Rightarrow> Inr (st\<lparr>tpc_keys := ks @ [k]\<rparr>, Some it)))
      | None \<Rightarrow>
          (case load_from_disk_by_key isots now (tpc_ttl st) k (tpc_disk st) of
             (d, None) \<Rightarrow> Inr (st\<lparr>tpc_disk := d\<rparr>, None)
           | (d, Some it) \<Rightarrow>
               if it = [] then Inr (st\<lparr>tpc_disk := d\<rparr>, None)
               else (case add_to_memory_cache k it (st\<lparr>tpc_disk := d\<rparr>) of
                       Inl e \<Rightarrow> Inl e
                     | Inr st' \<Rightarrow> Inr (st', Some it))))"

text \<open>\<open>set\<close> (lines 111--132): a value that is not a dict is ignored; otherwise its
  \<open>timestamp\<close> is set to \<open>now\<close> (in the caller's dict too), and it is cached and saved.\<close>

definition tpc_set :: "rat \<Rightarrow> json \<Rightarrow> string \<Rightarrow> tpc \<Rightarrow> exc + tpc" where
  "tpc_set now value k st =
     (case value of
        JsObj d \<Rightarrow>
          (let v = dict_set ''timestamp'' (JsFloat (Finite now)) d
           in case add_to_memory_cache k v st of
                Inl e \<Rightarrow> Inl e
              | Inr st' \<Rightarrow> Inr (save_to_disk_by_key now k v st'))
      | _ \<Rightarrow> Inr st)"

text \<open>One iteration of \<open>_load_from_disk\<close> (lines 243--278); the \<open>try\<close> around it
  catches every exception, so a failing file is skipped.\<close>

definition load_file :: "(string \<Rightarrow> rat option) \<Rightarrow> rat \<Rightarrow> string \<times> dfile \<Rightarrow> tpc \<Rightarrow> tpc" where
  "load_file isots now kf st =
     (case file_item isots (snd kf) of
        None \<Rightarrow> st
      | Some (it, None) \<Rightarrow> st
      | Some (it, Some t) \<Rightarrow>
          if pf_expired now (tpc_ttl st) t then st\<lparr>tpc_disk := dict_del (fst kf) (tpc_disk st)\<rparr>
          else (case add_to_memory_cache (fst kf) it st of Inl _ \<Rightarrow> st | Inr st' \<Rightarrow> st'))"

text \<open>\<open>_load_from_disk\<close> (lines 229--282): the \<open>maxsize\<close> most recently modified files,
  newest first (\<open>sort(reverse=True)\<close> is stable, as \<open>sort_key\<close> is).\<close>

definition load_from_disk :: "(string \<Rightarrow> rat option) \<Rightarrow> rat \<Rightarrow> tpc \<Rightarrow> tpc" where
  "load_from_disk isots now st =
     fold (load_file isots now) (take (nat (tpc_maxsize st)) (sort_key (\<lambda>kf. - df_mtime (snd kf)) (tpc_disk st))) st"

text \<open>\<open>__init__\<close> (lines 32--58), on a directory holding \<open>disk\<close>.\<close>

definition tpc_init :: "(string \<Rightarrow> rat option) \<Rightarrow> rat \<Rightarrow> int \<Rightarrow> int \<Rightarrow> (string, dfile) pydict \<Rightarrow> tpc" where
  "tpc_init isots now maxsize ttl disk =
     load_from_disk isots now
       \<lparr>tpc_cache = [], tpc_keys = [], tpc_maxsize = max 10 maxsize, tpc_ttl = ttl, tpc_disk = disk\<rparr>"

text \<open>\<open>clear\<close> (lines 284--300).\<close>

definition tpc_clear :: "tpc \<Rightarrow> tpc" where
  "tpc_clear st = st\<lparr>tpc_cache := [], tpc_keys := [], tpc_disk := []\<rparr>"

text \<open>The first loop of \<open>clear_expired\<close> (lines 313--315): the expired keys in dict
  order; the comparison's exception escapes the method.\<close>

fun expired_keys :: "rat \<Rightarrow> int \<Rightarrow> (string, item) pydict \<Rightarrow> exc + string list" where
  "expired_keys now ttl [] = Inr []"
| "expired_keys now ttl ((k, it) # r) =
     (case (case dict_get it ''timestamp'' of None \<Rightarrow> Inr False | Some ts \<Rightarrow> ts_expired now ttl ts) of
        Inl e \<Rightarrow> Inl e
      | Inr b \<Rightarrow> (case expired_keys now ttl r of Inl e \<Rightarrow> Inl e | Inr ks \<Rightarrow> Inr (if b then k # ks else ks)))"

text \<open>Whether the disk loop of \<open>clear_expired\<close> (lines 327--341) keeps a file: every
  exception of the test (a file that does not parse, a value \<open>in\<close> cannot search, a
  timestamp that does not subtract) removes it.\<close>

definition disk_keep :: "rat \<Rightarrow> int \<Rightarrow> dfile \<Rightarrow> bool" where
  "disk_keep now ttl f =
     (case df_body f of
        RawBody _ \<Rightarrow> False
      | JsonBody j \<Rightarrow>
          (case json_in ''timestamp'' j of
             Inl _ \<Rightarrow> False
           | Inr False \<Rightarrow> True
           | Inr True \<Rightarrow>
               (case json_index j ''timestamp'' of
                  Inl _ \<Rightarrow> False
                | Inr ts \<Rightarrow> (case ts_expired now ttl ts of Inr b \<Rightarrow> \<not> b | Inl _ \<Rightarrow> False))))"

text \<open>\<open>clear_expired\<close> (lines 302--346): the state and the count returned.\<close>

definition tpc_clear_expired :: "rat \<Rightarrow> tpc \<Rightarrow> exc + tpc \<times> nat" where
  "tpc_clear_expired now st =
     (case expired_keys now (tpc_ttl st) (tpc_cache st) of
        Inl e \<Rightarrow> Inl e
      | Inr ks \<Rightarrow>
          (let removed = filter (\<lambda>kf. \<not> disk_keep now (tpc_ttl st) (snd kf)) (tpc_disk st)
           in Inr (st\<lparr>tpc_cache := fold dict_del ks (tpc_cache st), tpc_keys := fold remove1 ks (tpc_keys st),
                      tpc_disk := filter (\<lambda>kf. disk_keep now (tpc_ttl st) (snd kf)) (tpc_disk st)\<rparr>,
                   length ks + length removed)))"

text \<open>\<open>get_stats\<close> (lines 348--377), without the byte sizes of the files.\<close>

record cache_stats =
  memory_items :: nat
  memory_capacity :: int
  memory_usage :: rat
  disk_items :: nat
  ttl_seconds :: int

definition tpc_get_stats :: "tpc \<Rightarrow> cache_stats" where
  "tpc_get_stats st =
     \<lparr>memory_items = length (tpc_cache st), memory_capacity = tpc_maxsize st,
      memory_usage = (if 0 < tpc_maxsize st then of_nat (length (tpc_cache st)) / of_int (tpc_maxsize st) else 0),
      disk_items = length (tpc_disk st), ttl_seconds = tpc_ttl st\<rparr>"

section \<open>The cache as a state machine\<close>

text \<open>The public methods, each called at some time \<open>now\<close>.\<close>

datatype tpc_op = CGet string | CSet json string | CClear | CClearExpired

text \<open>The state after a call. A call that raises leaves the state as it was: \<open>get\<close>
  and \<open>clear_expired\<close> raise before they change anything, and \<open>_add_to_memory_cache\<close>
  never raises on a state of the invariant below (\<open>add_to_memory_cache_ok\<close>).\<close>

definition tpc_apply :: "(string \<Rightarrow> rat option) \<Rightarrow> rat \<Rightarrow> tpc_op \<Rightarrow> tpc \<Rightarrow> tpc" where
  "tpc_apply isots now op st =
     (case op of
        CGet k \<Rightarrow> (case tpc_get isots now k st of Inl _ \<Rightarrow> st | Inr (st', _) \<Rightarrow> st')
      | CSet v k \<Rightarrow> (case tpc_set now v k st of Inl _ \<Rightarrow> st | Inr st' \<Rightarrow> st')
      | CClear \<Rightarrow> tpc_clear st
      | CClearExpired \<Rightarrow> (case tpc_clear_expired now st of Inl _ \<Rightarrow> st | Inr (st', _) \<Rightarrow> st'))"

text \<open>The states a cache object reaches: construction on a directory (whose files have
  distinct names), then any sequence of calls.\<close>

inductive tpc_reach :: "(string \<Rightarrow> rat option) \<Rightarrow> tpc \<Rightarrow> bool" for isots where
  init: "wf_dict disk \<Longrightarrow> tpc_reach isots (tpc_init isots now maxsize ttl disk)"
| step: "tpc_reach isots st \<Longrightarrow> tpc_reach isots (tpc_apply isots now op st)"

section \<open>The module: instances and saved results\<close>

text \<open>The directories of the project, each with its \<open>*.json\<close> files.\<close>

type_synonym fsys = "(string, (string, dfile) pydict) pydict"

definition fs_dir :: "fsys \<Rightarrow> string \<Rightarrow> (string, dfile) pydict" where
  "fs_dir fs d = (case dict_get fs d of Some x \<Rightarrow> x | None \<Rightarrow> [])"

text \<open>The module-level instances (lines 379--394), by directory relative to the project
  root, with their capacity; each has the default \<open>ttl\<close> of 86400 seconds.\<close>

definition cache_instances :: "(string \<times> int) list" where
  "cache_instances =
     [(''.cache/text_processing'', 100), (''.cache/text_analysis'', 100), (''data/output/datasets'', 100),
      (''.cache/style_transfer'', 100), (''.cache/index'', 1000)]"

text \<open>Importing the module at time \<open>now\<close>: each instance is constructed in turn on its
  directory, and its directory is left as its constructor leaves it.\<close>

definition import_cache :: "(string \<Rightarrow> rat option) \<Rightarrow> rat \<Rightarrow> fsys \<Rightarrow> fsys \<times> tpc list" where
  "import_cache isots now fs =
     fold (\<lambda>(dir, m) (fs, cs). let c = tpc_init isots now m 86400 (fs_dir fs dir) in (dict_set dir (tpc_disk c) fs, cs @ [c]))
       cache_instances (fs, [])"

text \<open>\<open>get_cache_dir\<close> (lines 578--594).\<close>

definition get_cache_dir :: "string \<Rightarrow> string option" where
  "get_cache_dir m =
     (if m = ''text'' then Some ''.cache/text_analysis''
      else if m = ''literature'' then Some ''data/output/datasets''
      else if m = ''style'' then Some ''.cache/style_transfer'' else None)"

text \<open>\<open>save_analysis_result\<close> (lines 434--519) up to the file it writes and the id it
  returns: \<open>gen_id\<close> is \<open>generate_result_id\<close> (a SHA-256 digest), \<open>now_iso\<close> is
  \<open>datetime.now(timezone.utc).isoformat()\<close>, written at time \<open>now\<close>. The database record
  written after the file (whose failure is only logged) is not modelled.\<close>

definition save_analysis_result :: "(string \<Rightarrow> item \<Rightarrow> string) \<Rightarrow> string \<Rightarrow> rat \<Rightarrow> string \<Rightarrow> json
    \<Rightarrow> bool \<Rightarrow> fsys \<Rightarrow> fsys \<times> string option" where
  "save_analysis_result gen_id now_iso now module_type result_data db fs =
     (case result_data of
        JsObj d \<Rightarrow>
          if module_type = [] \<or> \<not> db then (fs, None)
          else (let d' = dict_set ''timestamp'' (JsStr now_iso) d;
                    rid = gen_id module_type d'
                in if rid = [] then (fs, None)
                   else (case get_cache_dir module_type of
                           None \<Rightarrow> (fs, None)
                         | Some dir \<Rightarrow>
                             (dict_set dir (dict_set rid \<lparr>df_mtime = now, df_body = JsonBody (JsObj d')\<rparr> (fs_dir fs dir)) fs,
                              Some rid)))
      | _ \<Rightarrow> (fs, None))"

section \<open>The cache's invariant and its LRU view\<close>

text \<open>The LRU list holds each cached key once, the dict holds no key twice, and the
  memory cache is within its capacity (at least 10, as \<open>__init__\<close> makes it).\<close>

definition tpc_inv :: "tpc \<Rightarrow> bool" where
  "tpc_inv st \<longleftrightarrow> distinct (tpc_keys st) \<and> set (tpc_keys st) = set (dict_keys (tpc_cache st))
     \<and> wf_dict (tpc_cache st) \<and> wf_dict (tpc_disk st) \<and> 10 \<le> tpc_maxsize st
     \<and> int (length (tpc_cache st)) \<le> tpc_maxsize st"

text \<open>The abstract cache: the cached items, least recently used first.\<close>

definition lru_view :: "tpc \<Rightarrow> (string \<times> item) list" where
  "lru_view st = map (\<lambda>k. (k, the (dict_get (tpc_cache st) k))) (tpc_keys st)"

text \<open>What an LRU cache of capacity \<open>n\<close> promises: storing a key moves it to the most
  recent end; a new key into a full cache evicts the least recently used one.
  Reading a key moves it to the most recent end.\<close>

definition lru_put :: "nat \<Rightarrow> 'k \<Rightarrow> 'v \<Rightarrow> ('k \<times> 'v) list \<Rightarrow> ('k \<times> 'v) list" where
  "lru_put n k v xs =
     (if k \<in> fst ` set xs then filter (\<lambda>p. fst p \<noteq> k) xs else if n \<le> length xs then tl xs else xs) @ [(k, v)]"

definition lru_touch :: "'k \<Rightarrow> ('k \<times> 'v) list \<Rightarrow> ('k \<times> 'v) list" where
  "lru_touch k xs = filter (\<lambda>p. fst p \<noteq> k) xs @ filter (\<lambda>p. fst p = k) xs"

section \<open>Each method preserves the invariant\<close>

lemma tpc_inv_length: "tpc_inv st \<Longrightarrow> length (tpc_keys st) = length (tpc_cache st)"
  unfolding tpc_inv_def wf_dict_def
  by (metis distinct_card length_map dict_keys_def)

lemma add_to_memory_cache_hit:
  "k \<in> set (tpc_keys st) \<Longrightarrow> k \<in> set (dict_keys (tpc_cache st)) \<Longrightarrow>
   add_to_memory_cache k v st = Inr (st\<lparr>tpc_cache := dict_set k v (tpc_cache st), tpc_keys := remove1 k (tpc_keys st) @ [k]\<rparr>)"
  by (simp add: add_to_memory_cache_def list_remove_def)

lemma add_to_memory_cache_evict:
  "k \<notin> set (dict_keys (tpc_cache st)) \<Longrightarrow> tpc_maxsize st \<le> int (length (tpc_cache st)) \<Longrightarrow>
   tpc_keys st = old # ks \<Longrightarrow> old \<in> set (dict_keys (tpc_cache st)) \<Longrightarrow>
   add_to_memory_cache k v st = Inr (st\<lparr>tpc_cache := dict_set k v (dict_del old (tpc_cache st)), tpc_keys := ks @ [k]\<rparr>)"
  by (simp add: add_to_memory_cache_def)

lemma add_to_memory_cache_room:
  "k \<notin> set (dict_keys (tpc_cache st)) \<Longrightarrow> \<not> tpc_maxsize st \<le> int (length (tpc_cache st)) \<Longrightarrow>
   add_to_memory_cache k v st = Inr (st\<lparr>tpc_cache := dict_set k v (tpc_cache st), tpc_keys := tpc_keys st @ [k]\<rparr>)"
  by (simp add: add_to_memory_cache_def)

lemma lru_lookup_cong:
  "(\<And>k. k \<in> set ks \<Longrightarrow> dict_get c' k = dict_get c k) \<Longrightarrow>
   map (\<lambda>k. (k, the (dict_get c' k))) ks = map (\<lambda>k. (k, the (dict_get c k))) ks"
  by simp

lemma fst_set_lru_view [simp]: "fst ` set (lru_view st) = set (tpc_keys st)"
  by (force simp: lru_view_def)

lemma filter_lru_map: "filter (\<lambda>p. fst p \<noteq> k) (map (\<lambda>k. (k, f k)) ks) = map (\<lambda>k. (k, f k)) (removeAll k ks)"
  by (induction ks) auto

lemma add_hit_inv:
  assumes inv: "tpc_inv st" and k: "k \<in> set (dict_keys (tpc_cache st))"
  shows "tpc_inv (st\<lparr>tpc_cache := dict_set k v (tpc_cache st), tpc_keys := remove1 k (tpc_keys st) @ [k]\<rparr>)
       \<and> lru_view (st\<lparr>tpc_cache := dict_set k v (tpc_cache st), tpc_keys := remove1 k (tpc_keys st) @ [k]\<rparr>)
           = lru_put (nat (tpc_maxsize st)) k v (lru_view st)"
proof
  show "tpc_inv (st\<lparr>tpc_cache := dict_set k v (tpc_cache st), tpc_keys := remove1 k (tpc_keys st) @ [k]\<rparr>)"
    using inv k by (auto simp: tpc_inv_def length_dict_set set_remove1_eq)
  have d: "distinct (tpc_keys st)" "k \<in> set (tpc_keys st)" using inv k by (auto simp: tpc_inv_def)
  have "map (\<lambda>k'. (k', the (dict_get (dict_set k v (tpc_cache st)) k'))) (remove1 k (tpc_keys st))
        = map (\<lambda>k'. (k', the (dict_get (tpc_cache st) k'))) (removeAll k (tpc_keys st))"
    using d by (auto simp: distinct_remove1_removeAll intro!: map_cong)
  moreover have "lru_put (nat (tpc_maxsize st)) k v (lru_view st) = filter (\<lambda>p. fst p \<noteq> k) (lru_view st) @ [(k, v)]"
    using d by (simp add: lru_put_def)
  ultimately show "lru_view (st\<lparr>tpc_cache := dict_set k v (tpc_cache st), tpc_keys := remove1 k (tpc_keys st) @ [k]\<rparr>)
           = lru_put (nat (tpc_maxsize st)) k v (lru_view st)"
    by (simp add: lru_view_def filter_lru_map)
qed

lemma add_evict_inv:
  assumes inv: "tpc_inv st" and k: "k \<notin> set (dict_keys (tpc_cache st))"
    and full: "tpc_maxsize st \<le> int (length (tpc_cache st))" and ks: "tpc_keys st = old # ks"
  shows "tpc_inv (st\<lparr>tpc_cache := dict_set k v (dict_del old (tpc_cache st)), tpc_keys := ks @ [k]\<rparr>)
       \<and> lru_view (st\<lparr>tpc_cache := dict_set k v (dict_del old (tpc_cache st)), tpc_keys := ks @ [k]\<rparr>)
           = lru_put (nat (tpc_maxsize st)) k v (lru_view st)"
proof
  have d: "distinct (old # ks)" "set (old # ks) = set (dict_keys (tpc_cache st))" "wf_dict (tpc_cache st)"
    using inv ks by (auto simp: tpc_inv_def)
  have old: "old \<in> set (dict_keys (tpc_cache st))" using d by auto
  have kk: "k \<noteq> old" "k \<notin> set ks" using k d by auto
  show "tpc_inv (st\<lparr>tpc_cache := dict_set k v (dict_del old (tpc_cache st)), tpc_keys := ks @ [k]\<rparr>)"
    using inv d old kk full by (auto simp: tpc_inv_def length_dict_set length_dict_del)
  have "map (\<lambda>k'. (k', the (dict_get (dict_set k v (dict_del old (tpc_cache st))) k'))) ks
        = map (\<lambda>k'. (k', the (dict_get (tpc_cache st) k'))) ks"
    using d kk by (auto intro!: map_cong)
  moreover have "lru_put (nat (tpc_maxsize st)) k v (lru_view st) = tl (lru_view st) @ [(k, v)]"
  proof -
    have "nat (tpc_maxsize st) \<le> length (lru_view st)"
      using full tpc_inv_length [OF inv] by (simp add: lru_view_def nat_le_iff)
    moreover have "k \<notin> fst ` set (lru_view st)" using d k ks by simp
    ultimately show ?thesis by (simp add: lru_put_def)
  qed
  ultimately show "lru_view (st\<lparr>tpc_cache := dict_set k v (dict_del old (tpc_cache st)), tpc_keys := ks @ [k]\<rparr>)
           = lru_put (nat (tpc_maxsize st)) k v (lru_view st)"
    using ks by (simp add: lru_view_def)
qed

lemma add_room_inv:
  assumes inv: "tpc_inv st" and k: "k \<notin> set (dict_keys (tpc_cache st))"
    and room: "\<not> tpc_maxsize st \<le> int (length (tpc_cache st))"
  shows "tpc_inv (st\<lparr>tpc_cache := dict_set k v (tpc_cache st), tpc_keys := tpc_keys st @ [k]\<rparr>)
       \<and> lru_view (st\<lparr>tpc_cache := dict_set k v (tpc_cache st), tpc_keys := tpc_keys st @ [k]\<rparr>)
           = lru_put (nat (tpc_maxsize st)) k v (lru_view st)"
proof
  show "tpc_inv (st\<lparr>tpc_cache := dict_set k v (tpc_cache st), tpc_keys := tpc_keys st @ [k]\<rparr>)"
    using inv k room by (auto simp: tpc_inv_def length_dict_set)
  have "map (\<lambda>k'. (k', the (dict_get (dict_set k v (tpc_cache st)) k'))) (tpc_keys st)
        = map (\<lambda>k'. (k', the (dict_get (tpc_cache st) k'))) (tpc_keys st)"
    using inv k by (auto simp: tpc_inv_def intro!: map_cong)
  moreover have "lru_put (nat (tpc_maxsize st)) k v (lru_view st) = lru_view st @ [(k, v)]"
  proof -
    have "\<not> nat (tpc_maxsize st) \<le> length (lru_view st)"
      using room tpc_inv_length [OF inv] by (simp add: lru_view_def nat_le_iff)
    moreover have "k \<notin> fst ` set (lru_view st)" using inv k by (simp add: tpc_inv_def)
    ultimately show ?thesis by (simp add: lru_put_def)
  qed
  ultimately show "lru_view (st\<lparr>tpc_cache := dict_set k v (tpc_cache st), tpc_keys := tpc_keys st @ [k]\<rparr>)
           = lru_put (nat (tpc_maxsize st)) k v (lru_view st)"
    by (simp add: lru_view_def)
qed

lemma add_to_memory_cache_ok:
  assumes inv: "tpc_inv st"
  shows "\<exists>st'. add_to_memory_cache k v st = Inr st' \<and> tpc_inv st'
           \<and> tpc_disk st' = tpc_disk st \<and> tpc_ttl st' = tpc_ttl st \<and> tpc_maxsize st' = tpc_maxsize st
           \<and> lru_view st' = lru_put (nat (tpc_maxsize st)) k v (lru_view st)"
proof -
  consider (hit) "k \<in> set (dict_keys (tpc_cache st))"
    | (full) "k \<notin> set (dict_keys (tpc_cache st))" "tpc_maxsize st \<le> int (length (tpc_cache st))"
    | (room) "k \<notin> set (dict_keys (tpc_cache st))" "\<not> tpc_maxsize st \<le> int (length (tpc_cache st))"
    by blast
  then show ?thesis
  proof cases
    case hit
    then have "k \<in> set (tpc_keys st)" using inv by (simp add: tpc_inv_def)
    with hit show ?thesis using add_hit_inv [OF inv hit] by (simp add: add_to_memory_cache_hit)
  next
    case full
    have "tpc_keys st \<noteq> []" using full inv tpc_inv_length [OF inv] by (auto simp: tpc_inv_def)
    then obtain old ks where ks: "tpc_keys st = old # ks" by (cases "tpc_keys st") auto
    then have "old \<in> set (dict_keys (tpc_cache st))" using inv by (auto simp: tpc_inv_def)
    with full ks show ?thesis using add_evict_inv [OF inv full ks] by (simp add: add_to_memory_cache_evict)
  next
    case room
    then show ?thesis using add_room_inv [OF inv room] by (simp add: add_to_memory_cache_room)
  qed
qed

lemma remove_item_inv: "tpc_inv st \<Longrightarrow> tpc_inv (remove_item k st)"
  using length_dict_del_le [of k "tpc_cache st"] by (auto simp: tpc_inv_def remove_item_def set_remove1_eq)

lemma tpc_inv_get_lookup: "tpc_inv st \<Longrightarrow> dict_get (tpc_cache st) k = Some it \<Longrightarrow> k \<in> set (tpc_keys st)"
  by (auto simp: tpc_inv_def dict_get_def dict_keys_def intro: map_of_SomeD [THEN rev_image_eqI [where f = fst]])

lemma filter_eq_single: "distinct xs \<Longrightarrow> k \<in> set xs \<Longrightarrow> filter (\<lambda>x. x = k) xs = [k]"
  by (induction xs) (auto simp: filter_empty_conv)

lemma touch_inv:
  assumes inv: "tpc_inv st" and k: "k \<in> set (tpc_keys st)"
  shows "tpc_inv (st\<lparr>tpc_keys := remove1 k (tpc_keys st) @ [k]\<rparr>)
       \<and> lru_view (st\<lparr>tpc_keys := remove1 k (tpc_keys st) @ [k]\<rparr>) = lru_touch k (lru_view st)"
proof
  show "tpc_inv (st\<lparr>tpc_keys := remove1 k (tpc_keys st) @ [k]\<rparr>)"
    using inv k by (auto simp: tpc_inv_def set_remove1_eq)
  have d: "distinct (tpc_keys st)" using inv by (simp add: tpc_inv_def)
  have "filter (\<lambda>p. fst p = k) (lru_view st) = [(k, the (dict_get (tpc_cache st) k))]"
    using d k by (simp add: lru_view_def filter_map comp_def filter_eq_single)
  then show "lru_view (st\<lparr>tpc_keys := remove1 k (tpc_keys st) @ [k]\<rparr>) = lru_touch k (lru_view st)"
    using d by (simp add: lru_touch_def lru_view_def filter_lru_map distinct_remove1_removeAll)
qed

lemma wf_load_from_disk_by_key: "wf_dict disk \<Longrightarrow> wf_dict (fst (load_from_disk_by_key isots now ttl k disk))"
  by (simp add: load_from_disk_by_key_def split: option.split prod.split)

lemma tpc_get_inv:
  assumes inv: "tpc_inv st" and r: "tpc_get isots now k st = Inr (st', res)"
  shows "tpc_inv st'"
proof (cases "dict_get (tpc_cache st) k")
  case None
  obtain d it where l: "load_from_disk_by_key isots now (tpc_ttl st) k (tpc_disk st) = (d, it)" by fastforce
  have inv': "tpc_inv (st\<lparr>tpc_disk := d\<rparr>)"
    using inv wf_load_from_disk_by_key [of "tpc_disk st" isots now "tpc_ttl st" k] l by (simp add: tpc_inv_def)
  show ?thesis
  proof (cases "it = None \<or> it = Some []")
    case True
    then show ?thesis using r None l inv' by (auto simp: tpc_get_def)
  next
    case False
    then obtain x where x: "it = Some x" "x \<noteq> []" by auto
    obtain st'' where "add_to_memory_cache k x (st\<lparr>tpc_disk := d\<rparr>) = Inr st''" "tpc_inv st''"
      using add_to_memory_cache_ok [OF inv', of k x] by blast
    then show ?thesis using r None l x by (simp add: tpc_get_def)
  qed
next
  case (Some it)
  have k: "k \<in> set (tpc_keys st)" using inv Some by (rule tpc_inv_get_lookup)
  show ?thesis using r Some remove_item_inv [OF inv, of k] touch_inv [OF inv k]
    by (auto simp: tpc_get_def list_remove_def k Let_def split: option.splits sum.splits bool.splits)
qed

lemma tpc_get_Inl:
  assumes inv: "tpc_inv st" and r: "tpc_get isots now k st = Inl e"
  shows "\<exists>it ts. dict_get (tpc_cache st) k = Some it \<and> dict_get it ''timestamp'' = Some ts
                \<and> ts_expired now (tpc_ttl st) ts = Inl e"
proof (cases "dict_get (tpc_cache st) k")
  case None
  obtain d it where l: "load_from_disk_by_key isots now (tpc_ttl st) k (tpc_disk st) = (d, it)" by fastforce
  have inv': "tpc_inv (st\<lparr>tpc_disk := d\<rparr>)"
    using inv wf_load_from_disk_by_key [of "tpc_disk st" isots now "tpc_ttl st" k] l by (simp add: tpc_inv_def)
  show ?thesis
  proof (cases "it = None \<or> it = Some []")
    case True
    then show ?thesis using r None l inv' by (auto simp: tpc_get_def)
  next
    case False
    then obtain x where x: "it = Some x" "x \<noteq> []" by auto
    obtain st'' where "add_to_memory_cache k x (st\<lparr>tpc_disk := d\<rparr>) = Inr st''" "tpc_inv st''"
      using add_to_memory_cache_ok [OF inv', of k x] by blast
    then show ?thesis using r None l x by (simp add: tpc_get_def)
  qed
next
  case (Some it)
  have k: "k \<in> set (tpc_keys st)" using inv Some by (rule tpc_inv_get_lookup)
  show ?thesis using r Some
    by (auto simp: tpc_get_def list_remove_def k Let_def split: option.splits sum.splits bool.splits)
qed

lemma tpc_set_ok:
  assumes inv: "tpc_inv st"
  shows "\<exists>st'. tpc_set now v k st = Inr st' \<and> tpc_inv st' \<and> tpc_ttl st' = tpc_ttl st
           \<and> tpc_maxsize st' = tpc_maxsize st"
proof (cases v)
  case (JsObj d)
  obtain st' where "add_to_memory_cache k (dict_set ''timestamp'' (JsFloat (Finite now)) d) st = Inr st'" "tpc_inv st'"
    "tpc_ttl st' = tpc_ttl st" "tpc_maxsize st' = tpc_maxsize st"
    using add_to_memory_cache_ok [OF inv] by blast
  then show ?thesis using JsObj by (auto simp: tpc_set_def save_to_disk_by_key_def tpc_inv_def)
qed (use inv in \<open>simp_all add: tpc_set_def\<close>)

lemma load_file_inv:
  assumes inv: "tpc_inv st"
  shows "tpc_inv (load_file isots now kf st) \<and> tpc_ttl (load_file isots now kf st) = tpc_ttl st
    \<and> tpc_maxsize (load_file isots now kf st) = tpc_maxsize st"
proof (cases "file_item isots (snd kf)")
  case (Some p)
  obtain it t where p: "p = (it, t)" by fastforce
  obtain st' where a: "add_to_memory_cache (fst kf) it st = Inr st'" "tpc_inv st'"
    "tpc_ttl st' = tpc_ttl st" "tpc_maxsize st' = tpc_maxsize st"
    using add_to_memory_cache_ok [OF inv] by blast
  show ?thesis using inv Some p a by (cases t) (auto simp: load_file_def tpc_inv_def)
qed (use inv in \<open>simp add: load_file_def\<close>)

lemma load_from_disk_fold_inv:
  "tpc_inv st \<Longrightarrow> tpc_inv (fold (load_file isots now) kfs st)"
  by (induction kfs arbitrary: st) (simp_all add: load_file_inv)

lemma tpc_init_inv: "wf_dict disk \<Longrightarrow> tpc_inv (tpc_init isots now maxsize ttl disk)"
  unfolding tpc_init_def load_from_disk_def
  by (rule load_from_disk_fold_inv) (simp add: tpc_inv_def wf_dict_def dict_keys_def)

lemma tpc_clear_inv: "tpc_inv st \<Longrightarrow> tpc_inv (tpc_clear st)"
  by (simp add: tpc_inv_def tpc_clear_def wf_dict_def dict_keys_def)

lemma set_fold_dict_del: "set (dict_keys (fold dict_del ks c)) = set (dict_keys c) - set ks"
  by (induction ks arbitrary: c) auto

lemma wf_fold_dict_del: "wf_dict c \<Longrightarrow> wf_dict (fold dict_del ks c)"
  by (induction ks arbitrary: c) auto

lemma length_fold_dict_del: "length (fold dict_del ks c) \<le> length c"
  by (induction ks arbitrary: c) (auto intro: order_trans [OF _ length_dict_del_le])

lemma fold_remove1_distinct: "distinct xs \<Longrightarrow> distinct (fold remove1 ks xs) \<and> set (fold remove1 ks xs) = set xs - set ks"
  by (induction ks arbitrary: xs) (auto simp: set_remove1_eq)

lemma tpc_clear_expired_inv:
  assumes inv: "tpc_inv st" and r: "tpc_clear_expired now st = Inr (st', n)"
  shows "tpc_inv st'"
proof -
  obtain ks where ks: "expired_keys now (tpc_ttl st) (tpc_cache st) = Inr ks"
    using r by (cases "expired_keys now (tpc_ttl st) (tpc_cache st)") (auto simp: tpc_clear_expired_def)
  have "wf_dict (filter (\<lambda>kf. disk_keep now (tpc_ttl st) (snd kf)) (tpc_disk st))"
    using inv by (simp add: tpc_inv_def wf_dict_def dict_keys_def distinct_map_filter)
  then show ?thesis
    using r ks inv fold_remove1_distinct [of "tpc_keys st" ks] length_fold_dict_del [of ks "tpc_cache st"]
    by (auto simp: tpc_clear_expired_def tpc_inv_def set_fold_dict_del wf_fold_dict_del Let_def)
qed

lemma add_to_memory_cache_get: "add_to_memory_cache k v st = Inr st' \<Longrightarrow> dict_get (tpc_cache st') k = Some v"
  by (auto simp: add_to_memory_cache_def list_remove_def Let_def split: if_splits list.splits option.splits)

lemma lru_view_lookup: "tpc_inv st \<Longrightarrow> map_of (lru_view st) = dict_get (tpc_cache st)"
proof
  fix k assume inv: "tpc_inv st"
  show "map_of (lru_view st) k = dict_get (tpc_cache st) k"
  proof (cases "k \<in> set (tpc_keys st)")
    case True
    then obtain v where "dict_get (tpc_cache st) k = Some v"
      using inv by (cases "dict_get (tpc_cache st) k") (auto simp: tpc_inv_def dict_get_None_iff)
    then show ?thesis using True by (simp add: lru_view_def map_of_map_restrict)
  next
    case False
    then have "dict_get (tpc_cache st) k = None" using inv by (simp add: tpc_inv_def dict_get_None_iff)
    then show ?thesis using False by (simp add: lru_view_def map_of_map_restrict)
  qed
qed

lemma load_fold_fresh:
  assumes "tpc_inv st"
    and "\<forall>kf\<in>set kfs. \<exists>it t. file_item isots (snd kf) = Some (it, Some t) \<and> \<not> pf_expired now (tpc_ttl st) t"
    and "distinct (map fst kfs)" and "set (map fst kfs) \<inter> set (tpc_keys st) = {}"
    and "int (length (tpc_keys st) + length kfs) \<le> tpc_maxsize st"
  shows "tpc_keys (fold (load_file isots now) kfs st) = tpc_keys st @ map fst kfs"
  using assms
proof (induction kfs arbitrary: st)
  case (Cons kf kfs)
  obtain it t where f: "file_item isots (snd kf) = Some (it, Some t)" "\<not> pf_expired now (tpc_ttl st) t"
    using Cons.prems(2) by auto
  have new: "fst kf \<notin> set (dict_keys (tpc_cache st))" using Cons.prems(1,4) by (auto simp: tpc_inv_def)
  have room: "\<not> tpc_maxsize st \<le> int (length (tpc_cache st))"
    using Cons.prems(5) tpc_inv_length [OF Cons.prems(1)] by simp
  let ?st' = "st\<lparr>tpc_cache := dict_set (fst kf) it (tpc_cache st), tpc_keys := tpc_keys st @ [fst kf]\<rparr>"
  have l: "load_file isots now kf st = ?st'"
    using f new room by (simp add: load_file_def add_to_memory_cache_room)
  have "tpc_inv ?st'" using add_room_inv [OF Cons.prems(1) new room] by blast
  moreover have "tpc_keys (fold (load_file isots now) kfs ?st') = tpc_keys ?st' @ map fst kfs"
    by (rule Cons.IH) (use calculation Cons.prems in auto)
  ultimately show ?case using l by simp
qed simp

section \<open>Reachable states\<close>

lemma tpc_apply_inv: "tpc_inv st \<Longrightarrow> tpc_inv (tpc_apply isots now op st)"
proof (cases op)
  case (CGet k)
  assume inv: "tpc_inv st"
  then show ?thesis using CGet tpc_get_inv [OF inv, of isots now k]
    by (auto simp: tpc_apply_def split: sum.split)
next
  case (CSet v k)
  assume inv: "tpc_inv st"
  then show ?thesis using CSet tpc_set_ok [OF inv, of now v k] by (auto simp: tpc_apply_def)
next
  case CClearExpired
  assume inv: "tpc_inv st"
  then show ?thesis using CClearExpired tpc_clear_expired_inv [OF inv, of now]
    by (auto simp: tpc_apply_def split: sum.split)
qed (simp_all add: tpc_apply_def tpc_clear_inv)

lemma tpc_inv_usage: "tpc_inv st \<Longrightarrow> memory_usage (tpc_get_stats st) \<le> 1"
  by (simp add: tpc_inv_def tpc_get_stats_def)

text \<open>C11 Every state a cache object reaches, from construction on a directory through any
  sequence of get, set, clear and clear_expired calls, satisfies the invariant: the LRU
  list holds each cached key exactly once, no key is cached twice, and the memory cache
  holds at most maxsize items, so get_stats never reports a usage above 1.\<close>

theorem tpc_reach_inv: "tpc_reach isots st \<Longrightarrow> tpc_inv st \<and> memory_usage (tpc_get_stats st) \<le> 1"
proof (induction rule: tpc_reach.induct)
  case (init disk now maxsize ttl)
  then show ?case using tpc_init_inv tpc_inv_usage by blast
next
  case (step st now op)
  then show ?case using tpc_apply_inv tpc_inv_usage by blast
qed

theorem tpc_reach_inv_witness:
  "tpc_reach (\<lambda>_. None) (tpc_apply (\<lambda>_. None) 5 (CSet (JsObj [(''text'', JsStr ''abc'')]) ''k1'') (tpc_init (\<lambda>_. None) 0 100 86400 []))
   \<and> tpc_inv (tpc_apply (\<lambda>_. None) 5 (CSet (JsObj [(''text'', JsStr ''abc'')]) ''k1'') (tpc_init (\<lambda>_. None) 0 100 86400 []))"
proof -
  have r: "tpc_reach (\<lambda>_. None) (tpc_apply (\<lambda>_. None) 5 (CSet (JsObj [(''text'', JsStr ''abc'')]) ''k1'') (tpc_init (\<lambda>_. None) 0 100 86400 []))"
    by (rule tpc_reach.step, rule tpc_reach.init) (simp add: wf_dict_def dict_keys_def)
  show ?thesis using r tpc_reach_inv [OF r] by blast
qed

section \<open>The cache refines an LRU cache\<close>

lemma lru_view_disk [simp]: "lru_view (st\<lparr>tpc_disk := d\<rparr>) = lru_view st"
  by (simp add: lru_view_def)

text \<open>C12 The cache implements an LRU cache of capacity maxsize: on a state of the
  invariant, set stores the stamped item at the most recent end of the abstract LRU
  list (dropping the key's old entry, or the least recently used entry when the cache
  is full), and a get that finds a fresh item in memory returns the item the abstract
  list holds for the key and moves the key to the most recent end.\<close>

theorem tpc_refines_lru:
  assumes inv: "tpc_inv st"
  shows "(tpc_set now (JsObj d) k st = Inr st' \<longrightarrow>
            lru_view st' = lru_put (nat (tpc_maxsize st)) k (dict_set ''timestamp'' (JsFloat (Finite now)) d) (lru_view st))
       \<and> (tpc_get isots now k st = Inr (st', Some it) \<longrightarrow> k \<in> set (dict_keys (tpc_cache st)) \<longrightarrow>
            lru_view st' = lru_touch k (lru_view st) \<and> map_of (lru_view st) k = Some it)"
proof (intro conjI impI)
  assume s: "tpc_set now (JsObj d) k st = Inr st'"
  obtain st1 where a: "add_to_memory_cache k (dict_set ''timestamp'' (JsFloat (Finite now)) d) st = Inr st1"
    "lru_view st1 = lru_put (nat (tpc_maxsize st)) k (dict_set ''timestamp'' (JsFloat (Finite now)) d) (lru_view st)"
    using add_to_memory_cache_ok [OF inv] by blast
  then show "lru_view st' = lru_put (nat (tpc_maxsize st)) k (dict_set ''timestamp'' (JsFloat (Finite now)) d) (lru_view st)"
    using s by (auto simp: tpc_set_def save_to_disk_by_key_def)
next
  assume g: "tpc_get isots now k st = Inr (st', Some it)" and k: "k \<in> set (dict_keys (tpc_cache st))"
  obtain it' where it': "dict_get (tpc_cache st) k = Some it'"
    using k by (cases "dict_get (tpc_cache st) k") (auto simp: dict_get_None_iff)
  have kk: "k \<in> set (tpc_keys st)" using inv it' by (rule tpc_inv_get_lookup)
  have st': "st' = st\<lparr>tpc_keys := remove1 k (tpc_keys st) @ [k]\<rparr>" and "it = it'"
    using g it' kk by (auto simp: tpc_get_def list_remove_def Let_def split: option.splits sum.splits bool.splits)
  then show "lru_view st' = lru_touch k (lru_view st)" using touch_inv [OF inv kk] by simp
  show "map_of (lru_view st) k = Some it" using lru_view_lookup [OF inv] it' \<open>it = it'\<close> by simp
qed

text \<open>C13 Round trip: on a state of the invariant, an item stored by set at time now is
  returned by get, stamped with now, at any time now' at most ttl seconds later.\<close>

theorem tpc_set_get_roundtrip:
  assumes inv: "tpc_inv st" and s: "tpc_set now (JsObj d) k st = Inr st'"
    and fresh: "now' - now \<le> of_int (tpc_ttl st)"
  shows "\<exists>st''. tpc_get isots now' k st' = Inr (st'', Some (dict_set ''timestamp'' (JsFloat (Finite now)) d))"
proof -
  let ?v = "dict_set ''timestamp'' (JsFloat (Finite now)) d"
  obtain st1 where a: "add_to_memory_cache k ?v st = Inr st1" "tpc_inv st1" "tpc_ttl st1 = tpc_ttl st"
    using add_to_memory_cache_ok [OF inv] by blast
  have st': "st' = save_to_disk_by_key now k ?v st1" using s a by (simp add: tpc_set_def)
  have inv': "tpc_inv st'" using a(2) by (simp add: st' save_to_disk_by_key_def tpc_inv_def)
  have get: "dict_get (tpc_cache st') k = Some ?v"
    using add_to_memory_cache_get [OF a(1)] by (simp add: st' save_to_disk_by_key_def)
  have kk: "k \<in> set (tpc_keys st')" using inv' get by (rule tpc_inv_get_lookup)
  have "ts_expired now' (tpc_ttl st') (JsFloat (Finite now)) = Inr False"
    using fresh a(3) by (simp add: ts_expired_def pf_expired_def st' save_to_disk_by_key_def)
  then show ?thesis using get kk by (simp add: tpc_get_def list_remove_def)
qed

section \<open>Loading the directory\<close>

lemma distinct_fst_sort: "distinct (map fst xs) \<Longrightarrow> distinct (map fst (sort_key f xs))"
  by (simp add: distinct_map inj_on_def)

lemma tpc_init_keys:
  assumes wf: "wf_dict disk"
    and valid: "\<forall>kf\<in>set disk. \<exists>it t. file_item isots (snd kf) = Some (it, Some t) \<and> \<not> pf_expired now ttl t"
    and small: "int (length disk) \<le> max 10 maxsize"
  shows "tpc_keys (tpc_init isots now maxsize ttl disk) = map fst (sort_key (\<lambda>kf. - df_mtime (snd kf)) disk)"
proof -
  let ?st0 = "\<lparr>tpc_cache = [], tpc_keys = [], tpc_maxsize = max 10 maxsize, tpc_ttl = ttl, tpc_disk = disk\<rparr>"
  let ?fs = "sort_key (\<lambda>kf. - df_mtime (snd kf)) disk"
  have inv0: "tpc_inv ?st0" using wf by (simp add: tpc_inv_def wf_dict_def dict_keys_def)
  have take: "take (nat (max 10 maxsize)) ?fs = ?fs" using small by simp
  have "tpc_keys (fold (load_file isots now) ?fs ?st0) = tpc_keys ?st0 @ map fst ?fs"
    by (rule load_fold_fresh [OF inv0]) (use valid wf small in \<open>auto simp: wf_dict_def dict_keys_def distinct_fst_sort\<close>)
  then show ?thesis by (simp add: tpc_init_def load_from_disk_def take)
qed

lemma load_fold_fields:
  "tpc_inv st \<Longrightarrow> tpc_maxsize (fold (load_file isots now) kfs st) = tpc_maxsize st"
  by (induction kfs arbitrary: st) (simp_all add: load_file_inv)

lemma tpc_init_maxsize: "wf_dict disk \<Longrightarrow> tpc_maxsize (tpc_init isots now maxsize ttl disk) = max 10 maxsize"
  unfolding tpc_init_def load_from_disk_def
  by (subst load_fold_fields) (simp_all add: tpc_inv_def wf_dict_def dict_keys_def)

text \<open>C14 After a restart the LRU order is inverted: the constructor loads the cache files
  newest first and appends each to the LRU list, so when the directory fills the cache,
  the list runs from the most recently written file to the oldest, and the next new key
  stored evicts the most recently written entry instead of the least recently used one.\<close>

theorem restart_evicts_newest:
  assumes wf: "wf_dict disk"
    and valid: "\<forall>kf\<in>set disk. \<exists>it t. file_item isots (snd kf) = Some (it, Some t) \<and> \<not> pf_expired now ttl t"
    and full: "int (length disk) = max 10 maxsize"
    and k: "k \<notin> set (dict_keys disk)"
    and s: "tpc_set now' (JsObj d) k (tpc_init isots now maxsize ttl disk) = Inr st'"
  shows "tpc_keys (tpc_init isots now maxsize ttl disk) = map fst (sort_key (\<lambda>kf. - df_mtime (snd kf)) disk)
       \<and> dict_get (tpc_cache st') (fst (hd (sort_key (\<lambda>kf. - df_mtime (snd kf)) disk))) = None"
proof
  let ?st0 = "tpc_init isots now maxsize ttl disk"
  let ?fs = "sort_key (\<lambda>kf. - df_mtime (snd kf)) disk"
  show keys: "tpc_keys ?st0 = map fst ?fs" using tpc_init_keys [OF wf valid] full by simp
  have inv: "tpc_inv ?st0" using wf by (rule tpc_init_inv)
  have ne: "?fs \<noteq> []" using full by (cases disk) auto
  then obtain newest rest where fs: "map fst ?fs = newest # rest" by (cases ?fs) auto
  have nh: "fst (hd ?fs) = newest" using fs ne by (cases ?fs) auto
  have kin: "k \<notin> set (dict_keys (tpc_cache ?st0))"
    using inv keys k by (auto simp: tpc_inv_def dict_keys_def)
  have "tpc_maxsize ?st0 \<le> int (length (tpc_cache ?st0))"
    using tpc_inv_length [OF inv] keys full tpc_init_maxsize [OF wf] by simp
  moreover have "newest \<in> set (dict_keys (tpc_cache ?st0))" using inv keys fs by (auto simp: tpc_inv_def)
  ultimately have "add_to_memory_cache k (dict_set ''timestamp'' (JsFloat (Finite now')) d) ?st0
      = Inr (?st0\<lparr>tpc_cache := dict_set k (dict_set ''timestamp'' (JsFloat (Finite now')) d) (dict_del newest (tpc_cache ?st0)),
                  tpc_keys := rest @ [k]\<rparr>)"
    using kin keys fs by (simp add: add_to_memory_cache_evict)
  moreover have "k \<noteq> newest" using k fs by (metis dict_keys_def list.set_intros(1) set_map set_sort)
  ultimately show "dict_get (tpc_cache st') (fst (hd ?fs)) = None"
    using s nh by (auto simp: tpc_set_def save_to_disk_by_key_def Let_def)
qed

section \<open>Saved results and the module import\<close>

lemma add_to_memory_cache_fields:
  "add_to_memory_cache k v st = Inr st' \<Longrightarrow> tpc_ttl st' = tpc_ttl st \<and> tpc_disk st' = tpc_disk st \<and> tpc_maxsize st' = tpc_maxsize st"
  by (auto simp: add_to_memory_cache_def list_remove_def Let_def split: if_splits list.splits option.splits)

lemma load_file_disk:
  "tpc_ttl (load_file isots now kf st) = tpc_ttl st
   \<and> set (dict_keys (tpc_disk (load_file isots now kf st))) \<subseteq> set (dict_keys (tpc_disk st))"
  using add_to_memory_cache_fields [of "fst kf" _ st]
  by (auto simp: load_file_def split: option.split prod.split sum.split)

lemma load_fold_absent:
  "k \<notin> set (dict_keys (tpc_disk st)) \<Longrightarrow> k \<notin> set (dict_keys (tpc_disk (fold (load_file isots now) kfs st)))"
  by (induction kfs arbitrary: st) (use load_file_disk in fastforce)+

lemma load_fold_expired:
  assumes "kf \<in> set kfs" and "file_item isots (snd kf) = Some (it, Some t)" and "pf_expired now (tpc_ttl st) t"
  shows "fst kf \<notin> set (dict_keys (tpc_disk (fold (load_file isots now) kfs st)))"
  using assms
proof (induction kfs arbitrary: st)
  case (Cons kf' kfs)
  show ?case
  proof (cases "kf' = kf")
    case True
    then have "fst kf \<notin> set (dict_keys (tpc_disk (load_file isots now kf' st)))"
      using Cons.prems by (simp add: load_file_def)
    then show ?thesis by (simp add: load_fold_absent)
  next
    case False
    then show ?thesis using Cons.prems Cons.IH [of "load_file isots now kf' st"] load_file_disk [of isots now kf' st] by simp
  qed
qed simp

lemma tpc_init_removes_expired:
  assumes "dict_get disk k = Some f" and "file_item isots f = Some (it, Some t)" and "pf_expired now ttl t"
    and "int (length disk) \<le> max 10 maxsize"
  shows "k \<notin> set (dict_keys (tpc_disk (tpc_init isots now maxsize ttl disk)))"
proof -
  have "(k, f) \<in> set (take (nat (max 10 maxsize)) (sort_key (\<lambda>kf. - df_mtime (snd kf)) disk))"
    using assms(1,4) by (simp add: dict_get_def map_of_SomeD)
  from load_fold_expired [OF this, of isots it t now] assms(2,3) show ?thesis
    by (simp add: tpc_init_def load_from_disk_def)
qed

lemma import_fold_dir:
  assumes "distinct (map fst insts)" and "(dir, m) \<in> set insts"
  shows "fs_dir (fst (fold (\<lambda>(dir, m) (fs, cs). let c = tpc_init isots now m 86400 (fs_dir fs dir) in (dict_set dir (tpc_disk c) fs, cs @ [c]))
                    insts (fs, cs))) dir
         = tpc_disk (tpc_init isots now m 86400 (fs_dir fs dir))"
  using assms
proof (induction insts arbitrary: fs cs)
  case (Cons i insts)
  obtain dir' m' where i: "i = (dir', m')" by fastforce
  show ?case
  proof (cases "dir' = dir")
    case True
    then have "m' = m" "dir \<notin> fst ` set insts" using Cons.prems i by (auto simp: rev_image_eqI)
    moreover have "fs_dir (fst (fold (\<lambda>(dir, m) (fs, cs). let c = tpc_init isots now m 86400 (fs_dir fs dir) in (dict_set dir (tpc_disk c) fs, cs @ [c]))
                    insts (fs', cs'))) dir = fs_dir fs' dir" if "dir \<notin> fst ` set insts" for fs' cs'
      using that by (induction insts arbitrary: fs' cs') (auto simp: fs_dir_def Let_def)
    ultimately show ?thesis using True i by (simp add: fs_dir_def Let_def)
  next
    case False
    then show ?thesis using Cons i by (simp add: fs_dir_def Let_def)
  qed
qed simp

lemma get_cache_dir_instance:
  "get_cache_dir m = Some dir \<Longrightarrow> (dir, 100) \<in> set cache_instances"
  by (simp add: get_cache_dir_def cache_instances_def split: if_splits)

lemma import_cache_dir:
  "get_cache_dir m = Some dir \<Longrightarrow>
   fs_dir (fst (import_cache isots now fs)) dir = tpc_disk (tpc_init isots now 100 86400 (fs_dir fs dir))"
  unfolding import_cache_def
  by (rule import_fold_dir [OF _ get_cache_dir_instance]) (simp_all add: cache_instances_def)

text \<open>C10 Saved analysis results are deleted at the next start: save_analysis_result writes
  a text, literature or style result into the directory of one of the module-level
  caches, stamped with an ISO timestamp; importing the module later constructs that cache,
  whose loader parses the timestamp and removes every file older than the cache's ttl of
  one day. So a result saved more than a day before a restart is gone from disk (while its
  database record remains), whenever its directory holds at most 100 files.\<close>

theorem saved_result_deleted_on_import:
  assumes save: "save_analysis_result gen now_iso t0 m (JsObj d) True fs = (fs1, Some rid)"
    and iso: "isots (py_replace ''Z'' ''+00:00'' now_iso) = Some t0"
    and old: "86400 < now - t0"
    and few: "length (fs_dir fs1 (the (get_cache_dir m))) \<le> 100"
  shows "rid \<notin> set (dict_keys (fs_dir (fst (import_cache isots now fs1)) (the (get_cache_dir m))))"
proof -
  obtain dir where dir: "get_cache_dir m = Some dir"
    using save by (cases "get_cache_dir m") (auto simp: save_analysis_result_def Let_def split: if_splits)
  let ?d' = "dict_set ''timestamp'' (JsStr now_iso) d"
  let ?f = "\<lparr>df_mtime = t0, df_body = JsonBody (JsObj ?d')\<rparr>"
  have fs1: "fs1 = dict_set dir (dict_set rid ?f (fs_dir fs dir)) fs" and rid: "rid = gen m ?d'"
    using save dir by (auto simp: save_analysis_result_def Let_def split: if_splits)
  have f: "dict_get (fs_dir fs1 dir) rid = Some ?f" by (simp add: fs1 fs_dir_def)
  have fi: "file_item isots ?f = Some (?d', Some (Finite t0))"
    using iso by (simp add: file_item_def item_timestamp_def)
  have "rid \<notin> set (dict_keys (tpc_disk (tpc_init isots now 100 86400 (fs_dir fs1 dir))))"
    by (rule tpc_init_removes_expired [OF f fi]) (use old few dir in \<open>simp_all add: pf_expired_def\<close>)
  then show ?thesis using import_cache_dir [OF dir] dir by simp
qed

theorem tpc_refines_lru_witness:
  "tpc_set 5 (JsObj []) ''a'' (tpc_init (\<lambda>_. None) 0 10 86400 [])
        = Inr (projr (tpc_set 5 (JsObj []) ''a'' (tpc_init (\<lambda>_. None) 0 10 86400 [])))
   \<and> lru_view (projr (tpc_set 5 (JsObj []) ''a'' (tpc_init (\<lambda>_. None) 0 10 86400 [])))
        = [(''a'', [(''timestamp'', JsFloat (Finite 5))])]
   \<and> lru_view (fst (projr (tpc_get (\<lambda>_. None) 6 ''a'' (projr (tpc_set 5 (JsObj []) ''a'' (tpc_init (\<lambda>_. None) 0 10 86400 []))))))
        = [(''a'', [(''timestamp'', JsFloat (Finite 5))])]"
proof -
  let ?st0 = "tpc_init (\<lambda>_. None) 0 10 86400 []"
  let ?st1 = "projr (tpc_set 5 (JsObj []) ''a'' ?st0)"
  let ?it = "[(''timestamp'', JsFloat (Finite 5))]"
  have inv: "tpc_inv ?st0" by code_simp
  have s: "tpc_set 5 (JsObj []) ''a'' ?st0 = Inr ?st1" by code_simp
  have "lru_view ?st1 = lru_put (nat (tpc_maxsize ?st0)) ''a'' (dict_set ''timestamp'' (JsFloat (Finite 5)) []) (lru_view ?st0)"
    using tpc_refines_lru [OF inv, of 5 "[]" "''a''" ?st1 "\<lambda>_. None" "[]"] s by blast
  moreover have "lru_put (nat (tpc_maxsize ?st0)) ''a'' (dict_set ''timestamp'' (JsFloat (Finite 5)) []) (lru_view ?st0) = [(''a'', ?it)]"
    by code_simp
  moreover have inv1: "tpc_inv ?st1" by code_simp
  moreover have g: "tpc_get (\<lambda>_. None) 6 ''a'' ?st1 = Inr (fst (projr (tpc_get (\<lambda>_. None) 6 ''a'' ?st1)), Some ?it)"
    by code_simp
  moreover have "''a'' \<in> set (dict_keys (tpc_cache ?st1))" by code_simp
  ultimately show ?thesis
    using tpc_refines_lru [OF inv1, of 6 "[]" "''a''" "fst (projr (tpc_get (\<lambda>_. None) 6 ''a'' ?st1))" "\<lambda>_. None" ?it] s
    by (simp add: lru_touch_def)
qed

theorem tpc_set_get_roundtrip_witness:
  "\<exists>st''. tpc_get (\<lambda>_. None) 100 ''a'' (projr (tpc_set 5 (JsObj []) ''a'' (tpc_init (\<lambda>_. None) 0 10 86400 [])))
      = Inr (st'', Some [(''timestamp'', JsFloat (Finite 5))])"
proof -
  let ?st0 = "tpc_init (\<lambda>_. None) 0 10 86400 []"
  have inv: "tpc_inv ?st0" by code_simp
  have s: "tpc_set 5 (JsObj []) ''a'' ?st0 = Inr (projr (tpc_set 5 (JsObj []) ''a'' ?st0))" by code_simp
  have t: "(100::rat) - 5 \<le> of_int (tpc_ttl ?st0)" by code_simp
  show ?thesis using tpc_set_get_roundtrip [OF inv s t, of "\<lambda>_. None"] by simp
qed

theorem restart_evicts_newest_witness:
  "tpc_keys (tpc_init (\<lambda>_. None) 100 10 86400
       (map (\<lambda>i. ([CHR ''f'', char_of (48 + i)], \<lparr>df_mtime = of_nat i, df_body = JsonBody (JsObj [(''timestamp'', JsFloat (Finite (of_nat i)))])\<rparr>)) [0..<10]))
     = [''f9'', ''f8'', ''f7'', ''f6'', ''f5'', ''f4'', ''f3'', ''f2'', ''f1'', ''f0'']
   \<and> dict_get (tpc_cache (projr (tpc_set 200 (JsObj []) ''new'' (tpc_init (\<lambda>_. None) 100 10 86400
       (map (\<lambda>i. ([CHR ''f'', char_of (48 + i)], \<lparr>df_mtime = of_nat i, df_body = JsonBody (JsObj [(''timestamp'', JsFloat (Finite (of_nat i)))])\<rparr>)) [0..<10])))))
       ''f9'' = None"
proof -
  let ?disk = "map (\<lambda>i. ([CHR ''f'', char_of (48 + i)], \<lparr>df_mtime = of_nat i, df_body = JsonBody (JsObj [(''timestamp'', JsFloat (Finite (of_nat i)))])\<rparr>)) [0..<10]"
  let ?st0 = "tpc_init (\<lambda>_. None) 100 10 86400 ?disk"
  have wf: "wf_dict ?disk" by code_simp
  have valid: "\<forall>kf\<in>set ?disk. \<exists>it t. file_item (\<lambda>_. None) (snd kf) = Some (it, Some t) \<and> \<not> pf_expired 100 86400 t"
    by (simp add: upt_rec file_item_def item_timestamp_def pf_expired_def dict_get_def)
  have full: "int (length ?disk) = max 10 10" by simp
  have k: "''new'' \<notin> set (dict_keys ?disk)" by code_simp
  have s: "tpc_set 200 (JsObj []) ''new'' ?st0 = Inr (projr (tpc_set 200 (JsObj []) ''new'' ?st0))" by code_simp
  have srt: "map fst (sort_key (\<lambda>kf. - df_mtime (snd kf)) ?disk) = [''f9'', ''f8'', ''f7'', ''f6'', ''f5'', ''f4'', ''f3'', ''f2'', ''f1'', ''f0'']"
    by code_simp
  have h: "fst (hd (sort_key (\<lambda>kf. - df_mtime (snd kf)) ?disk)) = ''f9''" by code_simp
  show ?thesis using restart_evicts_newest [OF wf valid full k s] srt h by simp
qed

theorem saved_result_deleted_on_import_witness:
  "save_analysis_result (\<lambda>_ _. ''r1'') ''2025-01-01T00:00:00+00:00'' 1000 ''text'' (JsObj [(''text'', JsStr ''abc'')]) True []
     = ([(''.cache/text_analysis'', [(''r1'', \<lparr>df_mtime = 1000, df_body = JsonBody (JsObj [(''text'', JsStr ''abc''),
          (''timestamp'', JsStr ''2025-01-01T00:00:00+00:00'')])\<rparr>)])], Some ''r1'')
   \<and> ''r1'' \<notin> set (dict_keys (fs_dir (fst (import_cache (\<lambda>s. if s = ''2025-01-01T00:00:00+00:00'' then Some 1000 else None) 100000
          [(''.cache/text_analysis'', [(''r1'', \<lparr>df_mtime = 1000, df_body = JsonBody (JsObj [(''text'', JsStr ''abc''),
          (''timestamp'', JsStr ''2025-01-01T00:00:00+00:00'')])\<rparr>)])])) ''.cache/text_analysis''))"
proof -
  let ?fs1 = "[(''.cache/text_analysis'', [(''r1'', \<lparr>df_mtime = 1000, df_body = JsonBody (JsObj [(''text'', JsStr ''abc''),
          (''timestamp'', JsStr ''2025-01-01T00:00:00+00:00'')])\<rparr>)])]"
  have save: "save_analysis_result (\<lambda>_ _. ''r1'') ''2025-01-01T00:00:00+00:00'' 1000 ''text'' (JsObj [(''text'', JsStr ''abc'')]) True []
     = (?fs1, Some ''r1'')" by code_simp
  have iso: "(\<lambda>s. if s = ''2025-01-01T00:00:00+00:00'' then Some 1000 else None) (py_replace ''Z'' ''+00:00'' ''2025-01-01T00:00:00+00:00'')
     = Some (1000::rat)" by code_simp
  have old: "86400 < (100000::rat) - 1000" by simp
  have few: "length (fs_dir ?fs1 (the (get_cache_dir ''text''))) \<le> 100" by code_simp
  have dir: "the (get_cache_dir ''text'') = ''.cache/text_analysis''" by code_simp
  show ?thesis
    using saved_result_deleted_on_import [where isots = "\<lambda>s. if s = ''2025-01-01T00:00:00+00:00'' then Some 1000 else None"
        and now = 100000, OF save iso old few] save dir by simp
qed

end
