(* ===== verification/SiliconFlow.thy ===== *)
theory SiliconFlow
  imports Http
begin

text \<open>
  The SiliconFlow adapter, \<open>src/src/providers/handlers/silicon_flow.py\<close>
  (\<open>SiliconFlowHandler\<close>), an OpenAI-compatible REST adapter: construction from the
  flattened configuration, \<open>_make_request\<close> under its tenacity decorator with its
  \<open>except\<close> chain, \<open>generate_text\<close> with the three per-call parameter lookups
  (threading the registry state), the SSE generator \<open>stream_chat\<close>, and
  \<open>get_available_models\<close>. The network, \<open>json.loads\<close> and the registry's world are
  parameters, as for the DeepSeek adapter. The synchronous wrapper \<open>generate\<close>, which
  drives an event loop, is not modelled.
\<close>

section \<open>The handler\<close>

record siliconflow =
  sf_provider_name :: cvalue
  sf_api_key :: cvalue
  sf_endpoint :: cvalue
  sf_default_model :: cvalue
  sf_temperature :: cvalue
  sf_top_p :: cvalue
  sf_max_tokens :: cvalue
  sf_request_timeout :: cvalue

text \<open>\<open>__init__\<close> (lines 20--44). A truthy endpoint that is not a string fails on
  \<open>.endswith\<close> with \<open>AttributeError\<close> (here \<open>OtherError\<close>).\<close>

definition sf_init :: "(string, cvalue) pydict \<Rightarrow> exc + siliconflow" where
  "sf_init c =
     (let ep = cfg_get c ''SILICONFLOW_ENDPOINT'' (CStr ''https://api.siliconflow.com/v1'');
          sf = \<lparr>sf_provider_name = cfg_get c ''provider_name'' (CStr ''silicon_flow''),
                sf_api_key = cfg_get c ''SILICONFLOW_API_KEY'' CNone,
                sf_endpoint = ep,
                sf_default_model = cfg_get c ''SILICONFLOW_DEFAULT_MODEL'' CNone,
                sf_temperature = cfg_get c ''SILICONFLOW_TEMPERATURE'' (CFloat (Finite (7 / 10))),
                sf_top_p = cfg_get c ''SILICONFLOW_TOP_P'' (CFloat (Finite 1)),
                sf_max_tokens = cfg_get c ''SILICONFLOW_MAX_TOKENS'' (CInt 2000),
                sf_request_timeout = cfg_get c ''SILICONFLOW_REQUEST_TIMEOUT'' (CInt 60)\<rparr>
      in case ep of
           CStr e \<Rightarrow> Inr (if e \<noteq> [] \<and> ends_with e ''/'' then sf\<lparr>sf_endpoint := CStr (rstrip_char CHR ''/'' e)\<rparr> else sf)
         | v \<Rightarrow> if cv_truthy v then Inl OtherError else Inr sf)"

definition sf_required_config_fields :: "string list" where
  "sf_required_config_fields = [''SILICONFLOW_API_KEY'', ''SILICONFLOW_ENDPOINT'']"

section \<open>_make_request\<close>

text \<open>The \<open>except\<close> clauses of \<open>_make_request\<close> (lines 159--182):
  \<open>APIConnectionError\<close> with a \<open>message\<close> keyword it does not take (so
  \<open>TypeError\<close>), \<open>APITimeoutError\<close>, the taxonomy's \<open>APIError\<close> re-raised, and
  \<open>APIError\<close> for everything else, the status error of a non-200 response included.\<close>

definition sf_request_exc :: "exc \<Rightarrow> exc" where
  "sf_request_exc e =
     (if isinstance e [CClientConnectorError]
      then new_exc NewAPIConnectionError 0 [''message'', ''provider_name'', ''details''] None
      else if isinstance e [CTimeoutError]
      then new_exc NewAPITimeoutError 0 [''message'', ''provider_name'', ''timeout_seconds''] None
      else if isinstance e [CAPIError] then e
      else new_exc NewAPIError 0 [''message'', ''provider_name'', ''details''] None)"

text \<open>One attempt of \<open>_make_request\<close> (lines 113--182), given the network's answer.
  The body is read as text and decoded by \<open>json.loads\<close>; the two raises inside the
  \<open>try\<close> go through its \<open>except\<close> clauses.\<close>

definition sf_make_request_once :: "siliconflow \<Rightarrow> string \<Rightarrow> (string, json) pydict \<Rightarrow> string
    \<Rightarrow> (request \<Rightarrow> http_result) \<Rightarrow> json outcome" where
  "sf_make_request_once sf path payload method net =
     (if \<not> cv_truthy (sf_endpoint sf) then Raised (new_exc NewConfigurationError 1 [] None)
      else (case net \<lparr>req_method = method, req_endpoint = sf_endpoint sf,
                      req_path = (if starts_with path ''/'' then path else CHR ''/'' # path),
                      req_payload = (if method = ''POST'' then payload else [])\<rparr> of
              HResp code b \<Rightarrow>
                if code \<noteq> 200
                then Raised (sf_request_exc (new_exc NewAPIResponseError 0
                               [''provider_name'', ''status_code'', ''response_body'', ''details''] (Some code)))
                else (case b of
                        JsonBody j \<Rightarrow> Returned j
                      | RawBody _ \<Rightarrow> Raised (sf_request_exc (new_exc NewAPIResponseFormatError 0
                                               [''message'', ''provider_name'', ''response_body''] None)))
            | HFail n \<Rightarrow> Raised (sf_request_exc (net_exc n))))"

text \<open>The decorated method (lines 104--112): tenacity with
  \<open>retry=is_retryable_exception\<close>; \<open>net k\<close> answers attempt \<open>k\<close>.\<close>

definition sf_make_request :: "siliconflow \<Rightarrow> string \<Rightarrow> (string, json) pydict \<Rightarrow> string
    \<Rightarrow> (nat \<Rightarrow> request \<Rightarrow> http_result) \<Rightarrow> json outcome" where
  "sf_make_request sf path payload method net =
     fst (tenacity_call (adapter_retry (retry_callable is_retryable_exception))
            (\<lambda>k. sf_make_request_once sf path payload method (net k)))"

section \<open>generate_text\<close>

definition sf_valid_params :: "string list" where
  "sf_valid_params = [''temperature'', ''top_p'', ''max_tokens'', ''presence_penalty'', ''frequency_penalty'', ''stop'']"

text \<open>Lines 197--207 (and 339--349 in \<open>stream_chat\<close>): the three per-call lookups,
  then the keyword arguments on top. Returns the registry state after the lookups.\<close>

definition sf_params :: "world \<Rightarrow> (string, string option) pydict option \<Rightarrow> siliconflow
    \<Rightarrow> (string, cvalue) pydict \<Rightarrow> factory_state \<Rightarrow> factory_state \<times> (string, cvalue) pydict" where
  "sf_params w envf sf kwargs st =
     live_params w envf (sf_provider_name sf) (sf_temperature sf) (sf_max_tokens sf) (sf_top_p sf) kwargs st"

text \<open>The format error raised inside the \<open>try\<close>: \<open>APIResponseFormatError\<close> takes no
  \<open>message\<close>, so it is a \<open>TypeError\<close>.\<close>

definition sf_format_error :: exc where
  "sf_format_error = new_exc NewAPIResponseFormatError 0 [''message'', ''provider_name'', ''response_body''] None"

text \<open>Lines 228--248: the stripped content of the first choice, or the exception the
  checks, the subscriptions or \<open>.strip()\<close> raise.\<close>

definition sf_parse_result :: "json \<Rightarrow> exc + string" where
  "sf_parse_result r =
     (case json_in ''choices'' r of
        Inl e \<Rightarrow> Inl e
      | Inr False \<Rightarrow> Inl sf_format_error
      | Inr True \<Rightarrow>
          (case json_index r ''choices'' of
             Inl e \<Rightarrow> Inl e
           | Inr (JsArr (fc # _)) \<Rightarrow>
               (case json_in ''message'' fc of
                  Inl e \<Rightarrow> Inl e
                | Inr False \<Rightarrow> Inl sf_format_error
                | Inr True \<Rightarrow>
                    (case json_index fc ''message'' of
                       Inl e \<Rightarrow> Inl e
                     | Inr m \<Rightarrow>
                         (case json_in ''content'' m of
                            Inl e \<Rightarrow> Inl e
                          | Inr False \<Rightarrow> Inl sf_format_error
                          | Inr True \<Rightarrow>
                              (case json_index m ''content'' of
                                 Inl e \<Rightarrow> Inl e
                               | Inr (JsStr s) \<Rightarrow> Inr (py_strip s)
                               | Inr _ \<Rightarrow> Inl OtherError))))
           | Inr _ \<Rightarrow> Inl sf_format_error))"

text \<open>The \<open>except\<close> clauses of \<open>generate_text\<close> (lines 251--269).\<close>

definition sf_wrap :: "exc \<Rightarrow> exc" where
  "sf_wrap e =
     (if isinstance e [CAPIError] then e
      else if isinstance e [CRetryError] then new_exc NewAPIError 0 [''message'', ''provider_name'', ''details''] None
      else new_exc NewAPIError 0 [''message'', ''provider_name'', ''details''] None)"

text \<open>\<open>generate_text\<close> (lines 184--269).\<close>

definition sf_generate_text :: "world \<Rightarrow> (string, string option) pydict option \<Rightarrow> siliconflow
    \<Rightarrow> string \<Rightarrow> string option \<Rightarrow> (string, cvalue) pydict \<Rightarrow> (nat \<Rightarrow> request \<Rightarrow> http_result)
    \<Rightarrow> factory_state \<Rightarrow> factory_state \<times> string outcome" where
  "sf_generate_text w envf sf prompt model kwargs net st =
     (case strip_target model (sf_default_model sf) of
        Inl e \<Rightarrow> (st, Raised e)
      | Inr tm \<Rightarrow>
          if tm = [] then (st, Raised (new_exc NewConfigurationError 1 [] None))
          else (let (st3, final) = sf_params w envf sf kwargs st;
                    payload = add_params sf_valid_params final
                                [(''model'', JsStr tm), (''messages'', JsArr [JsObj [(''role'', JsStr ''user''), (''content'', JsStr prompt)]]),
                                 (''stream'', JsBool False)]
                in (st3, case sf_make_request sf ''/chat/completions'' payload ''POST'' net of
                           Raised e \<Rightarrow> Raised (sf_wrap e)
                         | Returned r \<Rightarrow>
                             (case sf_parse_result r of
                                Inl e \<Rightarrow> Raised (sf_wrap e)
                              | Inr c \<Rightarrow> Returned c))))"

section \<open>stream_chat\<close>

text \<open>The line loop of \<open>stream_chat\<close> (lines 418--434), given how the payload of a
  decoded line is read (\<open>payload\<close>; here \<open>sf_payload\<close>, lines 419--422; the Anyscale
  and Cohere adapters run the same loop with \<open>data: \<close> and a space). An empty line and a line without the \<open>data:\<close>
  prefix are skipped; \<open>data: [DONE]\<close> yields the completion
  marker and leaves the loop; a payload \<open>json.loads\<close> rejects is skipped; every other
  payload is yielded. Bytes that are not UTF-8 raise \<open>UnicodeDecodeError\<close>; a
  network error after the last line (\<open>err\<close>) is raised when the loop reaches it.\<close>

definition sf_payload :: "string \<Rightarrow> string option" where
  "sf_payload l = (if l \<noteq> [] \<and> starts_with (py_strip l) ''data:'' then Some (py_strip (drop 5 (py_strip l))) else None)"

fun sf_stream_lines :: "(string \<Rightarrow> string option) \<Rightarrow> (string \<Rightarrow> json option) \<Rightarrow> net_err option \<Rightarrow> raw_line list \<Rightarrow> chunk list \<times> exc option" where
  "sf_stream_lines payload loads err [] = ([], map_option net_exc err)"
| "sf_stream_lines payload loads err (BadUtf8 # rest) = ([], Some UnicodeDecodeError)"
| "sf_stream_lines payload loads err (Line l # rest) =
     (case payload l of
        None \<Rightarrow> sf_stream_lines payload loads err rest
      | Some d \<Rightarrow>
          if d = ''[DONE]'' then ([DoneChunk], None)
          else (case loads d of
                  None \<Rightarrow> sf_stream_lines payload loads err rest
                | Some j \<Rightarrow> (let (ys, e) = sf_stream_lines payload loads err rest in (Chunk j # ys, e))))"

text \<open>The \<open>except\<close> clauses of \<open>stream_chat\<close> (lines 436--456): \<open>APITimeoutError\<close>,
  \<open>APIConnectionError\<close> with a \<open>message\<close> keyword it does not take (so \<open>TypeError\<close>),
  and \<open>APIError\<close> for everything else, the status error of a non-200 response
  included.\<close>

definition sf_stream_exc :: "exc \<Rightarrow> exc" where
  "sf_stream_exc e =
     (if isinstance e [CTimeoutError]
      then new_exc NewAPITimeoutError 0 [''message'', ''provider_name'', ''timeout_seconds''] None
      else if isinstance e [CClientError]
      then new_exc NewAPIConnectionError 0 [''message'', ''provider_name'', ''details''] None
      else new_exc NewAPIError 0 [''message'', ''provider_name'', ''details''] None)"

text \<open>\<open>stream_chat\<close> (lines 313--458), run to the end by its consumer: the items it
  yields and the exception the consumer sees after them, if any. A missing model or
  endpoint is reported as an error item, not raised.\<close>

definition sf_stream_chat :: "world \<Rightarrow> (string, string option) pydict option \<Rightarrow> siliconflow
    \<Rightarrow> json list \<Rightarrow> string option \<Rightarrow> (string, cvalue) pydict \<Rightarrow> (string \<Rightarrow> json option)
    \<Rightarrow> (request \<Rightarrow> stream_http) \<Rightarrow> factory_state \<Rightarrow> factory_state \<times> (chunk list \<times> exc option)" where
  "sf_stream_chat w envf sf messages model kwargs loads net st =
     (case strip_target model (sf_default_model sf) of
        Inl e \<Rightarrow> (st, ([], Some e))
      | Inr tm \<Rightarrow>
          if tm = [] then (st, ([ErrorChunk], None))
          else (let (st3, final) = sf_params w envf sf kwargs st;
                    payload = add_params sf_valid_params final
                                [(''model'', JsStr tm), (''messages'', JsArr (map format_message messages)), (''stream'', JsBool True)]
                in (st3,
                    if \<not> cv_truthy (sf_endpoint sf) then ([ErrorChunk], None)
                    else (case net \<lparr>req_method = ''POST'', req_endpoint = sf_endpoint sf, req_path = ''/chat/completions'',
                                    req_payload = payload\<rparr> of
                            SFail n \<Rightarrow> ([], Some (sf_stream_exc (net_exc n)))
                          | SResp code lines err \<Rightarrow>
                              if code \<noteq> 200
                              then ([], Some (sf_stream_exc (new_exc NewAPIResponseError 0
                                      [''provider_name'', ''status_code'', ''response_body'', ''details''] (Some code))))
                              else (let (ys, e) = sf_stream_lines sf_payload loads err lines in (ys, map_option sf_stream_exc e))))))"

section \<open>get_available_models\<close>

text \<open>The \<open>except\<close> clauses of \<open>get_available_models\<close> (lines 81--91): each raises
  with a keyword its constructor does not take.\<close>

definition sf_models_exc :: "exc \<Rightarrow> exc" where
  "sf_models_exc e =
     (if isinstance e [CClientError]
      then new_exc NewAPIConnectionError 0 [''message'', ''detail'', ''provider''] None
      else if isinstance e [CJSONDecodeError]
      then new_exc NewAPIResponseFormatError 0 [''message'', ''response_body'', ''provider''] None
      else new_exc NewAPIError 0 [''message'', ''provider''] None)"

text \<open>\<open>get_available_models\<close> (lines 52--92): a GET of \<open>{endpoint}/models\<close>; a body
  that is not JSON makes \<open>response.json()\<close> raise \<open>JSONDecodeError\<close>.\<close>

definition sf_get_available_models :: "siliconflow \<Rightarrow> (request \<Rightarrow> http_result) \<Rightarrow> json list outcome" where
  "sf_get_available_models sf net =
     (case net \<lparr>req_method = ''GET'', req_endpoint = sf_endpoint sf, req_path = ''/models'', req_payload = []\<rparr> of
        HResp code b \<Rightarrow>
          if code \<noteq> 200
          then Raised (sf_models_exc (new_exc NewAPIResponseError 0
                         [''message'', ''status_code'', ''response_body'', ''provider''] (Some code)))
          else (case b of
                  RawBody _ \<Rightarrow> Raised (sf_models_exc JSONDecodeError)
                | JsonBody (JsObj d) \<Rightarrow>
                    (case json_iter (case dict_get d ''data'' of Some v \<Rightarrow> v | None \<Rightarrow> JsArr []) of
                       Inl e \<Rightarrow> Raised (sf_models_exc e)
                     | Inr ms \<Rightarrow> (case model_ids ms of Inl e \<Rightarrow> Raised (sf_models_exc e) | Inr ids \<Rightarrow> Returned ids))
                | JsonBody _ \<Rightarrow> Raised (sf_models_exc OtherError))
      | HFail n \<Rightarrow> Raised (sf_models_exc (net_exc n)))"


section \<open>Notions for the properties\<close>

text \<open>The handler \<open>SiliconFlowHandler\<close> builds from a configuration with a key, the
  default endpoint and a default model.\<close>

definition sf_example :: siliconflow where
  "sf_example = \<lparr>sf_provider_name = CStr ''silicon_flow'', sf_api_key = CStr ''sk-test'',
     sf_endpoint = CStr ''https://api.siliconflow.com/v1'', sf_default_model = CStr ''Qwen/Qwen2-7B-Instruct'',
     sf_temperature = CFloat (Finite (7 / 10)), sf_top_p = CFloat (Finite 1), sf_max_tokens = CInt 2000,
     sf_request_timeout = CInt 60\<rparr>"

section \<open>Lemmas\<close>

lemma sf_new_exc [simp]:
  "new_exc NewAPIResponseFormatError 0 [''message'', ''provider_name'', ''response_body''] None = TypeError"
  "new_exc NewAPIError 0 [''message'', ''provider''] None = TypeError"
  "new_exc NewAPIResponseError 0 [''message'', ''status_code'', ''response_body'', ''provider''] c = TypeError"
  by (simp_all add: new_exc_def call_accepts_def)

lemma sf_make_request_single:
  "sf_make_request sf path payload method net = sf_make_request_once sf path payload method (net 1)"
  by (simp add: sf_make_request_def adapter_call_single)

lemma sf_make_request_once_exc:
  "sf_make_request_once sf path payload method net = Raised e \<Longrightarrow>
   e \<in> {ConfigurationError, TypeError, APITimeoutError, APIError}"
  by (auto simp: sf_make_request_once_def sf_request_exc_def net_exc_def isinstance_def
      split: http_result.splits body.splits net_err.splits if_splits)

lemma sf_parse_result_exc: "sf_parse_result r = Inl e \<Longrightarrow> e \<in> {TypeError, OtherError}"
  by (auto simp: sf_parse_result_def sf_format_error_def json_in_def json_index_def
      split: json.splits sum.splits bool.splits option.splits list.splits)

lemma sf_wrap_APIError: "e \<in> {ConfigurationError, TypeError, APITimeoutError, APIError, OtherError} \<Longrightarrow> sf_wrap e = APIError"
  by (auto simp: sf_wrap_def isinstance_def)

lemma sf_generate_text_errors:
  assumes "snd (sf_generate_text w envf sf prompt model kwargs net st) = Raised e"
  shows "e = ConfigurationError \<or> e = APIError \<or> e = OtherError"
proof -
  have mr: "sf_make_request sf ''/chat/completions'' p ''POST'' net = Raised e' \<Longrightarrow> sf_wrap e' = APIError" for p e'
    by (simp add: sf_make_request_single) (metis sf_make_request_once_exc sf_wrap_APIError insert_iff)
  have pr: "sf_parse_result r = Inl e' \<Longrightarrow> sf_wrap e' = APIError" for r e'
    using sf_parse_result_exc sf_wrap_APIError by blast
  have tg: "strip_target model dm = Inl e' \<Longrightarrow> e' = OtherError" for dm e'
    by (auto simp: strip_target_def split: option.splits if_splits cvalue.splits)
  show ?thesis using assms mr pr tg
    by (auto simp: sf_generate_text_def Let_def split: prod.splits outcome.splits sum.splits if_splits)
qed

lemma sf_models_exc_TypeError: "sf_models_exc e = TypeError"
  by (simp add: sf_models_exc_def)

text \<open>C27 Every failure of get_available_models, a connection failure, a timeout, an
  error status or a malformed body, raises TypeError: each except clause builds its
  exception with a keyword the constructor does not take.\<close>

theorem sf_models_failures_type_error:
  assumes "sf_get_available_models sf net = Raised e"
  shows "e = TypeError"
  using assms by (auto simp: sf_get_available_models_def sf_models_exc_TypeError
      split: http_result.splits body.splits json.splits sum.splits if_splits)

lemma sf_payload_done: "sf_payload ''data: [DONE]'' = Some ''[DONE]''"
  by code_simp

text \<open>C26 The SSE loop of stream_chat keeps every payload that decodes, in order,
  skips every corrupt line, and ends with the completion marker at the first
  data: [DONE] line, ignoring what follows it, a network error included.\<close>

theorem sf_stream_done_terminates:
  assumes "\<forall>x \<in> set pre. x \<noteq> BadUtf8 \<and> (\<forall>l. x = Line l \<longrightarrow> sf_payload l \<noteq> Some ''[DONE]'')"
  shows "sf_stream_lines sf_payload loads err (pre @ Line ''data: [DONE]'' # rest)
           = (map Chunk (sse_decoded sf_payload loads pre) @ [DoneChunk], None)"
  using assms
proof (induction pre)
  case Nil
  then show ?case by (simp add: sf_payload_done)
next
  case (Cons x pre)
  then obtain l where x: "x = Line l" and nd: "sf_payload l \<noteq> Some ''[DONE]''" by (cases x) auto
  show ?case using Cons.IH Cons.prems nd
    by (auto simp: x split: option.split prod.split)
qed

theorem sf_stream_done_terminates_witness:
  "sf_stream_lines sf_payload (\<lambda>s. if s = ''c1'' then Some (JsStr ''A'') else if s = ''c2'' then Some (JsStr ''B'') else None) (Some ConnectorErr)
     [Line ''data: c1'', Line ''data: {not valid json'', Line ''data: c2'', Line ''data: [DONE]'']
   = ([Chunk (JsStr ''A''), Chunk (JsStr ''B''), DoneChunk], None)"
proof -
  let ?loads = "\<lambda>s. if s = ''c1'' then Some (JsStr ''A'') else if s = ''c2'' then Some (JsStr ''B'') else None"
  have h: "\<forall>x \<in> set [Line ''data: c1'', Line ''data: {not valid json'', Line ''data: c2''].
             x \<noteq> BadUtf8 \<and> (\<forall>l. x = Line l \<longrightarrow> sf_payload l \<noteq> Some ''[DONE]'')"
  proof -
    have "sf_payload ''data: c1'' = Some ''c1''" "sf_payload ''data: {not valid json'' = Some ''{not valid json''"
      "sf_payload ''data: c2'' = Some ''c2''" by code_simp+
    then show ?thesis by simp
  qed
  have d: "sse_decoded sf_payload ?loads [Line ''data: c1'', Line ''data: {not valid json'', Line ''data: c2'']
             = [JsStr ''A'', JsStr ''B'']" by code_simp
  show ?thesis using sf_stream_done_terminates [OF h, of ?loads "Some ConnectorErr" "[]"] d by simp
qed

theorem sf_models_failures_type_error_witness:
  "sf_get_available_models sf_example (\<lambda>_. HResp 500 (RawBody ''busy'')) = Raised TypeError"
proof -
  have r: "sf_get_available_models sf_example (\<lambda>_. HResp 500 (RawBody ''busy'')) = Raised TypeError"
    by (simp add: sf_get_available_models_def sf_models_exc_TypeError)
  show ?thesis using sf_models_failures_type_error [OF r] r by simp
qed


end
