(* ===== verification/Volc.thy ===== *)
theory Volc
  imports SiliconFlow
begin

text \<open>
  The Volc Engine adapter, \<open>src/src/providers/handlers/volc_engine.py\<close>
  (\<open>VolcEngineHandler\<close>, HTTP mode): construction, which validates the key and the
  endpoint and converts the timeout with \<open>int()\<close>; the fallback model list;
  \<open>_get_headers\<close>; \<open>_make_request\<close>, whose \<open>except\<close> clauses catch only aiohttp and
  asyncio exceptions, so the status error of a non-200 response leaves it intact;
  \<open>generate_text\<close>; and \<open>stream_chat\<close>, whose line loop and \<open>except\<close> clauses are the
  same code as SiliconFlow's (\<open>sf_stream_lines\<close>, \<open>sf_stream_exc\<close>). The synchronous
  wrapper \<open>generate\<close> is not modelled.
\<close>

section \<open>The handler\<close>

record volc =
  vo_provider_name :: cvalue
  vo_api_key :: cvalue
  vo_endpoint :: cvalue
  vo_default_model :: cvalue
  vo_temperature :: cvalue
  vo_top_p :: cvalue
  vo_max_tokens :: cvalue
  vo_request_timeout :: cvalue

text \<open>Lines 41--44: \<open>int(v) if not isinstance(v, int) else v\<close>. A \<open>bool\<close> is an
  \<open>int\<close>; \<open>int()\<close> of a string follows Python's grammar (\<open>ValueError\<close> otherwise),
  truncates a finite float and rejects infinities and NaN; \<open>int(None)\<close> is a
  \<open>TypeError\<close>. \<open>ValueError\<close> and \<open>OverflowError\<close> are \<open>OtherError\<close> here.\<close>

definition vo_int :: "cvalue \<Rightarrow> exc + cvalue" where
  "vo_int v =
     (case v of
        CInt i \<Rightarrow> Inr (CInt i)
      | CBool b \<Rightarrow> Inr (CBool b)
      | CStr s \<Rightarrow> (case py_int s of Some i \<Rightarrow> Inr (CInt i) | None \<Rightarrow> Inl OtherError)
      | CFloat (Finite r) \<Rightarrow> Inr (CInt (py_int_trunc r))
      | CFloat _ \<Rightarrow> Inl OtherError
      | CNone \<Rightarrow> Inl TypeError)"

text \<open>\<open>__init__\<close> (lines 21--61): \<open>BaseAPIHandler.__init__\<close> sets the provider name
  (default \<open>"unknown"\<close>); the timeout prefers \<open>VOLC_ENGINE_REQUEST_TIMEOUT\<close>; a falsy
  key or endpoint raises \<open>ConfigError\<close>; a truthy endpoint that is not a string fails
  on \<open>.endswith\<close>.\<close>

definition vo_init :: "(string, cvalue) pydict \<Rightarrow> exc + volc" where
  "vo_init c =
     (let ep = cfg_get c ''VOLC_ENDPOINT'' CNone;
          key = cfg_get c ''VOLC_API_KEY'' CNone;
          tv = (case dict_get c ''VOLC_ENGINE_REQUEST_TIMEOUT'' of
                  Some v \<Rightarrow> if v \<noteq> CNone then v else cfg_get c ''VOLC_REQUEST_TIMEOUT'' (CInt 60)
                | None \<Rightarrow> cfg_get c ''VOLC_REQUEST_TIMEOUT'' (CInt 60))
      in case vo_int tv of
           Inl e \<Rightarrow> Inl e
         | Inr t \<Rightarrow>
             if \<not> cv_truthy key \<or> \<not> cv_truthy ep then Inl (new_exc NewConfigurationError 1 [] None)
             else (let vo = \<lparr>vo_provider_name = cfg_get c ''provider_name'' (CStr ''unknown''), vo_api_key = key,
                             vo_endpoint = ep, vo_default_model = cfg_get c ''VOLC_DEFAULT_MODEL'' CNone,
                             vo_temperature = cfg_get c ''VOLC_TEMPERATURE'' (CFloat (Finite (7 / 10))),
                             vo_top_p = cfg_get c ''VOLC_TOP_P'' (CFloat (Finite 1)),
                             vo_max_tokens = cfg_get c ''VOLC_MAX_TOKENS'' (CInt 2000), vo_request_timeout = t\<rparr>
                   in case ep of
                        CStr e \<Rightarrow> Inr (if ends_with e ''/'' then vo\<lparr>vo_endpoint := CStr (rstrip_char CHR ''/'' e)\<rparr> else vo)
                      | _ \<Rightarrow> Inl OtherError))"

definition vo_required_config_fields :: "string list" where
  "vo_required_config_fields = [''VOLC_API_KEY'', ''VOLC_ENDPOINT'', ''VOLC_DEFAULT_MODEL'']"

text \<open>\<open>get_available_models\<close> (lines 68--85): no request; the default model, if set.\<close>

definition vo_get_available_models :: "volc \<Rightarrow> cvalue list" where
  "vo_get_available_models vo = (if cv_truthy (vo_default_model vo) then [vo_default_model vo] else [])"

text \<open>\<open>_get_headers\<close> (lines 88--97): only whether it raises.\<close>

definition vo_get_headers :: "volc \<Rightarrow> exc + unit" where
  "vo_get_headers vo = (if cv_truthy (vo_api_key vo) then Inr () else Inl (new_exc NewConfigurationError 1 [] None))"

section \<open>_make_request\<close>

text \<open>One attempt of \<open>_make_request\<close> (lines 108--165) on the URL \<open>url\<close>. The two raises
  inside the \<open>try\<close> are not aiohttp or asyncio exceptions, so they propagate as they
  are: the status error keeps its code, the format error is a \<open>TypeError\<close> (unknown
  keyword \<open>message\<close>), and so is the connection error of the first handler.\<close>

definition vo_make_request_once :: "volc \<Rightarrow> cvalue \<Rightarrow> (string, json) pydict \<Rightarrow> string
    \<Rightarrow> (request \<Rightarrow> http_result) \<Rightarrow> json outcome" where
  "vo_make_request_once vo url payload method net =
     (case vo_get_headers vo of
        Inl e \<Rightarrow> Raised e
      | Inr _ \<Rightarrow>
          (case net \<lparr>req_method = method, req_endpoint = url, req_path = [],
                     req_payload = (if method = ''POST'' then payload else [])\<rparr> of
             HResp code b \<Rightarrow>
               if code \<noteq> 200
               then Raised (new_exc NewAPIResponseError 0
                              [''provider_name'', ''status_code'', ''response_body'', ''details''] (Some code))
               else (case b of
                       JsonBody j \<Rightarrow> Returned j
                     | RawBody _ \<Rightarrow> Raised (new_exc NewAPIResponseFormatError 0
                                              [''message'', ''provider_name'', ''response_body''] None))
           | HFail ConnectorErr \<Rightarrow> Raised (new_exc NewAPIConnectionError 0 [''message'', ''provider_name'', ''details''] None)
           | HFail TimeoutErr \<Rightarrow> Raised (new_exc NewAPITimeoutError 0 [''message'', ''provider_name'', ''timeout_seconds''] None)
           | HFail OtherClientErr \<Rightarrow> Raised (new_exc NewAPIError 0 [''message'', ''provider_name'', ''details''] None)))"

text \<open>The decorated method (lines 99--107): tenacity with
  \<open>retry=is_retryable_exception\<close>; \<open>net k\<close> answers attempt \<open>k\<close>.\<close>

definition vo_make_request :: "volc \<Rightarrow> cvalue \<Rightarrow> (string, json) pydict \<Rightarrow> string
    \<Rightarrow> (nat \<Rightarrow> request \<Rightarrow> http_result) \<Rightarrow> json outcome" where
  "vo_make_request vo url payload method net =
     fst (tenacity_call (adapter_retry (retry_callable is_retryable_exception))
            (\<lambda>k. vo_make_request_once vo url payload method (net k)))"

section \<open>generate_text\<close>

definition vo_valid_params :: "string list" where
  "vo_valid_params = [''temperature'', ''top_p'', ''max_tokens'', ''stop'']"

text \<open>Lines 175--186 (and 287--298 in \<open>stream_chat\<close>): the three per-call lookups,
  then the keyword arguments on top.\<close>

definition vo_params :: "world \<Rightarrow> (string, string option) pydict option \<Rightarrow> volc
    \<Rightarrow> (string, cvalue) pydict \<Rightarrow> factory_state \<Rightarrow> factory_state \<times> (string, cvalue) pydict" where
  "vo_params w envf vo kwargs st =
     live_params w envf (vo_provider_name vo) (vo_temperature vo) (vo_max_tokens vo) (vo_top_p vo) kwargs st"

text \<open>Lines 206--229: the contents of all choices concatenated and stripped, or the
  exception the checks or the concatenation raise; no content at all is a format error
  (\<open>APIResponseFormatError(message=...)\<close>, so a \<open>TypeError\<close>).\<close>

definition vo_parse_result :: "json \<Rightarrow> exc + string" where
  "vo_parse_result r =
     parse_choices (new_exc NewAPIResponseFormatError 0 [''message'', ''provider_name'', ''response_body''] None) r"

text \<open>\<open>generate_text\<close> (lines 168--247): the request goes to the endpoint itself; the
  \<open>except\<close> clauses (lines 231--247) are those of SiliconFlow (\<open>sf_wrap\<close>).\<close>

definition vo_generate_text :: "world \<Rightarrow> (string, string option) pydict option \<Rightarrow> volc
    \<Rightarrow> string \<Rightarrow> string option \<Rightarrow> (string, cvalue) pydict \<Rightarrow> (nat \<Rightarrow> request \<Rightarrow> http_result)
    \<Rightarrow> factory_state \<Rightarrow> factory_state \<times> string outcome" where
  "vo_generate_text w envf vo prompt model kwargs net st =
     (case strip_target model (vo_default_model vo) of
        Inl e \<Rightarrow> (st, Raised e)
      | Inr tm \<Rightarrow>
          if tm = [] then (st, Raised (new_exc NewConfigurationError 1 [] None))
          else (let (st3, final) = vo_params w envf vo kwargs st;
                    payload = add_params vo_valid_params final
                                [(''model'', JsStr tm), (''messages'', JsArr [JsObj [(''role'', JsStr ''user''), (''content'', JsStr prompt)]]),
                                 (''stream'', JsBool False)]
                in (st3, case vo_make_request vo (vo_endpoint vo) payload ''POST'' net of
                           Raised e \<Rightarrow> Raised (sf_wrap e)
                         | Returned r \<Rightarrow>
                             (case vo_parse_result r of
                                Inl e \<Rightarrow> Raised (sf_wrap e)
                              | Inr c \<Rightarrow> Returned c))))"

section \<open>stream_chat\<close>

text \<open>\<open>stream_chat\<close> (lines 273--397), run to the end by its consumer. Unlike
  SiliconFlow's, a missing model or endpoint raises \<open>ConfigError\<close> before any item;
  \<open>_get_headers\<close> runs inside the \<open>try\<close>.\<close>

definition vo_stream_chat :: "world \<Rightarrow> (string, string option) pydict option \<Rightarrow> volc
    \<Rightarrow> json list \<Rightarrow> string option \<Rightarrow> (string, cvalue) pydict \<Rightarrow> (string \<Rightarrow> json option)
    \<Rightarrow> (request \<Rightarrow> stream_http) \<Rightarrow> factory_state \<Rightarrow> factory_state \<times> (chunk list \<times> exc option)" where
  "vo_stream_chat w envf vo messages model kwargs loads net st =
     (case strip_target model (vo_default_model vo) of
        Inl e \<Rightarrow> (st, ([], Some e))
      | Inr tm \<Rightarrow>
          if tm = [] then (st, ([], Some (new_exc NewConfigurationError 1 [] None)))
          else (let (st3, final) = vo_params w envf vo kwargs st;
                    payload = add_params vo_valid_params final
                                [(''model'', JsStr tm), (''messages'', JsArr (map format_message messages)), (''stream'', JsBool True)]
                in (st3,
                    if \<not> cv_truthy (vo_endpoint vo) then ([], Some (new_exc NewConfigurationError 1 [] None))
                    else (case vo_get_headers vo of
                            Inl e \<Rightarrow> ([], Some (sf_stream_exc e))
                          | Inr _ \<Rightarrow>
                              (case net \<lparr>req_method = ''POST'', req_endpoint = vo_endpoint vo, req_path = [],
                                         req_payload = payload\<rparr> of
                                 SFail n \<Rightarrow> ([], Some (sf_stream_exc (net_exc n)))
                               | SResp code lines err \<Rightarrow>
                                   if code \<noteq> 200
                                   then ([], Some (sf_stream_exc (new_exc NewAPIResponseError 0
                                           [''provider_name'', ''status_code'', ''response_body'', ''details''] (Some code))))
                                   else (let (ys, e) = sf_stream_lines sf_payload loads err lines in (ys, map_option sf_stream_exc e)))))))"


section \<open>Lemmas\<close>

lemma vo_make_request_single:
  "vo_make_request vo url payload method net = vo_make_request_once vo url payload method (net 1)"
  by (simp add: vo_make_request_def adapter_call_single)

lemma vo_make_request_once_exc:
  "vo_make_request_once vo url payload method net = Raised e \<Longrightarrow>
   e \<in> {ConfigurationError, TypeError, APITimeoutError, APIError} \<or> (\<exists>c. e = APIResponseError (Some c))"
  by (auto simp: vo_make_request_once_def vo_get_headers_def
      split: sum.splits http_result.splits net_err.splits body.splits if_splits)

lemma vo_parse_result_exc: "vo_parse_result r = Inl e \<Longrightarrow> e \<in> {TypeError, OtherError}"
  using parse_choices_exc by (fastforce simp: vo_parse_result_def new_exc_def call_accepts_def)

lemma sf_wrap_status: "sf_wrap (APIResponseError c) = APIError"
  by (simp add: sf_wrap_def isinstance_def)

lemma vo_make_request_wrap: "vo_make_request vo u p m net = Raised e \<Longrightarrow> sf_wrap e = APIError"
  using vo_make_request_once_exc [of vo u p m "net 1" e]
  by (auto simp: vo_make_request_single sf_wrap_def isinstance_def)

lemma vo_generate_text_errors:
  assumes "snd (vo_generate_text w envf vo prompt model kwargs net st) = Raised e"
  shows "e = ConfigurationError \<or> e = APIError \<or> e = OtherError"
proof -
  have pr: "vo_parse_result r = Inl e' \<Longrightarrow> sf_wrap e' = APIError" for r e'
    using vo_parse_result_exc [of r e'] by (auto simp: sf_wrap_def isinstance_def)
  have tg: "strip_target model dm = Inl e' \<Longrightarrow> e' = OtherError" for dm e'
    by (auto simp: strip_target_def split: option.splits if_splits cvalue.splits)
  show ?thesis
  proof (cases "strip_target model (vo_default_model vo)")
    case (Inl x)
    then show ?thesis using assms tg by (simp add: vo_generate_text_def)
  next
    case (Inr tm)
    obtain st3 final where p: "vo_params w envf vo kwargs st = (st3, final)" by fastforce
    show ?thesis using assms Inr p pr vo_make_request_wrap
      by (auto simp: vo_generate_text_def Let_def split: outcome.splits sum.splits if_splits)
  qed
qed

end
