(* ===== verification/OpenAI_Compat.thy ===== *)
theory OpenAI_Compat
  imports Http
begin

text \<open>
  The three adapters built on the second exception hierarchy
  (\<open>src/src/utils/error_handler.py\<close>): \<open>groq_api.py\<close> (\<open>GroqApiHandler\<close>),
  \<open>together_ai.py\<close> (\<open>TogetherAiHandler\<close>) and \<open>perplexity_ai.py\<close>
  (\<open>PerplexityAiHandler\<close>). Groq and Together are the same code up to their default
  constants and their model listing, so construction, \<open>_make_request\<close>, \<open>generate\<close>
  and \<open>stream_chat\<close> are one group of definitions (\<open>oai_*\<close>, translated from
  \<open>groq_api.py\<close>) that the Groq and Together definitions instantiate. Their
  \<open>_make_request\<close> is decorated with \<open>retry_if_exception_type\<close> over the GlyphMind
  \<open>APIError\<close> and \<open>APIResponseError\<close>, so it really retries; \<open>generate\<close> catches only
  \<open>RetryError\<close>, so every other exception reaches the caller as it is.
  \<open>PerplexityAiHandler\<close> does not implement the abstract \<open>get_available_models\<close>, so
  the class cannot be instantiated and none of its methods can run.
\<close>

section \<open>The handler\<close>

record oai =
  oa_provider_name :: cvalue
  oa_api_key :: cvalue
  oa_endpoint :: cvalue
  oa_default_model :: cvalue
  oa_params :: "(string, cvalue) pydict"
  oa_chat_endpoint :: string
  oa_models_endpoint :: string

text \<open>\<open>__init__\<close> (\<open>groq_api.py\<close> lines 17--44), with the defaults as parameters: the
  provider name, the endpoint, the model, \<open>top_p\<close> and \<open>max_tokens\<close>. The keys read are
  the unprefixed \<open>api_key\<close>, \<open>endpoint\<close>, \<open>default_model\<close>, \<open>temperature\<close>,
  \<open>top_p\<close> and \<open>max_tokens\<close>; a falsy key or endpoint raises the GlyphMind
  \<open>ConfigError\<close>; a truthy endpoint that is not a string fails on \<open>.endswith\<close>.\<close>

definition oai_init :: "string \<Rightarrow> string \<Rightarrow> string \<Rightarrow> cvalue \<Rightarrow> cvalue \<Rightarrow> (string, cvalue) pydict \<Rightarrow> exc + oai" where
  "oai_init pn ep_dflt model_dflt top_p_dflt mt_dflt c =
     (let key = cfg_get c ''api_key'' CNone;
          ep = cfg_get c ''endpoint'' (CStr ep_dflt)
      in if \<not> cv_truthy key \<or> \<not> cv_truthy ep then Inl (new_exc NewGlyphConfigError 1 [] None)
         else (case ep of
                 CStr e \<Rightarrow>
                   (let base = (if ends_with e ''/'' then e else e @ ''/'')
                    in Inr \<lparr>oa_provider_name = cfg_get c ''provider_name'' (CStr pn), oa_api_key = key, oa_endpoint = ep,
                            oa_default_model = cfg_get c ''default_model'' (CStr model_dflt),
                            oa_params = [(''temperature'', cfg_get c ''temperature'' (CFloat (Finite (7 / 10)))),
                                         (''top_p'', cfg_get c ''top_p'' top_p_dflt), (''max_tokens'', cfg_get c ''max_tokens'' mt_dflt)],
                            oa_chat_endpoint = base @ ''chat/completions'', oa_models_endpoint = base @ ''models''\<rparr>)
               | _ \<Rightarrow> Inl OtherError))"

section \<open>_make_request\<close>

text \<open>One attempt of \<open>_make_request\<close> (\<open>groq_api.py\<close> lines 94--117): a status other than
  200 raises the GlyphMind \<open>APIResponseError\<close>; an aiohttp error becomes the GlyphMind
  \<open>APIError\<close>; a body that does not decode raises \<open>JSONDecodeError\<close>, which becomes
  \<open>APIResponseError\<close>; a timeout is not an aiohttp \<open>ClientError\<close> and escapes as it is.\<close>

definition oai_make_request_once :: "oai \<Rightarrow> (string, json) pydict \<Rightarrow> (request \<Rightarrow> http_result) \<Rightarrow> json outcome" where
  "oai_make_request_once oa payload net =
     (case net \<lparr>req_method = ''POST'', req_endpoint = CStr (oa_chat_endpoint oa), req_path = [], req_payload = payload\<rparr> of
        HResp code b \<Rightarrow>
          if code \<noteq> 200 then Raised (new_exc NewGlyphAPIResponseError 1 [] None)
          else (case b of JsonBody j \<Rightarrow> Returned j | RawBody _ \<Rightarrow> Raised (new_exc NewGlyphAPIResponseError 1 [] None))
      | HFail TimeoutErr \<Rightarrow> Raised AsyncioTimeoutError
      | HFail _ \<Rightarrow> Raised (new_exc NewGlyphAPIError 1 [] None))"

text \<open>The decorator (lines 88--93): three attempts, exponential waits, a retry on the
  GlyphMind \<open>APIError\<close> and \<open>APIResponseError\<close>, the last exception re-raised. The
  result, the sleeps and the number of attempts.\<close>

definition oai_retry :: tenacity_cfg where
  "oai_retry = adapter_retry (retry_if_exception_type [CGlyphAPIError, CGlyphAPIResponseError])"

definition oai_make_request :: "oai \<Rightarrow> (string, json) pydict \<Rightarrow> (nat \<Rightarrow> request \<Rightarrow> http_result)
    \<Rightarrow> json outcome \<times> nat list \<times> nat" where
  "oai_make_request oa payload net = tenacity_call oai_retry (\<lambda>k. oai_make_request_once oa payload (net k))"

section \<open>generate\<close>

text \<open>\<open>{"model": m, "messages": ms, "stream": s, **final_api_params}\<close>: the handler's
  defaults updated with the keyword arguments, spread after the three fixed keys, so a
  keyword \<open>model\<close> or \<open>stream\<close> replaces them; \<open>None\<close> values are sent as \<open>null\<close>.\<close>

definition oai_payload :: "oai \<Rightarrow> string \<Rightarrow> json \<Rightarrow> bool \<Rightarrow> (string, cvalue) pydict \<Rightarrow> (string, json) pydict" where
  "oai_payload oa tm msgs stream kwargs =
     dict_merge [(''model'', JsStr tm), (''messages'', msgs), (''stream'', JsBool stream)]
                (map (\<lambda>(k, v). (k, cv_json v)) (dict_merge (oa_params oa) kwargs))"

text \<open>Lines 150--157: the stripped content of the first choice; a response of another
  shape raises the GlyphMind \<open>APIResponseError\<close>, a subscription of the wrong type or
  \<open>.strip()\<close> of a non-string raises what Python raises.\<close>

definition oai_parse_result :: "json \<Rightarrow> exc + string" where
  "oai_parse_result r =
     (let fmt = new_exc NewGlyphAPIResponseError 1 [] None
      in case json_in ''choices'' r of
           Inl e \<Rightarrow> Inl e
         | Inr False \<Rightarrow> Inl fmt
         | Inr True \<Rightarrow>
             (case json_index r ''choices'' of
                Inl e \<Rightarrow> Inl e
              | Inr (JsArr (fc # _)) \<Rightarrow>
                  (case json_in ''message'' fc of
                     Inl e \<Rightarrow> Inl e
                   | Inr False \<Rightarrow> Inl fmt
                   | Inr True \<Rightarrow>
                       (case json_index fc ''message'' of
                          Inl e \<Rightarrow> Inl e
                        | Inr m \<Rightarrow>
                            (case json_in ''content'' m of
                               Inl e \<Rightarrow> Inl e
                             | Inr False \<Rightarrow> Inl fmt
                             | Inr True \<Rightarrow>
                                 (case json_index m ''content'' of
                                    Inl e \<Rightarrow> Inl e
                                  | Inr (JsStr s) \<Rightarrow> Inr (py_strip s)
                                  | Inr _ \<Rightarrow> Inl OtherError))))
              | Inr _ \<Rightarrow> Inl fmt))"

text \<open>\<open>generate\<close> (lines 119--161); \<open>BaseAPIHandler.generate_text\<close> calls it. Only
  \<open>RetryError\<close> is caught, and tenacity re-raises the last exception instead.\<close>

definition oai_generate :: "oai \<Rightarrow> string \<Rightarrow> string option \<Rightarrow> (string, cvalue) pydict
    \<Rightarrow> (nat \<Rightarrow> request \<Rightarrow> http_result) \<Rightarrow> string outcome" where
  "oai_generate oa prompt model kwargs net =
     (case strip_target model (oa_default_model oa) of
        Inl e \<Rightarrow> Raised e
      | Inr tm \<Rightarrow>
          if tm = [] then Raised (new_exc NewGlyphConfigError 1 [] None)
          else (case fst (oai_make_request oa (oai_payload oa tm (JsArr [JsObj [(''role'', JsStr ''user''), (''content'', JsStr prompt)]]) False kwargs) net) of
                  Raised e \<Rightarrow> Raised (if isinstance e [CRetryError] then new_exc NewGlyphAPIError 1 [] None else e)
                | Returned r \<Rightarrow>
                    (case oai_parse_result r of
                       Inl e \<Rightarrow> Raised (if isinstance e [CRetryError] then new_exc NewGlyphAPIError 1 [] None else e)
                     | Inr c \<Rightarrow> Returned c)))"

section \<open>stream_chat\<close>

text \<open>The payload of a line (lines 211--217): a non-empty decoded line that starts
  with \<open>data: \<close> (with the space) after stripping.\<close>

definition oai_payload_of :: "string \<Rightarrow> string option" where
  "oai_payload_of l = (let t = py_strip l in if l \<noteq> [] \<and> t \<noteq> [] \<and> starts_with t ''data: '' then Some (py_strip (drop 6 t)) else None)"

text \<open>The line loop (lines 207--226): \<open>data: [DONE]\<close> ends the loop without a marker; a
  payload \<open>json.loads\<close> rejects is skipped; every other payload is yielded. Bytes that
  are not UTF-8 raise, as does a network error after the last line.\<close>

fun oai_stream_lines :: "(string \<Rightarrow> json option) \<Rightarrow> net_err option \<Rightarrow> raw_line list \<Rightarrow> chunk list \<times> exc option" where
  "oai_stream_lines loads err [] = ([], map_option net_exc err)"
| "oai_stream_lines loads err (BadUtf8 # rest) = ([], Some UnicodeDecodeError)"
| "oai_stream_lines loads err (Line l # rest) =
     (case oai_payload_of l of
        None \<Rightarrow> oai_stream_lines loads err rest
      | Some d \<Rightarrow>
          if d = ''[DONE]'' then ([], None)
          else (case loads d of
                  None \<Rightarrow> oai_stream_lines loads err rest
                | Some j \<Rightarrow> (let (ys, e) = oai_stream_lines loads err rest in (Chunk j # ys, e))))"

text \<open>The first item, \<open>{"choices": [{"delta": {"role": "assistant"}}]}\<close>.\<close>

definition role_chunk :: chunk where
  "role_chunk = Chunk (JsObj [(''choices'', JsArr [JsObj [(''delta'', JsObj [(''role'', JsStr ''assistant'')])]])])"

text \<open>\<open>stream_chat\<close> (lines 163--230), run to the end by its consumer. A missing model
  raises before any item; inside the \<open>try\<close>, every exception ends the stream with an
  error item, and no completion marker is ever yielded. The messages are sent as the
  caller passed them.\<close>

definition oai_stream_chat :: "oai \<Rightarrow> json list \<Rightarrow> string option \<Rightarrow> (string, cvalue) pydict
    \<Rightarrow> (string \<Rightarrow> json option) \<Rightarrow> (request \<Rightarrow> stream_http) \<Rightarrow> chunk list \<times> exc option" where
  "oai_stream_chat oa messages model kwargs loads net =
     (case strip_target model (oa_default_model oa) of
        Inl e \<Rightarrow> ([], Some e)
      | Inr tm \<Rightarrow>
          if tm = [] then ([], Some (new_exc NewGlyphConfigError 1 [] None))
          else (case net \<lparr>req_method = ''POST'', req_endpoint = CStr (oa_chat_endpoint oa), req_path = [],
                          req_payload = oai_payload oa tm (JsArr messages) True kwargs\<rparr> of
                  SFail _ \<Rightarrow> ([role_chunk, ErrorChunk], None)
                | SResp code lines err \<Rightarrow>
                    if code \<noteq> 200 then ([role_chunk, ErrorChunk], None)
                    else (case oai_stream_lines loads err lines of
                            (ys, None) \<Rightarrow> (role_chunk # ys, None)
                          | (ys, Some _) \<Rightarrow> (role_chunk # ys @ [ErrorChunk], None))))"

section \<open>Groq\<close>

definition groq_init :: "(string, cvalue) pydict \<Rightarrow> exc + oai" where
  "groq_init = oai_init ''groq_api'' ''https://api.groq.com/openai/v1'' ''llama3-8b-8192'' (CFloat (Finite 1)) (CInt 2048)"

definition groq_required_config_fields :: "string list" where
  "groq_required_config_fields = [''api_key'']"

text \<open>One attempt of \<open>get_available_models\<close> (lines 56--86): a status other than 200,
  a timeout, a body that is not a dict of models and any other error end in the
  fallback \<open>[default_model]\<close>; an aiohttp error raises the GlyphMind \<open>APIError\<close>.\<close>

fun groq_model_ids :: "json list \<Rightarrow> json list" where
  "groq_model_ids [] = []"
| "groq_model_ids (m # ms) =
     (case m of
        JsObj d \<Rightarrow> (case dict_get d ''id'' of Some v \<Rightarrow> v # groq_model_ids ms | None \<Rightarrow> groq_model_ids ms)
      | _ \<Rightarrow> groq_model_ids ms)"

definition groq_models_once :: "oai \<Rightarrow> (request \<Rightarrow> http_result) \<Rightarrow> json list outcome" where
  "groq_models_once oa net =
     (let fallback = Returned (if cv_truthy (oa_default_model oa) then [cv_json (oa_default_model oa)] else [])
      in case net \<lparr>req_method = ''GET'', req_endpoint = CStr (oa_models_endpoint oa), req_path = [], req_payload = []\<rparr> of
           HResp code b \<Rightarrow>
             if code \<noteq> 200 then fallback
             else (case b of
                     JsonBody (JsObj d) \<Rightarrow>
                       (case json_iter (case dict_get d ''data'' of Some v \<Rightarrow> v | None \<Rightarrow> JsArr []) of
                          Inl _ \<Rightarrow> fallback
                        | Inr ms \<Rightarrow> Returned (groq_model_ids ms))
                   | _ \<Rightarrow> fallback)
         | HFail TimeoutErr \<Rightarrow> fallback
         | HFail _ \<Rightarrow> Raised (new_exc NewGlyphAPIError 1 [] None))"

text \<open>The decorator (lines 50--55): a retry on the GlyphMind \<open>APIError\<close>, re-raised.\<close>

definition groq_get_available_models :: "oai \<Rightarrow> (nat \<Rightarrow> request \<Rightarrow> http_result) \<Rightarrow> json list outcome \<times> nat list \<times> nat" where
  "groq_get_available_models oa net =
     tenacity_call (adapter_retry (retry_if_exception_type [CGlyphAPIError])) (\<lambda>k. groq_models_once oa (net k))"

section \<open>Together\<close>

text \<open>\<open>together_ai.py\<close>: \<open>__init__\<close> (lines 17--42), \<open>_make_request\<close> (87--113),
  \<open>generate\<close> (115--151) and \<open>stream_chat\<close> (153--211) are Groq's code with these
  defaults.\<close>

definition together_init :: "(string, cvalue) pydict \<Rightarrow> exc + oai" where
  "together_init = oai_init ''together_ai'' ''https://api.together.xyz/v1'' ''mistralai/Mixtral-8x7B-Instruct-v0.1''
                            (CFloat (Finite (7 / 10))) (CInt 512)"

definition together_known_models :: "string list" where
  "together_known_models = [''mistralai/Mixtral-8x7B-Instruct-v0.1'', ''mistralai/Mistral-7B-Instruct-v0.2'',
     ''NousResearch/Nous-Hermes-2-Mixtral-8x7B-DPO'', ''togethercomputer/llama-2-7b-chat'',
     ''togethercomputer/CodeLlama-34b-Instruct'', ''Qwen/Qwen1.5-72B-Chat'']"

text \<open>\<open>get_available_models\<close> (lines 47--85): no request; the curated list, with the
  default model in front when it is truthy and not in the list.\<close>

definition together_get_available_models :: "oai \<Rightarrow> cvalue list" where
  "together_get_available_models oa =
     (let km = map CStr together_known_models; dm = oa_default_model oa
      in if cv_truthy dm \<and> dm \<notin> set km then dm # km else km)"

text \<open>\<open>_make_request\<close>, \<open>generate\<close> and \<open>stream_chat\<close> of \<open>together_ai.py\<close>: Groq's
  code (they differ only in comments and in passing \<open>timeout=60\<close> as a number).\<close>

definition together_make_request :: "oai \<Rightarrow> (string, json) pydict \<Rightarrow> (nat \<Rightarrow> request \<Rightarrow> http_result)
    \<Rightarrow> json outcome \<times> nat list \<times> nat" where
  "together_make_request = oai_make_request"

definition together_generate :: "oai \<Rightarrow> string \<Rightarrow> string option \<Rightarrow> (string, cvalue) pydict
    \<Rightarrow> (nat \<Rightarrow> request \<Rightarrow> http_result) \<Rightarrow> string outcome" where
  "together_generate = oai_generate"

definition together_stream_chat :: "oai \<Rightarrow> json list \<Rightarrow> string option \<Rightarrow> (string, cvalue) pydict
    \<Rightarrow> (string \<Rightarrow> json option) \<Rightarrow> (request \<Rightarrow> stream_http) \<Rightarrow> chunk list \<times> exc option" where
  "together_stream_chat = oai_stream_chat"

section \<open>Perplexity\<close>

text \<open>\<open>PerplexityAiHandler(config)\<close> (lines 14--172): the class leaves the abstract
  \<open>get_available_models\<close> of \<open>BaseAPIHandler\<close> unimplemented, so \<open>ABC\<close> refuses to
  instantiate it with \<open>TypeError\<close> before \<open>__init__\<close> runs.\<close>

definition perplexity_new :: "(string, cvalue) pydict \<Rightarrow> exc + oai" where
  "perplexity_new c = Inl TypeError"


section \<open>Notions for the properties\<close>

text \<open>The handler built from a configuration with an unprefixed key.\<close>

definition groq_example :: oai where
  "groq_example = \<lparr>oa_provider_name = CStr ''groq_api'', oa_api_key = CStr ''gsk-test'',
     oa_endpoint = CStr ''https://api.groq.com/openai/v1'', oa_default_model = CStr ''llama3-8b-8192'',
     oa_params = [(''temperature'', CFloat (Finite (7 / 10))), (''top_p'', CFloat (Finite 1)), (''max_tokens'', CInt 2048)],
     oa_chat_endpoint = ''https://api.groq.com/openai/v1/chat/completions'',
     oa_models_endpoint = ''https://api.groq.com/openai/v1/models''\<rparr>"

section \<open>Lemmas\<close>

lemma glyph_new_exc [simp]:
  "new_exc NewGlyphConfigError 1 [] None = GlyphConfigError"
  "new_exc NewGlyphConfigError (Suc 0) [] None = GlyphConfigError"
  "new_exc NewGlyphAPIError 1 [] None = GlyphAPIError"
  "new_exc NewGlyphAPIError (Suc 0) [] None = GlyphAPIError"
  "new_exc NewGlyphAPIResponseError 1 [] None = GlyphAPIResponseError"
  "new_exc NewGlyphAPIResponseError (Suc 0) [] None = GlyphAPIResponseError"
  by (simp_all add: new_exc_def call_accepts_def)

lemma dict_get_prefixed_config_other:
  "\<not> starts_with k p \<Longrightarrow> dict_get (prefixed_config p st) k = None"
proof -
  have "dict_get (fold (\<lambda>(k', v) cfg. if starts_with k' p then dict_set k' (coerce_env_value v) cfg else cfg) xs c) k
          = dict_get c k" if "\<not> starts_with k p" for xs c
    using that by (induction xs arbitrary: c) auto
  then show "\<not> starts_with k p \<Longrightarrow> dict_get (prefixed_config p st) k = None"
    by (simp add: prefixed_config_def dict_get_def)
qed

lemma oai_init_no_key:
  "dict_get c ''api_key'' = None \<Longrightarrow> oai_init pn e m t x c = Inl GlyphConfigError"
  by (simp add: oai_init_def cfg_get_def cv_truthy_def)

text \<open>C25 Groq and Together can never be built by the factory: get_handler passes only
  the keys that start with the provider's prefix (and provider_name), so the
  unprefixed api_key the constructor reads is absent and it raises the GlyphMind
  ConfigError, whatever the environment holds.\<close>

theorem oai_factory_config_rejected:
  assumes "\<not> starts_with ''api_key'' p"
  shows "groq_init (dict_set ''provider_name'' (CStr std) (prefixed_config p env)) = Inl GlyphConfigError
       \<and> together_init (dict_set ''provider_name'' (CStr std) (prefixed_config p env)) = Inl GlyphConfigError"
  using oai_init_no_key dict_get_prefixed_config_other [OF assms]
  by (simp add: groq_init_def together_init_def)

lemma oai_retry_sel [simp]:
  "stop_after_attempt oai_retry = 3" "reraise oai_retry"
  "retry_fn oai_retry rs = retry_if_exception_type [CGlyphAPIError, CGlyphAPIResponseError] rs"
  "wait_fn oai_retry = wait_exponential 1 2 10"
  by (simp_all add: oai_retry_def adapter_retry_def)

lemma oai_connection_attempts:
  assumes "\<forall>k r. net k r = HFail ConnectorErr"
  shows "oai_make_request oa p net = (Raised GlyphAPIError, [2, 2], 3)"
proof -
  have f: "oai_make_request_once oa p (net k) = Raised GlyphAPIError" for k
    using assms by (simp add: oai_make_request_once_def)
  have "tenacity_attempts oai_retry (\<lambda>k. oai_make_request_once oa p (net k)) 1
          = ((\<lambda>k. oai_make_request_once oa p (net k)) (max 1 (stop_after_attempt oai_retry)),
             map (wait_fn oai_retry) [1..<stop_after_attempt oai_retry], max 1 (stop_after_attempt oai_retry))"
    by (rule tenacity_stop_retry) (simp_all add: f retry_if_exception_type_def isinstance_def)
  then show ?thesis
    by (simp add: oai_make_request_def tenacity_call_def f upt_rec wait_exponential_def)
qed

lemma oai_timeout_single:
  assumes "\<forall>r. net 1 r = HFail TimeoutErr"
  shows "oai_make_request oa p net = (Raised AsyncioTimeoutError, [], 1)"
proof -
  have n: "net (Suc 0) = (\<lambda>_. HFail TimeoutErr)" using assms by auto
  have "tenacity_attempts oai_retry (\<lambda>k. oai_make_request_once oa p (net k)) 1
          = (oai_make_request_once oa p (net 1), [], 1)"
    by (rule tenacity_never_retry) (simp add: n oai_make_request_once_def retry_if_exception_type_def isinstance_def)
  then show ?thesis by (simp add: n oai_make_request_def tenacity_call_def oai_make_request_once_def)
qed

text \<open>C24 A transport that always fails to connect makes Groq's and Together's
  _make_request attempt exactly three times, sleeping 2 s twice, and generate then
  raises the GlyphMind APIError (not the taxonomy's).\<close>

theorem oai_generate_retry_three:
  assumes "strip_target model (oa_default_model oa) = Inr tm" "tm \<noteq> []"
    and "\<forall>k r. net k r = HFail ConnectorErr"
  shows "oai_make_request oa (oai_payload oa tm (JsArr [JsObj [(''role'', JsStr ''user''), (''content'', JsStr prompt)]]) False kwargs) net
           = (Raised GlyphAPIError, [2, 2], 3)
       \<and> oai_generate oa prompt model kwargs net = Raised GlyphAPIError"
proof -
  have m: "oai_make_request oa q net = (Raised GlyphAPIError, [2, 2], 3)" for q
    using oai_connection_attempts [OF assms(3)] .
  show ?thesis using assms(1,2) by (simp add: m oai_generate_def isinstance_def)
qed

theorem oai_generate_retry_three_witness:
  "oai_generate groq_example ''hi'' None [] (\<lambda>_ _. HFail ConnectorErr) = Raised GlyphAPIError"
proof -
  have t: "strip_target None (oa_default_model groq_example) = Inr ''llama3-8b-8192''" by code_simp
  have n: "\<forall>k r. (\<lambda>_ _. HFail ConnectorErr) k r = HFail ConnectorErr" by simp
  show ?thesis using oai_generate_retry_three [OF t _ n, of "''hi''" "[]"] by simp
qed

theorem oai_factory_config_rejected_witness:
  "groq_init (dict_set ''provider_name'' (CStr ''groq_api'')
      (prefixed_config ''GROQ_'' \<lparr>dotenv = [(''GROQ_API_KEY'', Some ''gsk-test'')], os_environ = []\<rparr>))
   = Inl GlyphConfigError"
proof -
  have "\<not> starts_with ''api_key'' ''GROQ_''" by (simp add: starts_with_def)
  from oai_factory_config_rejected [OF this] show ?thesis by simp
qed

end
