(* ===== verification/Anyscale_Cohere.thy ===== *)
theory Anyscale_Cohere
  imports Volc OpenAI_Compat
begin

text \<open>
  \<open>anyscale_endpoints.py\<close> (\<open>AnyscaleEndpointsHandler\<close>) and \<open>cohere_compatible.py\<close>
  (\<open>CohereCompatibleHandler\<close>): two OpenAI-compatible adapters written from one
  template. Their \<open>_make_request\<close> bodies, \<open>generate_text\<close> and \<open>stream_chat\<close> are the
  same code up to the URL of the chat endpoint and one extra valid parameter, so both
  handlers are one record \<open>acx\<close> whose chat and model URLs are an endpoint value and a
  path, and the shared operations (\<open>ac_*\<close>, translated from \<open>anyscale_endpoints.py\<close>)
  take the list of valid parameters. Nearly every \<open>raise\<close> in these files passes a
  keyword (\<open>message=\<close>, \<open>detail=\<close>, \<open>provider=\<close>) its class does not take, so
  \<open>new_exc\<close> turns it into \<open>TypeError\<close>.
\<close>

section \<open>The handlers\<close>

record acx =
  ax_provider_name :: cvalue
  ax_api_key :: cvalue
  ax_endpoint :: cvalue
  ax_default_model :: cvalue
  ax_temperature :: cvalue
  ax_top_p :: cvalue
  ax_max_tokens :: cvalue
  ax_request_timeout :: cvalue
  ax_chat_url :: "cvalue \<times> string"
  ax_models_url :: "cvalue \<times> string"

text \<open>Anyscale's \<open>__init__\<close> (lines 18--45): a falsy key or endpoint raises
  \<open>ConfigError\<close>; the chat and model URLs are built from the endpoint with or without
  its trailing slash; a truthy endpoint that is not a string fails on \<open>.endswith\<close>.\<close>

definition an_init :: "(string, cvalue) pydict \<Rightarrow> exc + acx" where
  "an_init c =
     (let key = cfg_get c ''ANYSCALE_API_KEY'' CNone;
          ep = cfg_get c ''ANYSCALE_ENDPOINT'' (CStr ''https://api.endpoints.anyscale.com/v1'')
      in if \<not> cv_truthy key \<or> \<not> cv_truthy ep then Inl (new_exc NewConfigurationError 1 [] None)
         else (case ep of
                 CStr e \<Rightarrow>
                   (let base = (if ends_with e ''/'' then e else e @ ''/'')
                    in Inr \<lparr>ax_provider_name = cfg_get c ''provider_name'' (CStr ''anyscale_endpoints''), ax_api_key = key,
                            ax_endpoint = ep,
                            ax_default_model = cfg_get c ''ANYSCALE_DEFAULT_MODEL'' (CStr ''mistralai/Mixtral-8x7B-Instruct-v0.1''),
                            ax_temperature = cfg_get c ''ANYSCALE_TEMPERATURE'' (CFloat (Finite (7 / 10))),
                            ax_top_p = cfg_get c ''ANYSCALE_TOP_P'' (CFloat (Finite 1)),
                            ax_max_tokens = cfg_get c ''ANYSCALE_MAX_TOKENS'' (CInt 2048),
                            ax_request_timeout = cfg_get c ''ANYSCALE_REQUEST_TIMEOUT'' (CInt 60),
                            ax_chat_url = (CStr (base @ ''chat/completions''), []),
                            ax_models_url = (CStr (base @ ''models''), [])\<rparr>)
               | _ \<Rightarrow> Inl OtherError))"

text \<open>Cohere's \<open>__init__\<close> (lines 19--42): nothing is validated; a trailing slash is
  stripped; requests go to \<open>{endpoint}/chat/completions\<close> and \<open>{endpoint}/models\<close>.\<close>

definition co_init :: "(string, cvalue) pydict \<Rightarrow> exc + acx" where
  "co_init c =
     (let ep = cfg_get c ''COHERE_ENDPOINT'' (CStr ''https://api.cohere.ai/v1'');
          mk = (\<lambda>e. \<lparr>ax_provider_name = cfg_get c ''provider_name'' (CStr ''cohere_compatible''),
                     ax_api_key = cfg_get c ''COHERE_API_KEY'' CNone, ax_endpoint = e,
                     ax_default_model = cfg_get c ''COHERE_DEFAULT_MODEL'' (CStr ''command-r-plus''),
                     ax_temperature = cfg_get c ''COHERE_TEMPERATURE'' (CFloat (Finite (3 / 10))),
                     ax_top_p = cfg_get c ''COHERE_TOP_P'' (CFloat (Finite (3 / 4))),
                     ax_max_tokens = cfg_get c ''COHERE_MAX_TOKENS'' (CInt 2048),
                     ax_request_timeout = cfg_get c ''COHERE_REQUEST_TIMEOUT'' (CInt 60),
                     ax_chat_url = (e, ''/chat/completions''), ax_models_url = (e, ''/models'')\<rparr>)
      in case ep of
           CStr e \<Rightarrow> Inr (mk (CStr (if e \<noteq> [] \<and> ends_with e ''/'' then rstrip_char CHR ''/'' e else e)))
         | v \<Rightarrow> if cv_truthy v then Inl OtherError else Inr (mk v))"

definition an_required_config_fields :: "string list" where
  "an_required_config_fields = [''ANYSCALE_API_KEY'', ''ANYSCALE_ENDPOINT'']"

definition co_required_config_fields :: "string list" where
  "co_required_config_fields = [''COHERE_API_KEY'', ''COHERE_ENDPOINT'']"

text \<open>\<open>_get_headers\<close> (Anyscale lines 96--103, Cohere 48--56): only whether it raises.\<close>

definition ac_get_headers :: "acx \<Rightarrow> exc + unit" where
  "ac_get_headers ax = (if cv_truthy (ax_api_key ax) then Inr () else Inl (new_exc NewConfigurationError 1 [] None))"

section \<open>_make_request\<close>

text \<open>What a request of \<open>_make_request\<close> ends in (Anyscale lines 124--148, Cohere
  146--167): the status and format errors raised inside the \<open>try\<close> are not caught by
  its aiohttp and asyncio clauses; every raise passes an unknown keyword except the
  timeout's.\<close>

definition ac_response :: "http_result \<Rightarrow> json outcome" where
  "ac_response r =
     (case r of
        HResp code b \<Rightarrow>
          if code \<noteq> 200
          then Raised (new_exc NewAPIResponseError 0 [''message'', ''status_code'', ''response_body'', ''provider''] (Some code))
          else (case b of
                  JsonBody j \<Rightarrow> Returned j
                | RawBody _ \<Rightarrow> Raised (new_exc NewAPIResponseFormatError 0 [''message'', ''response_body'', ''provider''] None))
      | HFail ConnectorErr \<Rightarrow> Raised (new_exc NewAPIConnectionError 0 [''message'', ''detail'', ''provider''] None)
      | HFail TimeoutErr \<Rightarrow> Raised (new_exc NewAPITimeoutError 0 [''message'', ''timeout_value'', ''provider''] None)
      | HFail OtherClientErr \<Rightarrow> Raised (new_exc NewAPIError 0 [''message'', ''detail'', ''provider''] None))"

text \<open>One attempt (Anyscale lines 114--148, Cohere 128--167): a falsy chat endpoint
  raises \<open>ConfigError\<close>; \<open>_get_headers\<close> runs inside the \<open>try\<close> and its \<open>ConfigError\<close>
  escapes.\<close>

definition ac_make_request_once :: "acx \<Rightarrow> (string, json) pydict \<Rightarrow> (request \<Rightarrow> http_result) \<Rightarrow> json outcome" where
  "ac_make_request_once ax payload net =
     (if \<not> cv_truthy (fst (ax_chat_url ax)) then Raised (new_exc NewConfigurationError 1 [] None)
      else (case ac_get_headers ax of
              Inl e \<Rightarrow> Raised e
            | Inr _ \<Rightarrow> ac_response (net \<lparr>req_method = ''POST'', req_endpoint = fst (ax_chat_url ax),
                                           req_path = snd (ax_chat_url ax), req_payload = payload\<rparr>)))"

text \<open>The decorator (Anyscale lines 105--113, Cohere 119--127):
  \<open>retry=is_retryable_exception\<close>.\<close>

definition ac_make_request :: "acx \<Rightarrow> (string, json) pydict \<Rightarrow> (nat \<Rightarrow> request \<Rightarrow> http_result) \<Rightarrow> json outcome" where
  "ac_make_request ax payload net =
     fst (tenacity_call (adapter_retry (retry_callable is_retryable_exception))
            (\<lambda>k. ac_make_request_once ax payload (net k)))"

section \<open>generate_text\<close>

definition an_valid_params :: "string list" where
  "an_valid_params = [''temperature'', ''top_p'', ''max_tokens'', ''frequency_penalty'', ''presence_penalty'', ''stop'']"

definition co_valid_params :: "string list" where
  "co_valid_params = an_valid_params @ [''k'']"

text \<open>The \<open>except\<close> clauses of \<open>generate_text\<close> (Anyscale lines 201--209): the
  taxonomy's \<open>APIError\<close> re-raised; otherwise \<open>APIError(msg, detail=..., provider=...)\<close>
  or \<open>APIError(msg, provider=...)\<close>, both with a keyword \<open>APIError\<close> does not take.\<close>

definition ac_wrap :: "exc \<Rightarrow> exc" where
  "ac_wrap e =
     (if isinstance e [CAPIError] then e
      else if isinstance e [CRetryError] then new_exc NewAPIError 1 [''detail'', ''provider''] None
      else new_exc NewAPIError 1 [''provider''] None)"

text \<open>\<open>generate_text\<close> (Anyscale lines 153--209, Cohere 177--234; \<open>generate\<close> delegates
  to it), with the adapter's valid parameters.\<close>

definition ac_generate_text :: "string list \<Rightarrow> world \<Rightarrow> (string, string option) pydict option \<Rightarrow> acx
    \<Rightarrow> string \<Rightarrow> string option \<Rightarrow> (string, cvalue) pydict \<Rightarrow> (nat \<Rightarrow> request \<Rightarrow> http_result)
    \<Rightarrow> factory_state \<Rightarrow> factory_state \<times> string outcome" where
  "ac_generate_text valid w envf ax prompt model kwargs net st =
     (case strip_target model (ax_default_model ax) of
        Inl e \<Rightarrow> (st, Raised e)
      | Inr tm \<Rightarrow>
          if tm = [] then (st, Raised (new_exc NewConfigurationError 1 [] None))
          else (let (st3, final) = live_params w envf (ax_provider_name ax) (ax_temperature ax) (ax_max_tokens ax) (ax_top_p ax) kwargs st;
                    payload = add_params valid final
                                [(''model'', JsStr tm), (''messages'', JsArr [JsObj [(''role'', JsStr ''user''), (''content'', JsStr prompt)]]),
                                 (''stream'', JsBool False)]
                in (st3, case ac_make_request ax payload net of
                           Raised e \<Rightarrow> Raised (ac_wrap e)
                         | Returned r \<Rightarrow>
                             (case parse_choices (new_exc NewAPIResponseFormatError 0 [''message'', ''response_body'', ''provider''] None) r of
                                Inl e \<Rightarrow> Raised (ac_wrap e)
                              | Inr c \<Rightarrow> Returned c))))"

section \<open>stream_chat\<close>

text \<open>The \<open>except\<close> clauses of \<open>stream_chat\<close> (Anyscale lines 277--288).\<close>

definition ac_stream_exc :: "exc \<Rightarrow> exc" where
  "ac_stream_exc e =
     (if isinstance e [CClientConnectorError]
      then new_exc NewAPIConnectionError 0 [''message'', ''detail'', ''provider''] None
      else if isinstance e [CTimeoutError]
      then new_exc NewAPITimeoutError 0 [''message'', ''timeout_value'', ''provider''] None
      else if isinstance e [CAPIError] then e
      else new_exc NewAPIError 1 [''provider''] None)"

text \<open>\<open>stream_chat\<close> (Anyscale lines 211--290, Cohere 236--320), run to the end by its
  consumer: a missing model raises; a falsy chat endpoint yields an error item; the
  line loop is SiliconFlow's with the \<open>data: \<close> prefix, ending with the completion
  marker at \<open>[DONE]\<close>. The messages are sent as the caller passed them.\<close>

definition ac_stream_chat :: "string list \<Rightarrow> world \<Rightarrow> (string, string option) pydict option \<Rightarrow> acx
    \<Rightarrow> json list \<Rightarrow> string option \<Rightarrow> (string, cvalue) pydict \<Rightarrow> (string \<Rightarrow> json option)
    \<Rightarrow> (request \<Rightarrow> stream_http) \<Rightarrow> factory_state \<Rightarrow> factory_state \<times> (chunk list \<times> exc option)" where
  "ac_stream_chat valid w envf ax messages model kwargs loads net st =
     (case strip_target model (ax_default_model ax) of
        Inl e \<Rightarrow> (st, ([], Some e))
      | Inr tm \<Rightarrow>
          if tm = [] then (st, ([], Some (new_exc NewConfigurationError 1 [] None)))
          else (let (st3, final) = live_params w envf (ax_provider_name ax) (ax_temperature ax) (ax_max_tokens ax) (ax_top_p ax) kwargs st;
                    payload = add_params valid final [(''model'', JsStr tm), (''messages'', JsArr messages), (''stream'', JsBool True)]
                in (st3,
                    if \<not> cv_truthy (fst (ax_chat_url ax)) then ([ErrorChunk], None)
                    else (case ac_get_headers ax of
                            Inl e \<Rightarrow> ([], Some (ac_stream_exc e))
                          | Inr _ \<Rightarrow>
                              (case net \<lparr>req_method = ''POST'', req_endpoint = fst (ax_chat_url ax),
                                         req_path = snd (ax_chat_url ax), req_payload = payload\<rparr> of
                                 SFail n \<Rightarrow> ([], Some (ac_stream_exc (net_exc n)))
                               | SResp code lines err \<Rightarrow>
                                   if code \<noteq> 200
                                   then ([], Some (ac_stream_exc (new_exc NewAPIResponseError 0
                                           [''message'', ''status_code'', ''response_body'', ''provider''] (Some code))))
                                   else (let (ys, e) = sf_stream_lines oai_payload_of loads err lines
                                         in (ys, map_option ac_stream_exc e)))))))"

section \<open>get_available_models\<close>

text \<open>\<open>str(x)\<close> of a JSON value; the \<open>repr\<close> of floats, lists and dicts is the
  parameter \<open>jrepr\<close>.\<close>

definition py_str_json :: "(json \<Rightarrow> string) \<Rightarrow> json \<Rightarrow> string" where
  "py_str_json jrepr v = (case v of JsStr s \<Rightarrow> s | JsInt i \<Rightarrow> py_str_int i | JsBool b \<Rightarrow> if b then ''True'' else ''False''
                                  | JsNull \<Rightarrow> ''None'' | _ \<Rightarrow> jrepr v)"

text \<open>The \<open>except\<close> clauses of Anyscale's \<open>get_available_models\<close> (lines 80--94).\<close>

definition an_models_exc :: "exc \<Rightarrow> exc" where
  "an_models_exc e =
     (if isinstance e [CClientConnectorError]
      then new_exc NewAPIConnectionError 0 [''message'', ''detail'', ''provider''] None
      else if isinstance e [CTimeoutError]
      then new_exc NewAPITimeoutError 0 [''message'', ''timeout_value'', ''provider''] None
      else if isinstance e [CJSONDecodeError]
      then new_exc NewAPIResponseFormatError 0 [''message'', ''response_body'', ''provider''] None
      else if isinstance e [CAPIError] then e
      else new_exc NewAPIError 0 [''message'', ''provider''] None)"

text \<open>Anyscale's \<open>get_available_models\<close> (lines 51--94; the decorator never retries):
  the ids of the dict entries of \<open>data\<close>, converted with \<open>str\<close>.\<close>

definition an_get_available_models :: "(json \<Rightarrow> string) \<Rightarrow> acx \<Rightarrow> (request \<Rightarrow> http_result) \<Rightarrow> string list outcome" where
  "an_get_available_models jrepr ax net =
     (case ac_get_headers ax of
        Inl e \<Rightarrow> Raised (an_models_exc e)
      | Inr _ \<Rightarrow>
          (case net \<lparr>req_method = ''GET'', req_endpoint = fst (ax_models_url ax), req_path = snd (ax_models_url ax), req_payload = []\<rparr> of
             HResp code b \<Rightarrow>
               if code \<noteq> 200
               then Raised (an_models_exc (new_exc NewAPIResponseError 0 [''message'', ''status_code'', ''response_body'', ''provider''] (Some code)))
               else (case b of
                       RawBody _ \<Rightarrow> Raised (an_models_exc JSONDecodeError)
                     | JsonBody (JsObj d) \<Rightarrow>
                         (case json_iter (case dict_get d ''data'' of Some v \<Rightarrow> v | None \<Rightarrow> JsArr []) of
                            Inl e \<Rightarrow> Raised (an_models_exc e)
                          | Inr ms \<Rightarrow> Returned (map (py_str_json jrepr) (groq_model_ids ms)))
                     | JsonBody _ \<Rightarrow> Raised (an_models_exc OtherError))
           | HFail n \<Rightarrow> Raised (an_models_exc (net_exc n))))"

definition co_known_models :: "string list" where
  "co_known_models = [''command-r-plus'', ''command-r'', ''command'', ''command-light'']"

text \<open>\<open>list(dict.fromkeys(xs))\<close>: the first occurrence of each element, in order. (Every
  element but the default model is a string, so Python's \<open>==\<close> on them is equality.)\<close>

definition dedup_first :: "'a list \<Rightarrow> 'a list" where
  "dedup_first xs = rev (remdups (rev xs))"

text \<open>Cohere's \<open>get_available_models\<close> (lines 58--117): the known models, with the
  default model in front if absent, extended by the ids \<open>/models\<close> returns; every
  failure falls back to the known models.\<close>

definition co_get_available_models :: "(json \<Rightarrow> string) \<Rightarrow> acx \<Rightarrow> (request \<Rightarrow> http_result) \<Rightarrow> cvalue list" where
  "co_get_available_models jrepr ax net =
     (let km = map CStr co_known_models; dm = ax_default_model ax;
          known = (if cv_truthy dm \<and> dm \<notin> set km then dm # km else km)
      in if \<not> cv_truthy (ax_endpoint ax) then known
         else (case ac_get_headers ax of
                 Inl _ \<Rightarrow> known
               | Inr _ \<Rightarrow>
                   (case net \<lparr>req_method = ''GET'', req_endpoint = fst (ax_models_url ax), req_path = snd (ax_models_url ax), req_payload = []\<rparr> of
                      HResp code (JsonBody (JsObj d)) \<Rightarrow>
                        if code \<noteq> 200 then known
                        else (case json_iter (case dict_get d ''data'' of Some v \<Rightarrow> v | None \<Rightarrow> JsArr []) of
                                Inl _ \<Rightarrow> known
                              | Inr ms \<Rightarrow>
                                  (let api = map (CStr \<circ> py_str_json jrepr) (groq_model_ids ms)
                                   in if api \<noteq> [] then dedup_first (known @ api) else known))
                    | _ \<Rightarrow> known)))"

section \<open>The two handlers\<close>

definition an_generate_text where "an_generate_text = ac_generate_text an_valid_params"
definition co_generate_text where "co_generate_text = ac_generate_text co_valid_params"
definition an_stream_chat where "an_stream_chat = ac_stream_chat an_valid_params"
definition co_stream_chat where "co_stream_chat = ac_stream_chat co_valid_params"


section \<open>Notions for the properties\<close>

definition anyscale_example :: acx where
  "anyscale_example = \<lparr>ax_provider_name = CStr ''anyscale_endpoints'', ax_api_key = CStr ''esecret'',
     ax_endpoint = CStr ''https://api.endpoints.anyscale.com/v1'',
     ax_default_model = CStr ''mistralai/Mixtral-8x7B-Instruct-v0.1'', ax_temperature = CFloat (Finite (7 / 10)),
     ax_top_p = CFloat (Finite 1), ax_max_tokens = CInt 2048, ax_request_timeout = CInt 60,
     ax_chat_url = (CStr ''https://api.endpoints.anyscale.com/v1/chat/completions'', []),
     ax_models_url = (CStr ''https://api.endpoints.anyscale.com/v1/models'', [])\<rparr>"

section \<open>Lemmas\<close>

lemma ac_wrap_TypeError: "e \<noteq> APIError \<Longrightarrow> ac_wrap e = TypeError"
  by (cases e) (simp_all add: ac_wrap_def isinstance_def new_exc_def call_accepts_def)

lemma ac_make_request_not_APIError: "ac_make_request ax p net = Raised e \<Longrightarrow> e \<noteq> APIError"
  by (auto simp: ac_make_request_def adapter_call_single ac_make_request_once_def ac_response_def
      ac_get_headers_def new_exc_def call_accepts_def split: if_splits sum.splits http_result.splits body.splits net_err.splits)

lemma ac_parse_not_APIError:
  "parse_choices (new_exc NewAPIResponseFormatError 0 [''message'', ''response_body'', ''provider''] None) r = Inl e \<Longrightarrow> e \<noteq> APIError"
  using parse_choices_exc [of _ r e] by (auto simp: new_exc_def call_accepts_def)

text \<open>C28 Once a model is known, every failure of Anyscale's and Cohere's generate_text,
  a timeout, a connection failure, an error status, a malformed reply, reaches the
  caller as TypeError: the except clauses wrap it in APIError(msg, provider=...), a
  keyword APIError does not take.\<close>

theorem ac_generate_text_failures_type_error:
  assumes "strip_target model (ax_default_model ax) = Inr tm" "tm \<noteq> []"
    and "snd (ac_generate_text valid w envf ax prompt model kwargs net st) = Raised e"
  shows "e = TypeError"
proof -
  obtain st3 final where p: "live_params w envf (ax_provider_name ax) (ax_temperature ax) (ax_max_tokens ax) (ax_top_p ax) kwargs st = (st3, final)"
    by fastforce
  show ?thesis using assms p ac_make_request_not_APIError ac_parse_not_APIError ac_wrap_TypeError
    by (auto simp: ac_generate_text_def Let_def split: outcome.splits sum.splits)
qed

theorem ac_generate_text_failures_type_error_witness:
  "snd (ac_generate_text an_valid_params example_world None anyscale_example ''hi'' None []
          (\<lambda>_ _. HFail TimeoutErr) (initialize_handlers example_world factory_init)) = Raised TypeError"
proof -
  have t: "strip_target None (ax_default_model anyscale_example) = Inr ''mistralai/Mixtral-8x7B-Instruct-v0.1''"
    by code_simp
  have r: "snd (ac_generate_text an_valid_params example_world None anyscale_example ''hi'' None []
          (\<lambda>_ _. HFail TimeoutErr) (initialize_handlers example_world factory_init)) = Raised TypeError"
    by code_simp
  show ?thesis using ac_generate_text_failures_type_error [OF t _ r] r by simp
qed

end
