(* ===== verification/Tasks.thy ===== *)
theory Tasks
  imports Json "HOL-Library.List_Lexorder" "HOL-Library.Char_ord"
begin

text \<open>
  The asynchronous task store: \<open>src/src/core/tasks/models.py\<close> (\<open>TaskStatus\<close>,
  \<open>Task\<close>) and \<open>src/src/core/tasks/manager.py\<close> (\<open>TaskManager\<close>, an SQLite table
  \<open>tasks\<close>). The table is a list of rows in insertion (rowid) order; a row keeps the
  status as the text the code writes (\<open>status.value\<close>), and the \<open>metadata\<close> and
  \<open>result\<close> columns as the JSON value their text encodes: \<open>_serialize_json\<close> is
  \<open>json.dumps\<close>, which succeeds on every value the callers pass, and
  \<open>_deserialize_json\<close> is \<open>json.loads\<close>, its inverse on that text, so neither has a
  branch the model could take and both are the identity here. Timestamps are the
  ISO strings the code stores; the fresh \<open>uuid4\<close> and the clock are arguments.
  Database failures (the \<open>except Exception\<close> clauses around \<open>aiosqlite\<close>) are not
  modelled: the table is a value that every statement reads or writes completely.
\<close>

section \<open>Task models (models.py)\<close>

datatype task_status = PENDING | RUNNING | COMPLETED | FAILED | CANCELLED

text \<open>\<open>TaskStatus.X.value\<close> (lines 9--14).\<close>

primrec status_value :: "task_status \<Rightarrow> string" where
  "status_value PENDING = ''pending''"
| "status_value RUNNING = ''running''"
| "status_value COMPLETED = ''completed''"
| "status_value FAILED = ''failed''"
| "status_value CANCELLED = ''cancelled''"

definition all_statuses :: "task_status list" where
  "all_statuses = [PENDING, RUNNING, COMPLETED, FAILED, CANCELLED]"

text \<open>\<open>TaskStatus(v)\<close>: the member whose value is \<open>v\<close>; \<open>ValueError\<close> (\<open>None\<close>)
  for any other text.\<close>

definition task_status_of :: "string \<Rightarrow> task_status option" where
  "task_status_of v = find (\<lambda>s. status_value s = v) all_statuses"

text \<open>\<open>Task\<close> (lines 16--24), a pydantic model: \<open>metadata\<close> and \<open>result\<close> are
  validated as \<open>Optional[Dict[str, Any]]\<close>.\<close>

record task =
  t_id :: string
  t_status :: task_status
  t_progress :: rat
  t_result :: "(string, json) pydict option"
  t_error :: "string option"
  t_created_at :: string
  t_updated_at :: string
  t_metadata :: "(string, json) pydict option"

section \<open>The table (manager.py)\<close>

text \<open>A row of \<open>tasks\<close> as \<open>initialize_db\<close> creates it (lines 42--51).\<close>

record task_row =
  r_id :: string
  r_status :: string
  r_progress :: rat
  r_created_at :: string
  r_updated_at :: string
  r_metadata :: "json option"
  r_result :: "json option"
  r_error :: "string option"

type_synonym task_db = "task_row list"

text \<open>Pydantic's validation of an \<open>Optional[Dict[str, Any]]\<close> field: \<open>None\<close> and dicts
  pass, any other value fails (\<open>None\<close>).\<close>

definition as_dict :: "json option \<Rightarrow> (string, json) pydict option option" where
  "as_dict v = (case v of None \<Rightarrow> Some None | Some (JsObj d) \<Rightarrow> Some (Some d) | Some _ \<Rightarrow> None)"

text \<open>\<open>_row_to_task\<close> (lines 83--119): \<open>TaskStatus(...)\<close> and the \<open>Task\<close> constructor
  raise \<open>ValueError\<close> on a bad status or a non-dict metadata or result, and the
  method returns \<open>None\<close>.\<close>

definition row_to_task :: "task_row \<Rightarrow> task option" where
  "row_to_task r =
     (case task_status_of (r_status r) of
        None \<Rightarrow> None
      | Some s \<Rightarrow>
          (case (as_dict (r_metadata r), as_dict (r_result r)) of
             (Some m, Some res) \<Rightarrow>
               Some \<lparr>t_id = r_id r, t_status = s, t_progress = r_progress r, t_result = res,
                     t_error = r_error r, t_created_at = r_created_at r,
                     t_updated_at = r_updated_at r, t_metadata = m\<rparr>
           | _ \<Rightarrow> None))"

text \<open>\<open>create_task\<close> (lines 121--157): the task is built in memory, then inserted; an
  id already in the table violates the primary key and the \<open>IntegrityError\<close>
  (\<open>OtherError\<close>) is re-raised.\<close>

definition tm_create_task :: "string \<Rightarrow> string \<Rightarrow> (string, json) pydict option \<Rightarrow> task_db \<Rightarrow> exc + task \<times> task_db" where
  "tm_create_task tid now meta db =
     (let t = \<lparr>t_id = tid, t_status = PENDING, t_progress = 0, t_result = None, t_error = None,
               t_created_at = now, t_updated_at = now, t_metadata = meta\<rparr>;
          row = \<lparr>r_id = tid, r_status = status_value PENDING, r_progress = 0, r_created_at = now,
                 r_updated_at = now, r_metadata = map_option JsObj meta, r_result = None, r_error = None\<rparr>
      in if tid \<in> set (map r_id db) then Inl OtherError else Inr (t, db @ [row]))"

text \<open>\<open>get_task\<close> (lines 159--188): \<open>SELECT * ... WHERE id = ?\<close>, then
  \<open>_row_to_task\<close>.\<close>

definition tm_get_task :: "string \<Rightarrow> task_db \<Rightarrow> task option" where
  "tm_get_task tid db = (case find (\<lambda>r. r_id r = tid) db of None \<Rightarrow> None | Some r \<Rightarrow> row_to_task r)"

text \<open>The \<open>SET\<close> clause of \<open>update_task\<close> (lines 199--227) applied to one row:
  \<open>updated_at\<close> always, each other column when its argument is not \<open>None\<close>.\<close>

definition set_row :: "string \<Rightarrow> task_status option \<Rightarrow> rat option \<Rightarrow> json option \<Rightarrow> string option \<Rightarrow> task_row \<Rightarrow> task_row" where
  "set_row now st pr res er r =
     r\<lparr>r_updated_at := now,
       r_status := (case st of Some s \<Rightarrow> status_value s | None \<Rightarrow> r_status r),
       r_progress := (case pr of Some p \<Rightarrow> p | None \<Rightarrow> r_progress r),
       r_result := (case res of Some v \<Rightarrow> Some v | None \<Rightarrow> r_result r),
       r_error := (case er of Some e \<Rightarrow> Some e | None \<Rightarrow> r_error r)\<rparr>"

text \<open>\<open>update_task\<close> (lines 190--249): without a substantive field it returns
  \<open>None\<close> before touching the table; otherwise it updates every row with the id and
  returns \<open>get_task\<close> of it when a row was affected, else \<open>None\<close>. The \<open>result\<close>
  argument is stored whatever JSON value it is.\<close>

definition tm_update_task :: "string \<Rightarrow> task_status option \<Rightarrow> rat option \<Rightarrow> json option \<Rightarrow> string option \<Rightarrow> string \<Rightarrow> task_db \<Rightarrow> task_db \<times> task option" where
  "tm_update_task tid st pr res er now db =
     (if st = None \<and> pr = None \<and> res = None \<and> er = None then (db, None)
      else (let db' = map (\<lambda>r. if r_id r = tid then set_row now st pr res er r else r) db
            in (db', if tid \<in> set (map r_id db) then tm_get_task tid db' else None)))"

text \<open>\<open>cancel_task\<close> (lines 251--261): \<open>update_task(status=CANCELLED)\<close>, whatever
  the task's current status; true when the task read back is cancelled.\<close>

definition tm_cancel_task :: "string \<Rightarrow> string \<Rightarrow> task_db \<Rightarrow> task_db \<times> bool" where
  "tm_cancel_task tid now db =
     (case tm_update_task tid (Some CANCELLED) None None None now db of
        (db', Some t) \<Rightarrow> (db', t_status t = CANCELLED)
      | (db', None) \<Rightarrow> (db', False))"

text \<open>\<open>get_pending_tasks\<close> (lines 263--302): \<open>SELECT * WHERE status = 'pending'
  ORDER BY created_at ASC LIMIT ?\<close> (SQLite compares the texts bytewise, which is the
  lexicographic order of these ASCII strings; rows with equal \<open>created_at\<close> are taken
  in rowid order, the order of a stable sort; a negative limit is no limit), then
  every row \<open>_row_to_task\<close> converts, in order.\<close>

definition pending_rows :: "int \<Rightarrow> task_db \<Rightarrow> task_row list" where
  "pending_rows lmt db =
     (let rows = sort_key r_created_at (filter (\<lambda>r. r_status r = status_value PENDING) db)
      in if lmt < 0 then rows else take (nat lmt) rows)"

definition tm_get_pending_tasks :: "int \<Rightarrow> task_db \<Rightarrow> task list" where
  "tm_get_pending_tasks lmt db = List.map_filter row_to_task (pending_rows lmt db)"

section \<open>Operations on the store\<close>

text \<open>The manager's operations that change the table, as one step function, so that a
  history of calls is a list of operations.\<close>

datatype tm_op =
    OpCreate string string "(string, json) pydict option"
  | OpUpdate string "task_status option" "rat option" "json option" "string option" string
  | OpCancel string string

fun tm_apply :: "tm_op \<Rightarrow> task_db \<Rightarrow> task_db" where
  "tm_apply (OpCreate tid now meta) db = (case tm_create_task tid now meta db of Inl _ \<Rightarrow> db | Inr (_, db') \<Rightarrow> db')"
| "tm_apply (OpUpdate tid st pr res er now) db = fst (tm_update_task tid st pr res er now db)"
| "tm_apply (OpCancel tid now) db = fst (tm_cancel_task tid now db)"

definition tm_run :: "tm_op list \<Rightarrow> task_db \<Rightarrow> task_db" where
  "tm_run ops db = fold tm_apply ops db"

text \<open>The table's type invariant: ids are unique (the primary key) and every status
  text is the value of a \<open>TaskStatus\<close>.\<close>

definition tasks_wf :: "task_db \<Rightarrow> bool" where
  "tasks_wf db = (distinct (map r_id db) \<and> (\<forall>r\<in>set db. task_status_of (r_status r) \<noteq> None))"

section \<open>Lemmas\<close>

lemma task_status_of_value [simp]: "task_status_of (status_value s) = Some s"
  by (cases s) (simp_all add: task_status_of_def all_statuses_def)

lemma task_status_of_texts [simp]:
  "task_status_of ''pending'' = Some PENDING" "task_status_of ''running'' = Some RUNNING"
  "task_status_of ''completed'' = Some COMPLETED" "task_status_of ''failed'' = Some FAILED"
  "task_status_of ''cancelled'' = Some CANCELLED"
  using task_status_of_value [of PENDING] task_status_of_value [of RUNNING] task_status_of_value [of COMPLETED]
    task_status_of_value [of FAILED] task_status_of_value [of CANCELLED] by simp_all

lemma set_row_id [simp]: "r_id (set_row now st pr res er r) = r_id r"
  by (simp add: set_row_def)

lemma set_row_status [simp]:
  "task_status_of (r_status (set_row now st pr res er r)) = (case st of Some s \<Rightarrow> Some s | None \<Rightarrow> task_status_of (r_status r))"
  by (simp add: set_row_def split: option.split)

lemma set_row_result [simp]: "r_result (set_row now st pr res er r) = (case res of Some v \<Rightarrow> Some v | None \<Rightarrow> r_result r)"
  by (simp add: set_row_def split: option.split)

lemma map_r_id_set_rows [simp]:
  "map r_id (map (\<lambda>r. if r_id r = tid then set_row now st pr res er r else r) db) = map r_id db"
  by (induction db) auto

lemma tm_update_task_fst:
  "fst (tm_update_task tid st pr res er now db) =
     (if st = None \<and> pr = None \<and> res = None \<and> er = None then db
      else map (\<lambda>r. if r_id r = tid then set_row now st pr res er r else r) db)"
  by (simp add: tm_update_task_def Let_def)

lemma tm_cancel_task_fst:
  "fst (tm_cancel_task tid now db) = fst (tm_update_task tid (Some CANCELLED) None None None now db)"
  by (simp add: tm_cancel_task_def split: prod.split option.split)

lemma tasks_wf_update:
  "tasks_wf db \<Longrightarrow> tasks_wf (map (\<lambda>r. if r_id r = tid then set_row now st pr res er r else r) db)"
  unfolding tasks_wf_def by (simp only: map_r_id_set_rows) (auto split: option.split)

lemma tasks_wf_create:
  "tasks_wf db \<Longrightarrow> tm_create_task tid now meta db = Inr (t, db') \<Longrightarrow> tasks_wf db'"
  by (auto simp: tm_create_task_def tasks_wf_def Let_def split: if_splits)

lemma tm_apply_wf: "tasks_wf db \<Longrightarrow> tasks_wf (tm_apply op db)"
proof (cases op)
  case (OpCreate tid now meta)
  assume "tasks_wf db"
  then show ?thesis using OpCreate tasks_wf_create [of db tid now meta]
    by (auto split: sum.split)
next
  case (OpUpdate tid st pr res er now)
  assume "tasks_wf db"
  then show ?thesis using OpUpdate by (simp add: tm_update_task_fst tasks_wf_update)
next
  case (OpCancel tid now)
  assume "tasks_wf db"
  then show ?thesis using OpCancel by (simp add: tm_cancel_task_fst tm_update_task_fst tasks_wf_update)
qed

lemma tm_run_wf_from: "tasks_wf db \<Longrightarrow> tasks_wf (tm_run ops db)"
  by (induction ops arbitrary: db) (simp_all add: tm_run_def tm_apply_wf)

lemma find_append_None: "find P xs = None \<Longrightarrow> find P (xs @ ys) = find P ys"
  by (induction xs) (auto split: if_splits)

lemma find_update_rows:
  assumes "\<And>r. r_id (g r) = r_id r"
  shows "find (\<lambda>r. r_id r = tid) (map (\<lambda>r. if r_id r = tid then g r else r) db) = map_option g (find (\<lambda>r. r_id r = tid) db)"
  by (induction db) (auto simp: assms)

lemma as_dict_JsObj [simp]: "as_dict (map_option JsObj m) = Some m" "as_dict None = Some None"
  by (cases m) (simp_all add: as_dict_def)

lemma row_to_task_set_row:
  assumes "row_to_task r = Some t"
  shows "row_to_task (set_row now st pr res er r) =
           (case (case res of None \<Rightarrow> Some (t_result t) | Some v \<Rightarrow> as_dict (Some v)) of
              None \<Rightarrow> None
            | Some rs \<Rightarrow> Some (t\<lparr>t_status := (case st of None \<Rightarrow> t_status t | Some s \<Rightarrow> s),
                                 t_progress := (case pr of None \<Rightarrow> t_progress t | Some p \<Rightarrow> p),
                                 t_result := rs,
                                 t_error := (case er of None \<Rightarrow> t_error t | Some e \<Rightarrow> Some e),
                                 t_updated_at := now\<rparr>))"
  using assms by (auto simp: row_to_task_def set_row_def split: option.splits prod.splits)

lemma row_to_task_array_result: "r_result r = Some (JsArr xs) \<Longrightarrow> row_to_task r = None"
  by (simp add: row_to_task_def as_dict_def split: option.split)

lemma tm_get_task_SomeD:
  "tm_get_task tid db = Some t \<Longrightarrow> \<exists>r. find (\<lambda>r. r_id r = tid) db = Some r \<and> row_to_task r = Some t"
  by (simp add: tm_get_task_def split: option.splits)

lemma tm_update_task_row:
  assumes "find (\<lambda>r. r_id r = tid) db = Some r" "\<not> (st = None \<and> pr = None \<and> res = None \<and> er = None)"
  shows "find (\<lambda>r. r_id r = tid) (fst (tm_update_task tid st pr res er now db)) = Some (set_row now st pr res er r)
       \<and> snd (tm_update_task tid st pr res er now db) = row_to_task (set_row now st pr res er r)"
proof -
  have mem: "tid \<in> set (map r_id db)" using assms(1) by (auto simp: find_Some_iff)
  have f: "find (\<lambda>r. r_id r = tid) (map (\<lambda>r. if r_id r = tid then set_row now st pr res er r else r) db)
        = Some (set_row now st pr res er r)"
    using assms(1) by (simp add: find_update_rows)
  then show ?thesis using assms(2) mem by (auto simp: tm_update_task_def tm_get_task_def Let_def)
qed

lemma tm_update_task_found:
  assumes "tm_get_task tid db = Some t" "\<not> (st = None \<and> pr = None \<and> res = None \<and> er = None)"
  shows "snd (tm_update_task tid st pr res er now db) = tm_get_task tid (fst (tm_update_task tid st pr res er now db))
         \<and> tm_get_task tid (fst (tm_update_task tid st pr res er now db)) =
           (case (case res of None \<Rightarrow> Some (t_result t) | Some v \<Rightarrow> as_dict (Some v)) of
              None \<Rightarrow> None
            | Some rs \<Rightarrow> Some (t\<lparr>t_status := (case st of None \<Rightarrow> t_status t | Some s \<Rightarrow> s),
                                 t_progress := (case pr of None \<Rightarrow> t_progress t | Some p \<Rightarrow> p),
                                 t_result := rs,
                                 t_error := (case er of None \<Rightarrow> t_error t | Some e \<Rightarrow> Some e),
                                 t_updated_at := now\<rparr>))"
proof -
  obtain r where f: "find (\<lambda>r. r_id r = tid) db = Some r" and rt: "row_to_task r = Some t"
    using tm_get_task_SomeD [OF assms(1)] by blast
  have u: "find (\<lambda>r. r_id r = tid) (fst (tm_update_task tid st pr res er now db)) = Some (set_row now st pr res er r)
       \<and> snd (tm_update_task tid st pr res er now db) = row_to_task (set_row now st pr res er r)"
    using tm_update_task_row [OF f assms(2)] .
  then show ?thesis using row_to_task_set_row [OF rt, of now st pr res er] by (simp add: tm_get_task_def)
qed

text \<open>A result that is a JSON list is stored, but the row can no longer be read: the
  update returns \<open>None\<close>, \<open>get_task\<close> finds nothing, and a later \<open>cancel_task\<close>
  reports failure although it changes the row.\<close>

lemma update_array_result_unreadable:
  assumes "find (\<lambda>r. r_id r = tid) db = Some r"
  shows "snd (tm_update_task tid st pr (Some (JsArr xs)) er now db) = None
       \<and> tm_get_task tid (fst (tm_update_task tid st pr (Some (JsArr xs)) er now db)) = None
       \<and> (\<exists>r'. find (\<lambda>r. r_id r = tid) (fst (tm_update_task tid st pr (Some (JsArr xs)) er now db)) = Some r'
               \<and> r_result r' = Some (JsArr xs))"
proof -
  have u: "find (\<lambda>r. r_id r = tid) (fst (tm_update_task tid st pr (Some (JsArr xs)) er now db)) = Some (set_row now st pr (Some (JsArr xs)) er r)
       \<and> snd (tm_update_task tid st pr (Some (JsArr xs)) er now db) = row_to_task (set_row now st pr (Some (JsArr xs)) er r)"
    using tm_update_task_row [OF assms, of st pr "Some (JsArr xs)" er now] by simp
  have "row_to_task (set_row now st pr (Some (JsArr xs)) er r) = None" by (simp add: row_to_task_array_result)
  then show ?thesis using u by (simp add: tm_get_task_def)
qed

lemma cancel_unreadable_row:
  assumes "find (\<lambda>r. r_id r = tid) db = Some r" "r_result r = Some (JsArr xs)"
  shows "\<not> snd (tm_cancel_task tid now db)"
proof -
  have "snd (tm_update_task tid (Some CANCELLED) None None None now db) = row_to_task (set_row now (Some CANCELLED) None None None r)"
    using tm_update_task_row [OF assms(1), of "Some CANCELLED" None None None now] by simp
  moreover have "row_to_task (set_row now (Some CANCELLED) None None None r) = None"
    using assms(2) by (simp add: row_to_task_array_result)
  ultimately show ?thesis by (auto simp: tm_cancel_task_def split: prod.split option.split)
qed

text \<open>\<open>cancel_task\<close> on a task it can read succeeds whatever the task's status, a
  completed or failed one included: the row becomes \<open>CANCELLED\<close> and keeps its
  result and error.\<close>

lemma tm_cancel_task_found:
  assumes "tm_get_task tid db = Some t"
  shows "snd (tm_cancel_task tid now db) \<and>
         tm_get_task tid (fst (tm_cancel_task tid now db)) = Some (t\<lparr>t_status := CANCELLED, t_updated_at := now\<rparr>)"
  using tm_update_task_found [OF assms, of "Some CANCELLED" None None None now]
  by (auto simp: tm_cancel_task_def split: prod.split option.split)

text \<open>C15 Every table reachable from the empty one by any sequence of create_task,
  update_task and cancel_task calls has unique ids and only TaskStatus values in
  its status column, so _row_to_task never fails on a status.\<close>

theorem tasks_reachable_wf: "tasks_wf (tm_run ops [])"
  by (rule tm_run_wf_from) (simp add: tasks_wf_def)

theorem tasks_reachable_wf_witness:
  "tasks_wf (tm_run [OpCreate ''a'' ''2026-01-01T00:00:00+00:00'' None, OpCancel ''a'' ''2026-01-01T00:00:01+00:00''] [])"
  using tasks_reachable_wf by simp

text \<open>C16 A task created by create_task is returned, unchanged, by get_task and
  by get_pending_tasks without a limit.\<close>

theorem create_get_roundtrip:
  assumes "tm_create_task tid now meta db = Inr (t, db')"
  shows "tm_get_task tid db' = Some t \<and> t \<in> set (tm_get_pending_tasks (-1) db')"
proof -
  define row where "row = \<lparr>r_id = tid, r_status = status_value PENDING, r_progress = 0, r_created_at = now,
                 r_updated_at = now, r_metadata = map_option JsObj meta, r_result = None, r_error = None\<rparr>"
  have fresh: "tid \<notin> set (map r_id db)" and db': "db' = db @ [row]"
    and t: "t = \<lparr>t_id = tid, t_status = PENDING, t_progress = 0, t_result = None, t_error = None,
               t_created_at = now, t_updated_at = now, t_metadata = meta\<rparr>"
    using assms by (auto simp: tm_create_task_def row_def Let_def split: if_splits)
  have rt: "row_to_task row = Some t" by (simp add: row_to_task_def row_def t)
  have "find (\<lambda>r. r_id r = tid) db = None" using fresh by (auto simp: find_None_iff)
  then have "find (\<lambda>r. r_id r = tid) db' = Some row" by (simp add: db' find_append_None row_def)
  then have g: "tm_get_task tid db' = Some t" by (simp add: tm_get_task_def rt)
  have "row \<in> set (pending_rows (-1) db')" by (simp add: pending_rows_def db' row_def)
  then have "t \<in> set (tm_get_pending_tasks (-1) db')"
    using rt by (force simp: tm_get_pending_tasks_def List.map_filter_def)
  with g show ?thesis ..
qed

theorem create_get_roundtrip_witness:
  "tm_get_task ''t1'' [\<lparr>r_id = ''t1'', r_status = ''pending'', r_progress = 0, r_created_at = ''2026-01-01'',
                        r_updated_at = ''2026-01-01'', r_metadata = None, r_result = None, r_error = None\<rparr>]
   = Some \<lparr>t_id = ''t1'', t_status = PENDING, t_progress = 0, t_result = None, t_error = None,
           t_created_at = ''2026-01-01'', t_updated_at = ''2026-01-01'', t_metadata = None\<rparr>"
proof -
  have "tm_create_task ''t1'' ''2026-01-01'' None [] =
        Inr (\<lparr>t_id = ''t1'', t_status = PENDING, t_progress = 0, t_result = None, t_error = None,
               t_created_at = ''2026-01-01'', t_updated_at = ''2026-01-01'', t_metadata = None\<rparr>,
             [\<lparr>r_id = ''t1'', r_status = ''pending'', r_progress = 0, r_created_at = ''2026-01-01'',
               r_updated_at = ''2026-01-01'', r_metadata = None, r_result = None, r_error = None\<rparr>])"
    by (simp add: tm_create_task_def)
  from create_get_roundtrip [OF this] show ?thesis by simp
qed

end
