(* ===== verification/Worker_Output.thy ===== *)
theory Worker_Output
  imports Json
begin

text \<open>
  How the task worker turns a model's completion into the stored result
  (\<open>src/src/core/tasks/worker.py\<close>, \<open>_process_task\<close>, lines 373--470): three
  \<open>re.search\<close> calls that look for a JSON block, \<open>json.loads\<close> on what they extract
  (the parameter \<open>loads\<close>), and the dicts built when nothing parses. Each regular
  expression is translated as Python's backtracking matcher runs it: alternatives
  and greedy repetitions are tried longest first, lazy ones shortest first, and
  \<open>re.search\<close> tries every start position from the left. Two of the patterns are
  raw strings with doubled backslashes, so they match a literal backslash where
  a whitespace class was meant.
\<close>

section \<open>Search helpers\<close>

text \<open>The first candidate, in order, for which a try succeeds: a backtracking
  matcher's choice point.\<close>

fun first_some :: "('a \<Rightarrow> 'b option) \<Rightarrow> 'a list \<Rightarrow> 'b option" where
  "first_some f [] = None"
| "first_some f (x # xs) = (case f x of Some y \<Rightarrow> Some y | None \<Rightarrow> first_some f xs)"

definition bsl :: char where
  "bsl = CHR 0x5C"

text \<open>A greedy repetition of one character class: the lengths it tries, longest
  first.\<close>

definition greedy_lengths :: "(char \<Rightarrow> bool) \<Rightarrow> string \<Rightarrow> nat list" where
  "greedy_lengths p s = rev [0..<Suc (length (takeWhile p s))]"

section \<open>The fenced-block pattern\<close>

text \<open>\<open>r"```json\\s*([\\s\\S]*?)\\s*```"\<close> (line 382): the text \<open>```json\<close>, a
  backslash, \<open>s*\<close>, a lazy group over the class of backslash, \<open>s\<close> and \<open>S\<close>, a
  backslash, \<open>s*\<close>, and three backticks. \<open>md_tail\<close> matches what follows the
  backslash of \<open>```json\\\<close> and returns the group.\<close>

definition md_class :: "char \<Rightarrow> bool" where
  "md_class c \<longleftrightarrow> c = bsl \<or> c = CHR ''s'' \<or> c = CHR ''S''"

definition md_tail :: "string \<Rightarrow> string option" where
  "md_tail t =
     first_some (\<lambda>a. let u = drop a t in
        first_some (\<lambda>l. let w = take l u; v = drop l u in
            if list_all md_class w \<and> v \<noteq> [] \<and> hd v = bsl
            then first_some (\<lambda>b. if starts_with (drop b (tl v)) ''```'' then Some w else None)
                   (greedy_lengths (\<lambda>c. c = CHR ''s'') (tl v))
            else None) [0..<Suc (length u)])
      (greedy_lengths (\<lambda>c. c = CHR ''s'') t)"

definition md_search :: "string \<Rightarrow> string option" where
  "md_search s =
     first_some (\<lambda>i. let t = drop i s in
                       if starts_with t (''```json'' @ [bsl]) then md_tail (drop 8 t) else None)
       [0..<Suc (length s)]"

section \<open>The whole-text pattern\<close>

text \<open>\<open>r"^\s*(\{(?:[^{}]|\{[^{}]*\})*\}|\s*\[(?:[^\[\]]|\[[^\[\]]*\])*\])\s*$"\<close>
  (line 396), with \<open>re.DOTALL\<close>. After the opening bracket the repetition takes
  characters other than the two brackets and closed one-level groups; a group
  left open makes the whole match fail (no shorter repetition is followed by the
  closing bracket), so the scan below is deterministic: \<open>bracket_items ob cb s\<close>
  returns the body up to the first top-level closing bracket and the rest.\<close>

function bracket_items :: "char \<Rightarrow> char \<Rightarrow> string \<Rightarrow> (string \<times> string) option" where
  "bracket_items ob cb [] = None"
| "bracket_items ob cb (x # xs) =
     (if x = cb then Some ([], xs)
      else if x = ob then
        (case dropWhile (\<lambda>y. y \<noteq> ob \<and> y \<noteq> cb) xs of
           y # rest \<Rightarrow>
             if y = cb
             then map_option (\<lambda>(b, r). (ob # takeWhile (\<lambda>y. y \<noteq> ob \<and> y \<noteq> cb) xs @ [cb] @ b, r))
                    (bracket_items ob cb rest)
             else None
         | [] \<Rightarrow> None)
      else map_option (\<lambda>(b, r). (x # b, r)) (bracket_items ob cb xs))"
  by pat_completeness auto
termination
proof (relation "measure (\<lambda>(_, _, s). length s)")
  fix ob cb x xs y rest
  assume d: "dropWhile (\<lambda>y. y \<noteq> ob \<and> y \<noteq> cb) xs = y # rest"
  have "length (dropWhile (\<lambda>y. y \<noteq> ob \<and> y \<noteq> cb) xs) \<le> length xs" by (rule length_dropWhile_le)
  then show "((ob, cb, rest), ob, cb, x # xs) \<in> measure (\<lambda>(_, _, s). length s)" unfolding d by simp
qed simp_all

definition raw_match :: "string \<Rightarrow> string option" where
  "raw_match s =
     (let t = dropWhile py_isspace s;
          close = (\<lambda>ob cb r. case bracket_items ob cb r of
                              Some (b, rest) \<Rightarrow> if list_all py_isspace rest then Some (ob # b @ [cb]) else None
                            | None \<Rightarrow> None)
      in case t of
           x # r \<Rightarrow> if x = CHR ''{'' then close (CHR ''{'') (CHR ''}'') r
                     else if x = CHR ''['' then close (CHR ''['') (CHR '']'') r
                     else None
         | [] \<Rightarrow> None)"

section \<open>The lenient pattern\<close>

text \<open>\<open>r"(\\{[\\s\\S]*\\}|\\[[\\s\\S]*\\])"\<close> (line 403). In the raw string
  \<open>\\\\\<close> is an escaped backslash, so the first alternative is a backslash and \<open>{\<close>, a
  greedy run over backslash, \<open>s\<close> and \<open>S\<close>, a backslash and \<open>}\<close>; the second is a
  backslash, a greedy run over the class \<open>[[\\s\\S]\<close> (\<open>[\<close>, backslash, \<open>s\<close>, \<open>S\<close>), a
  backslash and \<open>]\<close>. \<open>lenient_alt pre cls cb\<close> matches the prefix \<open>pre\<close>, the greedy
  run over \<open>cls\<close> (backtracking), a backslash and \<open>cb\<close>; the group is the whole match.\<close>

definition lenient_alt :: "string \<Rightarrow> (char \<Rightarrow> bool) \<Rightarrow> char \<Rightarrow> string \<Rightarrow> string option" where
  "lenient_alt pre cls cb t =
     (if starts_with t pre
      then first_some (\<lambda>k. if starts_with (drop (length pre + k) t) [bsl, cb]
                            then Some (take (length pre + k + 2) t) else None)
             (greedy_lengths cls (drop (length pre) t))
      else None)"

definition lenient_search :: "string \<Rightarrow> string option" where
  "lenient_search s =
     first_some (\<lambda>i. let t = drop i s in
                       case lenient_alt [bsl, CHR ''{''] md_class (CHR ''}'') t of
                         Some g \<Rightarrow> Some g
                       | None \<Rightarrow> lenient_alt [bsl] (\<lambda>x. x = CHR ''['' \<or> md_class x) (CHR '']'') t)
       [0..<Suc (length s)]"

section \<open>The stored result\<close>

text \<open>Lines 380--406: the fenced block if the first pattern matches (even with an
  empty group), else the whole-text block, else the lenient one; stripped.\<close>

definition extract_json_str :: "string \<Rightarrow> string option" where
  "extract_json_str c =
     (case md_search c of
        Some g \<Rightarrow> Some (py_strip g)
      | None \<Rightarrow> (case raw_match c of
                  Some g \<Rightarrow> Some (py_strip g)
                | None \<Rightarrow> map_option py_strip (lenient_search c)))"

text \<open>Lines 421--447: the result when no JSON text was found.\<close>

definition no_json_result :: "json \<Rightarrow> json \<Rightarrow> string \<Rightarrow> json" where
  "no_json_result tmpl atype c =
     (if json_truthy tmpl \<and> tmpl = JsStr ''theme_symbolism_analysis''
      then JsObj [(''content'', JsStr c), (''format'', JsStr ''markdown''), (''template_id'', tmpl)]
      else if atype = JsStr ''deep'' \<or> atype = JsStr ''literature''
      then JsObj [(''content'', JsStr c),
                  (''format'', JsStr (if py_contains c ''###'' \<or> py_contains c ''**'' then ''markdown'' else ''text'')),
                  (''analysis_type'', atype)]
      else JsObj [(''error'', JsStr ''Model output was not valid JSON.''),
                  (''details'', JsStr (''Model returned non-JSON text: '' @ take 200 c @ ''...''))])"

text \<open>Lines 464--466: a parsing message is recorded in a dict result that has no
  \<open>error\<close> key.\<close>

definition add_parsing_info :: "string option \<Rightarrow> json \<Rightarrow> json" where
  "add_parsing_info msg v =
     (case (msg, v) of
        (Some m, JsObj d) \<Rightarrow>
          if ''parsing_error_info'' \<notin> set (dict_keys d) \<and> ''error'' \<notin> set (dict_keys d)
          then JsObj (dict_set ''parsing_error_info'' (JsStr m) d) else v
      | _ \<Rightarrow> v)"

text \<open>Lines 375--466 for a string completion: the result and the parsing message.
  The message of a \<open>JSONDecodeError\<close> goes only into a dict with an \<open>error\<close> key,
  so its text is left out.\<close>

definition process_completion :: "(string \<Rightarrow> json option) \<Rightarrow> json \<Rightarrow> json \<Rightarrow> string \<Rightarrow> json" where
  "process_completion loads tmpl atype c =
     (case extract_json_str c of
        Some js \<Rightarrow>
          if js \<noteq> []
          then (case loads js of
                  Some v \<Rightarrow> v
                | None \<Rightarrow> JsObj [(''error'', JsStr ''Invalid JSON structure from model after extraction.''),
                                 (''details'', JsStr (''Attempted to parse: '' @ take 200 js @ ''...'')),
                                 (''original_model_output_preview'', JsStr (take 200 c @ ''...''))])
          else add_parsing_info (Some ''No valid JSON block found in model output.'') (no_json_result tmpl atype c)
      | None \<Rightarrow> add_parsing_info (Some ''No valid JSON block found in model output.'') (no_json_result tmpl atype c))"

section \<open>Lemmas\<close>

lemma first_some_None: "(\<And>x. x \<in> set xs \<Longrightarrow> f x = None) \<Longrightarrow> first_some f xs = None"
  by (induction xs) auto

lemma starts_with_set: "starts_with s p \<Longrightarrow> set p \<subseteq> set s"
  by (metis set_take_subset starts_with_def)

lemma md_search_no_bsl: "bsl \<notin> set s \<Longrightarrow> md_search s = None"
  unfolding md_search_def Let_def
  by (rule first_some_None) (use starts_with_set [of "drop _ s" "''```json'' @ [bsl]"] set_drop_subset [of _ s] in auto)

lemma lenient_alt_no_bsl: "bsl \<in> set pre \<Longrightarrow> bsl \<notin> set t \<Longrightarrow> lenient_alt pre cls cb t = None"
  unfolding lenient_alt_def using starts_with_set [of t pre] by auto

lemma lenient_search_no_bsl:
  assumes "bsl \<notin> set s"
  shows "lenient_search s = None"
proof -
  have d: "bsl \<notin> set (drop i s)" for i using assms set_drop_subset [of i s] by blast
  show ?thesis unfolding lenient_search_def Let_def
    by (rule first_some_None) (simp add: lenient_alt_no_bsl d)
qed

lemma raw_match_backtick [simp]: "raw_match (CHR ''`'' # s) = None"
  by (simp add: raw_match_def py_isspace_def)

lemma extract_fenced: "bsl \<notin> set body \<Longrightarrow> extract_json_str (''```json'' @ body) = None"
proof -
  assume b: "bsl \<notin> set body"
  have "bsl \<notin> set (''```json'' @ body)" using b by (simp add: bsl_def)
  then show ?thesis by (simp add: extract_json_str_def md_search_no_bsl lenient_search_no_bsl)
qed

text \<open>C20 A deep or literature analysis whose model answers with a fenced block
  (three backticks and json, then anything without a backslash) is stored as
  text, whatever json.loads would make of the block: the fenced-block and lenient
  patterns need a literal backslash and the whole-text pattern an opening bracket.\<close>

theorem fenced_json_stored_as_text:
  assumes "bsl \<notin> set body" "atype = JsStr ''deep'' \<or> atype = JsStr ''literature''"
    "tmpl \<noteq> JsStr ''theme_symbolism_analysis''"
  shows "process_completion loads tmpl atype (''```json'' @ body) =
           JsObj [(''content'', JsStr (''```json'' @ body)),
                  (''format'', JsStr (if py_contains (''```json'' @ body) ''###'' \<or> py_contains (''```json'' @ body) ''**''
                                      then ''markdown'' else ''text'')),
                  (''analysis_type'', atype),
                  (''parsing_error_info'', JsStr ''No valid JSON block found in model output.'')]"
proof -
  have e: "extract_json_str (''```json'' @ body) = None" by (rule extract_fenced [OF assms(1)])
  show ?thesis unfolding process_completion_def e using assms(2,3)
    by (auto simp: no_json_result_def add_parsing_info_def dict_keys_def)
qed

theorem fenced_json_stored_as_text_witness:
  "process_completion (\<lambda>s. Some (JsStr s)) JsNull (JsStr ''deep'') (''```json'' @ ''\<newline>{\"a\": 1}\<newline>```'') =
     JsObj [(''content'', JsStr (''```json'' @ ''\<newline>{\"a\": 1}\<newline>```'')), (''format'', JsStr ''text''),
            (''analysis_type'', JsStr ''deep''),
            (''parsing_error_info'', JsStr ''No valid JSON block found in model output.'')]"
proof -
  have b: "bsl \<notin> set ''\<newline>{\"a\": 1}\<newline>```''" by (simp add: bsl_def)
  have f: "\<not> py_contains (''```json'' @ ''\<newline>{\"a\": 1}\<newline>```'') ''###''
           \<and> \<not> py_contains (''```json'' @ ''\<newline>{\"a\": 1}\<newline>```'') ''**''" by code_simp
  show ?thesis using fenced_json_stored_as_text [OF b, of "JsStr ''deep''" JsNull "\<lambda>s. Some (JsStr s)"] f by simp
qed

end
