(* ===== verification/Ollama.thy ===== *)
theory Ollama
  imports Http
begin

text \<open>
  The local-daemon adapter, \<open>src/src/providers/handlers/ollama_local.py\<close>
  (\<open>OllamaLocalHandler\<close>): construction (which reads \<open>OLLAMA_*\<close> from the process
  environment), the request helper \<open>_make_request\<close> under its tenacity decorator,
  \<open>get_available_models\<close>, \<open>check_service_status\<close>, its own \<open>test_connection\<close>,
  \<open>generate_text\<close> and \<open>chat\<close> with their parameter merge, \<open>_filter_messages\<close>,
  the SSE-free line stream of \<open>stream_chat\<close>, and its own \<open>get_current_param\<close>.
  The network is a parameter (\<open>net\<close> answers a request; the tenacity wrapper asks
  \<open>net k\<close> for attempt \<open>k\<close>); messages are the JSON values a route passes (dicts, or
  anything else, which the adapter skips); \<open>os.environ\<close> is a dict of strings.
\<close>

section \<open>The handler\<close>

record ollama =
  ol_provider_name :: cvalue
  ol_endpoint :: cvalue
  ol_default_model :: cvalue
  ol_params :: "(string, cvalue) pydict"
  ol_request_timeout :: cvalue

text \<open>\<open>os.environ.get(k)\<close> parsed by \<open>float()\<close> or \<open>int()\<close> when set and non-empty
  (lines 38--57, 333--348): \<open>None\<close> when unset, empty, or rejected (the
  \<open>ValueError\<close> is logged).\<close>

definition env_float :: "(string, string) pydict \<Rightarrow> string \<Rightarrow> pyfloat option" where
  "env_float env k = (case dict_get env k of Some s \<Rightarrow> if s \<noteq> [] then py_float s else None | None \<Rightarrow> None)"

definition env_int :: "(string, string) pydict \<Rightarrow> string \<Rightarrow> int option" where
  "env_int env k = (case dict_get env k of Some s \<Rightarrow> if s \<noteq> [] then py_int s else None | None \<Rightarrow> None)"

definition set_opt :: "string \<Rightarrow> cvalue option \<Rightarrow> (string, cvalue) pydict \<Rightarrow> (string, cvalue) pydict" where
  "set_opt k v d = (case v of Some x \<Rightarrow> dict_set k x d | None \<Rightarrow> d)"

text \<open>\<open>__init__\<close> (lines 21--65). An endpoint that is truthy but not a string fails on
  \<open>.endswith\<close> (\<open>AttributeError\<close>, here \<open>OtherError\<close>).\<close>

definition ollama_init :: "(string, cvalue) pydict \<Rightarrow> (string, string) pydict \<Rightarrow> exc + ollama" where
  "ollama_init c env =
     (let ep0 = cfg_get c ''endpoint'' (CStr []);
          ep = (if cv_truthy ep0 then ep0 else CStr ''http://localhost:11434'');
          p0 = [(''temperature'', CFloat (Finite (7 / 10))), (''top_p'', CFloat (Finite 1)), (''max_tokens'', CInt 16000)];
          p1 = set_opt ''temperature'' (map_option CFloat (env_float env ''OLLAMA_TEMPERATURE'')) p0;
          p2 = set_opt ''max_tokens'' (map_option CInt (env_int env ''OLLAMA_MAX_TOKENS'')) p1;
          p3 = set_opt ''top_p'' (map_option CFloat (env_float env ''OLLAMA_TOP_P'')) p2;
          ol = \<lparr>ol_provider_name = cfg_get c ''provider_name'' (CStr ''ollama_local''), ol_endpoint = ep,
                ol_default_model = cfg_get c ''default_model'' (CStr ''deepseek-r1:8b''), ol_params = p3,
                ol_request_timeout = cfg_get c ''request_timeout'' (CInt 60)\<rparr>
      in case ep of
           CStr e \<Rightarrow> Inr (if ends_with e ''/'' then ol\<lparr>ol_endpoint := CStr (rstrip_char CHR ''/'' e)\<rparr> else ol)
         | _ \<Rightarrow> Inl OtherError)"

section \<open>_make_request\<close>

text \<open>The \<open>except\<close> clauses of \<open>_make_request\<close> (lines 191--226), applied to what the
  \<open>try\<close> raised: three of the constructors are called with a \<open>message\<close> keyword they do
  not take, so they raise \<open>TypeError\<close>; the last clause turns everything else, the
  status error of line 178 included, into the generic \<open>APIError\<close>.\<close>

definition ollama_request_exc :: "exc \<Rightarrow> exc" where
  "ollama_request_exc e =
     (if isinstance e [CClientConnectorError]
      then new_exc NewAPIConnectionError 0 [''message'', ''provider_name'', ''details''] None
      else if isinstance e [CClientResponseError]
      then new_exc NewAPIResponseError 0 [''message'', ''provider_name'', ''status_code'', ''response_body'']
             (case e of ClientResponseError c \<Rightarrow> Some c | _ \<Rightarrow> None)
      else if isinstance e [CTimeoutError]
      then new_exc NewAPITimeoutError 0 [''message'', ''provider_name'', ''timeout_seconds''] None
      else if isinstance e [CJSONDecodeError]
      then new_exc NewAPIResponseFormatError 0 [''message'', ''provider_name'', ''response_body''] None
      else new_exc NewAPIError 0 [''message'', ''provider_name'', ''details''] None)"

text \<open>One attempt of \<open>_make_request\<close> (lines 154--226). The URL is the endpoint and the
  path (with a slash put in front if missing); only POST, PUT and PATCH send the
  payload. An empty body of \<open>GET /api/tags\<close> is the empty model list. aiohttp's
  \<open>json()\<close> strips the body of ASCII whitespace and returns \<open>None\<close> when nothing is left
  (Ollama labels its bodies \<open>application/json\<close>, so the content-type check passes); any
  other body it cannot decode raises \<open>JSONDecodeError\<close>.\<close>

definition ollama_make_request_once :: "ollama \<Rightarrow> string \<Rightarrow> (string, json) pydict \<Rightarrow> string
    \<Rightarrow> (request \<Rightarrow> http_result) \<Rightarrow> json outcome" where
  "ollama_make_request_once ol path payload method net =
     (let m = py_upper method
      in case net \<lparr>req_method = m, req_endpoint = ol_endpoint ol,
                   req_path = (if starts_with path ''/'' then path else CHR ''/'' # path),
                   req_payload = (if m \<in> set [''POST'', ''PUT'', ''PATCH''] then payload else [])\<rparr> of
           HResp code b \<Rightarrow>
             if code \<noteq> 200
             then Raised (ollama_request_exc (new_exc NewAPIResponseError 0
                            [''provider_name'', ''status_code'', ''response_body'', ''details''] (Some code)))
             else (case b of
                     JsonBody j \<Rightarrow> Returned j
                   | RawBody s \<Rightarrow>
                       if s = [] \<and> m = ''GET'' \<and> path = ''/api/tags'' then Returned (JsObj [(''models'', JsArr [])])
                       else if list_all (\<lambda>c. c \<in> set [CHR '' '', CHR 0x09, CHR 0x0A, CHR 0x0B, CHR 0x0C, CHR 0x0D]) s
                       then Returned JsNull
                       else Raised (ollama_request_exc JSONDecodeError))
         | HFail n \<Rightarrow> Raised (ollama_request_exc (net_exc n)))"

text \<open>The decorated method (lines 145--153): tenacity with
  \<open>retry=is_retryable_exception\<close>, \<open>net k\<close> answering attempt \<open>k\<close>.\<close>

definition ollama_make_request :: "ollama \<Rightarrow> string \<Rightarrow> (string, json) pydict \<Rightarrow> string
    \<Rightarrow> (nat \<Rightarrow> request \<Rightarrow> http_result) \<Rightarrow> json outcome" where
  "ollama_make_request ol path payload method net =
     fst (tenacity_call (adapter_retry (retry_callable is_retryable_exception))
            (\<lambda>k. ollama_make_request_once ol path payload method (net k)))"

section \<open>Models and status\<close>

text \<open>The loop of \<open>get_available_models\<close> (lines 89--100): \<open>model.get("name")\<close>
  raises \<open>AttributeError\<close> for a model that is not a dict; a falsy name is skipped.\<close>

fun ollama_model_entries :: "cvalue \<Rightarrow> json list \<Rightarrow> exc + json list" where
  "ollama_model_entries pn [] = Inr []"
| "ollama_model_entries pn (m # ms) =
     (case m of
        JsObj d \<Rightarrow>
          (let name = (case dict_get d ''name'' of Some v \<Rightarrow> v | None \<Rightarrow> JsNull)
           in if \<not> json_truthy name then ollama_model_entries pn ms
              else (case ollama_model_entries pn ms of
                      Inl e \<Rightarrow> Inl e
                    | Inr es \<Rightarrow> Inr (JsObj [(''id'', name), (''name'', name), (''provider'', cv_json pn)] # es)))
      | _ \<Rightarrow> Inl OtherError)"

text \<open>\<open>get_available_models\<close> (lines 71--106): every exception ends in \<open>except
  Exception\<close>, which returns \<open>[]\<close>.\<close>

definition ollama_get_available_models :: "ollama \<Rightarrow> (request \<Rightarrow> http_result) \<Rightarrow> json list" where
  "ollama_get_available_models ol net =
     (case ollama_make_request ol ''/api/tags'' [] ''GET'' (\<lambda>_. net) of
        Raised _ \<Rightarrow> []
      | Returned (JsObj d) \<Rightarrow>
          if d = [] \<or> ''models'' \<notin> set (dict_keys d) then []
          else (case json_iter (case dict_get d ''models'' of Some v \<Rightarrow> v | None \<Rightarrow> JsArr []) of
                  Inl _ \<Rightarrow> []
                | Inr ms \<Rightarrow> (case ollama_model_entries (ol_provider_name ol) ms of Inl _ \<Rightarrow> [] | Inr es \<Rightarrow> es))
      | Returned _ \<Rightarrow> [])"

text \<open>\<open>check_service_status\<close> (lines 108--143): the \<open>status\<close> it reports, after a
  POST of \<open>{}\<close> to \<open>/api/version\<close>.\<close>

definition ollama_check_service_status :: "ollama \<Rightarrow> (request \<Rightarrow> http_result) \<Rightarrow> string" where
  "ollama_check_service_status ol net =
     (case ollama_make_request ol ''/api/version'' [] ''POST'' (\<lambda>_. net) of
        Returned _ \<Rightarrow> ''available''
      | Raised _ \<Rightarrow> ''unavailable'')"

text \<open>The outcomes of \<open>test_connection\<close> (lines 228--315), by the message it returns.\<close>

datatype ol_test =
    OTBaseStatus int | OTConnect | OTTimeout | OTUnexpected | OTBaseOk
  | OTModelFound | OTModelEmpty | OTModelNotFound | OTModelAPIError | OTModelError

text \<open>\<open>test_connection\<close>: a GET of the endpoint's root (\<open>base\<close>), then, when a model
  is given, \<open>_make_request("/api/show", {"name": model})\<close>. The status string and
  the message kind.\<close>

definition ollama_test_connection :: "ollama \<Rightarrow> string option \<Rightarrow> http_result \<Rightarrow> (request \<Rightarrow> http_result)
    \<Rightarrow> string \<times> ol_test" where
  "ollama_test_connection ol model base net =
     (let basic = (case base of
                     HResp code _ \<Rightarrow> if code \<noteq> 200 \<and> code \<noteq> 404 then Some (OTBaseStatus code) else None
                   | HFail ConnectorErr \<Rightarrow> Some OTConnect
                   | HFail TimeoutErr \<Rightarrow> Some OTTimeout
                   | HFail OtherClientErr \<Rightarrow> Some OTUnexpected)
      in case basic of
           Some t \<Rightarrow> (''error'', t)
         | None \<Rightarrow>
             (case model of
                Some m \<Rightarrow>
                  if m = [] then (''success'', OTBaseOk)
                  else (case ollama_make_request ol ''/api/show'' [(''name'', JsStr m)] ''POST'' (\<lambda>_. net) of
                          Returned r \<Rightarrow> if json_truthy r then (''success'', OTModelFound) else (''warning'', OTModelEmpty)
                        | Raised e \<Rightarrow>
                            if isinstance e [CAPIResponseError]
                            then (''error'', if exc_status_code e = Some 404 then OTModelNotFound else OTModelAPIError)
                            else (''error'', OTModelError))
              | None \<Rightarrow> (''success'', OTBaseOk)))"

section \<open>Parameters of generate_text and chat\<close>

text \<open>\<open>final_params\<close> (lines 326--345 and 670--689): the handler's defaults, then
  \<open>OLLAMA_TEMPERATURE\<close> as \<open>temperature\<close> and \<open>OLLAMA_MAX_TOKENS\<close> as
  \<open>num_predict\<close> from the process environment, then the keyword arguments.\<close>

definition ollama_final_params :: "ollama \<Rightarrow> (string, string) pydict \<Rightarrow> (string, cvalue) pydict \<Rightarrow> (string, cvalue) pydict" where
  "ollama_final_params ol env kwargs =
     dict_merge (set_opt ''num_predict'' (map_option CInt (env_int env ''OLLAMA_MAX_TOKENS''))
                  (set_opt ''temperature'' (map_option CFloat (env_float env ''OLLAMA_TEMPERATURE'')) (ol_params ol)))
       kwargs"

definition ollama_valid_options :: "string list" where
  "ollama_valid_options =
     [''num_keep'', ''seed'', ''num_predict'', ''top_k'', ''top_p'', ''tfs_z'', ''typical_p'', ''repeat_last_n'',
      ''temperature'', ''repeat_penalty'', ''presence_penalty'', ''frequency_penalty'', ''mirostat'', ''mirostat_tau'',
      ''mirostat_eta'', ''penalize_newline'', ''stop'', ''numa'', ''num_ctx'', ''num_batch'', ''num_gpu'', ''main_gpu'',
      ''low_vram'', ''f16_kv'', ''vocab_only'', ''use_mmap'', ''use_mlock'', ''num_thread'']"

text \<open>The \<open>options\<close> loop (lines 366--373 and 723--729): \<open>max_tokens\<close> is renamed
  \<open>num_predict\<close> only when \<open>final_params\<close> has no \<open>num_predict\<close>; valid options
  that are not \<open>None\<close> are copied in order.\<close>

definition ollama_options :: "(string, cvalue) pydict \<Rightarrow> (string, json) pydict" where
  "ollama_options fp =
     fold (\<lambda>(k, v) opts.
             let k' = (if k = ''max_tokens'' \<and> ''num_predict'' \<notin> set (dict_keys fp) then ''num_predict'' else k)
             in if k' \<in> set ollama_valid_options \<and> v \<noteq> CNone then dict_set k' (cv_json v) opts else opts)
       fp []"

section \<open>generate_text\<close>

text \<open>What \<open>generate_text\<close> makes of the response (lines 378--392): the stripped
  \<open>response\<close> field, or \<open>APIResponseError\<close> (\<open>provider_name\<close> positional); a
  \<open>response\<close> that is not a string fails on \<open>.strip\<close>.\<close>

definition ollama_generate_result :: "json \<Rightarrow> string outcome" where
  "ollama_generate_result r =
     (case json_in ''response'' r of
        Inl e \<Rightarrow> Raised e
      | Inr True \<Rightarrow> (case json_index r ''response'' of
                       Inr (JsStr s) \<Rightarrow> Returned (py_strip s)
                     | Inr _ \<Rightarrow> Raised OtherError
                     | Inl e \<Rightarrow> Raised e)
      | Inr False \<Rightarrow> (case json_in ''error'' r of
                        Inl e \<Rightarrow> Raised e
                      | Inr _ \<Rightarrow> Raised (new_exc NewAPIResponseError 1 [''details''] None)))"

text \<open>\<open>generate_text\<close> (lines 317--396); \<open>generate\<close> (line 412) calls it. Only a
  \<open>RetryError\<close> is caught.\<close>

definition ollama_generate_text :: "ollama \<Rightarrow> (string, string) pydict \<Rightarrow> string \<Rightarrow> string option
    \<Rightarrow> (string, cvalue) pydict \<Rightarrow> (nat \<Rightarrow> request \<Rightarrow> http_result) \<Rightarrow> string outcome" where
  "ollama_generate_text ol env prompt model kwargs net =
     (case strip_target model (ol_default_model ol) of
        Inl e \<Rightarrow> Raised e
      | Inr tm \<Rightarrow>
          if tm = [] then Raised (new_exc NewConfigurationError 1 [] None)
          else (let payload = [(''model'', JsStr tm), (''prompt'', JsStr prompt), (''stream'', JsBool False),
                               (''options'', JsObj (ollama_options (ollama_final_params ol env kwargs)))]
                in case ollama_make_request ol ''/api/generate'' payload ''POST'' net of
                     Raised e \<Rightarrow> Raised (if isinstance e [CRetryError] then new_exc NewAPIConnectionError 1 [''details''] None else e)
                   | Returned r \<Rightarrow> ollama_generate_result r))"

section \<open>_filter_messages and chat\<close>

text \<open>\<open>_filter_messages\<close> (lines 573--651): a dict message keeps its lower-cased role
  and its content when the role is system, user or assistant; a role that is not a
  string fails on \<open>.lower\<close> (\<open>AttributeError\<close>, not caught on this branch). A value
  that is not a dict has no \<open>get\<close>, \<open>role\<close>, \<open>dict\<close> or \<open>__dict__\<close>, so it is skipped.\<close>

fun ollama_filter_messages :: "json list \<Rightarrow> exc + json list" where
  "ollama_filter_messages [] = Inr []"
| "ollama_filter_messages (m # ms) =
     (case m of
        JsObj d \<Rightarrow>
          (case (case dict_get d ''role'' of None \<Rightarrow> Inr [] | Some (JsStr r) \<Rightarrow> Inr (py_lower r) | Some _ \<Rightarrow> Inl OtherError) of
             Inl e \<Rightarrow> Inl e
           | Inr role \<Rightarrow>
               (case ollama_filter_messages ms of
                  Inl e \<Rightarrow> Inl e
                | Inr fs \<Rightarrow>
                    Inr (if role \<in> set [''system'', ''user'', ''assistant'']
                         then JsObj [(''role'', JsStr role), (''content'', case dict_get d ''content'' of Some c \<Rightarrow> c | None \<Rightarrow> JsStr [])] # fs
                         else fs)))
      | _ \<Rightarrow> ollama_filter_messages ms)"

text \<open>The debug loop of \<open>chat\<close> (lines 704--707) slices and measures each content
  (\<open>content[:50] + "..."\<close>), outside the \<open>try\<close>. A string or a missing content passes;
  \<open>None\<close>, a number or a list raises \<open>TypeError\<close> (a list slices, but list plus string
  does not add). A dict raises \<open>TypeError\<close> (unhashable slice) before CPython 3.12 and
  \<open>KeyError\<close> (here \<open>OtherError\<close>) from 3.12 on, where a slice is a hashable key: the
  flag \<open>py312\<close> selects the interpreter.\<close>

definition content_exc :: "bool \<Rightarrow> json \<Rightarrow> exc option" where
  "content_exc py312 m =
     (case m of
        JsObj d \<Rightarrow> (case dict_get d ''content'' of
                     None \<Rightarrow> None
                   | Some (JsStr _) \<Rightarrow> None
                   | Some (JsObj _) \<Rightarrow> Some (if py312 then OtherError else TypeError)
                   | Some _ \<Rightarrow> Some TypeError)
      | _ \<Rightarrow> None)"

definition content_is_str :: "json \<Rightarrow> bool" where
  "content_is_str m = (case m of JsObj d \<Rightarrow> (case dict_get d ''content'' of Some (JsStr _) \<Rightarrow> True | None \<Rightarrow> True | _ \<Rightarrow> False)
                                | _ \<Rightarrow> True)"

text \<open>What \<open>chat\<close> makes of the response (lines 743--758).\<close>

definition ollama_chat_result :: "cvalue \<Rightarrow> string \<Rightarrow> json \<Rightarrow> json outcome" where
  "ollama_chat_result pn tm r =
     (case json_in ''message'' r of
        Inr True \<Rightarrow>
          (case json_index r ''message'' of
             Inr m \<Rightarrow>
               (case json_in ''content'' m of
                  Inr True \<Rightarrow>
                    (case json_index m ''content'' of
                       Inr c \<Rightarrow> Returned (JsObj [(''role'', JsStr ''assistant''), (''content'', c), (''model'', JsStr tm),
                                  (''provider'', cv_json pn),
                                  (''usage'', JsObj [(''prompt_tokens'', JsInt 0), (''completion_tokens'', JsInt 0), (''total_tokens'', JsInt 0)])])
                     | Inl e \<Rightarrow> Raised e)
                | Inr False \<Rightarrow> Raised (new_exc NewAPIResponseError 1 [''details''] None)
                | Inl e \<Rightarrow> Raised e)
           | Inl e \<Rightarrow> Raised e)
      | Inr False \<Rightarrow> Raised (new_exc NewAPIResponseError 1 [''details''] None)
      | Inl e \<Rightarrow> Raised e)"

text \<open>\<open>chat\<close> (lines 653--762): every exception of the request and of reading the
  response becomes \<open>APIConnectionError(provider_name, details=...)\<close>.\<close>

definition ollama_chat :: "bool \<Rightarrow> ollama \<Rightarrow> (string, string) pydict \<Rightarrow> json list \<Rightarrow> string option
    \<Rightarrow> (string, cvalue) pydict \<Rightarrow> (nat \<Rightarrow> request \<Rightarrow> http_result) \<Rightarrow> json outcome" where
  "ollama_chat py312 ol env messages model kwargs net =
     (case strip_target model (ol_default_model ol) of
        Inl e \<Rightarrow> Raised e
      | Inr tm \<Rightarrow>
          if tm = [] then Raised (new_exc NewConfigurationError 1 [] None)
          else (case ollama_filter_messages messages of
                  Inl e \<Rightarrow> Raised e
                | Inr fs0 \<Rightarrow>
                    (let fs = (if fs0 = [] then [JsObj [(''role'', JsStr ''user''), (''content'', JsStr ''Hello'')]] else fs0)
                     in case List.map_filter (content_exc py312) fs of
                          e # _ \<Rightarrow> Raised e
                        | [] \<Rightarrow> (let payload = [(''model'', JsStr tm), (''messages'', JsArr fs), (''stream'', JsBool False),
                                             (''options'', JsObj (ollama_options (ollama_final_params ol env kwargs)))]
                              in case ollama_make_request ol ''/api/chat'' payload ''POST'' net of
                                   Raised _ \<Rightarrow> Raised (new_exc NewAPIConnectionError 1 [''details''] None)
                                 | Returned r \<Rightarrow>
                                     (case ollama_chat_result (ol_provider_name ol) tm r of
                                        Raised _ \<Rightarrow> Raised (new_exc NewAPIConnectionError 1 [''details''] None)
                                      | Returned x \<Rightarrow> Returned x)))))"

section \<open>stream_chat\<close>

text \<open>The items \<open>stream_chat\<close> yields: the role chunk, a content chunk, the
  \<open>{"error": ...}\<close> of an error payload, the HTTP-status and connection-error
  messages, and the completion marker \<open>{"done": True}\<close>.\<close>

datatype ol_item = OIRole | OIContent json | OIError json | OIHttpError int | OIConnError | OIDone

text \<open>The first non-empty string value of a dict (lines 546--553).\<close>

fun first_str_value :: "(string, json) pydict \<Rightarrow> ol_item list" where
  "first_str_value [] = []"
| "first_str_value ((k, v) # d) = (case v of JsStr s \<Rightarrow> if s \<noteq> [] then [OIContent (JsStr s)] else first_str_value d
                                          | _ \<Rightarrow> first_str_value d)"

text \<open>What one decoded payload yields (lines 516--553), or the exception an \<open>in\<close> or a
  subscription raises on a payload of the wrong type.\<close>

definition ollama_stream_item :: "json \<Rightarrow> exc + ol_item list" where
  "ollama_stream_item d =
     (let other = (case d of JsObj kv \<Rightarrow> if list_ex (\<lambda>(_, v). json_truthy v) kv then first_str_value kv else [] | _ \<Rightarrow> []);
          done_or_other = (case json_in ''done'' d of
                             Inl e \<Rightarrow> Inl e
                           | Inr False \<Rightarrow> Inr other
                           | Inr True \<Rightarrow> (case json_index d ''done'' of
                                            Inl e \<Rightarrow> Inl e
                                          | Inr v \<Rightarrow> Inr (if json_truthy v then [OIDone] else other)))
      in case json_in ''error'' d of
           Inl e \<Rightarrow> Inl e
         | Inr True \<Rightarrow> (case json_index d ''error'' of Inl e \<Rightarrow> Inl e | Inr v \<Rightarrow> Inr [OIError v])
         | Inr False \<Rightarrow>
             (case json_in ''message'' d of
                Inl e \<Rightarrow> Inl e
              | Inr False \<Rightarrow> done_or_other
              | Inr True \<Rightarrow>
                  (case json_index d ''message'' of
                     Inl e \<Rightarrow> Inl e
                   | Inr m \<Rightarrow>
                       (case json_in ''content'' m of
                          Inl e \<Rightarrow> Inl e
                        | Inr False \<Rightarrow> done_or_other
                        | Inr True \<Rightarrow> (case json_index m ''content'' of Inl e \<Rightarrow> Inl e | Inr c \<Rightarrow> Inr [OIContent c])))))"

text \<open>The line loop (lines 501--562): empty lines are skipped, a line \<open>json.loads\<close>
  rejects is yielded as content, a decoded payload yields what
  \<open>ollama_stream_item\<close> says. Bytes that are not UTF-8 raise \<open>UnicodeDecodeError\<close>.\<close>

fun ollama_stream_lines :: "(string \<Rightarrow> json option) \<Rightarrow> raw_line list \<Rightarrow> ol_item list \<times> exc option" where
  "ollama_stream_lines loads [] = ([], None)"
| "ollama_stream_lines loads (BadUtf8 # rest) = ([], Some UnicodeDecodeError)"
| "ollama_stream_lines loads (Line l # rest) =
     (let t = py_strip l
      in if l = [] \<or> t = [] then ollama_stream_lines loads rest
         else (case loads t of
                 None \<Rightarrow> (let (ys, e) = ollama_stream_lines loads rest in (OIContent (JsStr t) # ys, e))
               | Some d \<Rightarrow>
                   (case ollama_stream_item d of
                      Inl e \<Rightarrow> ([], Some e)
                    | Inr xs \<Rightarrow> (let (ys, e) = ollama_stream_lines loads rest in (xs @ ys, e)))))"

text \<open>How the stream ends (lines 566--572): an \<open>aiohttp.ClientError\<close> is caught and
  reported as an item; the \<open>finally\<close> clause yields the completion marker on every
  path, before any other exception reaches the consumer.\<close>

definition ollama_stream_end :: "exc option \<Rightarrow> ol_item list \<times> exc option" where
  "ollama_stream_end e =
     (case e of
        None \<Rightarrow> ([OIDone], None)
      | Some x \<Rightarrow> if isinstance x [CClientError] then ([OIConnError, OIDone], None) else ([OIDone], Some x))"

text \<open>\<open>stream_chat\<close> (lines 414--572), run to the end by its consumer: the items
  yielded and the exception raised after them, if any. The model, the messages and
  the payload are prepared before the \<open>try\<close>, so their errors come before any item.\<close>

definition ollama_stream_chat :: "ollama \<Rightarrow> json list \<Rightarrow> string option \<Rightarrow> (string, cvalue) pydict
    \<Rightarrow> (string \<Rightarrow> json option) \<Rightarrow> (request \<Rightarrow> stream_http) \<Rightarrow> ol_item list \<times> exc option" where
  "ollama_stream_chat ol messages model kwargs loads net =
     (case strip_target model (ol_default_model ol) of
        Inl e \<Rightarrow> ([], Some e)
      | Inr tm \<Rightarrow>
          if tm = [] then ([], Some (new_exc NewConfigurationError 1 [] None))
          else (let temp = cfg_get kwargs ''temperature'' (cfg_get (ol_params ol) ''temperature'' (CFloat (Finite (7 / 10))));
                    mt = cfg_get kwargs ''max_tokens'' (cfg_get (ol_params ol) ''max_tokens'' (CInt 16000))
                in case ollama_filter_messages (map format_message messages) of
                     Inl e \<Rightarrow> ([], Some e)
                   | Inr fs \<Rightarrow>
                       (let payload = [(''model'', JsStr tm), (''messages'', JsArr fs), (''stream'', JsBool True),
                                       (''options'', JsObj [(''temperature'', cv_json temp), (''max_tokens'', cv_json mt)])];
                            body = (case net \<lparr>req_method = ''POST'', req_endpoint = ol_endpoint ol, req_path = ''/api/chat'',
                                               req_payload = payload\<rparr> of
                                      SFail n \<Rightarrow> ([], Some (net_exc n))
                                    | SResp code lines err \<Rightarrow>
                                        if code \<noteq> 200 then ([OIHttpError code], None)
                                        else (let (ys, e) = ollama_stream_lines loads lines
                                              in (ys, case e of Some x \<Rightarrow> Some x | None \<Rightarrow> map_option net_exc err)))
                        in (OIRole # fst body @ fst (ollama_stream_end (snd body)), snd (ollama_stream_end (snd body))))))"

section \<open>get_current_param\<close>

text \<open>The adapter's own \<open>get_current_param(param_name, default)\<close> (lines 764--795):
  \<open>OLLAMA_{NAME}\<close>, then the bare name, from the \<open>.env\<close> file, without conversion (a key
  without a value gives \<open>None\<close>).\<close>

definition ollama_get_current_param :: "(string, string option) pydict \<Rightarrow> string \<Rightarrow> string option option \<Rightarrow> string option option" where
  "ollama_get_current_param env name dflt =
     (case dict_get env (''OLLAMA_'' @ py_upper name) of
        Some v \<Rightarrow> Some v
      | None \<Rightarrow> (case dict_get env name of Some v \<Rightarrow> Some v | None \<Rightarrow> dflt))"

section \<open>Notions for the properties\<close>

text \<open>The handler \<open>OllamaLocalHandler({})\<close> builds when the process environment sets
  no \<open>OLLAMA_*\<close> variable, for the examples.\<close>

definition ollama_example :: ollama where
  "ollama_example = \<lparr>ol_provider_name = CStr ''ollama_local'', ol_endpoint = CStr ''http://localhost:11434'',
     ol_default_model = CStr ''deepseek-r1:8b'',
     ol_params = [(''temperature'', CFloat (Finite (7 / 10))), (''top_p'', CFloat (Finite 1)), (''max_tokens'', CInt 16000)],
     ol_request_timeout = CInt 60\<rparr>"


section \<open>Lemmas\<close>

lemma ollama_new_exc [simp]:
  "new_exc NewAPIResponseError 0 [''message'', ''provider_name'', ''status_code'', ''response_body''] c = TypeError"
  "new_exc NewAPIResponseFormatError 0 [''message'', ''provider_name'', ''response_body''] None = TypeError"
  "new_exc NewAPIResponseError 1 [''details''] None = APIResponseError None"
  "new_exc NewAPIResponseError (Suc 0) [''details''] None = APIResponseError None"
  "new_exc NewAPIConnectionError 1 [''details''] None = APIConnectionError"
  "new_exc NewAPIConnectionError (Suc 0) [''details''] None = APIConnectionError"
  by (simp_all add: new_exc_def call_accepts_def)

lemma ollama_make_request_single:
  "ollama_make_request ol path payload method net = ollama_make_request_once ol path payload method (net 1)"
proof -
  have "tenacity_call (adapter_retry (retry_callable is_retryable_exception))
          (\<lambda>k. ollama_make_request_once ol path payload method (net k)) =
        (ollama_make_request_once ol path payload method (net 1), [], 1)"
    unfolding tenacity_call_def
    by (rule tenacity_never_retry) (simp add: retry_callable_def is_retryable_exception_def)
  then show ?thesis by (simp add: ollama_make_request_def)
qed

lemma ollama_request_exc_cases: "ollama_request_exc e \<in> {TypeError, APITimeoutError, APIError}"
  by (simp add: ollama_request_exc_def)

lemma ollama_make_request_exc:
  "ollama_make_request ol path payload method net = Raised e \<Longrightarrow> e \<in> {TypeError, APITimeoutError, APIError}"
  using ollama_request_exc_cases
  by (auto simp: ollama_make_request_single ollama_make_request_once_def Let_def
      split: http_result.splits body.splits if_splits)

text \<open>C33 test_connection never reports a missing model.\<close>

theorem ollama_model_not_found_unreachable:
  "snd (ollama_test_connection ol model base net) \<noteq> OTModelNotFound"
proof -
  have "ollama_make_request ol p q m n = Raised e \<Longrightarrow> \<not> isinstance e [CAPIResponseError]" for p q m n e
    using ollama_make_request_exc [of ol p q m n e] by (auto simp: isinstance_def)
  then show ?thesis
    by (auto simp: ollama_test_connection_def Let_def split: http_result.splits net_err.splits option.splits outcome.splits if_splits)
qed

lemma content_is_str_exc: "content_is_str m \<longleftrightarrow> content_exc py312 m = None"
  by (auto simp: content_is_str_def content_exc_def split: json.splits option.splits)

lemma map_filter_content_exc:
  "list_all content_is_str fs \<Longrightarrow> List.map_filter (content_exc py312) fs = []"
  by (simp add: List.map_filter_def filter_empty_conv list_all_iff content_is_str_exc [of _ py312])

text \<open>C34 Every failure of chat after its set-up reaches the caller as
  APIConnectionError.\<close>

theorem ollama_chat_failures_connection_error:
  assumes "strip_target model (ol_default_model ol) = Inr tm" "tm \<noteq> []"
    and "ollama_filter_messages messages = Inr fs" "list_all content_is_str fs"
    and "ollama_chat py312 ol env messages model kwargs net = Raised e"
  shows "e = APIConnectionError"
proof -
  have "list_all content_is_str (if fs = [] then [JsObj [(''role'', JsStr ''user''), (''content'', JsStr ''Hello'')]] else fs)"
    using assms(4) by (simp add: content_is_str_def dict_get_def)
  then show ?thesis using assms
    by (auto simp: ollama_chat_def Let_def map_filter_content_exc split: outcome.splits)
qed

lemma ollama_stream_end_last: "fst (ollama_stream_end e) \<noteq> [] \<and> last (fst (ollama_stream_end e)) = OIDone"
  by (simp add: ollama_stream_end_def split: option.split)

text \<open>C32 Once stream_chat has started streaming, its last item is the completion marker,
  on every path: success, an error status, a connection error, a corrupt or ill-typed
  payload, a decoding error; a stream that yields nothing ends with the exception raised
  while it was prepared.\<close>

theorem ollama_stream_done_last:
  "case ollama_stream_chat ol messages model kwargs loads net of
     (ys, e) \<Rightarrow> (ys = [] \<and> e \<noteq> None) \<or> (hd ys = OIRole \<and> last ys = OIDone)"
  using ollama_stream_end_last
  by (auto simp: ollama_stream_chat_def Let_def split: sum.split prod.split if_split)

lemma ollama_options_no_rename:
  "''num_predict'' \<in> set (dict_keys fp) \<Longrightarrow> ollama_options fp = add_params ollama_valid_options fp []"
  unfolding ollama_options_def add_params_def by (rule fold_cong) auto

text \<open>C35 OLLAMA_MAX_TOKENS overrides the caller's max_tokens.\<close>

theorem ollama_max_tokens_kwarg_ignored:
  assumes wf: "wf_dict (ol_params ol)" and env: "env_int env ''OLLAMA_MAX_TOKENS'' = Some n"
    and kw: "''num_predict'' \<notin> set (dict_keys kwargs)"
  shows "dict_get (ollama_options (ollama_final_params ol env kwargs)) ''num_predict'' = Some (JsInt n)"
proof -
  let ?p = "set_opt ''num_predict'' (Some (CInt n)) (set_opt ''temperature'' (map_option CFloat (env_float env ''OLLAMA_TEMPERATURE'')) (ol_params ol))"
  have fp: "ollama_final_params ol env kwargs = dict_merge ?p kwargs" by (simp add: ollama_final_params_def env)
  have wfp: "wf_dict ?p" using wf by (simp add: set_opt_def split: option.split)
  have get: "dict_get (dict_merge ?p kwargs) ''num_predict'' = Some (CInt n)"
    using kw by (simp add: dict_get_merge map_of_rev_None dict_keys_def set_opt_def)
  then have key: "''num_predict'' \<in> set (dict_keys (dict_merge ?p kwargs))" by (metis dict_get_None_iff option.distinct(1))
  have "distinct (map fst (dict_merge ?p kwargs))"
    using wf_dict_merge [OF wfp, of kwargs] by (simp add: wf_dict_def dict_keys_def)
  then have "map_of (rev (filter (\<lambda>(k, v). v \<noteq> CNone) (dict_merge ?p kwargs))) ''num_predict'' = Some (CInt n)"
    using get by (simp add: map_of_rev_filter_distinct dict_get_def)
  then show ?thesis
    using key by (simp add: fp ollama_options_no_rename dict_get_add_params ollama_valid_options_def cv_json_def)
qed

lemma ollama_init_example: "ollama_init [] [] = Inr ollama_example"
  by code_simp

theorem ollama_chat_failures_connection_error_witness:
  "ollama_chat False ollama_example [] [JsObj [(''role'', JsStr ''user''), (''content'', JsStr ''hi'')]] (Some ''llama3'') []
     (\<lambda>_ _. HFail TimeoutErr) = Raised APIConnectionError \<and> APIConnectionError = APIConnectionError"
proof -
  have t: "strip_target (Some ''llama3'') (ol_default_model ollama_example) = Inr ''llama3''" by code_simp
  have f: "ollama_filter_messages [JsObj [(''role'', JsStr ''user''), (''content'', JsStr ''hi'')]]
             = Inr [JsObj [(''role'', JsStr ''user''), (''content'', JsStr ''hi'')]]" by code_simp
  have c: "list_all content_is_str [JsObj [(''role'', JsStr ''user''), (''content'', JsStr ''hi'')]]" by code_simp
  have r: "ollama_chat False ollama_example [] [JsObj [(''role'', JsStr ''user''), (''content'', JsStr ''hi'')]] (Some ''llama3'') []
     (\<lambda>_ _. HFail TimeoutErr) = Raised APIConnectionError" unfolding ollama_chat_def by code_simp
  show ?thesis using r ollama_chat_failures_connection_error [OF t _ f c r] by simp
qed

theorem ollama_stream_done_last_witness:
  "ollama_stream_chat ollama_example [JsObj [(''role'', JsStr ''user''), (''content'', JsStr ''hi'')]] None []
     (\<lambda>s. if s = ''m1'' then Some (JsObj [(''message'', JsObj [(''content'', JsStr ''Hi'')])]) else None)
     (\<lambda>_. SResp 200 [Line ''m1'', Line ''garbage''] (Some OtherClientErr))
   = ([OIRole, OIContent (JsStr ''Hi''), OIContent (JsStr ''garbage''), OIConnError, OIDone], None)
   \<and> hd [OIRole, OIContent (JsStr ''Hi''), OIContent (JsStr ''garbage''), OIConnError, OIDone] = OIRole
   \<and> last [OIRole, OIContent (JsStr ''Hi''), OIContent (JsStr ''garbage''), OIConnError, OIDone] = OIDone"
proof -
  have r: "ollama_stream_chat ollama_example [JsObj [(''role'', JsStr ''user''), (''content'', JsStr ''hi'')]] None []
     (\<lambda>s. if s = ''m1'' then Some (JsObj [(''message'', JsObj [(''content'', JsStr ''Hi'')])]) else None)
     (\<lambda>_. SResp 200 [Line ''m1'', Line ''garbage''] (Some OtherClientErr))
   = ([OIRole, OIContent (JsStr ''Hi''), OIContent (JsStr ''garbage''), OIConnError, OIDone], None)" by code_simp
  show ?thesis using r ollama_stream_done_last [of ollama_example "[JsObj [(''role'', JsStr ''user''), (''content'', JsStr ''hi'')]]" None "[]"
     "\<lambda>s. if s = ''m1'' then Some (JsObj [(''message'', JsObj [(''content'', JsStr ''Hi'')])]) else None"
     "\<lambda>_. SResp 200 [Line ''m1'', Line ''garbage''] (Some OtherClientErr)"] by simp
qed

theorem ollama_max_tokens_kwarg_ignored_witness:
  "dict_get (ollama_options (ollama_final_params ollama_example [(''OLLAMA_MAX_TOKENS'', ''512'')] [(''max_tokens'', CInt 100)]))
     ''num_predict'' = Some (JsInt 512)"
proof -
  have wf: "wf_dict (ol_params ollama_example)" by code_simp
  have env: "env_int [(''OLLAMA_MAX_TOKENS'', ''512'')] ''OLLAMA_MAX_TOKENS'' = Some 512" by code_simp
  have kw: "''num_predict'' \<notin> set (dict_keys [(''max_tokens'', CInt 100)])" by code_simp
  show ?thesis by (rule ollama_max_tokens_kwarg_ignored [OF wf env kw])
qed

end
