(* ===== verification/Ollama_Report.thy ===== *)
theory Ollama_Report
  imports Ollama
begin

text \<open>
  Removal of reasoning blocks: \<open>_remove_think_tags\<close> and \<open>chat\<close> of
  \<open>src/src/providers/handlers/ollama_report_handler.py\<close> (\<open>OllamaReportHandler\<close>, the
  spec's specialised local-daemon variant), and the \<open><think>\<close> filter the task worker
  applies to completions (\<open>src/src/core/tasks/worker.py\<close>, lines 358--370). Each
  \<open>re.sub\<close> is a scanner over the string that follows Python's semantics: the leftmost
  match, non-overlapping, scanning on after each replacement; a lazy \<open>.*?\<close> ends at the
  first closing tag, a greedy \<open>\s*\<close> takes the longest run of whitespace and gives back
  what the rest of the pattern needs.
\<close>

section \<open>Regular-expression substitutions\<close>

text \<open>The text after the first \<open></think>\<close>, if any.\<close>

fun after_close :: "string \<Rightarrow> string option" where
  "after_close [] = None"
| "after_close (c # cs) = (if starts_with (c # cs) ''</think>'' then Some (drop 8 (c # cs)) else after_close cs)"

text \<open>\<open>re.sub(r"<think>.*?</think>\s*", "", s, flags=re.DOTALL)\<close> when \<open>trail\<close>
  holds (the report handler, line 36), and \<open>re.sub(r'<think>[\s\S]*?</think>', '', s)\<close>
  otherwise (the worker, line 363). A \<open><think>\<close> with no closing tag after it is not
  a match: the scanner copies its first character and moves on.\<close>

function re_sub_think :: "bool \<Rightarrow> string \<Rightarrow> string" where
  "re_sub_think trail [] = []"
| "re_sub_think trail (c # cs) =
     (if starts_with (c # cs) ''<think>''
      then (case after_close (drop 7 (c # cs)) of
              Some r \<Rightarrow> re_sub_think trail (if trail then dropWhile py_isspace r else r)
            | None \<Rightarrow> c # re_sub_think trail cs)
      else c # re_sub_think trail cs)"
  by pat_completeness auto
termination
proof -
  have ac: "after_close x = Some r \<Longrightarrow> length r < length x" for x r
    by (induction x rule: after_close.induct) (auto split: if_splits)
  show ?thesis
    by (relation "measure (\<lambda>(_, s). length s)")
       (auto dest!: ac intro: le_less_trans [OF length_dropWhile_le])
qed

text \<open>\<open>re.sub(r'<think>[\s\S]*', '', s)\<close> (line 366): everything from the first
  \<open><think>\<close> on.\<close>

fun cut_from_think :: "string \<Rightarrow> string" where
  "cut_from_think [] = []"
| "cut_from_think (c # cs) = (if starts_with (c # cs) ''<think>'' then [] else c # cut_from_think cs)"

text \<open>\<open>re.sub(r'\n\s*\n', '\n\n', s)\<close> (line 369): from a newline, the longest run of
  whitespace up to its last newline becomes one blank line.\<close>

function collapse_blank :: "string \<Rightarrow> string" where
  "collapse_blank [] = []"
| "collapse_blank (c # cs) =
     (let w = takeWhile py_isspace cs;
          k = length (rev (dropWhile (\<lambda>x. x \<noteq> CHR ''\<newline>'') (rev w)))
      in if c = CHR ''\<newline>'' \<and> 0 < k then CHR ''\<newline>'' # CHR ''\<newline>'' # collapse_blank (drop k cs)
         else c # collapse_blank cs)"
  by pat_completeness auto
termination by (relation "measure length") auto

text \<open>The declarative reading of the first substitution: split at the first
  \<open><think>\<close>; if a \<open></think>\<close> follows, drop the block (and the whitespace after it
  when \<open>trail\<close>) and go on after it, otherwise leave the rest of the text as it is.\<close>

fun split_first :: "string \<Rightarrow> string \<Rightarrow> (string \<times> string) option" where
  "split_first p [] = (if p = [] then Some ([], []) else None)"
| "split_first p (c # cs) =
     (if starts_with (c # cs) p then Some ([], drop (length p) (c # cs))
      else map_option (\<lambda>(a, b). (c # a, b)) (split_first p cs))"

function think_blocks_ref :: "bool \<Rightarrow> string \<Rightarrow> string" where
  "think_blocks_ref trail s =
     (case split_first ''<think>'' s of
        None \<Rightarrow> s
      | Some (pre, post) \<Rightarrow>
          (case after_close post of
             None \<Rightarrow> s
           | Some r \<Rightarrow> pre @ think_blocks_ref trail (if trail then dropWhile py_isspace r else r)))"
  by pat_completeness auto
termination
proof -
  have ac: "after_close x = Some r \<Longrightarrow> length r < length x" for x r
    by (induction x rule: after_close.induct) (auto split: if_splits)
  have sf: "split_first p s = Some (a, b) \<Longrightarrow> length b \<le> length s" for p s a b
    by (induction p s arbitrary: a rule: split_first.induct) (auto split: if_splits)
  show ?thesis
    by (relation "measure (\<lambda>(_, s). length s)")
       (auto dest!: ac sf intro: le_less_trans [OF length_dropWhile_le] less_le_trans)
qed

section \<open>The report handler\<close>

text \<open>\<open>_remove_think_tags\<close> (lines 30--36).\<close>

definition remove_think_tags :: "string \<Rightarrow> string" where
  "remove_think_tags text = (if text = [] then [] else py_strip (re_sub_think True text))"

text \<open>\<open>__init__\<close> (lines 25--28): the local handler with its own default name.\<close>

definition report_init :: "(string, cvalue) pydict \<Rightarrow> (string, string) pydict \<Rightarrow> exc + ollama" where
  "report_init c env =
     (case ollama_init c env of
        Inl e \<Rightarrow> Inl e
      | Inr ol \<Rightarrow> Inr (ol\<lparr>ol_provider_name := cfg_get c ''provider_name'' (CStr ''ollama_report_handler'')\<rparr>))"

text \<open>\<open>str()\<close> of the model name in the synthesised id; the \<open>repr\<close> of a float is the
  parameter \<open>frepr\<close>.\<close>

definition cv_str :: "(pyfloat \<Rightarrow> string) \<Rightarrow> cvalue \<Rightarrow> string" where
  "cv_str frepr v = (case v of CStr s \<Rightarrow> s | CInt i \<Rightarrow> py_str_int i | CBool b \<Rightarrow> if b then ''True'' else ''False''
                             | CNone \<Rightarrow> ''None'' | CFloat f \<Rightarrow> frepr f)"

text \<open>Lines 99--111: the \<open>created\<close> timestamp; a truthy \<open>created_at\<close> that is not a
  string fails on \<open>.endswith\<close>, one \<open>fromisoformat\<close> rejects falls back to now.\<close>

definition report_created :: "(string \<Rightarrow> rat option) \<Rightarrow> rat \<Rightarrow> json option \<Rightarrow> exc + int" where
  "report_created isots now v =
     (case v of
        Some x \<Rightarrow>
          if \<not> json_truthy x then Inr (py_int_trunc now)
          else (case x of
                  JsStr s \<Rightarrow> (case isots (if ends_with s ''Z'' then butlast s @ ''+00:00'' else s) of
                               Some t \<Rightarrow> Inr (py_int_trunc t)
                             | None \<Rightarrow> Inr (py_int_trunc now))
                | _ \<Rightarrow> Inl OtherError)
      | None \<Rightarrow> Inr (py_int_trunc now))"

text \<open>\<open>a + b\<close> of two JSON values (line 133): numbers add (a \<open>bool\<close> is an \<open>int\<close>; an
  \<open>int\<close> too large for a float raises \<open>OverflowError\<close> beside a float), strings and
  lists concatenate, anything else raises \<open>TypeError\<close>. Float addition is exact.\<close>

definition json_int :: "json \<Rightarrow> int option" where
  "json_int v = (case v of JsInt i \<Rightarrow> Some i | JsBool b \<Rightarrow> Some (if b then 1 else 0) | _ \<Rightarrow> None)"

definition pf_add :: "pyfloat \<Rightarrow> pyfloat \<Rightarrow> pyfloat" where
  "pf_add a b =
     (case (a, b) of
        (Finite x, Finite y) \<Rightarrow> Finite (x + y)
      | (NaN, _) \<Rightarrow> NaN | (_, NaN) \<Rightarrow> NaN
      | (PosInf, NegInf) \<Rightarrow> NaN | (NegInf, PosInf) \<Rightarrow> NaN
      | (PosInf, _) \<Rightarrow> PosInf | (_, PosInf) \<Rightarrow> PosInf
      | (NegInf, _) \<Rightarrow> NegInf | (_, NegInf) \<Rightarrow> NegInf)"

definition json_float :: "json \<Rightarrow> exc + pyfloat option" where
  "json_float v = (case v of JsFloat f \<Rightarrow> Inr (Some f)
                           | _ \<Rightarrow> (case json_int v of
                                   Some i \<Rightarrow> (case float_of_int i of Some f \<Rightarrow> Inr (Some f) | None \<Rightarrow> Inl OtherError)
                                 | None \<Rightarrow> Inr None))"

definition py_add :: "json \<Rightarrow> json \<Rightarrow> exc + json" where
  "py_add a b =
     (case (json_int a, json_int b) of
        (Some x, Some y) \<Rightarrow> Inr (JsInt (x + y))
      | _ \<Rightarrow> (case (a, b) of
               (JsStr x, JsStr y) \<Rightarrow> Inr (JsStr (x @ y))
             | (JsArr x, JsArr y) \<Rightarrow> Inr (JsArr (x @ y))
             | (JsFloat _, _) \<Rightarrow> (case (json_float a, json_float b) of
                                    (Inr (Some x), Inr (Some y)) \<Rightarrow> Inr (JsFloat (pf_add x y))
                                  | (Inl e, _) \<Rightarrow> Inl e | (_, Inl e) \<Rightarrow> Inl e | _ \<Rightarrow> Inl TypeError)
             | (_, JsFloat _) \<Rightarrow> (case (json_float a, json_float b) of
                                    (Inr (Some x), Inr (Some y)) \<Rightarrow> Inr (JsFloat (pf_add x y))
                                  | (Inl e, _) \<Rightarrow> Inl e | (_, Inl e) \<Rightarrow> Inl e | _ \<Rightarrow> Inl TypeError)
             | _ \<Rightarrow> Inl TypeError))"

text \<open>Lines 77--146 inside the \<open>try\<close>: the uniform response built from Ollama's reply,
  or the exception raised while building it (\<open>APIResponseFormatError(message=...)\<close>
  is a \<open>TypeError\<close>).\<close>

definition report_format :: "(pyfloat \<Rightarrow> string) \<Rightarrow> (string \<Rightarrow> rat option) \<Rightarrow> rat \<Rightarrow> cvalue \<Rightarrow> json \<Rightarrow> json outcome" where
  "report_format frepr isots now sm r =
     (let get = (\<lambda>d k v. case dict_get d k of Some x \<Rightarrow> x | None \<Rightarrow> v)
      in case r of
           JsObj d \<Rightarrow>
             if d = [] then Raised (new_exc NewAPIResponseFormatError 0 [''message'', ''provider_name'', ''response_body''] None)
             else (case dict_get d ''message'' of
                     Some (JsObj m) \<Rightarrow>
                       (let raw = get m ''content'' (JsStr []);
                            cleaned = (if \<not> json_truthy raw then Inr [] else (case raw of JsStr s \<Rightarrow> Inr (remove_think_tags s) | _ \<Rightarrow> Inl TypeError))
                        in case cleaned of
                             Inl e \<Rightarrow> Raised e
                           | Inr c \<Rightarrow>
                               (case report_created isots now (dict_get d ''created_at'') of
                                  Inl e \<Rightarrow> Raised e
                                | Inr created \<Rightarrow>
                                    (case py_add (get d ''prompt_eval_count'' (JsInt 0)) (get d ''eval_count'' (JsInt 0)) of
                                       Inl e \<Rightarrow> Raised e
                                     | Inr tot \<Rightarrow>
                                         Returned (JsObj
                                           [(''id'', get d ''id'' (JsStr (''ollama-report-'' @ cv_str frepr sm @ ''-'' @ py_str_int (py_int_trunc (now * 1000))))),
                                            (''object'', JsStr ''chat.completion''), (''created'', JsInt created),
                                            (''model'', get d ''model'' (cv_json sm)),
                                            (''choices'', JsArr [JsObj [(''index'', JsInt 0),
                                               (''message'', JsObj [(''role'', get m ''role'' (JsStr ''assistant'')), (''content'', JsStr c)]),
                                               (''finish_reason'', JsStr (if json_truthy (get d ''done'' (JsBool True)) then ''stop'' else ''length''))]]),
                                            (''usage'', JsObj [(''prompt_tokens'', get d ''prompt_eval_count'' (JsInt 0)),
                                               (''completion_tokens'', get d ''eval_count'' (JsInt 0)), (''total_tokens'', tot)])]))))
                   | _ \<Rightarrow> Raised (new_exc NewAPIResponseFormatError 0 [''message'', ''provider_name'', ''response_body''] None))
         | _ \<Rightarrow> Raised (new_exc NewAPIResponseFormatError 0 [''message'', ''provider_name'', ''response_body''] None))"

text \<open>\<open>chat\<close> (lines 38--153): the payload is built, messages filtered, before the
  \<open>try\<close>; inside it the taxonomy's \<open>APIError\<close> is re-raised and every other exception
  becomes \<open>APIError(message=..., provider_name=..., details=...)\<close>.\<close>

definition report_chat :: "(pyfloat \<Rightarrow> string) \<Rightarrow> (string \<Rightarrow> rat option) \<Rightarrow> rat \<Rightarrow> ollama \<Rightarrow> json list
    \<Rightarrow> string option \<Rightarrow> (string, cvalue) pydict \<Rightarrow> (nat \<Rightarrow> request \<Rightarrow> http_result) \<Rightarrow> json outcome" where
  "report_chat frepr isots now ol messages model kwargs net =
     (let sm = target_model model (ol_default_model ol);
          ap = dict_merge (ol_params ol) kwargs;
          mt = cfg_get ap ''max_tokens'' CNone;
          opts = filter (\<lambda>(_, v). v \<noteq> CNone)
                   [(''temperature'', cfg_get ap ''temperature'' CNone), (''num_predict'', if mt \<noteq> CNone then mt else CInt (- 1)),
                    (''top_p'', cfg_get ap ''top_p'' CNone)]
      in case ollama_filter_messages messages of
           Inl e \<Rightarrow> Raised e
         | Inr fs \<Rightarrow>
             (let payload = [(''model'', cv_json sm), (''messages'', JsArr fs), (''stream'', JsBool False)]
                            @ (if opts = [] then [] else [(''options'', JsObj (map (\<lambda>(k, v). (k, cv_json v)) opts))]);
                  res = (case ollama_make_request ol ''/api/chat'' payload ''POST'' net of
                           Raised e \<Rightarrow> Raised e
                         | Returned r \<Rightarrow> report_format frepr isots now sm r)
              in case res of
                   Raised e \<Rightarrow> Raised (if isinstance e [CAPIError] then e
                                      else new_exc NewAPIError 0 [''message'', ''provider_name'', ''details''] None)
                 | Returned x \<Rightarrow> Returned x))"

text \<open>The worker's filter (lines 358--370), applied to a string completion.\<close>

definition worker_strip_think :: "string \<Rightarrow> string" where
  "worker_strip_think c =
     (if py_contains c ''<think>''
      then (let c1 = re_sub_think False c;
                c2 = (if py_contains c1 ''<think>'' then cut_from_think c1 else c1)
            in py_strip (collapse_blank c2))
      else c)"


section \<open>Lemmas\<close>

lemma after_close_drop: "after_close x = None \<Longrightarrow> after_close (drop j x) = None"
  by (induction x arbitrary: j rule: after_close.induct) (auto simp: drop_Cons' split: if_splits)

lemma re_sub_think_copy:
  "(\<And>i. starts_with (drop i s) ''<think>'' \<Longrightarrow> after_close (drop (i + 7) s) = None) \<Longrightarrow> re_sub_think t s = s"
proof (induction s)
  case (Cons c cs)
  have "re_sub_think t cs = cs"
  proof (rule Cons.IH)
    fix i assume "starts_with (drop i cs) ''<think>''"
    then have "starts_with (drop (Suc i) (c # cs)) ''<think>''" by simp
    from Cons.prems [OF this] have "after_close (drop (Suc i + 7) (c # cs)) = None" .
    moreover have "Suc i + 7 = Suc (i + 7)" by simp
    ultimately show "after_close (drop (i + 7) cs) = None" by (metis drop_Suc_Cons)
  qed
  moreover have "starts_with (c # cs) ''<think>'' \<Longrightarrow> after_close (drop 7 (c # cs)) = None"
    using Cons.prems [of 0] by simp
  ultimately show ?case by (cases "starts_with (c # cs) ''<think>''") auto
qed simp

lemma re_sub_think_prefix:
  "(\<And>i. i < length pre \<Longrightarrow> \<not> starts_with (drop i (pre @ rest)) ''<think>'') \<Longrightarrow>
   re_sub_think t (pre @ rest) = pre @ re_sub_think t rest"
proof (induction pre)
  case (Cons c pre)
  have "\<not> starts_with (c # pre @ rest) ''<think>''" using Cons.prems [of 0] by simp
  moreover have "re_sub_think t (pre @ rest) = pre @ re_sub_think t rest"
    by (rule Cons.IH) (use Cons.prems [of "Suc _"] in simp)
  ultimately show ?case by simp
qed simp

lemma split_first_Some:
  "split_first p s = Some (pre, post) \<Longrightarrow>
   s = pre @ p @ post \<and> (\<forall>i < length pre. \<not> starts_with (drop i s) p)"
proof (induction p s arbitrary: pre rule: split_first.induct)
  case (2 p c cs)
  show ?case
  proof (cases "starts_with (c # cs) p")
    case True
    then show ?thesis using 2 by (auto simp: starts_with_def) (metis append_take_drop_id)
  next
    case False
    then obtain a where a: "split_first p cs = Some (a, post)" "pre = c # a" using 2 by auto
    then show ?thesis using 2 False by (auto simp: less_Suc_eq_0_disj)
  qed
qed (auto split: if_splits)

lemma split_first_None: "split_first p s = None \<Longrightarrow> \<not> starts_with (drop i s) p"
  by (induction p s arbitrary: i rule: split_first.induct)
     (auto simp: starts_with_def drop_Cons' split: if_splits)

lemma re_sub_think_unclosed:
  assumes sf: "split_first ''<think>'' s = Some (pre, post)" and ac: "after_close post = None"
  shows "re_sub_think t s = s"
proof (rule re_sub_think_copy)
  have s: "s = pre @ ''<think>'' @ post" and pre: "\<And>i. i < length pre \<Longrightarrow> \<not> starts_with (drop i s) ''<think>''"
    using split_first_Some [OF sf] by auto
  fix i assume st: "starts_with (drop i s) ''<think>''"
  then have "length pre \<le> i" using pre by (meson not_le)
  then obtain j where j: "i = length pre + j" using le_Suc_ex by blast
  have "drop (i + 7) s = drop (j + length ''<think>'') (''<think>'' @ post)" using s j
    by (simp only: drop_append) (simp add: algebra_simps)
  also have "\<dots> = drop j post" by (simp only: drop_append) simp
  finally have "drop (i + 7) s = drop j post" .
  then show "after_close (drop (i + 7) s) = None" using after_close_drop [OF ac] by simp
qed

lemma cut_from_think_prefix:
  "(\<And>i. i < length pre \<Longrightarrow> \<not> starts_with (drop i (pre @ rest)) ''<think>'') \<Longrightarrow>
   cut_from_think (pre @ rest) = pre @ cut_from_think rest"
proof (induction pre)
  case (Cons c pre)
  have "\<not> starts_with (c # pre @ rest) ''<think>''" using Cons.prems [of 0] by simp
  moreover have "cut_from_think (pre @ rest) = pre @ cut_from_think rest"
    by (rule Cons.IH) (use Cons.prems [of "Suc _"] in simp)
  ultimately show ?case by simp
qed simp

lemma cut_from_think_split:
  assumes "split_first ''<think>'' s = Some (pre, post)"
  shows "cut_from_think s = pre"
proof -
  have s: "s = pre @ ''<think>'' @ post" and pre: "\<And>i. i < length pre \<Longrightarrow> \<not> starts_with (drop i s) ''<think>''"
    using split_first_Some [OF assms] by auto
  then show ?thesis using cut_from_think_prefix [of pre "''<think>'' @ post"] by (simp add: starts_with_def)
qed

lemma py_contains_suffix: "starts_with b p \<Longrightarrow> p \<noteq> [] \<Longrightarrow> py_contains (a @ b) p"
  by (induction a) (cases b; simp add: starts_with_def)+

lemma py_contains_split: "split_first p s = Some (pre, post) \<Longrightarrow> p \<noteq> [] \<Longrightarrow> py_contains s p"
  using split_first_Some [of p s pre post] py_contains_suffix [of "p @ post" p pre]
  by (simp add: starts_with_def)

text \<open>C29 The scanner that models both \<open>re.sub\<close> calls over \<open><think>\<close> blocks computes
  the declarative reading: split at the first opening tag, drop the block up to the
  first closing tag after it (and the whitespace after that when \<open>trail\<close>), and go
  on; an opening tag without a closing tag leaves the rest of the text unchanged.\<close>

theorem re_sub_think_ref: "re_sub_think t s = think_blocks_ref t s"
proof (induction t s rule: think_blocks_ref.induct)
  case (1 trail s)
  show ?case
  proof (cases "split_first ''<think>'' s")
    case None
    have "re_sub_think trail s = s"
      by (rule re_sub_think_copy) (use split_first_None [OF None] in blast)
    then show ?thesis using None by simp
  next
    case (Some pp)
    obtain pre post where pp: "pp = (pre, post)" by fastforce
    have s: "s = pre @ ''<think>'' @ post" and pre: "\<And>i. i < length pre \<Longrightarrow> \<not> starts_with (drop i s) ''<think>''"
      using split_first_Some [of "''<think>''" s pre post] Some pp by auto
    have scan: "re_sub_think trail s = pre @ re_sub_think trail (''<think>'' @ post)"
      using pre re_sub_think_prefix [of pre "''<think>'' @ post" trail] s by simp
    show ?thesis
    proof (cases "after_close post")
      case None
      have "re_sub_think trail s = s"
        using re_sub_think_unclosed \<open>split_first ''<think>'' s = Some pp\<close> pp None by simp
      then show ?thesis using Some pp None by simp
    next
      case (Some r)
      have "re_sub_think trail (''<think>'' @ post) = re_sub_think trail (if trail then dropWhile py_isspace r else r)"
        using Some by (simp add: starts_with_def)
      then show ?thesis using 1 [OF \<open>split_first ''<think>'' s = Some pp\<close> pp [symmetric] Some] scan Some pp
        \<open>split_first ''<think>'' s = Some pp\<close> by simp
    qed
  qed
qed

lemma isinstance_APIError: "isinstance e [CAPIError] \<longleftrightarrow> e = APIError"
  by (cases e) (simp_all add: isinstance_def)

text \<open>C30 On a text whose first \<open><think>\<close> is never closed, the report handler
  returns the text only stripped of surrounding whitespace, reasoning included, while
  the worker's filter cuts everything from the tag on.\<close>

theorem think_unclosed_divergence:
  assumes "split_first ''<think>'' s = Some (pre, post)" and "after_close post = None"
  shows "remove_think_tags s = py_strip s \<and> worker_strip_think s = py_strip (collapse_blank pre)"
proof -
  have c: "py_contains s ''<think>''" using py_contains_split [OF assms(1)] by simp
  then have "s \<noteq> []" by auto
  moreover have r: "re_sub_think t s = s" for t using re_sub_think_unclosed [OF assms] .
  ultimately show ?thesis using c cut_from_think_split [OF assms(1)]
    by (simp add: remove_think_tags_def worker_strip_think_def)
qed

theorem think_unclosed_divergence_witness:
  "remove_think_tags ''<think>unclosed reasoning continues forever'' = ''<think>unclosed reasoning continues forever''
   \<and> worker_strip_think ''<think>unclosed reasoning continues forever'' = []"
proof -
  have sf: "split_first ''<think>'' ''<think>unclosed reasoning continues forever'' = Some ([], ''unclosed reasoning continues forever'')"
    by code_simp
  have ac: "after_close ''unclosed reasoning continues forever'' = None" by code_simp
  have ps: "py_strip ''<think>unclosed reasoning continues forever'' = ''<think>unclosed reasoning continues forever''"
    by code_simp
  show ?thesis using think_unclosed_divergence [OF sf ac] ps by (simp add: py_strip_def)
qed

text \<open>C31 Once the messages are filtered, every failure of the report handler's chat,
  from the request, from an ill-formed reply or from building the response, reaches
  the caller as the taxonomy's APIError.\<close>

theorem report_chat_errors_api:
  assumes "ollama_filter_messages messages = Inr fs"
    and "report_chat frepr isots now ol messages model kwargs net = Raised e"
  shows "e = APIError"
  using assms by (auto simp: report_chat_def Let_def isinstance_APIError split: outcome.splits)

theorem report_chat_errors_api_witness:
  "report_chat (\<lambda>_. ''0.0'') (\<lambda>_. None) 0 ollama_example [JsObj [(''role'', JsStr ''user''), (''content'', JsStr ''hi'')]] None []
     (\<lambda>_ _. HFail TimeoutErr) = Raised APIError \<and> APIError = APIError"
proof -
  have f: "ollama_filter_messages [JsObj [(''role'', JsStr ''user''), (''content'', JsStr ''hi'')]]
             = Inr [JsObj [(''role'', JsStr ''user''), (''content'', JsStr ''hi'')]]" by code_simp
  have r: "report_chat (\<lambda>_. ''0.0'') (\<lambda>_. None) 0 ollama_example [JsObj [(''role'', JsStr ''user''), (''content'', JsStr ''hi'')]] None []
     (\<lambda>_ _. HFail TimeoutErr) = Raised APIError" unfolding report_chat_def by code_simp
  show ?thesis using r report_chat_errors_api [OF f r] by simp
qed

text \<open>The spec's example: a reply whose content is a closed reasoning block followed
  by the answer gives exactly the answer, with a synthesised id and zero usage.\<close>

lemma report_chat_spec_example:
  "report_chat (\<lambda>_. ''0.0'') (\<lambda>_. None) 2 ollama_example [JsObj [(''role'', JsStr ''user''), (''content'', JsStr ''hi'')]] (Some ''m'') []
     (\<lambda>_ _. HResp 200 (JsonBody (JsObj [(''message'', JsObj [(''role'', JsStr ''assistant''),
        (''content'', JsStr ''<think>internal reasoning</think>Actual answer'')])])))
   = Returned (JsObj [(''id'', JsStr ''ollama-report-m-2000''), (''object'', JsStr ''chat.completion''), (''created'', JsInt 2),
       (''model'', JsStr ''m''), (''choices'', JsArr [JsObj [(''index'', JsInt 0),
          (''message'', JsObj [(''role'', JsStr ''assistant''), (''content'', JsStr ''Actual answer'')]),
          (''finish_reason'', JsStr ''stop'')]]),
       (''usage'', JsObj [(''prompt_tokens'', JsInt 0), (''completion_tokens'', JsInt 0), (''total_tokens'', JsInt 0)])])"
  unfolding report_chat_def by code_simp

end
