(* ===== verification/Worker.thy ===== *)
theory Worker
  imports Tasks Worker_Output Ollama_Report "HOL-Library.While_Combinator"
begin

text \<open>
  The task worker, \<open>src/src/core/tasks/worker.py\<close>: \<open>_process_task\<close> as the
  sequence of \<open>update_task\<close> calls it makes on the table of theory \<open>Tasks\<close>, and one
  pass of \<open>_worker_loop\<close>. What the worker reaches outside the table is the
  record \<open>wenv\<close>: the upload directory's files (\<open>UPLOAD_DIR / path\<close>, read by
  \<open>file_utils.load_file_content\<close>), the template directory (\<open>TEMPLATE_DIR\<close> and
  \<open>yaml.safe_load\<close> of its files), \<open>get_handler\<close> with the handler's
  \<open>generate_text\<close>, \<open>json.loads\<close>, and \<open>str()\<close> of values and exceptions. Every
  \<open>update_task\<close> of one \<open>_process_task\<close> call is stamped with the same clock value.
\<close>

section \<open>The environment\<close>

record wenv =
  we_upload :: "string \<Rightarrow> (exc + string) option"
  we_template_dir :: bool
  we_template_file :: "string \<Rightarrow> (exc + json) option"
  we_get_handler :: "json \<Rightarrow> (json \<Rightarrow> json \<Rightarrow> exc + string) option"
  we_loads :: "string \<Rightarrow> json option"
  we_str :: "json \<Rightarrow> string"
  we_exc_str :: "exc \<Rightarrow> string"

text \<open>\<open>_load_template_content\<close> (lines 40--75): the first of \<open><id>.yaml\<close> and
  \<open><id>.yml\<close> that is a file; \<open>None\<close> when there is none, when reading or parsing
  raises, or when the document is not a mapping.\<close>

definition load_template_content :: "wenv \<Rightarrow> string \<Rightarrow> (string, json) pydict option" where
  "load_template_content env tid =
     (if \<not> we_template_dir env then None
      else case first_some (\<lambda>sfx. if we_template_file env (tid @ sfx) \<noteq> None then Some (tid @ sfx) else None)
                  [''.yaml'', ''.yml''] of
             None \<Rightarrow> None
           | Some f \<Rightarrow> (case we_template_file env f of Some (Inr (JsObj d)) \<Rightarrow> Some d | _ \<Rightarrow> None))"

section \<open>_process_task\<close>

text \<open>What the body of the \<open>try\<close> at line 190 can raise: a \<open>ValueError\<close> of its
  own with its message, or an exception of a callee.\<close>

datatype werr = WValueError string | WExc exc

text \<open>\<open>d.get(k, default)\<close> on a JSON dict.\<close>

definition json_get :: "(string, json) pydict \<Rightarrow> string \<Rightarrow> json \<Rightarrow> json" where
  "json_get d k dflt = (case dict_get d k of Some v \<Rightarrow> v | None \<Rightarrow> dflt)"

text \<open>\<open>str(v)\<close> in an f-string.\<close>

definition wk_str :: "wenv \<Rightarrow> json \<Rightarrow> string" where
  "wk_str env v = (case v of JsStr s \<Rightarrow> s | _ \<Rightarrow> we_str env v)"

text \<open>Values \<open>len()\<close> accepts.\<close>

definition json_sized :: "json \<Rightarrow> bool" where
  "json_sized v = (case v of JsStr _ \<Rightarrow> True | JsArr _ \<Rightarrow> True | JsObj _ \<Rightarrow> True | _ \<Rightarrow> False)"

text \<open>Lines 203--256: the parameters, the text to analyse (the \<open>len()\<close> in the log
  line 213 raises \<open>TypeError\<close> for a text without a length), the file fallback
  (\<open>UPLOAD_DIR\<close> is a \<open>Path\<close>, always true), and the final emptiness check.\<close>

definition wk_params :: "(string, json) pydict \<Rightarrow> (string, json) pydict" where
  "wk_params meta = (case dict_get meta ''params'' of Some (JsObj p) \<Rightarrow> p | _ \<Rightarrow> meta)"

definition wk_input_text :: "wenv \<Rightarrow> (string, json) pydict \<Rightarrow> werr + json" where
  "wk_input_text env params =
     (let text = json_get params ''text'' (JsStr []);
          fp = json_get params ''file_path'' JsNull;
          missing = WValueError ''Text/File content is missing after attempting all sources.''
      in if \<not> json_sized text then Inl (WExc TypeError)
         else if \<not> json_truthy text \<and> json_truthy fp then
           (case fp of
              JsStr p \<Rightarrow>
                (case we_upload env p of
                   None \<Rightarrow> Inl (WValueError (''File not found at path: '' @ p))
                 | Some (Inl e) \<Rightarrow> Inl (WValueError (''Error reading file content from '' @ p @ '': '' @ we_exc_str env e))
                 | Some (Inr content) \<Rightarrow> if content = [] then Inl missing else Inr (JsStr content))
            | _ \<Rightarrow> Inl (WValueError ''Invalid file_path type received in task parameters.''))
         else if \<not> json_truthy text then Inl missing
         else Inr text)"

text \<open>Lines 312--322: the placeholder replaced in a template's prompt; \<open>in\<close> and
  \<open>replace\<close> on a value that is not a string raise (\<open>AttributeError\<close>, here
  \<open>OtherError\<close>, for \<open>replace\<close> on a list or dict).\<close>

definition replace_in :: "json \<Rightarrow> string \<Rightarrow> json \<Rightarrow> werr + json" where
  "replace_in s pat actual =
     (case (s, actual) of
        (JsStr x, JsStr a) \<Rightarrow> Inr (JsStr (py_replace pat a x))
      | (JsStr _, _) \<Rightarrow> Inl (WExc TypeError)
      | _ \<Rightarrow> Inl (WExc OtherError))"

definition fill_placeholder :: "json \<Rightarrow> json \<Rightarrow> werr + json" where
  "fill_placeholder s actual =
     (case json_in ''{input_text}'' s of
        Inl e \<Rightarrow> Inl (WExc e)
      | Inr True \<Rightarrow> replace_in s ''{input_text}'' actual
      | Inr False \<Rightarrow>
          (case json_in ''{{text}}'' s of
             Inl e \<Rightarrow> Inl (WExc e)
           | Inr True \<Rightarrow> replace_in s ''{{text}}'' actual
           | Inr False \<Rightarrow> Inr s))"

text \<open>Lines 293--343: the prompt from the template, or the text itself when no
  template was asked for; a template asked for but not usable raises. A template
  id that is not a string fails in \<open>template_id + suffix\<close>.\<close>

definition wk_prompt :: "wenv \<Rightarrow> json \<Rightarrow> json \<Rightarrow> werr + json" where
  "wk_prompt env tmpl actual =
     (let p = (if \<not> json_truthy tmpl then Inr JsNull
               else case tmpl of
                      JsStr tid \<Rightarrow>
                        (case load_template_content env tid of
                           Some d \<Rightarrow>
                             if d = [] then Inr JsNull
                             else (let s = (case dict_get d ''full_prompt_template'' of
                                              Some s \<Rightarrow> s
                                            | None \<Rightarrow> (case dict_get d ''prompt'' of Some s \<Rightarrow> s | None \<Rightarrow> JsNull))
                                   in if json_truthy s then fill_placeholder s actual else Inr JsNull)
                         | None \<Rightarrow> Inr JsNull)
                    | _ \<Rightarrow> Inl (WExc TypeError))
      in case p of
           Inl e \<Rightarrow> Inl e
         | Inr pr \<Rightarrow>
             if json_truthy pr then Inr pr
             else if json_truthy tmpl
             then Inl (WValueError (''Failed to load expected template '' @ [CHR 0x27] @ wk_str env tmpl @ [CHR 0x27] @ '' for deep analysis.''))
             else Inr actual)"

text \<open>Lines 259--471, the analysis proper: the progress values it stores, in order,
  and the result or the exception that ends it. An analysis type other than
  \<open>basic\<close>, \<open>literature\<close> and \<open>deep\<close> leaves \<open>result_data\<close> empty.\<close>

definition wk_body :: "wenv \<Rightarrow> (string, json) pydict \<Rightarrow> rat list \<times> (werr + json)" where
  "wk_body env meta =
     (let params = wk_params meta in
      case wk_input_text env params of
        Inl e \<Rightarrow> ([], Inl e)
      | Inr actual \<Rightarrow>
          (let atype = json_get params ''analysis_type'' (JsStr ''simple'');
               options = json_get params ''options'' (JsArr []);
               prov = json_get meta ''api_provider'' JsNull;
               model = json_get meta ''model'' JsNull;
               tmpl = json_get meta ''template'' JsNull
           in if \<not> json_truthy atype then ([], Inl (WValueError ''Analysis type is missing''))
              else if \<not> json_truthy options then ([], Inl (WValueError ''Analysis options are missing''))
              else if atype = JsStr ''basic''
              then ([2/10, 9/10], Inr (JsObj [(''status'', JsStr ''success''), (''message'', JsStr ''Basic analysis completed.'')]))
              else if atype = JsStr ''literature'' \<or> atype = JsStr ''deep'' then
                (if \<not> json_truthy prov
                 then ([2/10], Inl (WValueError (wk_str env atype @ '' analysis requires an API provider'')))
                 else (case we_get_handler env prov of
                         None \<Rightarrow> ([2/10, 5/10], Inl (WValueError (''API provider '' @ wk_str env prov @ '' not found or not configured'')))
                       | Some gen \<Rightarrow>
                           (case wk_prompt env tmpl actual of
                              Inl e \<Rightarrow> ([2/10, 5/10], Inl e)
                            | Inr prompt \<Rightarrow>
                                (case gen prompt model of
                                   Inl e \<Rightarrow> ([2/10, 5/10], Inl (WExc e))
                                 | Inr c \<Rightarrow> ([2/10, 5/10], Inr (process_completion (we_loads env) tmpl atype (worker_strip_think c)))))))
              else ([2/10], Inr (JsObj []))))"

text \<open>An \<open>update_task\<close> call: status, progress, result, error.\<close>

type_synonym upd = "task_status option \<times> rat option \<times> json option \<times> string option"

text \<open>The \<open>except\<close> clauses (lines 482--491): the error text stored.\<close>

definition werr_msg :: "wenv \<Rightarrow> werr \<Rightarrow> string" where
  "werr_msg env e =
     (case e of
        WValueError m \<Rightarrow> m
      | WExc x \<Rightarrow> if isinstance x [CValueError] then we_exc_str env x else ''Unhandled exception: '' @ we_exc_str env x)"

text \<open>The updates after the task was marked running: one per stored progress
  value, then \<open>COMPLETED\<close> with progress 100 and the result (lines 475--480), or
  \<open>FAILED\<close> with the error text.\<close>

definition wk_plan :: "wenv \<Rightarrow> (string, json) pydict \<Rightarrow> upd list" where
  "wk_plan env meta =
     (case wk_body env meta of
        (ps, r) \<Rightarrow> map (\<lambda>p. (None, Some p, None, None)) ps @
                   [case r of Inl e \<Rightarrow> (Some FAILED, None, None, Some (werr_msg env e))
                            | Inr res \<Rightarrow> (Some COMPLETED, Some 100, Some res, None)])"

definition run_upds :: "string \<Rightarrow> string \<Rightarrow> upd list \<Rightarrow> task_db \<Rightarrow> task_db" where
  "run_upds tid now us db = fold (\<lambda>(st, pr, res, er) d. fst (tm_update_task tid st pr res er now d)) us db"

text \<open>\<open>_process_task\<close> (lines 178--491): a task without metadata fails; otherwise
  it is marked running with progress 0.1, and when that update reads nothing back
  the method returns.\<close>

definition wk_process_task :: "wenv \<Rightarrow> string \<Rightarrow> string \<Rightarrow> (string, json) pydict option \<Rightarrow> task_db \<Rightarrow> task_db" where
  "wk_process_task env now tid meta db =
     (case meta of
        Some m \<Rightarrow>
          if m = [] then fst (tm_update_task tid (Some FAILED) None None (Some ''Task metadata is missing'') now db)
          else (case tm_update_task tid (Some RUNNING) (Some (1/10)) None None now db of
                  (db1, None) \<Rightarrow> db1
                | (db1, Some _) \<Rightarrow> run_upds tid now (wk_plan env m) db1)
      | None \<Rightarrow> fst (tm_update_task tid (Some FAILED) None None (Some ''Task metadata is missing'') now db))"

section \<open>The loop\<close>

text \<open>One pass of \<open>_worker_loop\<close> (lines 118--176), each fetched task handled by
  lines 138--166: the pending tasks, at most 10,
  fetched once and processed in order. The check at line 140 reads the status of
  the fetched object. Line 155 calls \<open>update_task(task)\<close> with the task object in
  place of its id and no field, so \<open>update_task\<close> returns \<open>None\<close> before reading its
  id: the in-memory \<open>RUNNING\<close> is never written. Neither \<open>_process_task\<close> nor
  \<open>update_task\<close> raises, so the handler at line 159 is not reached.\<close>

definition wk_handle_task :: "wenv \<Rightarrow> string \<Rightarrow> task \<Rightarrow> task_db \<Rightarrow> task_db" where
  "wk_handle_task env now t db =
     (if t_status t \<noteq> PENDING then db
      else wk_process_task env now (t_id t) (t_metadata t) (fst (tm_update_task (t_id t) None None None None now db)))"

definition wk_iteration :: "wenv \<Rightarrow> string \<Rightarrow> task_db \<Rightarrow> task_db" where
  "wk_iteration env now db = fold (wk_handle_task env now) (tm_get_pending_tasks 10 db) db"

section \<open>Notions for the properties\<close>

text \<open>A table in which only the rows of one id were rewritten, all by one function.\<close>

definition upd_map :: "string \<Rightarrow> (task_row \<Rightarrow> task_row) \<Rightarrow> task_db \<Rightarrow> task_db" where
  "upd_map tid g db = map (\<lambda>r. if r_id r = tid then g r else r) db"

text \<open>What one \<open>update_task\<close> call does to a row of its id.\<close>

definition upd_fun :: "string \<Rightarrow> upd \<Rightarrow> task_row \<Rightarrow> task_row" where
  "upd_fun now u r = (case u of (st, pr, res, er) \<Rightarrow>
                        if st = None \<and> pr = None \<and> res = None \<and> er = None then r else set_row now st pr res er r)"

definition is_pending :: "task_row \<Rightarrow> bool" where
  "is_pending r \<longleftrightarrow> r_status r = status_value PENDING"

definition pending_count :: "task_db \<Rightarrow> nat" where
  "pending_count db = length (filter is_pending db)"

definition pending_readable :: "task_db \<Rightarrow> bool" where
  "pending_readable db \<longleftrightarrow> (\<forall>r\<in>set db. is_pending r \<longrightarrow> row_to_task r \<noteq> None)"

definition example_wenv :: wenv where
  "example_wenv = \<lparr>we_upload = (\<lambda>_. None), we_template_dir = False, we_template_file = (\<lambda>_. None),
                   we_get_handler = (\<lambda>p. if p = JsStr ''ollama'' then Some (\<lambda>_ _. Inr ''[1, 2]'') else None),
                   we_loads = (\<lambda>s. if s = ''[1, 2]'' then Some (JsArr [JsInt 1, JsInt 2]) else None),
                   we_str = (\<lambda>_. []), we_exc_str = (\<lambda>_. [])\<rparr>"

definition example_meta :: "(string, json) pydict" where
  "example_meta = [(''text'', JsStr ''Some text''), (''analysis_type'', JsStr ''deep''),
                   (''options'', JsArr [JsStr ''themes'']), (''api_provider'', JsStr ''ollama'')]"

definition example_row :: task_row where
  "example_row = \<lparr>r_id = ''t1'', r_status = ''pending'', r_progress = 0, r_created_at = ''2026-01-01'',
                  r_updated_at = ''2026-01-01'', r_metadata = Some (JsObj example_meta), r_result = None, r_error = None\<rparr>"

section \<open>Lemmas\<close>

lemma upd_fun_id [simp]: "r_id (upd_fun now u r) = r_id r"
  by (simp add: upd_fun_def split: prod.split)

lemma upd_map_id [simp]: "upd_map tid id db = db"
  by (induction db) (simp_all add: upd_map_def)

lemma tm_update_task_upd_map:
  "fst (tm_update_task tid st pr res er now db) = upd_map tid (upd_fun now (st, pr, res, er)) db"
  by (induction db) (auto simp: tm_update_task_fst upd_map_def upd_fun_def)

lemma upd_map_comp:
  "(\<And>r. r_id (g1 r) = r_id r) \<Longrightarrow> upd_map tid g2 (upd_map tid g1 db) = upd_map tid (g2 \<circ> g1) db"
  by (induction db) (auto simp: upd_map_def)

lemma fold_upd_fun_id: "(\<And>r. r_id (g r) = r_id r) \<Longrightarrow> r_id (fold (\<lambda>u h. upd_fun now u \<circ> h) us g r) = r_id r"
  by (induction us arbitrary: g) auto

lemma run_upds_upd_map:
  "(\<And>r. r_id (g r) = r_id r) \<Longrightarrow>
   run_upds tid now us (upd_map tid g db) = upd_map tid (fold (\<lambda>u h. upd_fun now u \<circ> h) us g) db"
proof (induction us arbitrary: g)
  case Nil
  then show ?case by (simp add: run_upds_def)
next
  case (Cons u us)
  have "run_upds tid now (u # us) (upd_map tid g db) = run_upds tid now us (upd_map tid (upd_fun now u \<circ> g) db)"
    using Cons.prems by (simp add: run_upds_def tm_update_task_upd_map upd_map_comp split: prod.split)
  also have "\<dots> = upd_map tid (fold (\<lambda>u h. upd_fun now u \<circ> h) us (upd_fun now u \<circ> g)) db"
    by (rule Cons.IH) (simp add: Cons.prems)
  finally show ?case by (simp add: comp_def)
qed

lemma fold_upd_fun_last:
  "r_status (fold (\<lambda>u h. upd_fun now u \<circ> h) (xs @ [(Some s, pr, res, er)]) g r) = status_value s"
  by (simp add: upd_fun_def set_row_def)

lemma wk_plan_shape:
  "\<exists>xs pr res er. wk_plan env m = xs @ [(Some COMPLETED, pr, res, er)] \<or> wk_plan env m = xs @ [(Some FAILED, pr, res, er)]"
  by (auto simp: wk_plan_def split: prod.split sum.split)

lemma upd_fun_status [simp]: "r_status (upd_fun now (Some s, pr, res, er) r) = status_value s"
  by (simp add: upd_fun_def set_row_def)

lemma find_upd_map:
  "(\<And>r. r_id (g r) = r_id r) \<Longrightarrow> find (\<lambda>r. r_id r = tid) (upd_map tid g db) = map_option g (find (\<lambda>r. r_id r = tid) db)"
  unfolding upd_map_def by (rule find_update_rows)

lemma wk_process_task_upd_map:
  "\<exists>g. (\<forall>r. r_id (g r) = r_id r)
     \<and> (\<forall>r. r_status (g r) \<in> {''running'', ''completed'', ''failed''})
     \<and> (tm_get_task tid db \<noteq> None \<longrightarrow> (\<forall>r. r_status (g r) \<in> {''completed'', ''failed''}))
     \<and> wk_process_task env now tid meta db = upd_map tid g db"
proof -
  let ?fail = "upd_fun now (Some FAILED, None, None, Some ''Task metadata is missing'')"
  let ?run = "upd_fun now (Some RUNNING, Some (1/10), None, None)"
  show ?thesis
  proof (cases "meta = None \<or> meta = Some []")
    case True
    then have "wk_process_task env now tid meta db = upd_map tid ?fail db"
      by (auto simp: wk_process_task_def tm_update_task_upd_map)
    then show ?thesis by (intro exI [of _ ?fail]) simp
  next
    case False
    then obtain m where m: "meta = Some m" "m \<noteq> []" by (cases meta) auto
    obtain db1 x where u: "tm_update_task tid (Some RUNNING) (Some (1/10)) None None now db = (db1, x)"
      by (cases "tm_update_task tid (Some RUNNING) (Some (1/10)) None None now db")
    have db1: "db1 = upd_map tid ?run db" using u tm_update_task_upd_map [of tid "Some RUNNING" "Some (1/10)" None None now db] by simp
    show ?thesis
    proof (cases x)
      case None
      have "wk_process_task env now tid meta db = upd_map tid ?run db" using m u None db1 by (simp add: wk_process_task_def)
      moreover have "tm_get_task tid db = None"
      proof (rule ccontr)
        assume "tm_get_task tid db \<noteq> None"
        then obtain t where "tm_get_task tid db = Some t" by blast
        from tm_update_task_found [OF this, of "Some RUNNING" "Some (1/10)" None None now] u None
        show False by auto
      qed
      ultimately show ?thesis by (intro exI [of _ ?run]) simp
    next
      case (Some y)
      obtain xs pr res er s where plan: "wk_plan env m = xs @ [(Some s, pr, res, er)]" and s: "s = COMPLETED \<or> s = FAILED"
        using wk_plan_shape [of env m] by blast
      let ?g = "fold (\<lambda>u h. upd_fun now u \<circ> h) (wk_plan env m) ?run"
      have "wk_process_task env now tid meta db = run_upds tid now (wk_plan env m) (upd_map tid ?run db)"
        using m u Some db1 by (simp add: wk_process_task_def)
      also have "\<dots> = upd_map tid ?g db" by (rule run_upds_upd_map) simp
      finally have eq: "wk_process_task env now tid meta db = upd_map tid ?g db" .
      have st: "r_status (?g r) \<in> {''completed'', ''failed''}" for r
        unfolding plan using s by (auto simp: fold_upd_fun_last)
      have "r_id (?g r) = r_id r" for r by (rule fold_upd_fun_id) simp
      then show ?thesis using eq st by (intro exI [of _ ?g]) blast
    qed
  qed
qed

lemma pending_count_upd_map:
  "\<forall>r. \<not> is_pending (g r) \<Longrightarrow>
   pending_count (upd_map tid g db) + length (filter (\<lambda>r. r_id r = tid \<and> is_pending r) db) = pending_count db"
  by (induction db) (auto simp: upd_map_def pending_count_def)

lemma pending_upd_map_old:
  "\<forall>r. \<not> is_pending (g r) \<Longrightarrow> r \<in> set (upd_map tid g db) \<Longrightarrow> is_pending r \<Longrightarrow> r \<in> set db"
  by (auto simp: upd_map_def split: if_splits)

lemma wk_process_task_pending:
  "pending_count (wk_process_task env now tid meta db) + length (filter (\<lambda>r. r_id r = tid \<and> is_pending r) db) = pending_count db
   \<and> (\<forall>r\<in>set (wk_process_task env now tid meta db). is_pending r \<longrightarrow> r \<in> set db)"
proof -
  obtain g where g: "\<forall>r. r_status (g r) \<in> {''running'', ''completed'', ''failed''}"
    and eq: "wk_process_task env now tid meta db = upd_map tid g db"
    using wk_process_task_upd_map [of tid db env now meta] by blast
  have np: "\<forall>r. \<not> is_pending (g r)"
  proof
    fix r
    have "r_status (g r) \<in> {''running'', ''completed'', ''failed''}" using g by blast
    then show "\<not> is_pending (g r)" by (auto simp: is_pending_def)
  qed
  show ?thesis unfolding eq using pending_count_upd_map [OF np] pending_upd_map_old [OF np] by blast
qed

lemma tm_update_task_noop [simp]: "tm_update_task tid None None None None now db = (db, None)"
  by (simp add: tm_update_task_def)

lemma wk_handle_task_pending:
  "pending_count (wk_handle_task env now t d) \<le> pending_count d \<and> (\<forall>r\<in>set (wk_handle_task env now t d). is_pending r \<longrightarrow> r \<in> set d)"
  using wk_process_task_pending [of env now "t_id t" "t_metadata t" d] by (auto simp: wk_handle_task_def)

lemma wk_fold_pending:
  "pending_count (fold (wk_handle_task env now) ts d) \<le> pending_count d
   \<and> (\<forall>r\<in>set (fold (wk_handle_task env now) ts d). is_pending r \<longrightarrow> r \<in> set d)"
proof (induction ts arbitrary: d)
  case Nil
  then show ?case by simp
next
  case (Cons t ts)
  show ?case using Cons.IH [of "wk_handle_task env now t d"] wk_handle_task_pending [of env now t d]
    by (auto intro: le_trans)
qed

lemma fetched_pending:
  "t \<in> set (tm_get_pending_tasks lmt db) \<Longrightarrow> t_status t = PENDING \<and> (\<exists>r\<in>set db. r_id r = t_id t \<and> is_pending r)"
proof -
  assume "t \<in> set (tm_get_pending_tasks lmt db)"
  then obtain r where r: "r \<in> set (pending_rows lmt db)" "row_to_task r = Some t"
    by (auto simp: tm_get_pending_tasks_def List.map_filter_def)
  have "r \<in> set db \<and> is_pending r"
    using r(1) set_take_subset [of "nat lmt" "sort_key r_created_at (filter (\<lambda>r. r_status r = status_value PENDING) db)"]
    by (auto simp: pending_rows_def is_pending_def Let_def split: if_splits)
  moreover have "t_status t = PENDING \<and> t_id t = r_id r"
    using r(2) calculation by (auto simp: row_to_task_def is_pending_def split: option.splits prod.splits)
  ultimately show ?thesis by auto
qed

lemma wk_iteration_decreases:
  assumes "tm_get_pending_tasks 10 db \<noteq> []"
  shows "pending_count (wk_iteration env now db) < pending_count db"
proof -
  obtain t ts where tts: "tm_get_pending_tasks 10 db = t # ts" using assms by (cases "tm_get_pending_tasks 10 db") auto
  then have "t \<in> set (tm_get_pending_tasks 10 db)" by simp
  from fetched_pending [OF this] obtain r where st: "t_status t = PENDING" and r: "r \<in> set db" "r_id r = t_id t" "is_pending r"
    by blast
  let ?d1 = "wk_handle_task env now t db"
  have "r \<in> set (filter (\<lambda>r. r_id r = t_id t \<and> is_pending r) db)" using r by simp
  then have pos: "0 < length (filter (\<lambda>r. r_id r = t_id t \<and> is_pending r) db)" by (rule length_pos_if_in_set)
  have "pending_count ?d1 + length (filter (\<lambda>r. r_id r = t_id t \<and> is_pending r) db) = pending_count db"
    using wk_process_task_pending [of env now "t_id t" "t_metadata t" db] st by (simp add: wk_handle_task_def)
  then have "pending_count ?d1 < pending_count db" using pos by linarith
  moreover have "wk_iteration env now db = fold (wk_handle_task env now) ts ?d1"
    by (simp add: wk_iteration_def tts)
  ultimately show ?thesis using wk_fold_pending [of env now ts ?d1] by simp
qed

lemma wk_iteration_readable:
  "pending_readable db \<Longrightarrow> pending_readable (wk_iteration env now db)"
  using wk_fold_pending [of env now "tm_get_pending_tasks 10 db" db]
  by (auto simp: pending_readable_def wk_iteration_def)

lemma fetch_nonempty:
  assumes "pending_readable db" "pending_count db > 0"
  shows "tm_get_pending_tasks 10 db \<noteq> []"
proof -
  let ?ps = "sort_key r_created_at (filter (\<lambda>r. r_status r = status_value PENDING) db)"
  obtain x where "x \<in> set db" "is_pending x"
    using assms(2) by (auto simp: pending_count_def length_greater_0_conv filter_empty_conv)
  then have "x \<in> set ?ps" by (simp add: is_pending_def)
  then have "?ps \<noteq> []" by (metis empty_iff list.set(1))
  then obtain r rs where ps: "?ps = r # rs" by (cases ?ps) auto
  then have "r \<in> set ?ps" by simp
  then have r: "r \<in> set db" "is_pending r" by (auto simp: is_pending_def)
  then obtain t where "row_to_task r = Some t" using assms(1) by (auto simp: pending_readable_def)
  moreover have "pending_rows 10 db = r # take 9 rs" using ps by (simp add: pending_rows_def)
  ultimately show ?thesis by (simp add: tm_get_pending_tasks_def)
qed

lemma wk_process_task_readable:
  assumes "tm_get_task tid db = Some t" "m \<noteq> []"
  shows "wk_process_task env now tid (Some m) db =
           upd_map tid (fold (\<lambda>u h. upd_fun now u \<circ> h) (wk_plan env m) (upd_fun now (Some RUNNING, Some (1/10), None, None))) db"
proof -
  let ?run = "upd_fun now (Some RUNNING, Some (1/10), None, None)"
  obtain db1 x where u: "tm_update_task tid (Some RUNNING) (Some (1/10)) None None now db = (db1, x)"
    by (cases "tm_update_task tid (Some RUNNING) (Some (1/10)) None None now db")
  have db1: "db1 = upd_map tid ?run db" using u tm_update_task_upd_map [of tid "Some RUNNING" "Some (1/10)" None None now db] by simp
  have "x \<noteq> None" using tm_update_task_found [OF assms(1), of "Some RUNNING" "Some (1/10)" None None now] u by auto
  then obtain y where "x = Some y" by blast
  then have "wk_process_task env now tid (Some m) db = run_upds tid now (wk_plan env m) (upd_map tid ?run db)"
    using assms(2) u db1 by (simp add: wk_process_task_def)
  also have "\<dots> = upd_map tid (fold (\<lambda>u h. upd_fun now u \<circ> h) (wk_plan env m) ?run) db" by (rule run_upds_upd_map) simp
  finally show ?thesis .
qed

lemma wk_process_task_final:
  assumes "tm_get_task tid db = Some t"
  shows "\<exists>r. find (\<lambda>r. r_id r = tid) (wk_process_task env now tid meta db) = Some r \<and> r_status r \<in> {''completed'', ''failed''}"
proof -
  obtain g where ids: "\<forall>r. r_id (g r) = r_id r" and st: "\<forall>r. r_status (g r) \<in> {''completed'', ''failed''}"
    and eq: "wk_process_task env now tid meta db = upd_map tid g db"
    using wk_process_task_upd_map [of tid db env now meta] assms by blast
  obtain r0 where "find (\<lambda>r. r_id r = tid) db = Some r0" using tm_get_task_SomeD [OF assms] by blast
  then have "find (\<lambda>r. r_id r = tid) (upd_map tid g db) = Some (g r0)" using ids by (simp add: find_upd_map)
  then show ?thesis using st eq by auto
qed

lemma fold_upd_fun_last_result:
  "r_result (fold (\<lambda>u h. upd_fun now u \<circ> h) (xs @ [(Some s, pr, Some v, er)]) g r) = Some v"
  by (simp add: upd_fun_def)

text \<open>C17 A cancel_task request served while the worker holds the task in the batch
  it fetched is acknowledged (cancel_task returns True), and the worker then
  processes the task anyway, ending it COMPLETED or FAILED: the stale status check
  of line 140 and update_task's unguarded SET overwrite the cancellation.\<close>

theorem cancel_lost_to_worker:
  assumes "tm_get_task tid db = Some t"
  shows "snd (tm_cancel_task tid now' db)
       \<and> (\<exists>r. find (\<lambda>r. r_id r = tid) (wk_process_task env now tid meta (fst (tm_cancel_task tid now' db))) = Some r
              \<and> r_status r \<in> {''completed'', ''failed''})"
proof -
  have c: "snd (tm_cancel_task tid now' db)
           \<and> tm_get_task tid (fst (tm_cancel_task tid now' db)) = Some (t\<lparr>t_status := CANCELLED, t_updated_at := now'\<rparr>)"
    by (rule tm_cancel_task_found [OF assms])
  then show ?thesis using wk_process_task_final [of tid "fst (tm_cancel_task tid now' db)" _ env now meta] by blast
qed

theorem cancel_lost_to_worker_witness:
  "snd (tm_cancel_task ''t1'' ''n'' [example_row])
   \<and> (\<exists>r. find (\<lambda>r. r_id r = ''t1'') (wk_process_task example_wenv ''now'' ''t1'' (Some example_meta)
                   (fst (tm_cancel_task ''t1'' ''n'' [example_row]))) = Some r
          \<and> r_status r \<in> {''completed'', ''failed''})"
proof -
  have "tm_get_task ''t1'' [example_row] \<noteq> None"
    by (simp add: tm_get_task_def example_row_def row_to_task_def as_dict_def)
  then obtain t where "tm_get_task ''t1'' [example_row] = Some t" by blast
  from cancel_lost_to_worker [OF this] show ?thesis by blast
qed

text \<open>C19 When the analysis ends in a result that is a JSON list (a completion that is
  a bare JSON array, which the whole-text pattern accepts), _process_task marks a
  readable task COMPLETED and stores the list, after which get_task can no
  longer read the task: the Task model only admits a dict result.\<close>

theorem array_result_unreadable:
  assumes "tm_get_task tid db = Some t" "m \<noteq> []" "wk_body env m = (ps, Inr (JsArr xs))"
  shows "tm_get_task tid (wk_process_task env now tid (Some m) db) = None
       \<and> (\<exists>r. find (\<lambda>r. r_id r = tid) (wk_process_task env now tid (Some m) db) = Some r \<and> r_status r = ''completed'')"
proof -
  let ?g = "fold (\<lambda>u h. upd_fun now u \<circ> h) (wk_plan env m) (upd_fun now (Some RUNNING, Some (1/10), None, None))"
  have plan: "wk_plan env m = map (\<lambda>p. (None, Some p, None, None)) ps @ [(Some COMPLETED, Some 100, Some (JsArr xs), None)]"
    using assms(3) by (simp add: wk_plan_def)
  obtain r0 where r0: "find (\<lambda>r. r_id r = tid) db = Some r0" using tm_get_task_SomeD [OF assms(1)] by blast
  have ids: "r_id (?g r) = r_id r" for r by (rule fold_upd_fun_id) simp
  have f: "find (\<lambda>r. r_id r = tid) (wk_process_task env now tid (Some m) db) = Some (?g r0)"
    unfolding wk_process_task_readable [OF assms(1,2)] using r0 ids by (simp add: find_upd_map)
  have "r_result (?g r0) = Some (JsArr xs)" unfolding plan by (rule fold_upd_fun_last_result)
  then have "row_to_task (?g r0) = None" by (rule row_to_task_array_result)
  moreover have "r_status (?g r0) = ''completed''" unfolding plan by (simp only: fold_upd_fun_last) simp
  ultimately show ?thesis using f by (simp add: tm_get_task_def)
qed

theorem array_result_unreadable_witness:
  "tm_get_task ''t1'' (wk_process_task example_wenv ''now'' ''t1'' (Some example_meta) [example_row]) = None"
proof -
  have "tm_get_task ''t1'' [example_row] \<noteq> None"
    by (simp add: tm_get_task_def example_row_def row_to_task_def as_dict_def)
  then obtain t where t: "tm_get_task ''t1'' [example_row] = Some t" by blast
  have m: "example_meta \<noteq> []" by (simp add: example_meta_def)
  have b: "wk_body example_wenv example_meta = ([2/10, 5/10], Inr (JsArr [JsInt 1, JsInt 2]))"
    by code_simp
  from array_result_unreadable [OF t m b] show ?thesis by blast
qed

text \<open>C18 Run on a table whose pending rows are all readable, and with no task
  created meanwhile, the worker loop's body empties the queue: repeating it while
  get_pending_tasks(limit=10) returns a task terminates, in a table without a
  pending row. Each pass ends at least one pending task, since _process_task
  always writes a status other than pending.\<close>

theorem worker_drains_queue:
  assumes "pending_readable db"
  shows "\<exists>db'. while_option (\<lambda>d. tm_get_pending_tasks 10 d \<noteq> []) (wk_iteration env now) db = Some db'
              \<and> pending_count db' = 0"
proof -
  obtain db' where w: "while_option (\<lambda>d. tm_get_pending_tasks 10 d \<noteq> []) (wk_iteration env now) db = Some db'"
    using measure_while_option_Some [of pending_readable "\<lambda>d. tm_get_pending_tasks 10 d \<noteq> []" "wk_iteration env now" pending_count db]
      wk_iteration_readable wk_iteration_decreases assms by blast
  have r: "pending_readable db'" by (rule while_option_rule [where P = pending_readable, OF _ w assms]) (rule wk_iteration_readable)
  have "tm_get_pending_tasks 10 db' = []" using while_option_stop [OF w] by simp
  then have "pending_count db' = 0" using fetch_nonempty [OF r] by auto
  with w show ?thesis by blast
qed

theorem worker_drains_queue_witness:
  "\<exists>db'. while_option (\<lambda>d. tm_get_pending_tasks 10 d \<noteq> []) (wk_iteration example_wenv ''now'') [example_row] = Some db'
         \<and> pending_count db' = 0"
proof -
  have "pending_readable [example_row]"
    by (simp add: pending_readable_def example_row_def row_to_task_def as_dict_def)
  from worker_drains_queue [OF this] show ?thesis .
qed

end
