(* ===== verification/Spec2Isabelle.thy ===== *)
theory Spec2Isabelle
  imports Retry Registry_Resolution DeepSeek Cache Anyscale_Cohere Worker
begin

text \<open>
  \<^bold>\<open>A verification development of QianLu's provider layer and task pipeline.\<close>

  QianLu (\<open>src/\<close>) is a FastAPI backend that sends text to one of many LLM providers
  and runs long analyses as background tasks. The development models its provider
  layer and the task pipeline that uses it. The provider layer is a registry that
  loads provider metadata and handler classes (\<open>src/src/providers/factory.py\<close>), the
  resolution of each provider's configuration from the \<open>.env\<close> file and the process
  environment (\<open>factory.py\<close>, \<open>utils/config.py\<close>, \<open>api/routes/settings.py\<close>), the
  handler contract (\<open>providers/base.py\<close>), the error taxonomies
  (\<open>validation/error_handler.py\<close>, \<open>utils/error_handler.py\<close>), the retry machinery
  (\<open>utils/retry.py\<close> and tenacity decorators), and the adapters in
  \<open>providers/handlers/\<close>. A route asks the registry for a handler by name. The registry
  resolves the name through the aliases, builds the configuration from the environment
  and instantiates the handler class. The handler reads per-call parameters through
  \<open>get_current_param\<close> and sends requests under a retry decorator. The task pipeline is
  an SQLite task table (\<open>core/tasks/manager.py\<close>, \<open>models.py\<close>) and a worker
  (\<open>core/tasks/worker.py\<close>). The worker fetches pending tasks and runs each analysis
  through a handler's \<open>generate_text\<close>. It extracts JSON from the completion and
  stores the result. A result cache (\<open>utils/cache.py\<close>) keeps analysis results on
  disk.

  \<^bold>\<open>Theories.\<close>
  \<^item> \<open>Prelude\<close>: Python strings (\<open>lower\<close>, \<open>upper\<close>, \<open>strip\<close>, \<open>replace\<close>, \<open>in\<close> on code
    points up to 255) and dicts as insertion-ordered association lists, with the
    shared lookup lemmas (collections \<open>py_simps\<close>, \<open>dict_simps\<close>).
  \<^item> \<open>Errors\<close>: one datatype \<open>exc\<close> for every exception class raised or caught,
    the method resolution order \<open>exc_mro\<close> read by \<open>isinstance\<close>, and \<open>new_exc\<close>,
    Python's keyword check for the taxonomy's constructors (an unknown keyword
    raises \<open>TypeError\<close>).
  \<^item> \<open>Retry\<close>: \<open>is_retryable_exception\<close>, the decorator of \<open>utils/retry.py\<close>, and
    tenacity's loop \<open>tenacity_attempts\<close> with \<open>stop_after_attempt\<close>,
    \<open>wait_exponential\<close> and a \<open>retry=\<close> argument. Tenacity is modelled from its
    documented behaviour, since it is a library. A transport maps the attempt number
    to an outcome.
  \<^item> \<open>Config\<close>: \<open>int()\<close> and \<open>float()\<close> on strings, the coercion and prefix scan of
    \<open>get_handler\<close> over \<open>env_state\<close>, python-dotenv's writer (a library, modelled from
    its documentation), and the settings page's \<open>save_all_settings\<close>
    (\<open>str(v)\<close> of each value, \<open>''\<close> for \<open>None\<close>).
  \<^item> \<open>Registry\<close>, \<open>Registry_Resolution\<close>: \<open>factory.py\<close> as an explicit store of dict
    objects. \<open>_initialize_factory\<close> rebinds the module globals while the class keeps
    the old objects. The inductive \<open>factory_step\<close> lets the registry's functions be
    called in any order. \<open>resolve\<close> is the abstract alias resolution.
  \<^item> \<open>Contract\<close>: \<open>get_current_param\<close>, \<open>test_connection\<close> and \<open>check_status\<close> of
    \<open>base.py\<close>.
  \<^item> \<open>Json\<close>, \<open>Http\<close>: JSON values and Python's operations on them, the result of one
    aiohttp request, and what the REST adapters share. The shared code is the choice
    parsing \<open>parse_choices\<close>, the parameter lookups \<open>live_params\<close>, the target model
    \<open>strip_target\<close>, and the SSE payload reader \<open>sse_decoded\<close>.
  \<^item> One theory per adapter family: \<open>DeepSeek\<close>, \<open>Ollama\<close> and \<open>Ollama_Report\<close> (the
    local daemon and its report variant), \<open>SiliconFlow\<close>, \<open>Volc\<close> (Volc Engine,
    reusing SiliconFlow's stream loop), \<open>OpenAI_Compat\<close> (Groq, Together,
    Perplexity), and \<open>Anyscale_Cohere\<close>. Each models construction, \<open>_make_request\<close>
    under its decorator, \<open>generate_text\<close>, \<open>stream_chat\<close> and
    \<open>get_available_models\<close> with every \<open>except\<close> clause. The network is a function
    from the attempt to an outcome. A streamed body is its list of raw lines.
  \<^item> \<open>Cache\<close>: \<open>TextProcessingCache\<close> over an explicit state (the memory dict, the LRU
    list and the directory's files), its module-level instances, and
    \<open>save_analysis_result\<close>'s files.
  \<^item> \<open>Tasks\<close>: \<open>TaskStatus\<close>, \<open>Task\<close>, and every \<open>TaskManager\<close> method over a table of
    rows. The JSON columns hold the values their text encodes. The operations that
    change the table form the datatype \<open>tm_op\<close> with the step function
    \<open>tm_apply\<close>.
  \<^item> \<open>Worker_Output\<close>: the worker's three JSON-extraction regexes, translated as
    Python's backtracking matcher runs them, and the stored result.
  \<^item> \<open>Worker\<close>: \<open>_process_task\<close> as the list of \<open>update_task\<close> calls it makes
    (\<open>wk_plan\<close>), one fetched task (\<open>wk_handle_task\<close>) and one pass of
    \<open>_worker_loop\<close> (\<open>wk_iteration\<close>). The outside world is the record \<open>wenv\<close>:
    uploads, templates, \<open>get_handler\<close>, \<open>json.loads\<close> and \<open>str()\<close>.
  \<^item> This theory: the properties that span the registry, the configuration and the
    contract.

  \<^bold>\<open>What the lemmas show.\<close>
  \<^item> Registry: the invariant \<open>factory_inv\<close> holds in every reachable state. Start-up
    refines \<open>resolve\<close>, and an unknown name gives \<open>None\<close>. A \<open>get_handler\<close> before
    \<open>initialize_handlers\<close> leaves the class on empty dicts for good, so every
    later per-call parameter falls back to its default.
  \<^item> Configuration: \<open>get_handler\<close>'s dict is the coerced environment (process over
    file). Integers and booleans saved by \<open>save_all_settings\<close> reach the next
    \<open>get_handler\<close> unchanged, unless the process environment defines the key.
    \<open>get_current_param\<close> reads the file only.
  \<^item> Retries: \<open>retry=is_retryable_exception\<close> never retries. The
    \<open>retry_if_exception_type\<close> adapters make exactly three attempts.
  \<^item> Adapters: what each adapter raises on every failure. Many raises pass keywords
    their class does not take, so they become \<open>TypeError\<close>; Groq and Together can
    never be built by the factory.
  \<^item> Streams: how SSE streams end. DeepSeek's \<open>stream_chat\<close> yields exactly the
    provider's payloads and never the \<open>{"status": "done"}\<close> chunk that the spec and
    the other adapters end with.
  \<^item> Report handler and worker: the \<open><think>\<close> filters equal their declarative
    specification, and the two filters disagree on unclosed blocks.
  \<^item> Cache: the invariant of every reachable state, and a refinement of an abstract
    LRU cache. Round trips hold, and the newest entries are evicted after a restart.
  \<^item> Task table: its type invariant (unique ids, valid status texts) holds for every
    history of operations, and a created task reads back unchanged.
  \<^item> Worker: the body of \<open>_worker_loop\<close> terminates, draining the queue (the measure
    is the number of pending rows, over \<open>while_option\<close>). Several bugs are proved.
    A cancellation acknowledged while the task waits in the worker's batch is
    overwritten. A JSON-list result makes a completed task unreadable. A
    \<open>```json\<close> fenced answer is never parsed.

  \<^bold>\<open>Bounds and termination.\<close>
  No fuel is needed: every loop of the modelled code is bounded.
  \<^item> tenacity's loop terminates by the measure \<open>stop - attempt\<close>.
  \<^item> The registry's and the adapters' loops are folds over finite lists.
  \<^item> The regex scanners recurse on a shorter suffix (\<open>bracket_items\<close> has a
    \<open>termination\<close> proof by length).
  \<^item> The worker's \<open>while self.is_running\<close> loop runs until shutdown by design. Its
    body is \<open>wk_iteration\<close>, and termination is proved for repeating the body while
    tasks are pending.
  \<^item> Python's \<open>int()\<close> limit of 4300 digits is part of \<open>py_int\<close>.

  \<^bold>\<open>Not modelled.\<close>
  \<^item> Network, file and database I/O are inputs of the model (\<open>world\<close>,
    \<open>env_state\<close>, transport outcomes, \<open>wenv\<close>), not axioms. Database and file-system
    failures are not modelled.
  \<^item> \<open>zhipu_ai.py\<close> raises \<open>ImportError\<close> at import, and \<open>002.py\<close> is not valid
    Python, so neither handler can run.
  \<^item> The Gemini adapter wraps the vendor SDK, whose behaviour is not in the
    sources.
  \<^item> Python-version dependence: in Ollama's debug loop
    slicing a dict content raises \<open>TypeError\<close> before CPython 3.12 and \<open>KeyError\<close>
    after; \<open>ollama_chat\<close> takes the version as a flag.
  \<^item> Floats are exact rationals (\<open>py_float\<close>), and timestamps are kept as their
    strings; no property depends on rounding or on date arithmetic.
  \<^item> The synchronous \<open>generate\<close> wrappers drive an event loop and are not modelled.
  \<^item> \<open>TaskWorker.start\<close>/\<open>stop\<close> (asyncio bookkeeping) are not modelled; they are
    called only at startup and shutdown.
  \<^item> Not modelled: the FastAPI routes (request parsing around the factory and the task
    table), the configuration manager and provider-config loader, text processing,
    persistence, the hot-topic and report services, logging and file utilities.
    \<open>PROJECT.json\<close> lists them with reasons.

  \<^bold>\<open>References.\<close> The layout follows the reference guides:
  \<^item> Modelling_Programs: exceptions as values, records for state.
  \<^item> State_Machines: an inductive step relation with an invariant by rule induction.
  \<^item> Termination_and_Loops: \<open>while_option\<close> with a measure.
  \<^item> Witnesses: closed witnesses evaluated by \<open>code_simp\<close>.
  The store of dict objects follows Imperative_HOL's \<open>Ref\<close>. The loop invariant
  follows the AFP's Regular-Sets equivalence checker (\<open>while_option_rule\<close>), and the
  string scanners follow the AFP's Knuth-Morris-Pratt theory.
\<close>

section \<open>Properties across components\<close>

text \<open>C8 (safety; a bug). The consequence of the rebinding bug for every adapter: once
  \<open>get_handler\<close> has run before \<open>initialize_handlers\<close>, \<open>get_current_param\<close> returns the
  caller's default for every handler, parameter and \<open>.env\<close> content, whatever is
  called afterwards, because \<open>get_provider_metadata\<close> never finds the provider.\<close>

theorem early_get_handler_params_default:
  assumes "load_metadata_map (meta_file w) \<noteq> []"
    and "(factory_step w env)\<^sup>*\<^sup>* (fst (get_handler w env n factory_init)) st"
  shows "snd (get_current_param w f pname name t d st) = d"
proof (cases pname)
  case (CStr pn)
  have "snd (get_provider_metadata w pn st) = None"
  proof (cases "pn = []")
    case True
    then show ?thesis by (simp add: get_provider_metadata_def standardize_provider_name_def)
  next
    case False
    then show ?thesis using early_get_handler_stale [OF assms] metadata_empty_view by blast
  qed
  then show ?thesis using CStr
    by (cases "get_provider_metadata w pn st") (simp add: get_current_param_def)
qed (simp_all add: get_current_param_def)

theorem early_get_handler_params_default_witness:
  "snd (get_current_param example_world (Some [(''DEEPSEEK_TEMPERATURE'', Some ''0.5'')])
     (CStr ''deepseek_ai'') ''temperature'' PTFloat (CFloat (Finite (7/10)))
     (fst (get_handler example_world empty_env ''deepseek_ai'' factory_init))) = CFloat (Finite (7/10))"
proof -
  have l: "load_metadata_map (meta_file example_world) \<noteq> []" by code_simp
  show ?thesis by (rule early_get_handler_params_default [OF l rtranclp.rtrancl_refl])
qed

text \<open>C9 (roundtrip). An integer parameter saved through the settings page under the
  provider's runtime key is read back by \<open>get_current_param\<close> as the same integer, even
  when the process environment defines the key (which \<open>get_handler\<close>'s configuration
  would prefer): the two resolution paths of the program disagree on such a key.\<close>

theorem saved_int_param_seen_by_current_param:
  assumes "snd (get_provider_metadata w pn st) = Some pm" "env_prefix pm = Some P" "P \<noteq> []"
    and "\<bar>i\<bar> < 10 ^ int_max_str_digits"
  shows "snd (get_current_param w (Some (dotenv (update_dotenv_vars [(P @ py_upper name, Some (settings_str (JInt i)))] env)))
           (CStr pn) name PTInt d st) = CInt i"
proof -
  have "dict_get (dotenv (update_dotenv_vars [(P @ py_upper name, Some (settings_str (JInt i)))] env)) (P @ py_upper name)
      = Some (Some (py_str_int i))"
    by (simp add: dotenv_update_lookup dotenv_stored_def dotenv_roundtrip py_str_int_no_backslash)
  then show ?thesis using get_current_param_found [OF assms(1-3)] py_int_py_str_int [OF assms(4)]
    by (simp add: param_lookup_def convert_param_def)
qed

theorem saved_int_param_seen_by_current_param_witness:
  "snd (get_current_param example_world
     (Some (dotenv (update_dotenv_vars [(''DEEPSEEK_'' @ py_upper ''max_tokens'', Some (settings_str (JInt 4096)))]
        \<lparr>dotenv = [(''DEEPSEEK_MAX_TOKENS'', Some ''512'')], os_environ = [(''DEEPSEEK_MAX_TOKENS'', ''128'')]\<rparr>)))
     (CStr ''deepseek_ai'') ''max_tokens'' PTInt (CInt 1024) (initialize_handlers example_world factory_init)) = CInt 4096"
proof -
  have m: "snd (get_provider_metadata example_world ''deepseek_ai'' (initialize_handlers example_world factory_init))
      = Some deepseek_meta" by code_simp
  have p: "env_prefix deepseek_meta = Some ''DEEPSEEK_''" by (simp add: deepseek_meta_def)
  have b: "\<bar>4096::int\<bar> < 10 ^ int_max_str_digits"
    by (rule below_max_str_digits) simp
  show ?thesis by (rule saved_int_param_seen_by_current_param [OF m p _ b]) simp
qed

end
